(* ===== verification/GoTime.thy ===== *)
theory GoTime
  imports Prelude
begin

text \<open>
  Instants and their text form.  Go's \<open>time.Time\<close> is modelled as an instant: the number of
  nanoseconds since 1 January of year 1, 00:00 UTC, which is Go's zero value, so \<open>IsZero\<close> is
  equality with 0.  The state store keeps instants as text: \<open>formatTime\<close> of
  internal/state/store.go prints RFC 3339 with nanoseconds (trailing zeros of the fraction
  dropped, the zero instant as the empty text) and \<open>parseTime\<close> reads it back.  The calendar is
  Go's proleptic Gregorian one.  \<open>parse_rfc3339\<close> is the strict RFC 3339 reader \<open>time.Parse\<close>
  tries first; the lenient layout parser it falls back to, which accepts a few more spellings
  that no writer of this program produces, is not modelled.
\<close>

type_synonym time = int
type_synonym duration = int

definition is_zero :: "time \<Rightarrow> bool" where "is_zero t \<longleftrightarrow> t = 0"

definition nanosecond :: duration where "nanosecond = 1"
definition second :: duration where "second = 1000000000"
definition minute :: duration where "minute = 60 * second"
definition hour :: duration where "hour = 60 * minute"
definition day :: duration where "day = 24 * hour"

lemmas duration_defs = day_def hour_def minute_def second_def nanosecond_def

section \<open>The calendar\<close>

definition leap :: "int \<Rightarrow> bool" where
  "leap y \<longleftrightarrow> y mod 4 = 0 \<and> (y mod 100 \<noteq> 0 \<or> y mod 400 = 0)"

definition year_len :: "int \<Rightarrow> int" where
  "year_len y = (if leap y then 366 else 365)"

definition days_before_year :: "int \<Rightarrow> int" where
  "days_before_year y = 365 * (y - 1) + (y - 1) div 4 - (y - 1) div 100 + (y - 1) div 400"

lemma year_len_pos [simp]: "0 < year_len y"
  by (simp add: year_len_def)

lemma div_pred:
  assumes "0 < (k::int)"
  shows "y div k = (y - 1) div k + (if y mod k = 0 then 1 else 0)"
proof (cases "y mod k = 0")
  case True
  then have "y - 1 = k * (y div k - 1) + (k - 1)"
    using mult_div_mod_eq [of k y] by (simp add: algebra_simps)
  then have "(y - 1) div k = y div k - 1"
    using assms int_div_pos_eq [of "y - 1" k "y div k - 1" "k - 1"] by linarith
  with True show ?thesis by simp
next
  case False
  have "y - 1 = k * (y div k) + (y mod k - 1)" by simp
  moreover have "0 \<le> y mod k - 1" "y mod k - 1 < k"
    using False assms pos_mod_sign [of k y] pos_mod_bound [of k y] by linarith+
  ultimately have "(y - 1) div k = y div k" by (rule int_div_pos_eq)
  with False show ?thesis by simp
qed

lemma mod_100_4: "(y::int) mod 100 = 0 \<Longrightarrow> y mod 4 = 0"
  using dvd_trans [of 4 100 y] by (simp add: mod_eq_0_iff_dvd)

lemma mod_400_100: "(y::int) mod 400 = 0 \<Longrightarrow> y mod 100 = 0"
  using dvd_trans [of 100 400 y] by (simp add: mod_eq_0_iff_dvd)

lemma leap_count:
  fixes a b c y :: int
  shows "a = a' + (if p then 1 else 0) \<Longrightarrow> b = b' + (if q then 1 else 0) \<Longrightarrow> c = c' + (if r then 1 else 0) \<Longrightarrow>
     (q \<Longrightarrow> p) \<Longrightarrow> (r \<Longrightarrow> q) \<Longrightarrow>
     365 * y + a - b + c = (365 * (y - 1) + a' - b' + c') + (if p \<and> (\<not> q \<or> r) then 366 else 365)"
  by (cases p; cases q; cases r; simp)

lemma days_before_year_Suc: "days_before_year (y + 1) = days_before_year y + year_len y"
  unfolding days_before_year_def year_len_def leap_def add_diff_cancel_right'
  by (rule leap_count [OF div_pred div_pred div_pred mod_100_4 mod_400_100]) simp_all

text \<open>The year of a day count: whole 400-year cycles first, then year by year.\<close>

function year_from :: "int \<Rightarrow> int \<Rightarrow> int \<times> int" where
  "year_from y d = (if d < year_len y then (y, d) else year_from (y + 1) (d - year_len y))"
  by pat_completeness auto
termination
  by (relation "measure (\<lambda>(y, d). nat d)") (auto simp: year_len_def split: if_splits)

declare year_from.simps [simp del]

definition year_of_days :: "int \<Rightarrow> int \<times> int" where
  "year_of_days n = year_from (1 + 400 * (n div 146097)) (n mod 146097)"

definition month_lengths :: "int \<Rightarrow> int list" where
  "month_lengths y = [31, if leap y then 29 else 28, 31, 30, 31, 30, 31, 31, 30, 31, 30, 31]"

fun month_from :: "int list \<Rightarrow> int \<Rightarrow> int \<Rightarrow> int \<times> int" where
  "month_from [] m d = (m, d)"
| "month_from (l # ls) m d = (if d < l then (m, d) else month_from ls (m + 1) (d - l))"

text \<open>The civil date of a day count: year, month from 1, day from 1.\<close>

definition date_of_days :: "int \<Rightarrow> int \<times> int \<times> int" where
  "date_of_days n =
     (let (y, d) = year_of_days n; (m, r) = month_from (month_lengths y) 1 d in (y, m, r + 1))"

definition days_in_month :: "int \<Rightarrow> int \<Rightarrow> int" where
  "days_in_month y m = (if 1 \<le> m \<and> m \<le> 12 then month_lengths y ! nat (m - 1) else 0)"

definition days_of_date :: "int \<Rightarrow> int \<Rightarrow> int \<Rightarrow> int" where
  "days_of_date y m d = days_before_year y + sum_list (take (nat (m - 1)) (month_lengths y)) + (d - 1)"

lemma year_from_spec:
  "0 \<le> d \<Longrightarrow> year_from y d = (y', d') \<Longrightarrow>
     days_before_year y' + d' = days_before_year y + d \<and> 0 \<le> d' \<and> d' < year_len y' \<and> y \<le> y'"
proof (induction y d rule: year_from.induct)
  case (1 y d)
  show ?case
  proof (cases "d < year_len y")
    case True
    with "1.prems" show ?thesis by (auto simp: year_from.simps [of y d])
  next
    case False
    then have step: "year_from (y + 1) (d - year_len y) = (y', d')"
      using "1.prems"(2) by (simp add: year_from.simps [of y d])
    with "1.IH" False show ?thesis by (simp add: days_before_year_Suc)
  qed
qed

lemma days_before_cycle: "days_before_year (1 + 400 * k) = 146097 * k"
  by (simp add: days_before_year_def)

lemma year_of_days_spec:
  assumes "year_of_days n = (y, d)"
  shows "days_before_year y + d = n" "0 \<le> d" "d < year_len y"
proof -
  have "days_before_year y + d = days_before_year (1 + 400 * (n div 146097)) + n mod 146097
     \<and> 0 \<le> d \<and> d < year_len y"
    using year_from_spec [of "n mod 146097" "1 + 400 * (n div 146097)" y d] assms
    by (simp add: year_of_days_def)
  then show "days_before_year y + d = n" "0 \<le> d" "d < year_len y"
    by (simp_all add: days_before_cycle)
qed

lemma month_from_spec:
  "0 \<le> d \<Longrightarrow> d < sum_list ls \<Longrightarrow> \<forall>l \<in> set ls. 0 < l \<Longrightarrow> month_from ls m d = (m', r) \<Longrightarrow>
     m \<le> m' \<and> m' < m + int (length ls) \<and> 0 \<le> r \<and> r < ls ! nat (m' - m)
     \<and> sum_list (take (nat (m' - m)) ls) + r = d"
proof (induction ls arbitrary: m d)
  case Nil
  then show ?case by simp
next
  case (Cons l ls)
  show ?case
  proof (cases "d < l")
    case True
    with Cons.prems show ?thesis by auto
  next
    case False
    then have IH: "m + 1 \<le> m' \<and> m' < m + 1 + int (length ls) \<and> 0 \<le> r \<and> r < ls ! nat (m' - (m + 1))
       \<and> sum_list (take (nat (m' - (m + 1))) ls) + r = d - l"
      using Cons.prems by (intro Cons.IH) auto
    then have "nat (m' - m) = Suc (nat (m' - (m + 1)))" by auto
    with IH show ?thesis by auto
  qed
qed

lemma month_lengths_pos: "\<forall>l \<in> set (month_lengths y). 0 < l"
  by (simp add: month_lengths_def)

lemma sum_month_lengths: "sum_list (month_lengths y) = year_len y"
  by (simp add: month_lengths_def year_len_def)

lemma date_of_days_spec:
  assumes "date_of_days n = (y, m, d)"
  shows "days_of_date y m d = n" "1 \<le> m" "m \<le> 12" "1 \<le> d" "d \<le> days_in_month y m"
proof -
  obtain d0 where y: "year_of_days n = (y, d0)" and md: "month_from (month_lengths y) 1 d0 = (m, d - 1)"
    using assms by (auto simp: date_of_days_def Let_def split: prod.splits)
  have d0: "days_before_year y + d0 = n" "0 \<le> d0" "d0 < year_len y"
    using year_of_days_spec [OF y] by auto
  then have "1 \<le> m \<and> m < 1 + int (length (month_lengths y)) \<and> 0 \<le> d - 1
     \<and> d - 1 < month_lengths y ! nat (m - 1)
     \<and> sum_list (take (nat (m - 1)) (month_lengths y)) + (d - 1) = d0"
    by (intro month_from_spec [OF _ _ month_lengths_pos md]) (auto simp: sum_month_lengths)
  then show "days_of_date y m d = n" "1 \<le> m" "m \<le> 12" "1 \<le> d" "d \<le> days_in_month y m"
    using d0(1) by (auto simp: days_of_date_def days_in_month_def month_lengths_def)
qed

section \<open>Decimal fields\<close>

definition digit :: "nat \<Rightarrow> char" where "digit n = char_of (48 + n)"

definition is_digit :: "char \<Rightarrow> bool" where
  "is_digit c \<longleftrightarrow> 48 \<le> (of_char c :: nat) \<and> (of_char c :: nat) \<le> 57"

definition digit_val :: "char \<Rightarrow> nat" where "digit_val c = of_char c - 48"

fun pad :: "nat \<Rightarrow> nat \<Rightarrow> string" where
  "pad 0 n = []"
| "pad (Suc w) n = pad w (n div 10) @ [digit (n mod 10)]"

definition digits_val :: "string \<Rightarrow> nat" where
  "digits_val s = foldl (\<lambda>a c. 10 * a + digit_val c) 0 s"

definition parse_digits :: "string \<Rightarrow> nat option" where
  "parse_digits s = (if list_all is_digit s then Some (digits_val s) else None)"

lemma of_char_digit: "n < 10 \<Longrightarrow> (of_char (digit n) :: nat) = 48 + n"
  by (simp add: digit_def)

lemma is_digit_digit [simp]: "n < 10 \<Longrightarrow> is_digit (digit n)"
  by (simp add: is_digit_def of_char_digit)

lemma digit_val_digit [simp]: "n < 10 \<Longrightarrow> digit_val (digit n) = n"
  by (simp add: digit_val_def of_char_digit)

lemma length_pad [simp]: "length (pad w n) = w"
  by (induction w arbitrary: n) auto

lemma list_all_digit_pad [simp]: "list_all is_digit (pad w n)"
  by (induction w arbitrary: n) auto

lemma digits_val_snoc: "digits_val (s @ [c]) = 10 * digits_val s + digit_val c"
  by (simp add: digits_val_def)

lemma digits_val_pad [simp]: "n < 10 ^ w \<Longrightarrow> digits_val (pad w n) = n"
proof (induction w arbitrary: n)
  case 0
  then show ?case by (simp add: digits_val_def)
next
  case (Suc w)
  then have "n div 10 < 10 ^ w" by (simp add: less_mult_imp_div_less mult.commute)
  with Suc.IH show ?case by (simp add: digits_val_snoc)
qed

lemma parse_digits_pad [simp]: "n < 10 ^ w \<Longrightarrow> parse_digits (pad w n) = Some n"
  by (simp add: parse_digits_def)

section \<open>The fraction of a second\<close>

definition trim_zeros :: "string \<Rightarrow> string" where
  "trim_zeros s = rev (dropWhile (\<lambda>c. c = CHR ''0'') (rev s))"

definition frac_string :: "nat \<Rightarrow> string" where
  "frac_string ns = (if ns = 0 then [] else CHR ''.'' # trim_zeros (pad 9 ns))"

text \<open>The digits after the point: the first nine count, missing ones are zeros.\<close>

definition frac_val :: "string \<Rightarrow> nat" where
  "frac_val ds = (let d = take 9 ds in digits_val d * 10 ^ (9 - length d))"

lemma digit_val_0 [simp]: "digit_val CHR ''0'' = 0"
  by (simp add: digit_val_def)

lemma trim_zeros_snoc0 [simp]: "trim_zeros (s @ [CHR ''0'']) = trim_zeros s"
  by (simp add: trim_zeros_def)

lemma trim_zeros_snoc [simp]: "c \<noteq> CHR ''0'' \<Longrightarrow> trim_zeros (s @ [c]) = s @ [c]"
  by (simp add: trim_zeros_def)

lemma digits_val_trim_zeros:
  "digits_val (trim_zeros s) * 10 ^ (length s - length (trim_zeros s)) = digits_val s
     \<and> length (trim_zeros s) \<le> length s \<and> set (trim_zeros s) \<subseteq> set s"
proof (induction s rule: rev_induct)
  case Nil
  then show ?case by (simp add: trim_zeros_def digits_val_def)
next
  case (snoc c s)
  show ?case
  proof (cases "c = CHR ''0''")
    case True
    with snoc show ?thesis by (auto simp: digits_val_snoc Suc_diff_le)
  next
    case False
    then show ?thesis by simp
  qed
qed

lemma digits_val_zeros: "digits_val s \<noteq> 0 \<Longrightarrow> trim_zeros s \<noteq> []"
  using digits_val_trim_zeros [of s] by (auto simp: digits_val_def)

lemma frac_val_trim_pad [simp]: "n < 10 ^ 9 \<Longrightarrow> frac_val (trim_zeros (pad 9 n)) = n"
  using digits_val_trim_zeros [of "pad 9 n"] by (simp add: frac_val_def Let_def)

lemma list_all_trim_zeros_pad [simp]: "list_all is_digit (trim_zeros (pad w n))"
  using digits_val_trim_zeros [of "pad w n"] list_all_digit_pad [of w n] by (auto simp: list_all_iff)

section \<open>formatTime and parseTime\<close>

definition year_string :: "int \<Rightarrow> string" where
  "year_string y =
     (if 0 \<le> y \<and> y < 10000 then pad 4 (nat y)
      else if y < 0 \<and> -10000 < y then CHR ''-'' # pad 4 (nat (- y)) else itoa y)"

definition clock_string :: "nat \<Rightarrow> string" where
  "clock_string s = pad 2 (s div 3600) @ [CHR '':''] @ pad 2 (s div 60 mod 60) @ [CHR '':''] @ pad 2 (s mod 60)"

definition date_string :: "int \<Rightarrow> string" where
  "date_string n = (case date_of_days n of (y, m, d) \<Rightarrow>
     year_string y @ [CHR ''-''] @ pad 2 (nat m) @ [CHR ''-''] @ pad 2 (nat d))"

definition rfc3339_nano :: "time \<Rightarrow> string" where
  "rfc3339_nano t =
     (let r = t mod day in
      date_string (t div day) @ [CHR ''T''] @ clock_string (nat (r div second))
        @ frac_string (nat (r mod second)) @ [CHR ''Z''])"

definition format_time :: "time \<Rightarrow> string" where
  "format_time t = (if is_zero t then [] else rfc3339_nano t)"

text \<open>The zone of a text: \<open>Z\<close>, or a signed offset of hours and minutes (as nanoseconds).\<close>

definition parse_zone :: "string \<Rightarrow> duration option" where
  "parse_zone s =
     (if s = [CHR ''Z''] then Some 0
      else if length s = 6 \<and> (s ! 0 = CHR ''+'' \<or> s ! 0 = CHR ''-'') \<and> s ! 3 = CHR '':'' then
        (case (parse_digits (take 2 (drop 1 s)), parse_digits (drop 4 s)) of
           (Some h, Some m) \<Rightarrow>
             if h \<le> 23 \<and> m \<le> 59
             then Some ((if s ! 0 = CHR ''-'' then -1 else 1) * (int h * hour + int m * minute))
             else None
         | _ \<Rightarrow> None)
      else None)"

text \<open>The optional fraction in front of the zone.\<close>

definition split_frac :: "string \<Rightarrow> nat \<times> string" where
  "split_frac s =
     (if 2 \<le> length s \<and> s ! 0 = CHR ''.'' \<and> is_digit (s ! 1)
      then (frac_val (takeWhile is_digit (drop 1 s)), dropWhile is_digit (drop 1 s))
      else (0, s))"

definition parse_rfc3339 :: "string \<Rightarrow> time option" where
  "parse_rfc3339 s =
     (if length s < 19 then None
      else case (parse_digits (take 4 s), parse_digits (take 2 (drop 5 s)), parse_digits (take 2 (drop 8 s)),
                 parse_digits (take 2 (drop 11 s)), parse_digits (take 2 (drop 14 s)),
                 parse_digits (take 2 (drop 17 s))) of
        (Some y, Some m, Some d, Some h, Some mi, Some sec) \<Rightarrow>
          if s ! 4 = CHR ''-'' \<and> s ! 7 = CHR ''-'' \<and> s ! 10 = CHR ''T'' \<and> s ! 13 = CHR '':''
             \<and> s ! 16 = CHR '':'' \<and> 1 \<le> m \<and> m \<le> 12 \<and> 1 \<le> d \<and> int d \<le> days_in_month (int y) (int m)
             \<and> h \<le> 23 \<and> mi \<le> 59 \<and> sec \<le> 59
          then (case split_frac (drop 19 s) of (ns, zone) \<Rightarrow>
                 (case parse_zone zone of
                    None \<Rightarrow> None
                  | Some off \<Rightarrow>
                      Some (days_of_date (int y) (int m) (int d) * day
                            + (int h * 3600 + int mi * 60 + int sec) * second + int ns - off)))
          else None
      | _ \<Rightarrow> None)"

definition parse_time :: "string \<Rightarrow> time option" where
  "parse_time value = (if value = [] then Some 0 else parse_rfc3339 value)"

text \<open>The instants RFC 3339 can spell: years 0 to 9999.\<close>

definition year_of :: "time \<Rightarrow> int" where
  "year_of t = fst (date_of_days (t div day))"

definition rfc_time :: "time \<Rightarrow> bool" where
  "rfc_time t \<longleftrightarrow> 0 \<le> year_of t \<and> year_of t \<le> 9999"

lemma nth_append_length': "length xs = n \<Longrightarrow> (xs @ y # ys) ! n = y"
  by (auto simp: nth_append)

lemma split_frac_frac_string:
  assumes "n < 10 ^ 9"
  shows "split_frac (frac_string n @ [CHR ''Z'']) = (n, [CHR ''Z''])"
proof (cases "n = 0")
  case True
  then show ?thesis by (simp add: split_frac_def frac_string_def)
next
  case False
  let ?ds = "trim_zeros (pad 9 n)"
  from False assms have "digits_val (pad 9 n) \<noteq> 0" by simp
  then have ne: "?ds \<noteq> []" by (rule digits_val_zeros)
  have all: "\<forall>c \<in> set ?ds. is_digit c" using list_all_trim_zeros_pad [of 9 n] by (simp add: list_all_iff)
  have z: "\<not> is_digit CHR ''Z''" by (simp add: is_digit_def)
  have "is_digit (?ds ! 0)" using ne all by simp
  then have "is_digit ((?ds @ [CHR ''Z'']) ! 0)" using ne by (simp add: nth_append)
  moreover have "takeWhile is_digit (?ds @ [CHR ''Z'']) = ?ds" "dropWhile is_digit (?ds @ [CHR ''Z'']) = [CHR ''Z'']"
    using all z by simp_all
  ultimately show ?thesis using False assms ne
    by (simp add: split_frac_def frac_string_def Suc_le_eq)
qed

lemma parse_rfc3339_fields:
  assumes len: "length ys = 4" "length ms = 2" "length ds = 2" "length hs = 2" "length mis = 2" "length ss = 2"
    and val: "parse_digits ys = Some y" "parse_digits ms = Some m" "parse_digits ds = Some d"
      "parse_digits hs = Some h" "parse_digits mis = Some mi" "parse_digits ss = Some sec"
    and ok: "1 \<le> m" "m \<le> 12" "1 \<le> d" "int d \<le> days_in_month (int y) (int m)" "h \<le> 23" "mi \<le> 59" "sec \<le> 59"
    and frac: "split_frac rest = (ns, [CHR ''Z''])"
  shows "parse_rfc3339 (ys @ [CHR ''-''] @ ms @ [CHR ''-''] @ ds @ [CHR ''T''] @ hs @ [CHR '':''] @ mis
           @ [CHR '':''] @ ss @ rest)
         = Some (days_of_date (int y) (int m) (int d) * day
                 + (int h * 3600 + int mi * 60 + int sec) * second + int ns)"
proof -
  let ?s = "ys @ [CHR ''-''] @ ms @ [CHR ''-''] @ ds @ [CHR ''T''] @ hs @ [CHR '':''] @ mis @ [CHR '':''] @ ss @ rest"
  have sep: "?s ! 4 = CHR ''-''" "?s ! 7 = CHR ''-''" "?s ! 10 = CHR ''T''" "?s ! 13 = CHR '':''" "?s ! 16 = CHR '':''"
    using len by (simp_all add: nth_append)
  have parts: "take 4 ?s = ys" "take 2 (drop 5 ?s) = ms" "take 2 (drop 8 ?s) = ds" "take 2 (drop 11 ?s) = hs"
    "take 2 (drop 14 ?s) = mis" "take 2 (drop 17 ?s) = ss" "drop 19 ?s = rest"
    using len by simp_all
  have long: "\<not> length ?s < 19" using len by simp
  show ?thesis
    unfolding parse_rfc3339_def parts sep using long val ok frac
    by (simp add: parse_zone_def)
qed

lemma hms_recombine: "(s::nat) div 3600 * 3600 + s div 60 mod 60 * 60 + s mod 60 = s"
proof -
  have "s div 3600 = s div 60 div 60" by (simp add: div_mult2_eq [symmetric])
  then have "s div 3600 * 3600 = s div 60 div 60 * 60 * 60" by simp
  then have "s div 3600 * 3600 + s div 60 mod 60 * 60 = (s div 60 div 60 * 60 + s div 60 mod 60) * 60"
    by (simp only: distrib_right)
  also have "\<dots> = s div 60 * 60" by (simp only: div_mult_mod_eq)
  finally show ?thesis by (simp only: div_mult_mod_eq)
qed

lemma hms_recombine_int:
  "int (s div 3600) * 3600 + int (s div 60 mod 60) * 60 + int (s mod 60) = int s"
proof -
  have "int (s div 3600 * 3600 + s div 60 mod 60 * 60 + s mod 60) = int s" by (simp only: hms_recombine)
  then show ?thesis by (simp only: of_nat_add of_nat_mult of_nat_numeral)
qed

lemma nat_div_mod_recombine: "0 < k \<Longrightarrow> 0 \<le> r \<Longrightarrow> int (nat (r div k)) * k + int (nat (r mod k)) = (r::int)"
  by (simp add: pos_imp_zdiv_nonneg_iff)

lemma second_pos [simp]: "0 < second"
  by (simp add: second_def)

lemma second_less: "r < second \<Longrightarrow> r < 10 ^ 9"
  by (simp add: second_def)

lemma day_eq: "day = 86400 * second"
  by (simp add: day_def hour_def minute_def)

lemma day_pos [simp]: "0 < day"
  by (simp add: day_eq)

lemma clock_fields:
  fixes r :: int
  assumes "0 \<le> r" "r < day"
  defines "s \<equiv> nat (r div second)"
  shows "s div 3600 \<le> 23" "s div 60 mod 60 \<le> 59" "s mod 60 \<le> 59"
    "(int (s div 3600) * 3600 + int (s div 60 mod 60) * 60 + int (s mod 60)) * second
       + int (nat (r mod second)) = r"
    "nat (r mod second) < 10 ^ 9"
proof -
  have "r div second < 86400"
  proof (rule ccontr)
    assume "\<not> r div second < 86400"
    then have "86400 * second \<le> r div second * second"
      by (intro mult_right_mono) (simp_all add: less_imp_le)
    also have "\<dots> \<le> r"
      using div_mult_mod_eq [of r second] pos_mod_sign [OF second_pos, of r] by linarith
    finally show False using assms(2) by (simp add: day_eq)
  qed
  then have "s < 24 * 3600" by (simp add: s_def)
  then have "s div 3600 < 24" by (simp only: less_mult_imp_div_less)
  then show "s div 3600 \<le> 23" by linarith
  have "s div 60 mod 60 < 60" "s mod 60 < 60" by simp_all
  then show "s div 60 mod 60 \<le> 59" "s mod 60 \<le> 59" by linarith+
  show "(int (s div 3600) * 3600 + int (s div 60 mod 60) * 60 + int (s mod 60)) * second
       + int (nat (r mod second)) = r"
    unfolding hms_recombine_int unfolding s_def
    by (rule nat_div_mod_recombine [OF second_pos assms(1)])
  have "r mod second < second" "0 \<le> r mod second" by (simp_all only: pos_mod_bound pos_mod_sign second_pos)
  then show "nat (r mod second) < 10 ^ 9"
    by (simp add: nat_less_iff second_def)
qed

lemma date_string_fields:
  assumes "date_of_days n = (y, m, d)" "0 \<le> y" "y \<le> 9999"
  shows "date_string n = pad 4 (nat y) @ [CHR ''-''] @ pad 2 (nat m) @ [CHR ''-''] @ pad 2 (nat d)"
  using assms by (simp add: date_string_def year_string_def)

lemma days_in_month_le: "days_in_month y m \<le> 31"
proof (cases "1 \<le> m \<and> m \<le> 12")
  case True
  then have "nat (m - 1) < 12" by linarith
  then have "nat (m - 1) < length (month_lengths y)" by (simp add: month_lengths_def)
  then have "month_lengths y ! nat (m - 1) \<in> set (month_lengths y)" by (rule nth_mem)
  moreover have "\<forall>l \<in> set (month_lengths y). l \<le> 31" by (simp add: month_lengths_def)
  ultimately show ?thesis using True by (simp add: days_in_month_def)
next
  case False
  then show ?thesis by (auto simp: days_in_month_def)
qed

theorem parse_rfc3339_nano:
  assumes "rfc_time t"
  shows "parse_rfc3339 (rfc3339_nano t) = Some t"
proof -
  obtain y m d where date: "date_of_days (t div day) = (y, m, d)"
    by (cases "date_of_days (t div day)") auto
  with assms have y: "0 \<le> y" "y \<le> 9999" by (auto simp: rfc_time_def year_of_def)
  note spec = date_of_days_spec [OF date]
  have d31: "d \<le> 31" using spec(5) days_in_month_le [of y m] by linarith
  define r where "r = t mod day"
  have r: "0 \<le> r" "r < day" by (simp_all add: r_def)
  note clock = clock_fields [OF r]
  have "rfc3339_nano t = pad 4 (nat y) @ [CHR ''-''] @ pad 2 (nat m) @ [CHR ''-''] @ pad 2 (nat d) @ [CHR ''T'']
      @ pad 2 (nat (r div second) div 3600) @ [CHR '':''] @ pad 2 (nat (r div second) div 60 mod 60) @ [CHR '':'']
      @ pad 2 (nat (r div second) mod 60) @ (frac_string (nat (r mod second)) @ [CHR ''Z''])"
    using date_string_fields [OF date y]
    by (simp add: rfc3339_nano_def clock_string_def Let_def r_def)
  also have "parse_rfc3339 \<dots> = Some (days_of_date (int (nat y)) (int (nat m)) (int (nat d)) * day
       + (int (nat (r div second) div 3600) * 3600 + int (nat (r div second) div 60 mod 60) * 60
           + int (nat (r div second) mod 60)) * second + int (nat (r mod second)))"
  proof (rule parse_rfc3339_fields)
    show "parse_digits (pad 4 (nat y)) = Some (nat y)" "parse_digits (pad 2 (nat m)) = Some (nat m)"
      "parse_digits (pad 2 (nat d)) = Some (nat d)"
      using y spec d31 by (auto intro!: parse_digits_pad simp: nat_less_iff)
    have "\<And>n. n \<le> 59 \<Longrightarrow> parse_digits (pad 2 n) = Some n" by (rule parse_digits_pad) simp
    then show "parse_digits (pad 2 (nat (r div second) div 3600)) = Some (nat (r div second) div 3600)"
      "parse_digits (pad 2 (nat (r div second) div 60 mod 60)) = Some (nat (r div second) div 60 mod 60)"
      "parse_digits (pad 2 (nat (r div second) mod 60)) = Some (nat (r div second) mod 60)"
      using le_trans [OF clock(1), of 59] clock(2,3) by simp_all
    show "1 \<le> nat m" "nat m \<le> 12" "1 \<le> nat d" "int (nat d) \<le> days_in_month (int (nat y)) (int (nat m))"
      using y spec by simp_all
    show "split_frac (frac_string (nat (r mod second)) @ [CHR ''Z'']) = (nat (r mod second), [CHR ''Z''])"
      by (rule split_frac_frac_string [OF clock(5)])
  qed (simp_all only: clock(1,2,3) length_pad)
  also have "\<dots> = Some (t div day * day + r)"
    using y spec clock(4) by (simp add: add.assoc)
  finally show ?thesis by (simp add: r_def)
qed

lemma rfc3339_nano_nonempty [simp]: "rfc3339_nano t \<noteq> []"
  by (simp add: rfc3339_nano_def Let_def)

lemma format_time_empty_iff [simp]: "format_time t = [] \<longleftrightarrow> is_zero t"
  by (simp add: format_time_def)

lemma parse_format_time: "rfc_time t \<Longrightarrow> parse_time (format_time t) = Some t"
  by (auto simp: parse_time_def format_time_def is_zero_def parse_rfc3339_nano)

lemma format_time_inject: "rfc_time s \<Longrightarrow> rfc_time t \<Longrightarrow> format_time s = format_time t \<longleftrightarrow> s = t"
  by (metis parse_format_time option.inject)

end
