(* ===== verification/Domain.thy ===== *)
theory Domain
  imports Complex_Main GoTime
begin

text \<open>
  internal/domain/types.go and the budget struct of internal/config/budget.go: the records the
  runner passes around.  A Go pointer field is an \<open>option\<close> (\<open>None\<close> for nil), a \<open>float64\<close> is the
  rational it denotes, a \<open>time.Duration\<close> its nanoseconds.  \<open>decode_defaults\<close> and
  \<open>encode_defaults\<close> are the field rules of \<open>RunRecord.UnmarshalJSON\<close> and \<open>MarshalJSON\<close>, which
  keep the retired \<open>pi_*\<close> fields readable; the JSON library itself is not modelled.
\<close>

record UsageCost =
  uc_Input :: rat
  uc_Output :: rat
  uc_CacheRead :: rat
  uc_CacheWrite :: rat
  uc_Total :: rat

record Usage =
  us_Input :: rat
  us_Output :: rat
  us_CacheRead :: rat
  us_CacheWrite :: rat
  us_TotalTokens :: rat
  us_Cost :: "UsageCost option"

definition TotalCost :: "Usage \<Rightarrow> rat" where
  "TotalCost u = (case us_Cost u of None \<Rightarrow> 0 | Some c \<Rightarrow> uc_Total c)"

record Budget =
  bu_WallClock :: duration
  bu_WallClockText :: string
  bu_MaxTokens :: rat
  bu_MaxCost :: rat
  bu_CommandTimeout :: duration
  bu_CommandText :: string
  bu_RuntimeTimeout :: duration
  bu_RuntimeText :: string
  bu_PiTimeout :: duration
  bu_PiText :: string
  bu_ReviewTimeout :: duration
  bu_ReviewText :: string
  bu_MergeTimeout :: duration
  bu_MergeText :: string
  bu_GitHubTimeout :: duration
  bu_GitHubText :: string

definition budget_fill :: "Budget \<Rightarrow> Budget" where
  "budget_fill b =
     (let runtime = (if bu_RuntimeTimeout b = 0 \<and> bu_PiTimeout b > 0 then bu_PiTimeout b else bu_RuntimeTimeout b);
          runtimeText = (if bu_RuntimeText b = [] \<and> bu_PiText b \<noteq> [] then bu_PiText b else bu_RuntimeText b);
          pi = (if bu_PiTimeout b = 0 \<and> runtime > 0 then runtime else bu_PiTimeout b);
          piText = (if bu_PiText b = [] \<and> runtimeText \<noteq> [] then runtimeText else bu_PiText b)
      in b\<lparr>bu_RuntimeTimeout := runtime, bu_RuntimeText := runtimeText, bu_PiTimeout := pi, bu_PiText := piText\<rparr>)"

definition Active :: "Budget \<Rightarrow> Budget option" where
  "Active b0 =
     (let b = budget_fill b0 in
      if bu_WallClock b > 0 \<or> bu_MaxTokens b > 0 \<or> bu_MaxCost b > 0 \<or> bu_CommandTimeout b > 0
         \<or> bu_RuntimeTimeout b > 0 \<or> bu_PiTimeout b > 0 \<or> bu_ReviewTimeout b > 0 \<or> bu_MergeTimeout b > 0
         \<or> bu_GitHubTimeout b > 0
      then Some b else None)"

definition RuntimeDuration :: "Budget \<Rightarrow> duration" where
  "RuntimeDuration b =
     (if bu_RuntimeTimeout b > 0 \<or> bu_PiTimeout b = 0 then bu_RuntimeTimeout b else bu_PiTimeout b)"

record RunRecord =
  rr_IssueIdentifier :: string
  rr_IssueID :: string
  rr_IssueTitle :: string
  rr_IssueURL :: string
  rr_Workspace :: string
  rr_WorkspaceRoot :: string
  rr_Branch :: string
  rr_ExpectedBranch :: string
  rr_RuntimeCommand :: string
  rr_PiCommand :: string
  rr_GitHubAuth :: string
  rr_StartedAt :: time
  rr_EndedAt :: time
  rr_DurationMS :: int
  rr_RuntimeUsage :: "Usage option"
  rr_PiUsage :: "Usage option"
  rr_ReviewStatus :: string
  rr_ReviewClassification :: string
  rr_ReviewFindings :: string
  rr_ReviewUsage :: "Usage option"
  rr_PRURL :: string
  rr_FeedbackHash :: string
  rr_Status :: string
  rr_OriginalStatus :: string
  rr_ManualRepair :: string
  rr_Error :: string
  rr_Budget :: "Budget option"
  rr_BudgetExceeded :: string
  rr_BehaviorContractEvidence :: "string list"

definition zero_RunRecord :: RunRecord where
  "zero_RunRecord =
     \<lparr>rr_IssueIdentifier = [], rr_IssueID = [], rr_IssueTitle = [], rr_IssueURL = [], rr_Workspace = [],
      rr_WorkspaceRoot = [], rr_Branch = [], rr_ExpectedBranch = [], rr_RuntimeCommand = [], rr_PiCommand = [],
      rr_GitHubAuth = [], rr_StartedAt = 0, rr_EndedAt = 0, rr_DurationMS = 0, rr_RuntimeUsage = None,
      rr_PiUsage = None, rr_ReviewStatus = [], rr_ReviewClassification = [], rr_ReviewFindings = [],
      rr_ReviewUsage = None, rr_PRURL = [], rr_FeedbackHash = [], rr_Status = [], rr_OriginalStatus = [],
      rr_ManualRepair = [], rr_Error = [], rr_Budget = None, rr_BudgetExceeded = [],
      rr_BehaviorContractEvidence = []\<rparr>"

definition decode_defaults :: "RunRecord \<Rightarrow> RunRecord" where
  "decode_defaults r =
     (let command = (if rr_RuntimeCommand r = [] then rr_PiCommand r else rr_RuntimeCommand r);
          usage = (if rr_RuntimeUsage r = None then rr_PiUsage r else rr_RuntimeUsage r)
      in r\<lparr>rr_RuntimeCommand := command, rr_RuntimeUsage := usage,
           rr_PiCommand := (if rr_PiCommand r = [] then command else rr_PiCommand r),
           rr_PiUsage := (if rr_PiUsage r = None then usage else rr_PiUsage r)\<rparr>)"

definition encode_defaults :: "RunRecord \<Rightarrow> RunRecord" where
  "encode_defaults r =
     r\<lparr>rr_RuntimeCommand := (if rr_RuntimeCommand r = [] then rr_PiCommand r else rr_RuntimeCommand r),
       rr_PiCommand := [],
       rr_RuntimeUsage := (if rr_RuntimeUsage r = None then rr_PiUsage r else rr_RuntimeUsage r),
       rr_PiUsage := None\<rparr>"

record ReviewResult =
  rv_Status :: string
  rv_Classification :: string
  rv_Findings :: string
  rv_Usage :: "Usage option"

record Issue =
  is_ID :: string
  is_Identifier :: string
  is_Title :: string
  is_URL :: string
  is_Description :: string
  is_Priority :: int
  is_CreatedAt :: string
  is_TeamID :: string
  is_TeamKey :: string
  is_TeamName :: string
  is_StateName :: string
  is_Labels :: "string list"

record WorkflowState =
  ws_ID :: string
  ws_Name :: string

record RunnerConfig =
  rc_ConfigPath :: string
  rc_RepositoryRemote :: string
  rc_RepositoryProvider :: string
  rc_APIKey :: string
  rc_ProjectSlug :: string
  rc_WorkspaceRoot :: string
  rc_RunningState :: string
  rc_HandoffState :: string
  rc_DoneState :: string
  rc_NeedsInfoState :: string
  rc_ReadyState :: string
  rc_BaseBranch :: string
  rc_ActiveStates :: "string list"
  rc_RuntimeProvider :: string
  rc_RuntimeCommand :: string
  rc_PiCommand :: string
  rc_ReviewCommand :: string
  rc_ReviewGuidance :: string
  rc_PromptPath :: string
  rc_AfterCreate :: string
  rc_BeforeRun :: string
  rc_AfterRun :: string
  rc_Budget :: Budget
  rc_GitHubAppSlug :: string
  rc_GitHubPRAuthorOverride :: string
  rc_GitLabEndpoint :: string
  rc_GitLabProject :: string
  rc_GitLabPRAuthorOverride :: string

definition RuntimeImplementationCommand :: "RunnerConfig \<Rightarrow> string" where
  "RuntimeImplementationCommand c =
     (if trim_space (rc_RuntimeCommand c) \<noteq> [] then rc_RuntimeCommand c else rc_PiCommand c)"

section \<open>The compatibility fields\<close>

lemma decode_defaults_fields [simp]:
  "rr_RuntimeCommand (decode_defaults r) = (if rr_RuntimeCommand r = [] then rr_PiCommand r else rr_RuntimeCommand r)"
  "rr_RuntimeUsage (decode_defaults r) = (if rr_RuntimeUsage r = None then rr_PiUsage r else rr_RuntimeUsage r)"
  by (simp_all add: decode_defaults_def Let_def)

text \<open>
  Writing a run record and reading it back gives what reading the original gives, with the
  retired \<open>pi_command\<close> and \<open>pi_usage\<close> replaced by the current runtime command and usage; nothing
  else changes, and a second round changes nothing more.
\<close>

theorem run_record_roundtrip:
  "decode_defaults (encode_defaults r) =
     (decode_defaults r)\<lparr>rr_PiCommand := rr_RuntimeCommand (decode_defaults r),
                         rr_PiUsage := rr_RuntimeUsage (decode_defaults r)\<rparr>
   \<and> decode_defaults (encode_defaults (decode_defaults (encode_defaults r))) = decode_defaults (encode_defaults r)"
  by (simp add: decode_defaults_def encode_defaults_def Let_def)

end
