(* ===== verification/ReviewPolicy.thy ===== *)
theory ReviewPolicy
  imports Domain
begin

text \<open>
  internal/reviewpolicy/reviewpolicy.go, which reads the markers a review agent prints, and the
  evidence lists of internal/behaviorcontract and internal/ticketcontract.
\<close>

definition PassMarker :: string where "PassMarker = ''REVIEW_PASS''"
definition FailMarker :: string where "FailMarker = ''REVIEW_FAIL''"
definition BehaviorSpecBlocker :: string where "BehaviorSpecBlocker = ''behavior_spec_blocker''"
definition MissingEvidenceOnly :: string where "MissingEvidenceOnly = ''missing_evidence_only''"
definition Unknown :: string where "Unknown = ''unknown''"

lemmas review_defs = PassMarker_def FailMarker_def BehaviorSpecBlocker_def MissingEvidenceOnly_def Unknown_def

definition classification_tag :: string where "classification_tag = ''REVIEW_CLASSIFICATION:''"

fun classification_of_lines :: "string list \<Rightarrow> string" where
  "classification_of_lines [] = Unknown"
| "classification_of_lines (line # ls) =
     (let trimmed = trim_space line in
      if has_prefix (to_upper trimmed) classification_tag then
        (let value = trim_space (drop (length classification_tag) trimmed) in
         if value = BehaviorSpecBlocker \<or> value = MissingEvidenceOnly \<or> value = Unknown then value else Unknown)
      else classification_of_lines ls)"

definition ReviewClassification :: "string \<Rightarrow> string \<Rightarrow> string" where
  "ReviewClassification status output =
     (if status = ''passed'' then [] else classification_of_lines (split_on newline output))"

fun status_of_lines :: "string list \<Rightarrow> string" where
  "status_of_lines [] = Unknown"
| "status_of_lines (line # ls) =
     (if trim_space line = PassMarker then ''passed''
      else if trim_space line = FailMarker then ''failed''
      else status_of_lines ls)"

definition ReviewStatus :: "string \<Rightarrow> string" where
  "ReviewStatus output = status_of_lines (split_on newline output)"

section \<open>Evidence lists\<close>

definition BehaviorEvidenceForRun :: "RunRecord \<Rightarrow> string list" where
  "BehaviorEvidenceForRun record =
     [''implementation_prompt_required_behavior_contract_preflight'']
     @ (if rr_ReviewStatus record \<noteq> [] then [''review_prompt_required_behavior_contract_parity_check''] else [])
     @ (if rr_ReviewStatus record = ''passed'' then [''review_passed_behavior_contract_gate''] else [])
     @ (if rr_ReviewStatus record = ''failed'' then [''review_failed_behavior_contract_or_scope_gate''] else [])
     @ (if rr_ReviewClassification record \<noteq> [] then [''review_classification_'' @ rr_ReviewClassification record] else [])
     @ (if has_prefix (rr_Status record) ''needs_info'' then [''needs_info_used_for_unknown_behavior_contract''] else [])
     @ (if trim_space (rr_Error record) \<noteq> [] \<or> trim_space (rr_ReviewFindings record) \<noteq> []
        then [''findings_recorded_for_behavior_contract_audit''] else [])"

definition ticket_needles :: "string list" where
  "ticket_needles = [''must'', ''must not'', ''out-of-scope'', ''acceptance criteria'', ''required package'',
                     ''bespoke net/http'', ''go-github'']"

definition TicketEvidenceForRun :: "RunRecord \<Rightarrow> string list" where
  "TicketEvidenceForRun record =
     [''implementation_prompt_required_five_section_ticket_contract'']
     @ (if rr_ReviewStatus record \<noteq> [] then [''review_prompt_enforced_ticket_contract_hard_gates''] else [])
     @ (if has_prefix (rr_Status record) ''needs_info'' then [''needs_info_used_for_incomplete_ticket_contract''] else [])
     @ (if list_ex (contains (to_lower (rr_ReviewFindings record @ [newline] @ rr_Error record))) ticket_needles
        then [''findings_recorded_for_ticket_contract_audit''] else [])"

section \<open>Properties\<close>

lemma classification_of_lines_range:
  "classification_of_lines ls \<in> {BehaviorSpecBlocker, MissingEvidenceOnly, Unknown}"
  by (induction ls) (auto simp: Let_def)

lemma status_of_lines_passed:
  "status_of_lines ls = ''passed'' \<longleftrightarrow>
     (\<exists>as l bs. ls = as @ l # bs \<and> trim_space l = PassMarker
                \<and> (\<forall>a \<in> set as. trim_space a \<noteq> PassMarker \<and> trim_space a \<noteq> FailMarker))"
proof (induction ls)
  case Nil
  then show ?case by (simp add: Unknown_def)
next
  case (Cons x xs)
  consider "trim_space x = PassMarker" | "trim_space x = FailMarker"
    | "trim_space x \<noteq> PassMarker" "trim_space x \<noteq> FailMarker" by blast
  then show ?case
  proof cases
    case 1
    then have "x # xs = [] @ x # xs \<and> trim_space x = PassMarker" by simp
    then show ?thesis using 1 by (metis empty_iff empty_set status_of_lines.simps(2))
  next
    case 2
    then show ?thesis by (auto simp: Cons_eq_append_conv review_defs)
  next
    case 3
    have "(\<exists>as l bs. x # xs = as @ l # bs \<and> trim_space l = PassMarker
             \<and> (\<forall>a \<in> set as. trim_space a \<noteq> PassMarker \<and> trim_space a \<noteq> FailMarker))
        \<longleftrightarrow> (\<exists>as l bs. xs = as @ l # bs \<and> trim_space l = PassMarker
             \<and> (\<forall>a \<in> set as. trim_space a \<noteq> PassMarker \<and> trim_space a \<noteq> FailMarker))" (is "?L = ?R")
    proof
      assume ?L
      then show ?R using 3 by (auto simp: Cons_eq_append_conv) blast
    next
      assume ?R
      then obtain as l bs where "xs = as @ l # bs" "trim_space l = PassMarker"
        "\<forall>a \<in> set as. trim_space a \<noteq> PassMarker \<and> trim_space a \<noteq> FailMarker" by blast
      with 3 have "x # xs = (x # as) @ l # bs \<and> trim_space l = PassMarker
         \<and> (\<forall>a \<in> set (x # as). trim_space a \<noteq> PassMarker \<and> trim_space a \<noteq> FailMarker)" by simp
      then show ?L by blast
    qed
    then show ?thesis using 3 Cons.IH by simp
  qed
qed

text \<open>
  A review counts as passed only when the first line of its output that is a verdict marker
  is the pass marker; output without a marker is never a pass, and a review that is not passed
  is always given one of the three known classifications, never the empty one.
\<close>

theorem review_verdict:
  "(ReviewStatus output = ''passed'' \<longleftrightarrow>
      (\<exists>as l bs. split_on newline output = as @ l # bs \<and> trim_space l = PassMarker
         \<and> list_all (\<lambda>a. trim_space a \<noteq> PassMarker \<and> trim_space a \<noteq> FailMarker) as))
   \<and> ReviewStatus output \<in> {''passed'', ''failed'', Unknown}
   \<and> ((ReviewClassification status output = []) = (status = ''passed''))"
proof -
  have "status_of_lines ls \<in> {''passed'', ''failed'', Unknown}" for ls
    by (induction ls) auto
  moreover have "classification_of_lines ls \<noteq> []" for ls
    using classification_of_lines_range [of ls] by (auto simp: review_defs)
  ultimately show ?thesis
    by (simp add: ReviewStatus_def ReviewClassification_def status_of_lines_passed list_all_iff)
qed

end
