(* ===== verification/RunClassification.thy ===== *)
theory RunClassification
  imports ReviewPolicy
begin

text \<open>
  internal/runclassification/classification.go: from a run record and a few facts about the
  attempt to the outcome, the blockers, the root cause, the next action and the retry and
  attention flags that the evaluation artifact and the attempt lifecycle use.
\<close>

definition statusReviewNotReady :: string where "statusReviewNotReady = ''review_not_ready''"

record Classification =
  cl_Outcome :: string
  cl_MergeEligible :: bool
  cl_BlockedBy :: "string list"
  cl_RootCause :: string
  cl_NextAction :: string
  cl_ShouldRetry :: bool
  cl_OperatorAttentionRequired :: bool
  cl_FrictionSignals :: "string list"
  cl_CandidateHarnessImprovements :: "string list"
  cl_BehaviorContractEvidence :: "string list"
  cl_TicketContractEvidence :: "string list"

record ClassifyInput =
  ci_Record :: RunRecord
  ci_FeedbackRetryCount :: int
  ci_NeedsInfoUsed :: bool
  ci_MergeBlockReason :: string
  ci_TotalTokens :: rat

definition containsString :: "string list \<Rightarrow> string \<Rightarrow> bool" where
  "containsString values needle \<longleftrightarrow> list_ex (\<lambda>v. v = needle) values"

definition uniqueStrings :: "string list \<Rightarrow> string list" where
  "uniqueStrings values = unique_loop [] values"

text \<open>The \<open>add\<close> closure of \<open>classifyFrictionSignals\<close>, guarded by its condition.\<close>

definition add_signal :: "bool \<Rightarrow> string \<Rightarrow> string list \<Rightarrow> string list" where
  "add_signal c signal signals = (if c \<and> signal \<notin> set signals then signals @ [signal] else signals)"

definition operational_status :: "string \<Rightarrow> bool" where
  "operational_status s \<longleftrightarrow> s = ''failed'' \<or> s = ''timeout'' \<or> s = ''budget_exceeded'' \<or> has_suffix s ''_failed''"

definition classifyFrictionSignals :: "ClassifyInput \<Rightarrow> string list" where
  "classifyFrictionSignals input =
     (let record = ci_Record input;
          err = to_lower (rr_Error record);
          review = to_lower (rr_ReviewFindings record);
          findings = to_lower (rr_ReviewFindings record @ [newline] @ rr_Error record);
          s = add_signal (rr_Status record = ''review_failed'') ''review_failed'' [];
          s = add_signal (rr_ReviewClassification record = MissingEvidenceOnly) ''missing_behavior_contract_evidence'' s;
          s = add_signal (ci_FeedbackRetryCount input > 0) ''changes_requested'' s;
          s = add_signal (ci_NeedsInfoUsed input) ''needs_info'' s;
          s = add_signal (rr_PRURL record = [] \<and> \<not> ci_NeedsInfoUsed input) ''missing_pr_url'' s;
          s = add_signal (operational_status (rr_Status record)) ''operational_failure'' s;
          s = add_signal (rr_Status record = ''timeout'' \<or> rr_Status record = ''budget_exceeded'') (rr_Status record) s;
          s = add_signal (contains err ''validation'') ''validation_failure'' s;
          s = add_signal (contains err ''check'') ''check_failure_or_pending'' s;
          s = add_signal (ci_TotalTokens input \<ge> 200000 \<or> rr_DurationMS record \<ge> 45 * 60 * 1000) ''high_token_or_time_use'' s;
          s = add_signal (contains review ''out-of-scope'' \<or> contains review ''scope drift'') ''out_of_scope_diff_findings'' s;
          s = add_signal (contains findings ''must'' \<or> contains findings ''acceptance criteria''
                          \<or> contains findings ''go-github'' \<or> contains findings ''bespoke net/http'')
                ''ticket_contract_findings'' s
      in s)"

definition improvementsBySignal :: "(string \<times> string) list" where
  "improvementsBySignal =
     [(''review_failed'', ''tighten implementation prompt or pre-handoff self-review checks''),
      (''changes_requested'', ''surface captured PR feedback prominently on retry''),
      (''needs_info'', ''clarify issue requirements before agent pickup''),
      (''missing_pr_url'', ''make PR URL extraction or creation failure more deterministic''),
      (''validation_failure'', ''promote validation command failures into the handoff summary''),
      (''check_failure_or_pending'', ''summarize blocking checks before merge attempts''),
      (''high_token_or_time_use'', ''consider smaller issue slices or higher-signal prompts''),
      (''out_of_scope_diff_findings'', ''add stronger scoped-diff guardrails''),
      (''operational_failure'', ''inspect runner logs and external service availability''),
      (''ticket_contract_findings'', ''clarify or enforce the five-section ticket contract before retry'')]"

definition harnessImprovements :: "string list \<Rightarrow> string list" where
  "harnessImprovements signals = List.map_filter (map_of improvementsBySignal) signals"

definition classifyOutcome :: "ClassifyInput \<Rightarrow> string" where
  "classifyOutcome input =
     (let record = ci_Record input in
      if rr_Status record = ''success'' \<and> rr_ReviewStatus record = ''passed'' then ''handoff_ready''
      else if rr_Status record = statusReviewNotReady then ''waiting_for_checks''
      else if ci_NeedsInfoUsed input then ''needs_info''
      else if rr_ReviewStatus record = ''failed'' \<and> rr_ReviewClassification record = MissingEvidenceOnly then ''human_review''
      else if rr_Status record = ''review_failed'' \<or> rr_ReviewStatus record = ''failed'' then ''review_failed''
      else if rr_Status record = ''timeout'' \<or> rr_Status record = ''budget_exceeded'' then rr_Status record
      else if trim_space (rr_Error record) \<noteq> [] \<or> has_suffix (rr_Status record) ''_failed'' \<or> rr_Status record = ''failed''
      then ''operational_failure''
      else rr_Status record)"

definition classifyBlockedBy :: "ClassifyInput \<Rightarrow> string list" where
  "classifyBlockedBy input =
     (let record = ci_Record input in
      uniqueStrings
        ((if rr_PRURL record = [] \<and> \<not> ci_NeedsInfoUsed input then [''missing_pr_url''] else [])
         @ (if rr_Status record \<noteq> ''success''
            then (if rr_Status record = statusReviewNotReady then [''waiting_for_checks''] else [rr_Status record])
            else [])
         @ (if rr_ReviewStatus record \<noteq> [] \<and> rr_ReviewStatus record \<noteq> ''passed''
            then [''review_'' @ rr_ReviewStatus record] else [])
         @ (if ci_MergeBlockReason input \<noteq> [] \<and> rr_Status record \<noteq> statusReviewNotReady then [''merge_blocked''] else [])))"

definition classifyRootCause :: "ClassifyInput \<Rightarrow> string list \<Rightarrow> string" where
  "classifyRootCause input signals =
     (let record = ci_Record input in
      if containsString signals ''out_of_scope_diff_findings'' then ''out_of_scope_diff''
      else if rr_Status record = ''review_failed'' \<or> rr_ReviewStatus record = ''failed''
      then (if rr_ReviewClassification record = MissingEvidenceOnly then ''missing_behavior_contract_evidence''
            else ''pre_handoff_review_failed'')
      else if rr_Status record = ''timeout'' \<or> rr_Status record = ''budget_exceeded'' then rr_Status record
      else if rr_Status record = statusReviewNotReady then ''waiting_for_checks''
      else if containsString signals ''operational_failure'' then ''runner_operational_failure''
      else if ci_MergeBlockReason input \<noteq> [] then ''merge_gate_blocked''
      else [])"

definition classifyMergeEligible :: "ClassifyInput \<Rightarrow> bool" where
  "classifyMergeEligible input \<longleftrightarrow>
     rr_Status (ci_Record input) = ''success'' \<and> rr_ReviewStatus (ci_Record input) = ''passed''
     \<and> rr_PRURL (ci_Record input) \<noteq> []"

definition classifyNextAction :: "ClassifyInput \<Rightarrow> bool \<Rightarrow> string" where
  "classifyNextAction input mergeEligible =
     (let record = ci_Record input in
      if mergeEligible then ''await_approval_and_green_checks''
      else if ci_NeedsInfoUsed input then ''answer_needs_info_questions''
      else if rr_Status record = ''review_failed'' \<or> rr_ReviewStatus record = ''failed''
      then (if rr_ReviewClassification record = MissingEvidenceOnly
            then ''await_human_review_for_behavior_contract_evidence''
            else ''repair_review_findings_before_handoff'')
      else if rr_Status record = ''timeout'' \<or> rr_Status record = ''budget_exceeded''
      then ''split_or_reduce_issue_scope_then_retry''
      else if rr_Status record = statusReviewNotReady then ''wait_for_github_checks_then_retry''
      else if rr_PRURL record = [] then ''inspect_run_log_and_create_or_repair_pr''
      else if ci_MergeBlockReason input \<noteq> [] then ''resolve_merge_gate_blocker''
      else ''inspect_run_artifact'')"

definition classifyShouldRetry :: "ClassifyInput \<Rightarrow> bool \<Rightarrow> string list \<Rightarrow> bool" where
  "classifyShouldRetry input mergeEligible signals =
     (let record = ci_Record input in
      if ci_NeedsInfoUsed input \<or> mergeEligible then False
      else if rr_ReviewClassification record = MissingEvidenceOnly then False
      else if rr_Status record = statusReviewNotReady then True
      else rr_Status record = ''review_failed'' \<or> rr_Status record = ''timeout'' \<or> rr_Status record = ''budget_exceeded''
           \<or> containsString signals ''operational_failure'')"

definition classifyOperatorAttention :: "ClassifyInput \<Rightarrow> string list \<Rightarrow> bool" where
  "classifyOperatorAttention input signals =
     (let record = ci_Record input in
      if rr_Status record = statusReviewNotReady then False
      else ci_MergeBlockReason input \<noteq> [] \<or> containsString signals ''operational_failure''
           \<or> containsString signals ''out_of_scope_diff_findings''
           \<or> (rr_Status record = ''success'' \<and> rr_ReviewStatus record \<noteq> ''passed''))"

definition Classify :: "ClassifyInput \<Rightarrow> Classification" where
  "Classify input =
     (let signals = classifyFrictionSignals input; eligible = classifyMergeEligible input in
      \<lparr>cl_Outcome = classifyOutcome input,
       cl_MergeEligible = eligible,
       cl_BlockedBy = classifyBlockedBy input,
       cl_RootCause = classifyRootCause input signals,
       cl_NextAction = classifyNextAction input eligible,
       cl_ShouldRetry = classifyShouldRetry input eligible signals,
       cl_OperatorAttentionRequired = classifyOperatorAttention input signals,
       cl_FrictionSignals = signals,
       cl_CandidateHarnessImprovements = harnessImprovements signals,
       cl_BehaviorContractEvidence = BehaviorEvidenceForRun (ci_Record input),
       cl_TicketContractEvidence = TicketEvidenceForRun (ci_Record input)\<rparr>)"

section \<open>Friction signals\<close>

lemma set_add_signal: "set (add_signal c x s) = set s \<union> (if c then {x} else {})"
  by (auto simp: add_signal_def)

lemma distinct_add_signal [simp]: "distinct s \<Longrightarrow> distinct (add_signal c x s)"
  by (simp add: add_signal_def)

lemma distinct_signals: "distinct (classifyFrictionSignals input)"
  by (simp add: classifyFrictionSignals_def Let_def)

lemma containsString_iff [simp]: "containsString xs x \<longleftrightarrow> x \<in> set xs"
  by (auto simp: containsString_def list_ex_iff)

lemma signal_operational:
  "''operational_failure'' \<in> set (classifyFrictionSignals input) \<longleftrightarrow> operational_status (rr_Status (ci_Record input))"
  by (auto simp: classifyFrictionSignals_def Let_def set_add_signal)

lemma signal_out_of_scope:
  "''out_of_scope_diff_findings'' \<in> set (classifyFrictionSignals input) \<longleftrightarrow>
     contains (to_lower (rr_ReviewFindings (ci_Record input))) ''out-of-scope''
     \<or> contains (to_lower (rr_ReviewFindings (ci_Record input))) ''scope drift''"
  by (auto simp: classifyFrictionSignals_def Let_def set_add_signal)

lemma Classify_simps [simp]:
  "cl_Outcome (Classify i) = classifyOutcome i"
  "cl_MergeEligible (Classify i) = classifyMergeEligible i"
  "cl_BlockedBy (Classify i) = classifyBlockedBy i"
  "cl_FrictionSignals (Classify i) = classifyFrictionSignals i"
  "cl_NextAction (Classify i) = classifyNextAction i (classifyMergeEligible i)"
  "cl_ShouldRetry (Classify i) = classifyShouldRetry i (classifyMergeEligible i) (classifyFrictionSignals i)"
  "cl_OperatorAttentionRequired (Classify i) = classifyOperatorAttention i (classifyFrictionSignals i)"
  "cl_RootCause (Classify i) = classifyRootCause i (classifyFrictionSignals i)"
  by (simp_all add: Classify_def Let_def)

lemma distinct_BlockedBy: "distinct (classifyBlockedBy i)"
  by (simp add: classifyBlockedBy_def uniqueStrings_def distinct_unique_loop Let_def)

lemma BlockedBy_Nil_iff:
  "classifyBlockedBy i = [] \<longleftrightarrow>
     rr_Status (ci_Record i) = ''success'' \<and> (rr_PRURL (ci_Record i) \<noteq> [] \<or> ci_NeedsInfoUsed i)
     \<and> (rr_ReviewStatus (ci_Record i) = [] \<or> rr_ReviewStatus (ci_Record i) = ''passed'') \<and> ci_MergeBlockReason i = []"
proof -
  have "classifyBlockedBy i = [] \<longleftrightarrow> set (classifyBlockedBy i) = {}" by simp
  then show ?thesis
    unfolding classifyBlockedBy_def uniqueStrings_def Let_def
    by (auto simp: set_unique_loop statusReviewNotReady_def)
qed

end
