(* ===== verification/Json.thy ===== *)
theory Json
  imports Prelude
begin

text \<open>
  The JSON values the program builds (\<open>map[string]any\<close> payloads) and their text as
  \<open>encoding/json\<close> prints it: object keys of a Go map are printed in byte order, strings are
  escaped with HTML-safe escapes.  Strings are taken to be valid UTF-8, whose bytes from 128 on
  are copied.  A number that is no integer is kept as its literal.
\<close>

datatype json =
    JNull
  | JBool bool
  | JInt int
  | JFloat string
  | JStr string
  | JArr "json list"
  | JObj "(string \<times> json) list"

text \<open>A Go map with string keys: an association list with each key once; \<open>put\<close> is \<open>m[k] = v\<close>.\<close>

type_synonym payload = "(string \<times> json) list"

fun put :: "string \<Rightarrow> 'v \<Rightarrow> (string \<times> 'v) list \<Rightarrow> (string \<times> 'v) list" where
  "put k v [] = [(k, v)]"
| "put k v ((k', v') # m) = (if k = k' then (k, v) # m else (k', v') # put k v m)"

definition put_if :: "bool \<Rightarrow> string \<Rightarrow> 'v \<Rightarrow> (string \<times> 'v) list \<Rightarrow> (string \<times> 'v) list" where
  "put_if c k v m = (if c then put k v m else m)"

definition json_escape_char :: "char \<Rightarrow> string" where
  "json_escape_char c = (let n = (of_char c :: nat); b = char_of (92::nat) in
     if n = 34 \<or> n = 92 then [b, c]
     else if n = 8 then [b, CHR ''b'']
     else if n = 12 then [b, CHR ''f'']
     else if n = 10 then [b, CHR ''n'']
     else if n = 13 then [b, CHR ''r'']
     else if n = 9 then [b, CHR ''t'']
     else if n < 32 \<or> n = 60 \<or> n = 62 \<or> n = 38
       then [b, CHR ''u'', CHR ''0'', CHR ''0'', hex_digit (n div 16), hex_digit (n mod 16)]
     else [c])"

definition json_string :: "string \<Rightarrow> string" where
  "json_string s = [char_of (34::nat)] @ concat (map json_escape_char s) @ [char_of (34::nat)]"

fun json_render :: "json \<Rightarrow> string" where
  "json_render JNull = ''null''"
| "json_render (JBool b) = (if b then ''true'' else ''false'')"
| "json_render (JInt i) = itoa i"
| "json_render (JFloat literal) = literal"
| "json_render (JStr s) = json_string s"
| "json_render (JArr xs) = ''['' @ join '','' (map json_render xs) @ '']''"
| "json_render (JObj m) =
     ''{'' @ join '','' (map snd (sort_key fst (map (\<lambda>(k, v). (k, json_string k @ '':'' @ json_render v)) m))) @ ''}''"

lemma map_of_put [simp]: "map_of (put k v m) = (map_of m)(k \<mapsto> v)"
  by (induction m) (auto simp: fun_eq_iff)

lemma keys_put: "set (map fst (put k v m)) = insert k (set (map fst m))"
  by (induction k v m rule: put.induct) (simp_all add: insert_commute del: set_map)

lemma distinct_put [simp]: "distinct (map fst m) \<Longrightarrow> distinct (map fst (put k v m))"
proof (induction k v m rule: put.induct)
  case (2 k v k' v' m)
  then show ?case
    using keys_put [of k v m] by (cases "k = k'") (simp_all del: set_map)
qed simp

lemma distinct_put_if [simp]: "distinct (map fst m) \<Longrightarrow> distinct (map fst (put_if c k v m))"
  by (simp add: put_if_def)

lemma map_of_put_if [simp]: "map_of (put_if c k v m) = (if c then (map_of m)(k \<mapsto> v) else map_of m)"
  by (simp add: put_if_def)

end
