(* ===== verification/Gate.thy ===== *)
theory Gate
  imports Json
begin

text \<open>
  internal/gate/result.go: the result every policy gate of the program reports.  A result
  starts as passed and collects blockers; \<open>Reason\<close> and \<open>Codes\<close> are its text views, \<open>Payload\<close>
  its event payload.  The pointer methods \<open>Block\<close> and \<open>ReconciliationNeeded\<close> return the
  updated result.  A nil metadata map and an empty one are both the empty association list.
\<close>

definition StatusPassed :: string where "StatusPassed = ''passed''"
definition StatusBlocked :: string where "StatusBlocked = ''blocked''"
definition StatusReconciliationNeeded :: string where "StatusReconciliationNeeded = ''reconciliation_needed''"

lemmas gate_status_defs = StatusPassed_def StatusBlocked_def StatusReconciliationNeeded_def

lemma gate_status_distinct [simp]:
  "StatusPassed \<noteq> StatusBlocked" "StatusBlocked \<noteq> StatusPassed"
  "StatusPassed \<noteq> StatusReconciliationNeeded" "StatusReconciliationNeeded \<noteq> StatusPassed"
  "StatusBlocked \<noteq> StatusReconciliationNeeded" "StatusReconciliationNeeded \<noteq> StatusBlocked"
  by (simp_all add: gate_status_defs)

record Blocker =
  bl_Code :: string
  bl_Reason :: string

record Result =
  gr_Domain :: string
  gr_Subject :: string
  gr_Status :: string
  gr_ReasonText :: string
  gr_Blockers :: "Blocker list"
  gr_NextAction :: string
  gr_Metadata :: "(string \<times> string) list"

definition NewResult :: "string \<Rightarrow> string \<Rightarrow> Result" where
  "NewResult domain subject =
     \<lparr>gr_Domain = domain, gr_Subject = subject, gr_Status = StatusPassed, gr_ReasonText = [],
      gr_Blockers = [], gr_NextAction = [], gr_Metadata = []\<rparr>"

definition Passed :: "Result \<Rightarrow> bool" where
  "Passed r \<longleftrightarrow> gr_Status r = StatusPassed \<and> gr_Blockers r = []"

definition Reason :: "Result \<Rightarrow> string" where
  "Reason r =
     (let reasons = filter (\<lambda>s. trim_space s \<noteq> []) (map bl_Reason (gr_Blockers r)) in
      if reasons \<noteq> [] then join ''; '' reasons else trim_space (gr_ReasonText r))"

fun codes_loop :: "string list \<Rightarrow> Blocker list \<Rightarrow> string list" where
  "codes_loop seen [] = []"
| "codes_loop seen (b # bs) =
     (let code = trim_space (bl_Code b) in
      if code = [] \<or> code \<in> set seen then codes_loop seen bs else code # codes_loop (code # seen) bs)"

definition Codes :: "Result \<Rightarrow> string list" where
  "Codes r = codes_loop [] (gr_Blockers r)"

definition Block :: "Result \<Rightarrow> string \<Rightarrow> string \<Rightarrow> Result" where
  "Block r code reason =
     r\<lparr>gr_Status := StatusBlocked,
       gr_Blockers := gr_Blockers r @ [\<lparr>bl_Code = code, bl_Reason = reason\<rparr>],
       gr_ReasonText := (if trim_space (gr_ReasonText r) = [] then reason else gr_ReasonText r)\<rparr>"

definition ReconciliationNeeded :: "Result \<Rightarrow> string \<Rightarrow> string \<Rightarrow> string \<Rightarrow> Result" where
  "ReconciliationNeeded r code reason nextAction =
     r\<lparr>gr_Status := StatusReconciliationNeeded,
       gr_Blockers := gr_Blockers r @ [\<lparr>bl_Code = code, bl_Reason = reason\<rparr>],
       gr_ReasonText := reason,
       gr_NextAction := nextAction\<rparr>"

definition Payload :: "Result \<Rightarrow> payload" where
  "Payload r =
     (let p = [(''domain'', JStr (gr_Domain r)), (''status'', JStr (gr_Status r))];
          p = put_if (gr_Subject r \<noteq> []) ''subject'' (JStr (gr_Subject r)) p;
          p = put_if (Reason r \<noteq> []) ''reason'' (JStr (Reason r)) p;
          p = (if gr_Blockers r \<noteq> []
               then put ''codes'' (JArr (map JStr (Codes r)))
                      (put ''blockers''
                        (JArr (map (\<lambda>b. JObj [(''code'', JStr (bl_Code b)), (''reason'', JStr (bl_Reason b))]) (gr_Blockers r)))
                        p)
               else p);
          p = put_if (gr_NextAction r \<noteq> []) ''next_action'' (JStr (gr_NextAction r)) p;
          p = put_if (gr_Metadata r \<noteq> []) ''metadata'' (JObj (map (\<lambda>(k, v). (k, JStr v)) (gr_Metadata r))) p
      in p)"

section \<open>The gate invariant\<close>

text \<open>A gate is well formed when "passed" and "no blockers" say the same thing.\<close>

definition gate_inv :: "Result \<Rightarrow> bool" where
  "gate_inv r \<longleftrightarrow> (gr_Status r = StatusPassed \<longleftrightarrow> gr_Blockers r = [])"

lemma gate_inv_NewResult [simp]: "gate_inv (NewResult d s)"
  by (simp add: gate_inv_def NewResult_def)

lemma gate_inv_Block [simp]: "gate_inv (Block r c t)"
  by (simp add: gate_inv_def Block_def)

lemma gate_inv_ReconciliationNeeded [simp]: "gate_inv (ReconciliationNeeded r c t n)"
  by (simp add: gate_inv_def ReconciliationNeeded_def)

lemma Passed_NewResult [simp]: "Passed (NewResult d s)"
  by (simp add: Passed_def NewResult_def)

lemma not_Passed_Block [simp]: "\<not> Passed (Block r c t)"
  by (simp add: Passed_def Block_def)

lemma not_Passed_ReconciliationNeeded [simp]: "\<not> Passed (ReconciliationNeeded r c t n)"
  by (simp add: Passed_def ReconciliationNeeded_def)

lemma Reason_NewResult [simp]: "Reason (NewResult d s) = []"
  by (simp add: Reason_def NewResult_def)

lemma Reason_Block_New: "trim_space t \<noteq> [] \<Longrightarrow> Reason (Block (NewResult d s) c t) = t"
  by (simp add: Reason_def Block_def NewResult_def)

lemma codes_loop_set: "set (codes_loop seen bs) = {trim_space (bl_Code b) | b. b \<in> set bs} - {[]} - set seen"
  by (induction seen bs rule: codes_loop.induct) (auto simp: Let_def)

lemma codes_loop_distinct: "distinct (codes_loop seen bs)"
  by (induction seen bs rule: codes_loop.induct) (auto simp: Let_def codes_loop_set)

text \<open>\<open>Codes\<close> lists each non-blank blocker code once.\<close>

lemma set_Codes: "set (Codes r) = {trim_space (bl_Code b) | b. b \<in> set (gr_Blockers r)} - {[]}"
  by (simp add: Codes_def codes_loop_set)

lemma distinct_Codes: "distinct (Codes r)"
  by (simp add: Codes_def codes_loop_distinct)

text \<open>A run of blocking steps over a fresh gate.\<close>

datatype gate_op = OpBlock string string | OpReconcile string string string

fun gate_step :: "Result \<Rightarrow> gate_op \<Rightarrow> Result" where
  "gate_step r (OpBlock c t) = Block r c t"
| "gate_step r (OpReconcile c t n) = ReconciliationNeeded r c t n"

fun op_code :: "gate_op \<Rightarrow> string" where
  "op_code (OpBlock c t) = c"
| "op_code (OpReconcile c t n) = c"

fun op_reason :: "gate_op \<Rightarrow> string" where
  "op_reason (OpBlock c t) = t"
| "op_reason (OpReconcile c t n) = t"

definition gate_run :: "Result \<Rightarrow> gate_op list \<Rightarrow> Result" where
  "gate_run r ops = foldl gate_step r ops"

lemma gate_run_snoc [simp]: "gate_run r (ops @ [x]) = gate_step (gate_run r ops) x"
  by (simp add: gate_run_def)

lemma gate_run_Nil [simp]: "gate_run r [] = r"
  by (simp add: gate_run_def)

lemma gate_step_blockers:
  "gr_Blockers (gate_step r x) = gr_Blockers r @ [\<lparr>bl_Code = op_code x, bl_Reason = op_reason x\<rparr>]"
  by (cases x) (simp_all add: Block_def ReconciliationNeeded_def)

lemma gate_run_blockers:
  "gr_Blockers (gate_run (NewResult d s) ops) = map (\<lambda>x. \<lparr>bl_Code = op_code x, bl_Reason = op_reason x\<rparr>) ops"
  by (induction ops rule: rev_induct) (simp_all add: gate_step_blockers NewResult_def)

lemma gate_run_inv: "gate_inv (gate_run (NewResult d s) ops)"
proof (cases ops rule: rev_cases)
  case Nil
  then show ?thesis by simp
next
  case (snoc xs x)
  then show ?thesis by (cases x) simp_all
qed

text \<open>The collection the proofs on gate results unfold.\<close>

declare Passed_def [policy_defs] Block_def [policy_defs] ReconciliationNeeded_def [policy_defs] NewResult_def [policy_defs]

end
