(* ===== verification/MergeGate.thy ===== *)
theory MergeGate
  imports Gate
begin

text \<open>
  internal/mergegate/mergegate.go: may a pull request be merged?  The decision embeds a gate
  result; the messages are built as the code builds them, because the callers in merge.go and
  reconciler.go look at the text (an empty \<open>Reason()\<close> means "mergeable").
\<close>

record StatusCheck =
  sc_Typename :: string
  sc_Status :: string
  sc_Conclusion :: string
  sc_State :: string
  sc_Name :: string
  sc_Context :: string

record PullRequest =
  pr_Subject :: string
  pr_HeadRefName :: string
  pr_Mergeable :: string
  pr_MergeStateStatus :: string
  pr_StatusChecks :: "StatusCheck list"

record MergeRunRecord =
  mr_Subject :: string
  mr_Status :: string
  mr_Error :: string

record Decision =
  md_Eligible :: bool
  md_Result :: Result

definition NewDecision :: "string \<Rightarrow> Decision" where
  "NewDecision subject = \<lparr>md_Eligible = True, md_Result = NewResult ''merge'' subject\<rparr>"

definition BlockMerge :: "Decision \<Rightarrow> string \<Rightarrow> string \<Rightarrow> Decision" where
  "BlockMerge d code reason = \<lparr>md_Eligible = False, md_Result = Block (md_Result d) code reason\<rparr>"

definition CheckLabel :: "StatusCheck \<Rightarrow> string" where
  "CheckLabel check =
     (if trim_space (sc_Name check) \<noteq> [] then sc_Name check
      else if trim_space (sc_Context check) \<noteq> [] then sc_Context check
      else ''unnamed'')"

definition ConflictReason :: "PullRequest \<Rightarrow> string" where
  "ConflictReason pr =
     (if equal_fold (pr_Mergeable pr) ''CONFLICTING'' \<or> equal_fold (pr_MergeStateStatus pr) ''DIRTY''
      then ''GitHub reports mergeable='' @ empty_as_unknown (pr_Mergeable pr) @ '' mergeStateStatus=''
             @ empty_as_unknown (pr_MergeStateStatus pr) @ ''; branch '' @ pr_HeadRefName pr
             @ '' has conflicts with the base branch.''
      else [])"

text \<open>One iteration of the loop of \<open>ChecksBlockReason\<close>: the reason this check blocks, if any.\<close>

definition check_reason :: "StatusCheck \<Rightarrow> string option" where
  "check_reason check =
     (if sc_Typename check = ''CheckRun'' then
        (if \<not> equal_fold (sc_Status check) ''COMPLETED'' \<or> \<not> equal_fold (sc_Conclusion check) ''SUCCESS''
         then Some (''check run '' @ quote (CheckLabel check) @ '' is status='' @ empty_as_unknown (sc_Status check)
                    @ '' conclusion='' @ empty_as_unknown (sc_Conclusion check))
         else None)
      else if sc_Typename check = ''StatusContext'' then
        (if \<not> equal_fold (sc_State check) ''SUCCESS''
         then Some (''status context '' @ quote (CheckLabel check) @ '' is state='' @ empty_as_unknown (sc_State check))
         else None)
      else Some (''unknown status check shape '' @ quote (empty_as_unknown (sc_Typename check)) @ '' for ''
                 @ quote (CheckLabel check)))"

fun first_check_reason :: "StatusCheck list \<Rightarrow> string" where
  "first_check_reason [] = []"
| "first_check_reason (c # cs) = (case check_reason c of Some r \<Rightarrow> r | None \<Rightarrow> first_check_reason cs)"

definition ChecksBlockReason :: "StatusCheck list \<Rightarrow> string" where
  "ChecksBlockReason checks =
     (if checks = [] then ''no status checks were reported by GitHub'' else first_check_reason checks)"

definition ChecksPassed :: "StatusCheck list \<Rightarrow> bool" where
  "ChecksPassed checks \<longleftrightarrow> ChecksBlockReason checks = []"

definition summarize_check :: "StatusCheck \<Rightarrow> string" where
  "summarize_check check =
     (if sc_Typename check = ''CheckRun''
      then CheckLabel check @ ''='' @ empty_as_unknown (sc_Status check) @ ''/'' @ empty_as_unknown (sc_Conclusion check)
      else if sc_Typename check = ''StatusContext''
      then CheckLabel check @ ''='' @ empty_as_unknown (sc_State check)
      else CheckLabel check @ ''='' @ empty_as_unknown (sc_Typename check))"

definition SummarizeStatusChecks :: "StatusCheck list \<Rightarrow> string" where
  "SummarizeStatusChecks checks = join ''; '' (map summarize_check checks)"

text \<open>The loop of \<open>ChecksStatus\<close> over the reported checks: what the first telling check says.\<close>

definition check_wait :: "StatusCheck \<Rightarrow> string option" where
  "check_wait check =
     (if sc_Typename check = ''CheckRun''
           \<and> (equal_fold (sc_Status check) ''UNKNOWN'' \<or> equal_fold (sc_Conclusion check) ''UNKNOWN'')
        then Some ''unavailable''
      else if sc_Typename check = ''StatusContext'' \<and> equal_fold (sc_State check) ''UNKNOWN'' then Some ''unavailable''
      else if sc_Typename check = ''CheckRun'' \<and> \<not> equal_fold (sc_Status check) ''COMPLETED'' then Some ''pending''
      else if sc_Typename check = ''StatusContext'' \<and> equal_fold (sc_State check) ''PENDING'' then Some ''pending''
      else None)"

fun first_wait :: "StatusCheck list \<Rightarrow> string option" where
  "first_wait [] = None"
| "first_wait (c # cs) = (case check_wait c of Some w \<Rightarrow> Some w | None \<Rightarrow> first_wait cs)"

definition ChecksStatus :: "StatusCheck list \<Rightarrow> string \<times> string" where
  "ChecksStatus checks =
     (if checks = [] then (''unavailable'', ''no status checks were reported by the code host'')
      else if ChecksBlockReason checks = [] then (''success'', SummarizeStatusChecks checks)
      else (case first_wait checks of
              Some w \<Rightarrow> (w, ChecksBlockReason checks)
            | None \<Rightarrow> (''failed'', ChecksBlockReason checks)))"

definition EvaluatePullRequest :: "PullRequest \<Rightarrow> Decision" where
  "EvaluatePullRequest pr =
     (let decision = NewDecision (pr_Subject pr) in
      if ConflictReason pr \<noteq> [] then BlockMerge decision ''merge_conflict'' (ConflictReason pr)
      else if \<not> equal_fold (pr_Mergeable pr) ''MERGEABLE''
      then BlockMerge decision ''mergeable_unknown''
             (''GitHub reports mergeable='' @ empty_as_unknown (pr_Mergeable pr)
              @ ''; waiting for a fresh mergeable result before merging '' @ pr_HeadRefName pr @ ''.'')
      else if ChecksBlockReason (pr_StatusChecks pr) \<noteq> []
      then BlockMerge decision ''status_checks'' (ChecksBlockReason (pr_StatusChecks pr))
      else decision)"

definition EvaluateRunRecord :: "MergeRunRecord \<Rightarrow> Decision" where
  "EvaluateRunRecord record =
     (let decision = NewDecision (mr_Subject record) in
      if mr_Status record = ''review_failed'' then BlockMerge decision ''review_decision'' ''review did not pass''
      else if contains (to_lower (mr_Error record)) ''check''
      then BlockMerge decision ''status_checks'' (mr_Error record)
      else decision)"

section \<open>When a check is green\<close>

definition green_check :: "StatusCheck \<Rightarrow> bool" where
  "green_check c \<longleftrightarrow>
     (sc_Typename c = ''CheckRun'' \<and> equal_fold (sc_Status c) ''COMPLETED'' \<and> equal_fold (sc_Conclusion c) ''SUCCESS'')
     \<or> (sc_Typename c = ''StatusContext'' \<and> equal_fold (sc_State c) ''SUCCESS'')"

lemma check_reason_None_iff: "check_reason c = None \<longleftrightarrow> green_check c"
  by (auto simp: check_reason_def green_check_def)

lemma check_reason_leads:
  "check_reason c = Some r \<Longrightarrow> trim_space r \<noteq> []"
  by (auto simp: check_reason_def trim_space_empty_iff is_space_def split: if_splits)

lemma first_check_reason_Nil: "first_check_reason cs = [] \<longleftrightarrow> (\<forall>c \<in> set cs. green_check c)"
proof (induction cs)
  case (Cons c cs)
  then show ?case
    using check_reason_leads [of c] check_reason_None_iff [of c]
    by (cases "check_reason c") auto
qed simp

lemma first_check_reason_visible: "first_check_reason cs \<noteq> [] \<Longrightarrow> trim_space (first_check_reason cs) \<noteq> []"
  by (induction cs) (auto split: option.splits dest: check_reason_leads)

lemma ChecksPassed_iff: "ChecksPassed checks \<longleftrightarrow> checks \<noteq> [] \<and> (\<forall>c \<in> set checks. green_check c)"
  by (auto simp: ChecksPassed_def ChecksBlockReason_def first_check_reason_Nil)

lemma ChecksBlockReason_visible: "ChecksBlockReason cs \<noteq> [] \<Longrightarrow> trim_space (ChecksBlockReason cs) \<noteq> []"
proof (cases "cs = []")
  case True
  then show ?thesis by (simp add: ChecksBlockReason_def trim_space_empty_iff is_space_def)
next
  case False
  then show "ChecksBlockReason cs \<noteq> [] \<Longrightarrow> ?thesis"
    using first_check_reason_visible [of cs] by (simp add: ChecksBlockReason_def)
qed

lemma ConflictReason_Nil: "ConflictReason pr = [] \<longleftrightarrow>
    \<not> equal_fold (pr_Mergeable pr) ''CONFLICTING'' \<and> \<not> equal_fold (pr_MergeStateStatus pr) ''DIRTY''"
  by (simp add: ConflictReason_def)

lemma ConflictReason_visible: "ConflictReason pr \<noteq> [] \<Longrightarrow> trim_space (ConflictReason pr) \<noteq> []"
  by (auto simp: ConflictReason_def trim_space_empty_iff is_space_def split: if_splits)

lemma not_green_wait: "check_wait c = Some w \<Longrightarrow> \<not> green_check c"
proof -
  have "\<not> equal_fold s ''SUCCESS''" if "equal_fold s ''UNKNOWN'' \<or> equal_fold s ''PENDING''" for s
    using that by (auto simp: equal_fold_def to_lower_def lower_char_def)
  moreover have "\<not> equal_fold s ''COMPLETED''" if "equal_fold s ''UNKNOWN''" for s
    using that by (auto simp: equal_fold_def to_lower_def lower_char_def)
  ultimately show "check_wait c = Some w \<Longrightarrow> \<not> green_check c"
    by (auto simp: check_wait_def green_check_def split: if_splits)
qed

lemma first_wait_cases: "first_wait cs = Some w \<Longrightarrow> w \<in> {''unavailable'', ''pending''}"
  by (induction cs) (auto simp: check_wait_def split: option.splits if_splits)

lemma first_wait_None: "first_wait cs = None \<longleftrightarrow> (\<forall>c \<in> set cs. check_wait c = None)"
  by (induction cs) (auto split: option.splits)

section \<open>A gate decision as an interface\<close>

text \<open>
  The callers treat a decision as a text: no reason, no block.  A decision procedure may be used
  that way when eligibility, an empty reason and a passed gate are the same thing.
\<close>

locale text_gate =
  fixes decide :: "'a \<Rightarrow> Decision"
  assumes eligible_passed: "md_Eligible (decide x) \<longleftrightarrow> Passed (md_Result (decide x))"
    and passed_reason: "Passed (md_Result (decide x)) \<longleftrightarrow> Reason (md_Result (decide x)) = []"
begin

lemma eligible_reason: "md_Eligible (decide x) \<longleftrightarrow> Reason (md_Result (decide x)) = []"
  by (simp add: eligible_passed passed_reason)

lemma blocked_has_reason: "\<not> md_Eligible (decide x) \<Longrightarrow> Reason (md_Result (decide x)) \<noteq> []"
  by (simp add: eligible_reason)

lemma eligible_no_codes: "md_Eligible (decide x) \<Longrightarrow> Codes (md_Result (decide x)) = []"
  by (simp add: eligible_passed Passed_def Codes_def)

end

lemma Eligible_BlockMerge [simp]: "\<not> md_Eligible (BlockMerge d c t)"
  by (simp add: BlockMerge_def)

lemma Passed_BlockMerge [simp]: "\<not> Passed (md_Result (BlockMerge d c t))"
  by (simp add: BlockMerge_def)

lemma NewDecision_simps [simp]: "md_Eligible (NewDecision s)" "Passed (md_Result (NewDecision s))"
  "Reason (md_Result (NewDecision s)) = []"
  by (simp_all add: NewDecision_def)

lemma Reason_BlockMerge: "trim_space t \<noteq> [] \<Longrightarrow> Reason (md_Result (BlockMerge (NewDecision s) c t)) = t"
  by (simp add: BlockMerge_def NewDecision_def Reason_Block_New)

lemma Reason_BlockMerge_nonempty: "trim_space t \<noteq> [] \<Longrightarrow> Reason (md_Result (BlockMerge (NewDecision s) c t)) \<noteq> []"
  using Reason_BlockMerge [of t s c] by auto

lemma mergeable_unknown_visible:
  "trim_space (''GitHub reports mergeable='' @ s) \<noteq> []"
  by (auto simp: trim_space_empty_iff is_space_def)

lemma contains_check_visible: "contains (to_lower s) ''check'' \<Longrightarrow> trim_space s \<noteq> []"
proof
  assume c: "contains (to_lower s) ''check''" and "trim_space s = []"
  then have sp: "list_all is_space s" by (simp add: trim_space_empty_iff)
  have "to_lower s = s"
    using sp by (induction s) (auto simp: to_lower_def lower_char_def is_space_def Let_def)
  with c obtain a b where "s = a @ ''check'' @ b" by (auto simp: contains_iff sublist_def)
  with sp show False by (auto simp: is_space_def)
qed

lemma EvaluatePullRequest_gate:
  "md_Eligible (EvaluatePullRequest pr) \<longleftrightarrow> Passed (md_Result (EvaluatePullRequest pr))"
  "Passed (md_Result (EvaluatePullRequest pr)) \<longleftrightarrow> Reason (md_Result (EvaluatePullRequest pr)) = []"
  by (auto simp: EvaluatePullRequest_def Let_def Reason_BlockMerge_nonempty ConflictReason_visible
      ChecksBlockReason_visible mergeable_unknown_visible simp del: append.simps)

lemma EvaluateRunRecord_gate:
  "md_Eligible (EvaluateRunRecord r) \<longleftrightarrow> Passed (md_Result (EvaluateRunRecord r))"
  "Passed (md_Result (EvaluateRunRecord r)) \<longleftrightarrow> Reason (md_Result (EvaluateRunRecord r)) = []"
proof -
  have "trim_space ''review did not pass'' \<noteq> []" by (simp add: trim_space_empty_iff is_space_def)
  then show "md_Eligible (EvaluateRunRecord r) \<longleftrightarrow> Passed (md_Result (EvaluateRunRecord r))"
    "Passed (md_Result (EvaluateRunRecord r)) \<longleftrightarrow> Reason (md_Result (EvaluateRunRecord r)) = []"
    by (auto simp: EvaluateRunRecord_def Let_def Reason_BlockMerge_nonempty contains_check_visible)
qed

interpretation pr_gate: text_gate EvaluatePullRequest
  by unfold_locales (rule EvaluatePullRequest_gate)+

interpretation run_gate: text_gate EvaluateRunRecord
  by unfold_locales (rule EvaluateRunRecord_gate)+

section \<open>Properties\<close>

text \<open>
  C6: \<open>EvaluatePullRequest\<close> lets a pull request through exactly when the code host reports it
  mergeable and not dirty, at least one check was reported, and every reported check is a
  completed successful check run or a successful status context.
\<close>

theorem EvaluatePullRequest_eligible_iff:
  "md_Eligible (EvaluatePullRequest pr) \<longleftrightarrow>
     equal_fold (pr_Mergeable pr) ''MERGEABLE'' \<and> \<not> equal_fold (pr_MergeStateStatus pr) ''DIRTY''
     \<and> pr_StatusChecks pr \<noteq> [] \<and> list_all green_check (pr_StatusChecks pr)"
proof -
  have "\<not> equal_fold s ''CONFLICTING''" if "equal_fold s ''MERGEABLE''" for s
    using that by (auto simp: equal_fold_def to_lower_def lower_char_def)
  then show ?thesis
    using ChecksPassed_iff [of "pr_StatusChecks pr"]
    by (auto simp: EvaluatePullRequest_def Let_def ConflictReason_Nil ChecksPassed_def list_all_iff)
qed

text \<open>
  The text view of the merge gates loses nothing: for a pull request and for a run record,
  the decision is eligible, its gate is passed, and its \<open>Reason()\<close> is empty at the same time.
  merge.go and reconciler.go rely on this when they test \<open>mergeGateBlockReason(pr) != ""\<close>.
\<close>

theorem merge_gates_reason_exact:
  "(md_Eligible (EvaluatePullRequest pr) \<longleftrightarrow> Reason (md_Result (EvaluatePullRequest pr)) = [])
   \<and> (md_Eligible (EvaluateRunRecord r) \<longleftrightarrow> Reason (md_Result (EvaluateRunRecord r)) = [])
   \<and> gate_inv (md_Result (EvaluatePullRequest pr)) \<and> gate_inv (md_Result (EvaluateRunRecord r))"
proof -
  have "gate_inv (md_Result (EvaluatePullRequest pr))" "gate_inv (md_Result (EvaluateRunRecord r))"
    by (simp_all add: EvaluatePullRequest_def EvaluateRunRecord_def Let_def NewDecision_def BlockMerge_def)
  then show ?thesis by (simp add: pr_gate.eligible_reason run_gate.eligible_reason)
qed

text \<open>
  \<open>ChecksStatus\<close> sorts the reported checks: "success" exactly when there are checks and all
  are green; without checks "unavailable"; otherwise "failed" exactly when no check is unknown,
  unfinished or pending, so that a retryable state is never reported as a failure.
\<close>

theorem ChecksStatus_classifies:
  "(fst (ChecksStatus checks) = ''success'' \<longleftrightarrow> checks \<noteq> [] \<and> list_all green_check checks)
   \<and> (fst (ChecksStatus checks) = ''failed'' \<longleftrightarrow>
        checks \<noteq> [] \<and> \<not> list_all green_check checks \<and> list_all (\<lambda>c. check_wait c = None) checks)
   \<and> fst (ChecksStatus checks) \<in> {''success'', ''failed'', ''pending'', ''unavailable''}"
  using ChecksPassed_iff [of checks] first_wait_None [of checks] first_wait_cases [of checks]
  by (auto simp: ChecksStatus_def ChecksPassed_def list_all_iff split: option.splits)

end
