(* ===== verification/CodeOwnership.thy ===== *)
theory CodeOwnership
  imports Prelude
begin

text \<open>
  internal/codeownership/ownership.go: which pull request authors count as the machine's own;
  and internal/terminalpr/terminalpr.go: the facts of a pull request that is already merged, and
  the error value that carries them through the layers above.
\<close>

definition ProviderGitLab :: string where "ProviderGitLab = ''gitlab''"

record ownership_input =
  oi_Provider :: string
  oi_GitHubPRAuthorOverride :: string
  oi_GitHubAppExpectedLogins :: "string list"
  oi_GitHubAppSource :: string
  oi_GitLabPRAuthorOverride :: string
  oi_GitLabEnvPRAuthorOverride :: string

record ownership_policy =
  op_logins :: "string list"
  op_source :: string

definition splitAuthorLogins :: "string \<Rightarrow> string list" where
  "splitAuthorLogins value =
     filter (\<lambda>f. f \<noteq> [])
       (map trim_space (FieldsFunc (\<lambda>c. c = CHR '','' \<or> c = CHR '' '' \<or> c = newline \<or> c = char_of (9::nat)) value))"

definition NewPolicy :: "ownership_input \<Rightarrow> ownership_policy" where
  "NewPolicy input =
     (if equal_fold (trim_space (oi_Provider input)) ProviderGitLab then
        (if splitAuthorLogins (oi_GitLabPRAuthorOverride input) \<noteq> [] then
           \<lparr>op_logins = splitAuthorLogins (oi_GitLabPRAuthorOverride input), op_source = ''config gitlab.pr_author_override''\<rparr>
         else if splitAuthorLogins (oi_GitLabEnvPRAuthorOverride input) \<noteq> [] then
           \<lparr>op_logins = splitAuthorLogins (oi_GitLabEnvPRAuthorOverride input), op_source = ''GITLAB_PR_AUTHOR_OVERRIDE''\<rparr>
         else \<lparr>op_logins = [], op_source = ''missing config gitlab.pr_author_override or GITLAB_PR_AUTHOR_OVERRIDE''\<rparr>)
      else if splitAuthorLogins (oi_GitHubPRAuthorOverride input) \<noteq> [] then
        \<lparr>op_logins = splitAuthorLogins (oi_GitHubPRAuthorOverride input), op_source = ''config github.pr_author_override''\<rparr>
      else if oi_GitHubAppExpectedLogins input = [] then
        (let source = trim_space (oi_GitHubAppSource input) in
         \<lparr>op_logins = [], op_source = (if source = [] then ''config github.app_slug or GITHUB_APP_SLUG'' else source)\<rparr>)
      else \<lparr>op_logins = oi_GitHubAppExpectedLogins input, op_source = oi_GitHubAppSource input\<rparr>)"

definition AllowsPRAuthor :: "ownership_policy \<Rightarrow> string \<Rightarrow> bool" where
  "AllowsPRAuthor p login =
     (let trimmed = trim_space login in
      if trimmed = [] \<or> op_logins p = [] then False
      else list_ex (\<lambda>expected. trimmed = expected) (op_logins p))"

definition ExpectedPRAuthorSource :: "ownership_policy \<Rightarrow> string" where
  "ExpectedPRAuthorSource p =
     (if op_logins p = [] then ''no expected GitHub App PR author could be derived from '' @ op_source p
      else join '' or '' (op_logins p) @ '' (from '' @ op_source p @ '')'')"

section \<open>Terminal pull requests\<close>

definition ReasonAlreadyMerged :: string where "ReasonAlreadyMerged = ''pull_request_already_merged''"

record Facts =
  fa_PRURL :: string
  fa_State :: string
  fa_Reason :: string

definition no_facts :: Facts where "no_facts = \<lparr>fa_PRURL = [], fa_State = [], fa_Reason = []\<rparr>"

text \<open>The errors the callers tell apart with \<open>errors.As\<close>: a terminal pull request, or any other, perhaps wrapping one.\<close>

datatype go_error = TerminalPR Facts | OtherError string | Wrapped string go_error

fun error_text :: "go_error \<Rightarrow> string" where
  "error_text (TerminalPR f) =
     (let reason = (if trim_space (fa_Reason f) = [] then ReasonAlreadyMerged else trim_space (fa_Reason f)) in
      if trim_space (fa_PRURL f) = [] then reason
      else reason @ '' (state='' @ empty_as_unknown (fa_State f) @ ''): '' @ fa_PRURL f)"
| "error_text (OtherError s) = s"
| "error_text (Wrapped s e) = s @ '': '' @ error_text e"

fun as_terminal :: "go_error \<Rightarrow> Facts option" where
  "as_terminal (TerminalPR f) = Some f"
| "as_terminal (OtherError s) = None"
| "as_terminal (Wrapped s e) = as_terminal e"

text \<open>The client answers state and merged flag, or an error; \<open>None\<close> is the nil client.\<close>

definition MergedFacts ::
    "(string \<Rightarrow> error_message + string \<times> bool) option \<Rightarrow> string \<Rightarrow> error_message + Facts option" where
  "MergedFacts client prURL0 =
     (let prURL = trim_space prURL0 in
      case client of
        None \<Rightarrow> Inr None
      | Some f \<Rightarrow>
          if prURL = [] then Inr None
          else (case f prURL of
                  Inl err \<Rightarrow> Inl err
                | Inr (state, merged) \<Rightarrow>
                    if \<not> merged then Inr None
                    else Inr (Some \<lparr>fa_PRURL = prURL, fa_State = state, fa_Reason = ReasonAlreadyMerged\<rparr>)))"

definition FactsFromError :: "go_error \<Rightarrow> string \<Rightarrow> Facts option" where
  "FactsFromError err fallbackPRURL =
     (case as_terminal err of
        None \<Rightarrow> None
      | Some f \<Rightarrow>
          Some \<lparr>fa_PRURL = (if trim_space (fa_PRURL f) = [] then trim_space fallbackPRURL else fa_PRURL f),
                fa_State = fa_State f,
                fa_Reason = (if trim_space (fa_Reason f) = [] then ReasonAlreadyMerged else fa_Reason f)\<rparr>)"

section \<open>Properties\<close>

lemma splitAuthorLogins_visible: "x \<in> set (splitAuthorLogins v) \<Longrightarrow> x \<noteq> [] \<and> trim_space x = x"
  by (auto simp: splitAuthorLogins_def)

lemma AllowsPRAuthor_iff:
  "AllowsPRAuthor p login \<longleftrightarrow> trim_space login \<noteq> [] \<and> trim_space login \<in> set (op_logins p)"
  by (auto simp: AllowsPRAuthor_def Let_def list_ex_iff)

text \<open>
  An author is the machine's own exactly when the trimmed login is one of the logins of the
  first configured source: for GitLab the config override, then the environment override; else
  the GitHub override, then the App's expected logins.  A blank login never is, and without any
  configured login nobody is.
\<close>

theorem pr_author_allowed_iff:
  "AllowsPRAuthor (NewPolicy i) login \<longleftrightarrow>
     trim_space login \<noteq> [] \<and>
     trim_space login \<in> set
       (if equal_fold (trim_space (oi_Provider i)) ''gitlab''
        then (if splitAuthorLogins (oi_GitLabPRAuthorOverride i) \<noteq> []
              then splitAuthorLogins (oi_GitLabPRAuthorOverride i) else splitAuthorLogins (oi_GitLabEnvPRAuthorOverride i))
        else if splitAuthorLogins (oi_GitHubPRAuthorOverride i) \<noteq> []
        then splitAuthorLogins (oi_GitHubPRAuthorOverride i) else oi_GitHubAppExpectedLogins i)"
  unfolding AllowsPRAuthor_iff NewPolicy_def ProviderGitLab_def Let_def by (simp split: if_split)

fun wrap_all :: "string list \<Rightarrow> go_error \<Rightarrow> go_error" where
  "wrap_all [] e = e"
| "wrap_all (s # ss) e = Wrapped s (wrap_all ss e)"

lemma as_terminal_wrap_all [simp]: "as_terminal (wrap_all ss e) = as_terminal e"
  by (induction ss) simp_all

text \<open>
  The facts of a merged pull request survive being returned as an error: whatever layers wrap
  it, \<open>FactsFromError\<close> finds the same URL, state and reason again and ignores the fallback.
\<close>

theorem merged_facts_survive_wrapping:
  assumes "MergedFacts client url = Inr (Some f)"
  shows "FactsFromError (wrap_all layers (TerminalPR f)) fallback = Some f
         \<and> fa_Reason f = ReasonAlreadyMerged \<and> fa_PRURL f = trim_space url"
proof -
  have "trim_space url \<noteq> []" "fa_PRURL f = trim_space url" "fa_Reason f = ReasonAlreadyMerged"
    using assms by (auto simp: MergedFacts_def Let_def split: option.splits if_splits sum.splits prod.splits)
  moreover have "trim_space ReasonAlreadyMerged \<noteq> []"
    by (simp add: ReasonAlreadyMerged_def trim_space_empty_iff is_space_def)
  ultimately show ?thesis by (cases f) (simp add: FactsFromError_def)
qed

theorem merged_facts_survive_wrapping_witness:
  "FactsFromError (wrap_all [''merge'', ''handoff''] (TerminalPR \<lparr>fa_PRURL = ''u'', fa_State = ''MERGED'', fa_Reason = ReasonAlreadyMerged\<rparr>)) []
     = Some \<lparr>fa_PRURL = ''u'', fa_State = ''MERGED'', fa_Reason = ReasonAlreadyMerged\<rparr>"
proof -
  have "MergedFacts (Some (\<lambda>_. Inr (''MERGED'', True))) '' u ''
        = Inr (Some \<lparr>fa_PRURL = ''u'', fa_State = ''MERGED'', fa_Reason = ReasonAlreadyMerged\<rparr>)"
    by code_simp
  from merged_facts_survive_wrapping [OF this] show ?thesis by blast
qed

end
