(* ===== verification/GoPath.thy ===== *)
theory GoPath
  imports Prelude
begin

text \<open>
  What the program uses of packages \<open>path\<close> and \<open>path/filepath\<close> on a Unix system: \<open>Clean\<close>,
  \<open>Base\<close>, \<open>Dir\<close>, \<open>Join\<close> of two elements, and \<open>path.Match\<close>.  The glob matcher follows the standard library's
  algorithm chunk by chunk (it commits to the leftmost match of a chunk after a star), on
  single-byte characters; a malformed pattern and a mismatch are both \<open>None\<close> or \<open>False\<close>, which
  is all the program looks at.
\<close>

definition slash :: char where "slash = CHR ''/''"
definition backslash :: char where "backslash = CHR 0x5C"

section \<open>Clean, Base, Dir, Join\<close>

text \<open>The elements kept so far are on a stack, last first.\<close>

fun clean_loop :: "bool \<Rightarrow> string list \<Rightarrow> string list \<Rightarrow> string list" where
  "clean_loop rooted stack [] = stack"
| "clean_loop rooted stack (e # es) =
     (if e = [] \<or> e = ''.'' then clean_loop rooted stack es
      else if e = ''..'' then
        (if stack \<noteq> [] \<and> hd stack \<noteq> ''..'' then clean_loop rooted (tl stack) es
         else if rooted then clean_loop rooted stack es
         else clean_loop rooted (''..'' # stack) es)
      else clean_loop rooted (e # stack) es)"

definition rooted :: "string \<Rightarrow> bool" where
  "rooted p \<longleftrightarrow> p \<noteq> [] \<and> hd p = slash"

definition clean :: "string \<Rightarrow> string" where
  "clean p =
     (let elems = rev (clean_loop (rooted p) [] (split_on slash p)); body = join [slash] elems in
      if rooted p then slash # body else if body = [] then ''.'' else body)"

definition strip_slashes :: "string \<Rightarrow> string" where
  "strip_slashes p = rev (dropWhile (\<lambda>c. c = slash) (rev p))"

definition base :: "string \<Rightarrow> string" where
  "base p = (if p = [] then ''.''
             else let s = last (split_on slash (strip_slashes p)) in if s = [] then [slash] else s)"

definition dir :: "string \<Rightarrow> string" where
  "dir p = clean (rev (dropWhile (\<lambda>c. c \<noteq> slash) (rev p)))"

definition join2 :: "string \<Rightarrow> string \<Rightarrow> string" where
  "join2 a b = (if a = [] \<and> b = [] then [] else if a = [] then clean b else if b = [] then clean a
                else clean (a @ [slash] @ b))"

section \<open>Match\<close>

fun get_esc :: "string \<Rightarrow> (char \<times> string) option" where
  "get_esc [] = None"
| "get_esc (c # r) =
     (if c = CHR ''-'' \<or> c = CHR '']'' then None
      else if c = backslash then (case r of [] \<Rightarrow> None | d # r' \<Rightarrow> if r' = [] then None else Some (d, r'))
      else if r = [] then None else Some (c, r))"

lemma get_esc_length: "get_esc s = Some (c, r) \<Longrightarrow> length r < length s"
  by (cases s) (auto split: if_splits list.splits)

function class_loop :: "bool \<Rightarrow> char \<Rightarrow> bool \<Rightarrow> string \<Rightarrow> (bool \<times> string) option" where
  "class_loop some_range r hit chunk =
     (if some_range \<and> chunk \<noteq> [] \<and> hd chunk = CHR '']'' then Some (hit, tl chunk)
      else (case get_esc chunk of
              None \<Rightarrow> None
            | Some (lo, chunk1) \<Rightarrow>
                (if hd chunk1 = CHR ''-'' then
                   (case get_esc (tl chunk1) of
                      None \<Rightarrow> None
                    | Some (hi, chunk2) \<Rightarrow> class_loop True r (hit \<or> (lo \<le> r \<and> r \<le> hi)) chunk2)
                 else class_loop True r (hit \<or> lo = r) chunk1)))"
  by auto
termination
  apply (relation "measure (\<lambda>(b, r, h, chunk). length chunk)")
    apply simp
   apply (fastforce dest!: get_esc_length)
  apply (fastforce dest!: get_esc_length)
  done

lemma class_loop_length: "class_loop b r h s = Some (m, t) \<Longrightarrow> length t < length s"
proof (induction b r h s rule: class_loop.induct)
  case (1 b r h s)
  show ?case
  proof (cases "b \<and> s \<noteq> [] \<and> hd s = CHR '']''")
    case True
    then show ?thesis using "1.prems" by (cases s) (auto simp: class_loop.simps [of b])
  next
    case False
    with "1.prems" obtain lo s1 where g: "get_esc s = Some (lo, s1)"
      by (subst (asm) class_loop.simps) (auto split: option.splits)
    show ?thesis
    proof (cases "hd s1 = CHR ''-''")
      case True
      with False g "1.prems" obtain hi s2 where g2: "get_esc (tl s1) = Some (hi, s2)"
        by (subst (asm) class_loop.simps) (auto split: option.splits)
      have "class_loop True r (h \<or> (lo \<le> r \<and> r \<le> hi)) s2 = Some (m, t)"
        using False g g2 True "1.prems" by (subst (asm) class_loop.simps) (auto split: if_splits)
      then have "length t < length s2" using "1.IH"(1) [OF False g refl True g2 refl] by blast
      then show ?thesis using get_esc_length [OF g] get_esc_length [OF g2] by (cases s1) auto
    next
      case nodash: False
      have "class_loop True r (h \<or> lo = r) s1 = Some (m, t)"
        using False g nodash "1.prems" by (subst (asm) class_loop.simps) (auto split: if_splits)
      then have "length t < length s1" using "1.IH"(2) [OF False g refl nodash] by blast
      then show ?thesis using get_esc_length [OF g] by simp
    qed
  qed
qed

definition class_head :: "string \<Rightarrow> bool \<times> string" where
  "class_head chunk = (if chunk \<noteq> [] \<and> hd chunk = CHR ''^'' then (True, tl chunk) else (False, chunk))"

declare class_loop.simps [simp del]

lemma class_head_length: "class_head chunk = (neg, c) \<Longrightarrow> length c \<le> length chunk"
  by (auto simp: class_head_def split: if_splits)

text \<open>\<open>match_chunk chunk s\<close> is the rest of \<open>s\<close> behind a match of the star-free \<open>chunk\<close>.\<close>

function match_chunk :: "string \<Rightarrow> string \<Rightarrow> string option" where
  "match_chunk [] s = Some s"
| "match_chunk (c # chunk) [] = None"
| "match_chunk (c # chunk) (d # s) =
     (if c = CHR ''['' then
        (case class_loop False d False (snd (class_head chunk)) of
           None \<Rightarrow> None
         | Some (hit, chunk') \<Rightarrow> if hit = fst (class_head chunk) then None else match_chunk chunk' s)
      else if c = CHR ''?'' then (if d = slash then None else match_chunk chunk s)
      else if c = backslash then
        (case chunk of [] \<Rightarrow> None | e # chunk' \<Rightarrow> if e = d then match_chunk chunk' s else None)
      else if c = d then match_chunk chunk s else None)"
  by pat_completeness auto
termination
  by (relation "measure (length o fst)")
     (auto dest!: class_loop_length simp: class_head_def split: if_splits)

text \<open>\<open>chunks star acc inrange p\<close>: the pattern cut at its stars, each chunk with whether a star precedes it.\<close>

fun chunks :: "bool \<Rightarrow> string \<Rightarrow> bool \<Rightarrow> string \<Rightarrow> (bool \<times> string) list" where
  "chunks star acc inrange [] = (if star \<or> acc \<noteq> [] then [(star, rev acc)] else [])"
| "chunks star acc inrange (c # p) =
     (if c = backslash then
        (case p of [] \<Rightarrow> [(star, rev (c # acc))] | d # p' \<Rightarrow> chunks star (d # c # acc) inrange p')
      else if c = CHR ''['' then chunks star (c # acc) True p
      else if c = CHR '']'' then chunks star (c # acc) False p
      else if c = CHR ''*'' \<and> \<not> inrange then
        (if acc = [] then chunks True [] False p else (star, rev acc) # chunks True [] False p)
      else chunks star (c # acc) inrange p)"

fun star_find :: "string \<Rightarrow> bool \<Rightarrow> string \<Rightarrow> string option" where
  "star_find chunk final [] = None"
| "star_find chunk final (c # s) =
     (if c = slash then None
      else (case match_chunk chunk s of
              Some t \<Rightarrow> if final \<and> t \<noteq> [] then star_find chunk final s else Some t
            | None \<Rightarrow> star_find chunk final s))"

fun glob :: "(bool \<times> string) list \<Rightarrow> string \<Rightarrow> bool" where
  "glob [] name = (name = [])"
| "glob ((star, chunk) # cs) name =
     (if star \<and> chunk = [] then slash \<notin> set name
      else (case match_chunk chunk name of
              Some t \<Rightarrow>
                (if t = [] \<or> cs \<noteq> [] then glob cs t
                 else if star then (case star_find chunk (cs = []) name of None \<Rightarrow> False | Some t' \<Rightarrow> glob cs t')
                 else False)
            | None \<Rightarrow>
                (if star then (case star_find chunk (cs = []) name of None \<Rightarrow> False | Some t' \<Rightarrow> glob cs t')
                 else False)))"

definition path_match :: "string \<Rightarrow> string \<Rightarrow> bool" where
  "path_match pattern name = glob (chunks False [] False pattern) name"

section \<open>Lemmas\<close>

lemma clean_nonempty [simp]: "clean p \<noteq> []"
  by (simp add: clean_def Let_def)

definition good_elems :: "(string \<Rightarrow> bool) \<Rightarrow> string list \<Rightarrow> bool" where
  "good_elems Q es \<longleftrightarrow> list_all (\<lambda>e. e \<noteq> [] \<and> Q e) es"

lemma good_elems_simps [simp]:
  "good_elems Q []" "good_elems Q (e # es) \<longleftrightarrow> (e \<noteq> [] \<and> Q e) \<and> good_elems Q es"
  by (auto simp: good_elems_def)

lemma good_elems_tl: "good_elems Q es \<Longrightarrow> good_elems Q (tl es)"
  by (cases es) auto

lemma clean_loop_pred:
  assumes "Q ''..''"
  shows "good_elems Q stack \<Longrightarrow> list_all Q es \<Longrightarrow> good_elems Q (clean_loop r stack es)"
proof (induction es arbitrary: stack)
  case Nil
  then show ?case by simp
next
  case (Cons e es)
  then have es: "list_all Q es" and e: "Q e" and s: "good_elems Q stack" by simp_all
  have "good_elems Q (clean_loop r stack es)" "good_elems Q (clean_loop r (tl stack) es)"
    "good_elems Q (clean_loop r (''..'' # stack) es)"
    "e \<noteq> [] \<Longrightarrow> good_elems Q (clean_loop r (e # stack) es)"
    using Cons.IH es e s assms good_elems_tl by simp_all
  then show ?case by (simp only: clean_loop.simps split: if_split) blast
qed

lemma split_on_no_sep: "\<forall>x \<in> set (split_on sep s). sep \<notin> set x"
  by (induction s) (auto split: list.splits)

lemma last_join: "xs \<noteq> [] \<Longrightarrow> [] \<notin> set xs \<Longrightarrow> last (join sep xs) = last (last xs)"
proof (induction sep xs rule: join.induct)
  case (3 sep x y ys)
  then have "join sep (y # ys) \<noteq> []"
    by (cases ys) auto
  with 3 show ?case by (simp add: last_append)
qed auto

text \<open>A cleaned path never ends in a slash, unless it is the root.\<close>

lemma clean_no_trailing_slash: "clean p \<noteq> [slash] \<Longrightarrow> last (clean p) \<noteq> slash"
proof -
  assume root: "clean p \<noteq> [slash]"
  define elems where "elems = rev (clean_loop (rooted p) [] (split_on slash p))"
  have all: "\<forall>e \<in> set elems. e \<noteq> [] \<and> slash \<notin> set e"
    using clean_loop_pred [of "\<lambda>e. slash \<notin> set e" "[]" "split_on slash p" "rooted p"] split_on_no_sep [of slash p]
    by (simp add: elems_def good_elems_def list_all_iff slash_def)
  have cl: "clean p = (let body = join [slash] elems in
      if rooted p then slash # body else if body = [] then ''.'' else body)"
    by (simp add: clean_def Let_def elems_def)
  show ?thesis
  proof (cases "elems = []")
    case True
    then show ?thesis using root cl by (auto simp: slash_def split: if_splits)
  next
    case False
    then have l: "last elems \<in> set elems" by simp
    have "last (join [slash] elems) = last (last elems)"
      using False all by (intro last_join) auto
    moreover have "slash \<noteq> last (last elems)"
      using all l last_in_set by metis
    moreover have "join [slash] elems \<noteq> []"
      using False all by (auto simp: join_eq_Nil_iff)
    ultimately show ?thesis using cl by (auto simp: Let_def)
  qed
qed

end
