(* ===== verification/ScopeGuard.thy ===== *)
theory ScopeGuard
  imports GoPath
begin

text \<open>
  internal/scopeguard/scopeguard.go: the path contract read from an issue description and the
  check of the changed files against it.  The git command that lists the changed files is
  outside; its output is the argument of \<open>nonEmptyLines\<close>, and a failure of it is \<open>None\<close>.
\<close>

record scope_result =
  sg_Checked :: bool
  sg_Warnings :: "string list"
  sg_Violations :: "string list"

definition Blocks :: "scope_result \<Rightarrow> bool" where
  "Blocks r \<longleftrightarrow> sg_Violations r \<noteq> []"

definition Summary :: "scope_result \<Rightarrow> string" where
  "Summary r = join ''; '' (sg_Violations r @ sg_Warnings r)"

section \<open>Rules\<close>

record scopePathRule = sp_Pattern :: string

record scopeContract =
  sk_HasContract :: bool
  sk_Allowed :: "scopePathRule list"
  sk_OutOfScope :: "scopePathRule list"

definition Matches :: "scopePathRule \<Rightarrow> string \<Rightarrow> bool" where
  "Matches r file =
     (let pattern = trim_space (sp_Pattern r) in
      if pattern = [] then False
      else if has_suffix pattern ''/'' then has_prefix file pattern
      else if has_suffix pattern ''/*'' then has_prefix file (trim_suffix ''*'' pattern)
      else if contains_any pattern ''*?[{'' then path_match pattern file
      else file = pattern)"

section \<open>Reading the contract\<close>

definition isMachineReadableScopePath :: "string \<Rightarrow> bool" where
  "isMachineReadableScopePath value \<longleftrightarrow>
     (if value = [] \<or> contains value '' '' \<or> has_prefix value ''http'' then False
      else contains value ''/'' \<or> contains value ''.'' \<or> contains_any value ''*?['')"

definition backtick :: char where "backtick = CHR 0x60"

text \<open>All matches of the expression \<open>`([^`]+)`\<close>, leftmost and not overlapping.\<close>

function codeSpans :: "string \<Rightarrow> string list" where
  "codeSpans [] = []"
| "codeSpans (c # s) =
     (if c \<noteq> backtick then codeSpans s
      else let body = takeWhile (\<lambda>x. x \<noteq> backtick) s; rest = dropWhile (\<lambda>x. x \<noteq> backtick) s in
           if body = [] \<or> rest = [] then codeSpans s else body # codeSpans (tl rest))"
  by pat_completeness auto
termination
  by (relation "measure length") (auto simp: less_Suc_eq_le intro: le_trans [OF diff_le_self length_dropWhile_le])

definition clean_candidate :: "string \<Rightarrow> string" where
  "clean_candidate candidate =
     replace_char backslash slash (trim_prefix ''./'' (trim_chars '' ,.;:()[]'' candidate))"

definition pathPatternsFromScopeBullet :: "string \<Rightarrow> string list" where
  "pathPatternsFromScopeBullet line0 =
     (let line = trim_space (trim_chars_left ''-* '' (trim_space line0)) in
      if equal_fold line ''none'' \<or> has_prefix (to_lower line) ''no '' then []
      else let spans = codeSpans line;
               candidates = (if spans \<noteq> [] then spans
                             else case Fields line of [] \<Rightarrow> [] | f # fs \<Rightarrow> [f])
           in map clean (filter isMachineReadableScopePath (map clean_candidate candidates)))"

definition allowed_headings :: "string list" where
  "allowed_headings = [''allowed paths'', ''allowed path'']"

definition out_headings :: "string list" where
  "out_headings = [''out of scope'', ''out-of-scope'', ''out of scope paths'', ''out-of-scope paths'',
                   ''out of scope path'', ''out-of-scope path'']"

definition scope_line :: "string \<times> scopeContract \<Rightarrow> string \<Rightarrow> string \<times> scopeContract" where
  "scope_line st line =
     (let section = fst st; contract = snd st;
          trimmed = trim_space line; lower = to_lower (trim_chars ''# :'' trimmed) in
      if trimmed = [] then (section, contract)
      else if lower \<in> set allowed_headings then (''allowed'', contract\<lparr>sk_HasContract := True\<rparr>)
      else if lower \<in> set out_headings then (''out'', contract\<lparr>sk_HasContract := True\<rparr>)
      else if has_prefix trimmed ''##'' \<and> \<not> contains lower ''allowed'' \<and> \<not> contains lower ''scope'' then ([], contract)
      else if section = [] \<or> \<not> (has_prefix trimmed ''-'' \<or> has_prefix trimmed ''*'') then (section, contract)
      else let rules = map (\<lambda>p. \<lparr>sp_Pattern = p\<rparr>) (pathPatternsFromScopeBullet trimmed) in
        (section,
          if section = ''allowed'' then contract\<lparr>sk_Allowed := sk_Allowed contract @ rules\<rparr>
          else contract\<lparr>sk_OutOfScope := sk_OutOfScope contract @ rules\<rparr>))"

definition parseScopeContract :: "string \<Rightarrow> scopeContract" where
  "parseScopeContract description =
     snd (foldl scope_line ([], \<lparr>sk_HasContract = False, sk_Allowed = [], sk_OutOfScope = []\<rparr>)
       (split_on newline description))"

section \<open>The check\<close>

definition out_violation :: "string \<Rightarrow> scopePathRule \<Rightarrow> string" where
  "out_violation file rule =
     ''scope guard violation: '' @ file @ '' matches Out of scope path '' @ sp_Pattern rule"

definition not_allowed_violation :: "string \<Rightarrow> string" where
  "not_allowed_violation file = ''scope guard violation: '' @ file @ '' is outside Allowed paths''"

definition file_violations :: "scopeContract \<Rightarrow> string \<Rightarrow> string list" where
  "file_violations contract file =
     (let f = clean (trim_space file) in
      if f = ''.'' \<or> f = [] then []
      else (case find (\<lambda>rule. Matches rule f) (sk_OutOfScope contract) of
              None \<Rightarrow> [] | Some rule \<Rightarrow> [out_violation f rule])
           @ (if sk_Allowed contract = [] then []
              else if list_ex (\<lambda>rule. Matches rule f) (sk_Allowed contract) then []
              else [not_allowed_violation f]))"

definition Evaluate :: "string \<Rightarrow> string list \<Rightarrow> scope_result" where
  "Evaluate description changedFiles =
     (let contract = parseScopeContract description;
          result = \<lparr>sg_Checked = sk_HasContract contract, sg_Warnings = [], sg_Violations = []\<rparr> in
      if changedFiles = [] then result
      else if \<not> sk_HasContract contract then
        result\<lparr>sg_Warnings :=
          [''scope guard warning: no machine-readable Allowed paths or Out of scope paths contract found'']\<rparr>
      else result\<lparr>sg_Warnings :=
              (if sk_Allowed contract = []
               then [''scope guard warning: no machine-readable Allowed paths entries found''] else []),
            sg_Violations := sort (concat (map (file_violations contract) changedFiles))\<rparr>)"

definition nonEmptyLines :: "string \<Rightarrow> string list" where
  "nonEmptyLines output = filter (\<lambda>l. l \<noteq> []) (map trim_space (split_on newline output))"

text \<open>\<open>CheckContext\<close>: the diff command's output, or its error.\<close>

definition scope_diff_base :: "string \<Rightarrow> string" where
  "scope_diff_base baseBranch = (let b = trim_space baseBranch in ''origin/'' @ (if b = [] then ''main'' else b))"

definition CheckContext :: "(string \<Rightarrow> error_message + string) \<Rightarrow> string \<Rightarrow> string \<Rightarrow> error_message + scope_result" where
  "CheckContext git_diff description baseBranch =
     (case git_diff (scope_diff_base baseBranch) of
        Inl err \<Rightarrow> Inl (''scope guard changed-file lookup failed: '' @ err)
      | Inr output \<Rightarrow> Inr (Evaluate description (nonEmptyLines output)))"

section \<open>Lemmas\<close>

definition in_scope :: "scopeContract \<Rightarrow> string \<Rightarrow> bool" where
  "in_scope contract f \<longleftrightarrow>
     \<not> list_ex (\<lambda>rule. Matches rule f) (sk_OutOfScope contract)
     \<and> (sk_Allowed contract = [] \<or> list_ex (\<lambda>rule. Matches rule f) (sk_Allowed contract))"

lemma file_violations_Nil_iff:
  "file_violations contract file = [] \<longleftrightarrow>
     clean (trim_space file) = ''.'' \<or> in_scope contract (clean (trim_space file))"
proof -
  let ?f = "clean (trim_space file)" and ?out = "find (\<lambda>rule. Matches rule (clean (trim_space file))) (sk_OutOfScope contract)"
  have "?out = None \<longleftrightarrow> \<not> list_ex (\<lambda>rule. Matches rule ?f) (sk_OutOfScope contract)"
    by (auto simp: find_None_iff list_ex_iff)
  then show ?thesis
    unfolding file_violations_def in_scope_def Let_def by (cases ?out) simp_all
qed

definition clean_rules :: "scopePathRule list \<Rightarrow> bool" where
  "clean_rules rs \<longleftrightarrow> list_all (\<lambda>r. sp_Pattern r = [slash] \<or> \<not> has_suffix (sp_Pattern r) [slash]) rs"

lemma has_suffix_last: "s \<noteq> [] \<Longrightarrow> has_suffix s [c] \<longleftrightarrow> last s = c"
  by (cases s rule: rev_cases) (auto simp: has_suffix_def has_prefix_def)

lemma clean_rules_bullet: "clean_rules (map (\<lambda>p. \<lparr>sp_Pattern = p\<rparr>) (pathPatternsFromScopeBullet l))"
  unfolding clean_rules_def pathPatternsFromScopeBullet_def Let_def
  using clean_no_trailing_slash by (auto simp: list_all_iff has_suffix_last)

lemma clean_rules_append [simp]: "clean_rules (xs @ ys) \<longleftrightarrow> clean_rules xs \<and> clean_rules ys"
  by (simp add: clean_rules_def)

text \<open>What every line keeps: rules only under a heading, and clean ones.\<close>

definition contract_inv :: "string \<times> scopeContract \<Rightarrow> bool" where
  "contract_inv st \<longleftrightarrow>
     (sk_HasContract (snd st) \<or> fst st = [] \<and> sk_Allowed (snd st) = [] \<and> sk_OutOfScope (snd st) = [])
     \<and> clean_rules (sk_Allowed (snd st)) \<and> clean_rules (sk_OutOfScope (snd st))"

lemma scope_line_inv: "contract_inv st \<Longrightarrow> contract_inv (scope_line st line)"
proof -
  assume inv: "contract_inv st"
  define rules where "rules = map (\<lambda>p. \<lparr>sp_Pattern = p\<rparr>) (pathPatternsFromScopeBullet (trim_space line))"
  have "clean_rules rules" by (simp add: rules_def clean_rules_bullet)
  then have
    "contract_inv (fst st, snd st)"
    "contract_inv (''allowed'', (snd st)\<lparr>sk_HasContract := True\<rparr>)"
    "contract_inv (''out'', (snd st)\<lparr>sk_HasContract := True\<rparr>)"
    "contract_inv ([], snd st)"
    "fst st \<noteq> [] \<Longrightarrow> contract_inv (fst st, (snd st)\<lparr>sk_Allowed := sk_Allowed (snd st) @ rules\<rparr>)"
    "fst st \<noteq> [] \<Longrightarrow> contract_inv (fst st, (snd st)\<lparr>sk_OutOfScope := sk_OutOfScope (snd st) @ rules\<rparr>)"
    using inv by (auto simp: contract_inv_def)
  then show "contract_inv (scope_line st line)"
    unfolding scope_line_def Let_def rules_def [symmetric] by (simp only: split: if_split) blast
qed

lemma contract_inv_fold: "contract_inv st \<Longrightarrow> contract_inv (foldl scope_line st ls)"
  by (induction ls arbitrary: st) (simp_all add: scope_line_inv)

lemma parseScopeContract_inv:
  "\<exists>s. contract_inv (s, parseScopeContract d)"
proof -
  have "contract_inv ([], \<lparr>sk_HasContract = False, sk_Allowed = [], sk_OutOfScope = []\<rparr>)"
    by (simp add: contract_inv_def clean_rules_def)
  then have "contract_inv (foldl scope_line ([], \<lparr>sk_HasContract = False, sk_Allowed = [], sk_OutOfScope = []\<rparr>)
               (split_on newline d))" by (rule contract_inv_fold)
  then show ?thesis unfolding parseScopeContract_def by (metis prod.collapse)
qed

section \<open>Properties\<close>



text \<open>
  A contract has rules only under one of its headings, and a rule read from a description
  never ends in a slash (unless it is the root): the bullets go through \<open>path.Clean\<close>, so the
  directory branch of \<open>Matches\<close> is never taken for them.
\<close>

theorem parsed_rules_clean:
  "clean_rules (sk_Allowed (parseScopeContract d)) \<and> clean_rules (sk_OutOfScope (parseScopeContract d))
   \<and> (sk_Allowed (parseScopeContract d) = [] \<and> sk_OutOfScope (parseScopeContract d) = []
      \<or> sk_HasContract (parseScopeContract d))"
  using parseScopeContract_inv [of d] by (auto simp: contract_inv_def)

text \<open>
  As a consequence a directory bullet protects nothing: with \<open>secrets/\<close> listed as out of scope
  a change of \<open>secrets/key.pem\<close> passes the guard, although the rule as written would match it.
\<close>

theorem directory_bullet_protects_nothing:
  "Matches \<lparr>sp_Pattern = ''secrets/''\<rparr> ''secrets/key.pem''
   \<and> sk_OutOfScope (parseScopeContract (''Out of scope:'' @ [newline] @ ''- secrets/'')) = [\<lparr>sp_Pattern = ''secrets''\<rparr>]
   \<and> \<not> Blocks (Evaluate (''Out of scope:'' @ [newline] @ ''- secrets/'') [''secrets/key.pem''])"
  by code_simp

end
