(* ===== verification/CleanupPolicy.thy ===== *)
theory CleanupPolicy
  imports Gate
begin

text \<open>
  internal/cleanup/policy.go: which run statuses are terminal, the category a status falls into,
  and the gate result of a decision to delete or keep a workspace.
\<close>

record CleanupDecision =
  cd_Delete :: bool
  cd_Reason :: string
  cd_Category :: string
  cd_IssueIdentifier :: string
  cd_ArtifactRef :: string
  cd_WorkspacePath :: string

definition zero_CleanupDecision :: CleanupDecision where
  "zero_CleanupDecision = \<lparr>cd_Delete = False, cd_Reason = [], cd_Category = [], cd_IssueIdentifier = [],
                           cd_ArtifactRef = [], cd_WorkspacePath = []\<rparr>"

definition GateCode :: "string \<Rightarrow> string" where
  "GateCode category =
     (if trim_space category = [] then ''cleanup_blocked''
      else ''cleanup_'' @ replace_char CHR ''-'' CHR ''_'' (trim_space category))"

definition GateResult :: "CleanupDecision \<Rightarrow> Result" where
  "GateResult decision =
     (let result = (NewResult ''cleanup'' (first_non_empty [cd_IssueIdentifier decision, cd_WorkspacePath decision]))
                     \<lparr>gr_ReasonText := cd_Reason decision\<rparr>;
          metadata = put_if (cd_WorkspacePath decision \<noteq> []) ''workspace_path'' (cd_WorkspacePath decision)
                      (put_if (cd_ArtifactRef decision \<noteq> []) ''artifact_ref'' (cd_ArtifactRef decision)
                        (put_if (cd_Category decision \<noteq> []) ''category'' (cd_Category decision) []));
          result = result\<lparr>gr_Metadata := metadata\<rparr>
      in if cd_Delete decision then result\<lparr>gr_NextAction := ''delete_workspace''\<rparr>
         else if cd_Category decision = ''reconciliation-needed''
         then ReconciliationNeeded result (GateCode (cd_Category decision)) (cd_Reason decision)
                ''repair_or_reconcile_cleanup_state''
         else (Block result (GateCode (cd_Category decision)) (cd_Reason decision))\<lparr>gr_NextAction := ''keep_workspace''\<rparr>)"

definition DeletionResult :: "CleanupDecision \<Rightarrow> string \<Rightarrow> string" where
  "DeletionResult decision fallback =
     (if cd_Category decision = ''reconciliation-needed'' then ''reconciliation_needed'' else fallback)"

definition CategoryForTerminalStatus :: "string \<Rightarrow> string" where
  "CategoryForTerminalStatus status =
     (if status = ''success'' then ''completed''
      else if status = ''canceled'' \<or> status = ''cancelled'' then ''canceled''
      else if status = ''review_failed'' then ''failed-review''
      else if status = ''needs_info'' \<or> status = ''needs_info_failed'' then ''needs-info''
      else if status = ''timeout'' then ''timeout''
      else if status = ''budget_exceeded'' then ''budget-exceeded''
      else if status = ''merged'' then ''merged''
      else if status = ''superseded'' then ''superseded''
      else if status = ''manual_repair'' then ''manual-repair''
      else ''failed'')"

definition terminal_statuses :: "string list" where
  "terminal_statuses = [''success'', ''review_failed'', ''failed'', ''github_app_error'', ''canceled'', ''cancelled'',
     ''needs_info'', ''needs_info_failed'', ''timeout'', ''budget_exceeded'', ''merged'', ''superseded'', ''manual_repair'']"

definition TerminalRunStatus :: "string \<Rightarrow> bool" where
  "TerminalRunStatus status \<longleftrightarrow> status \<in> set terminal_statuses"

section \<open>Properties\<close>

lemma GateResult_Passed_iff: "Passed (GateResult d) \<longleftrightarrow> cd_Delete d"
  by (simp add: GateResult_def Let_def policy_defs)

lemma GateResult_inv: "gate_inv (GateResult d)"
  by (simp add: GateResult_def Let_def gate_inv_def policy_defs)

lemma GateCode_codes: "trim_space (GateCode c) \<noteq> []"
  by (simp add: GateCode_def trim_space_empty_iff is_space_def)

text \<open>
  The cleanup gate is passed, with next action \<open>delete_workspace\<close>, exactly for a decision to
  delete; a decision to keep has exactly one blocker whose code starts with \<open>cleanup_\<close>, and the
  status tells a reconciliation case from an ordinary block.
\<close>

theorem cleanup_gate_exact:
  "(Passed (GateResult d) \<longleftrightarrow> cd_Delete d)
   \<and> (gr_NextAction (GateResult d) = ''delete_workspace'' \<longleftrightarrow> cd_Delete d)
   \<and> gate_inv (GateResult d)
   \<and> length (gr_Blockers (GateResult d)) = (if cd_Delete d then 0 else 1)
   \<and> list_all (\<lambda>b. has_prefix (bl_Code b) ''cleanup_'') (gr_Blockers (GateResult d))
   \<and> (gr_Status (GateResult d) = StatusReconciliationNeeded \<longleftrightarrow>
        \<not> cd_Delete d \<and> cd_Category d = ''reconciliation-needed'')"
proof -
  have "has_prefix (GateCode c) ''cleanup_''" for c
    by (simp add: GateCode_def has_prefix_def)
  then show ?thesis
    using GateResult_Passed_iff [of d] GateResult_inv [of d]
    by (auto simp: GateResult_def Let_def policy_defs)
qed

end
