(* ===== verification/AttemptLifecycle.thy ===== *)
theory AttemptLifecycle
  imports RunClassification ScopeGuard CleanupPolicy
begin

text \<open>
  internal/attemptlifecycle/attempt_lifecycle.go, which decides the status of a run attempt from
  the runner's facts, and the pure parts of internal/attemptoutcome/outcome.go.  A nil review is
  \<open>None\<close>.  The workspace and artifact lookups of \<open>Outcome.Record\<close> are arguments.
\<close>

type_synonym Phase = string

definition PhasePreflight :: Phase where "PhasePreflight = ''preflight''"
definition PhaseWorkspace :: Phase where "PhaseWorkspace = ''workspace''"
definition PhaseImplementation :: Phase where "PhaseImplementation = ''implementation''"
definition PhaseNeedsInfo :: Phase where "PhaseNeedsInfo = ''needs_info''"
definition PhaseValidation :: Phase where "PhaseValidation = ''validation''"
definition PhaseScopeGuard :: Phase where "PhaseScopeGuard = ''scope_guard''"
definition PhaseHandoff :: Phase where "PhaseHandoff = ''handoff''"
definition PhaseReviewReadiness :: Phase where "PhaseReviewReadiness = ''review_readiness''"
definition PhaseReview :: Phase where "PhaseReview = ''review''"
definition PhaseSuccess :: Phase where "PhaseSuccess = ''success''"

lemmas phase_defs = PhasePreflight_def PhaseWorkspace_def PhaseImplementation_def PhaseNeedsInfo_def
  PhaseValidation_def PhaseScopeGuard_def PhaseHandoff_def PhaseReviewReadiness_def PhaseReview_def PhaseSuccess_def

definition StatusSuccess :: string where "StatusSuccess = ''success''"
definition StatusFailed :: string where "StatusFailed = ''failed''"
definition StatusReviewFailed :: string where "StatusReviewFailed = ''review_failed''"
definition StatusReviewNotReady :: string where "StatusReviewNotReady = ''review_not_ready''"
definition StatusNeedsInfo :: string where "StatusNeedsInfo = ''needs_info''"
definition StatusNeedsInfoFail :: string where "StatusNeedsInfoFail = ''needs_info_failed''"
definition StatusTimeout :: string where "StatusTimeout = ''timeout''"
definition StatusBudgetExceeded :: string where "StatusBudgetExceeded = ''budget_exceeded''"

lemmas status_defs = StatusSuccess_def StatusFailed_def StatusReviewFailed_def StatusReviewNotReady_def
  StatusNeedsInfo_def StatusNeedsInfoFail_def StatusTimeout_def StatusBudgetExceeded_def

record lifecycle_input =
  li_Phase :: Phase
  li_PRURL :: string
  li_Review :: "ReviewResult option"
  li_ScopeResult :: scope_result
  li_ScopeError :: string
  li_RuntimeOutcome :: string
  li_RuntimeErrorKind :: string
  li_Error :: string
  li_BudgetExceeded :: string
  li_NeedsInfoQuestions :: "string list"
  li_ReviewNotReady :: bool

record lifecycle_decision =
  ld_Status :: string
  ld_TerminalOutcomeIntent :: string
  ld_NextAction :: string
  ld_PRRequired :: bool
  ld_CanResumeReview :: bool
  ld_OperatorAttentionRequired :: bool
  ld_ReviewStatus :: string
  ld_ReviewClassification :: string

definition ReviewFailureRoutesToHumanHandoff :: "ReviewResult option \<Rightarrow> string \<Rightarrow> bool" where
  "ReviewFailureRoutesToHumanHandoff review prURL \<longleftrightarrow>
     (case review of
        None \<Rightarrow> False
      | Some r \<Rightarrow> rv_Status r = ''failed'' \<and> rv_Classification r = MissingEvidenceOnly \<and> trim_space prURL \<noteq> [])"

definition review_not_passed :: "ReviewResult option \<Rightarrow> bool" where
  "review_not_passed review \<longleftrightarrow>
     (case review of None \<Rightarrow> False | Some r \<Rightarrow> rv_Status r \<noteq> [] \<and> rv_Status r \<noteq> ''passed'')"

definition lifecycleStatus :: "lifecycle_input \<Rightarrow> string" where
  "lifecycleStatus input =
     (if li_BudgetExceeded input \<noteq> [] \<or> li_RuntimeOutcome input = StatusBudgetExceeded then StatusBudgetExceeded
      else if li_RuntimeOutcome input = StatusTimeout \<or> li_RuntimeErrorKind input = StatusTimeout then StatusTimeout
      else if li_ReviewNotReady input \<or> li_Phase input = PhaseReviewReadiness then StatusReviewNotReady
      else if li_RuntimeOutcome input = StatusNeedsInfoFail then StatusNeedsInfoFail
      else if li_NeedsInfoQuestions input \<noteq> [] \<or> li_Phase input = PhaseNeedsInfo then StatusNeedsInfo
      else if Blocks (li_ScopeResult input) then StatusReviewFailed
      else if li_ScopeError input \<noteq> [] then StatusFailed
      else if review_not_passed (li_Review input) then
        (if ReviewFailureRoutesToHumanHandoff (li_Review input) (li_PRURL input) then StatusSuccess
         else StatusReviewFailed)
      else if li_Phase input = PhaseSuccess \<and> trim_space (li_PRURL input) \<noteq> [] then StatusSuccess
      else if li_Phase input = PhaseHandoff \<or> li_Phase input = PhasePreflight \<or> li_Phase input = PhaseValidation
              \<or> li_Phase input = PhaseImplementation \<or> li_RuntimeOutcome input = StatusFailed then StatusFailed
      else if trim_space (li_PRURL input) = [] then StatusFailed
      else StatusSuccess)"

definition lifecycleError :: "lifecycle_input \<Rightarrow> string" where
  "lifecycleError input =
     (if li_Error input \<noteq> [] then li_Error input
      else if li_BudgetExceeded input \<noteq> [] then li_BudgetExceeded input
      else if li_ScopeError input \<noteq> [] then li_ScopeError input
      else if li_NeedsInfoQuestions input \<noteq> [] then join [newline] (li_NeedsInfoQuestions input)
      else if li_ReviewNotReady input then ''review not ready''
      else if Blocks (li_ScopeResult input) then ''scope guard failed''
      else if review_not_passed (li_Review input)
              \<and> \<not> ReviewFailureRoutesToHumanHandoff (li_Review input) (li_PRURL input) then ''review did not pass''
      else if li_Phase input = PhaseHandoff \<and> trim_space (li_PRURL input) = [] then ''missing PR URL''
      else [])"

definition lifecyclePRRequired :: "lifecycle_input \<Rightarrow> string \<Rightarrow> bool" where
  "lifecyclePRRequired input status \<longleftrightarrow>
     (if status = StatusNeedsInfo \<or> status = StatusNeedsInfoFail then False
      else li_Phase input = PhaseHandoff \<or> li_Phase input = PhaseReviewReadiness \<or> li_Phase input = PhaseReview
           \<or> li_Phase input = PhaseSuccess \<or> trim_space (li_PRURL input) \<noteq> [])"

definition attempt_record :: "string \<Rightarrow> string \<Rightarrow> string \<Rightarrow> ReviewResult option \<Rightarrow> RunRecord" where
  "attempt_record status prURL err review =
     zero_RunRecord\<lparr>rr_Status := status, rr_PRURL := prURL, rr_Error := err,
       rr_ReviewStatus := (case review of None \<Rightarrow> [] | Some r \<Rightarrow> rv_Status r),
       rr_ReviewClassification := (case review of None \<Rightarrow> [] | Some r \<Rightarrow> rv_Classification r)\<rparr>"

definition classify_record :: "RunRecord \<Rightarrow> bool \<Rightarrow> Classification" where
  "classify_record record needsInfo =
     Classify \<lparr>ci_Record = record, ci_FeedbackRetryCount = 0, ci_NeedsInfoUsed = needsInfo,
               ci_MergeBlockReason = [], ci_TotalTokens = 0\<rparr>"

definition Decide :: "lifecycle_input \<Rightarrow> lifecycle_decision" where
  "Decide input =
     (let record = attempt_record (lifecycleStatus input) (trim_space (li_PRURL input)) (lifecycleError input) (li_Review input);
          status = rr_Status record;
          c = classify_record record
                (status = StatusNeedsInfo \<or> status = StatusNeedsInfoFail \<or> li_NeedsInfoQuestions input \<noteq> []);
          scope_failed = (status = StatusReviewFailed \<and> Blocks (li_ScopeResult input));
          next1 = (if li_Phase input = PhasePreflight then ''fix_runtime_configuration_before_retry'' else cl_NextAction c);
          next2 = (if scope_failed then ''repair_scope_guard_findings_before_handoff'' else next1);
          next3 = (if li_Phase input = PhaseHandoff \<and> status = StatusFailed
                   then ''inspect_run_log_and_create_or_repair_pr'' else next2)
      in \<lparr>ld_Status = status,
          ld_TerminalOutcomeIntent = cl_Outcome c,
          ld_NextAction = next3,
          ld_PRRequired = lifecyclePRRequired input status,
          ld_CanResumeReview = (status = StatusReviewNotReady),
          ld_OperatorAttentionRequired = cl_OperatorAttentionRequired c,
          ld_ReviewStatus = (if scope_failed then ''failed'' else rr_ReviewStatus record),
          ld_ReviewClassification = (if scope_failed then BehaviorSpecBlocker else rr_ReviewClassification record)\<rparr>)"

section \<open>Attempt outcomes\<close>

record Outcome =
  oc_GitHubAuth :: string
  oc_StartedAt :: time
  oc_EndedAt :: time
  oc_RuntimeUsage :: "Usage option"
  oc_Review :: "ReviewResult option"
  oc_PRURL :: string
  oc_Status :: string
  oc_Error :: string
  oc_Budget :: "Budget option"
  oc_BudgetExceeded :: string

definition TerminalOutcomeIntent :: "Outcome \<Rightarrow> string" where
  "TerminalOutcomeIntent o' =
     cl_Outcome (classify_record (attempt_record (oc_Status o') (oc_PRURL o') (oc_Error o') (oc_Review o'))
                   (oc_Status o' = StatusNeedsInfo \<or> oc_Status o' = StatusNeedsInfoFail))"

definition ExpectedWorkspaceBranch :: "string \<Rightarrow> string" where
  "ExpectedWorkspaceBranch identifier = ''am/'' @ trim_space identifier @ ''-workspace''"

text \<open>\<open>Outcome.Record\<close>; \<open>branch\<close> is what git reports, \<open>feedbackHash\<close> the hash of the stored feedback.\<close>

definition Outcome_Record :: "string \<Rightarrow> string \<Rightarrow> Outcome \<Rightarrow> Issue \<Rightarrow> string \<Rightarrow> string \<Rightarrow> RunRecord" where
  "Outcome_Record branch feedbackHash o' candidate workspace runtimeCommand =
     (let record =
        zero_RunRecord\<lparr>rr_IssueIdentifier := is_Identifier candidate, rr_IssueID := is_ID candidate,
          rr_IssueTitle := is_Title candidate, rr_IssueURL := is_URL candidate, rr_Workspace := workspace,
          rr_WorkspaceRoot := dir workspace, rr_Branch := branch,
          rr_ExpectedBranch := ExpectedWorkspaceBranch (is_Identifier candidate),
          rr_RuntimeCommand := runtimeCommand, rr_PiCommand := runtimeCommand, rr_GitHubAuth := oc_GitHubAuth o',
          rr_StartedAt := oc_StartedAt o', rr_EndedAt := oc_EndedAt o',
          rr_DurationMS := sgn (oc_EndedAt o' - oc_StartedAt o') * (\<bar>oc_EndedAt o' - oc_StartedAt o'\<bar> div 1000000),
          rr_RuntimeUsage := oc_RuntimeUsage o', rr_PiUsage := oc_RuntimeUsage o',
          rr_ReviewStatus := (case oc_Review o' of None \<Rightarrow> [] | Some r \<Rightarrow> rv_Status r),
          rr_ReviewClassification := (case oc_Review o' of None \<Rightarrow> [] | Some r \<Rightarrow> rv_Classification r),
          rr_ReviewFindings := (case oc_Review o' of None \<Rightarrow> [] | Some r \<Rightarrow> rv_Findings r),
          rr_ReviewUsage := (case oc_Review o' of None \<Rightarrow> None | Some r \<Rightarrow> rv_Usage r),
          rr_PRURL := oc_PRURL o', rr_FeedbackHash := feedbackHash, rr_Status := oc_Status o',
          rr_Error := oc_Error o', rr_Budget := oc_Budget o', rr_BudgetExceeded := oc_BudgetExceeded o'\<rparr>
      in record\<lparr>rr_BehaviorContractEvidence := BehaviorEvidenceForRun record @ TicketEvidenceForRun record\<rparr>)"

section \<open>Lemmas\<close>

lemma Decide_simps [simp]:
  "ld_Status (Decide i) = lifecycleStatus i"
  "ld_PRRequired (Decide i) = lifecyclePRRequired i (lifecycleStatus i)"
  "ld_CanResumeReview (Decide i) = (lifecycleStatus i = StatusReviewNotReady)"
  by (simp_all add: Decide_def Let_def attempt_record_def)

lemma lifecycleStatus_range:
  "lifecycleStatus i \<in> {StatusSuccess, StatusFailed, StatusReviewFailed, StatusReviewNotReady, StatusNeedsInfo,
                        StatusNeedsInfoFail, StatusTimeout, StatusBudgetExceeded}"
  unfolding lifecycleStatus_def by (simp split: if_split)

lemma status_eq_simps [simp]:
  "StatusSuccess \<noteq> StatusFailed" "StatusSuccess \<noteq> StatusReviewFailed" "StatusSuccess \<noteq> StatusReviewNotReady"
  "StatusSuccess \<noteq> StatusNeedsInfo" "StatusSuccess \<noteq> StatusNeedsInfoFail" "StatusSuccess \<noteq> StatusTimeout"
  "StatusSuccess \<noteq> StatusBudgetExceeded" "StatusFailed \<noteq> StatusSuccess" "StatusReviewFailed \<noteq> StatusSuccess"
  "StatusReviewNotReady \<noteq> StatusSuccess" "StatusNeedsInfo \<noteq> StatusSuccess" "StatusNeedsInfoFail \<noteq> StatusSuccess"
  "StatusTimeout \<noteq> StatusSuccess" "StatusBudgetExceeded \<noteq> StatusSuccess"
  by (simp_all add: status_defs)

lemma lifecycle_success_guards:
  assumes "lifecycleStatus i = StatusSuccess"
  shows "trim_space (li_PRURL i) \<noteq> []" "\<not> Blocks (li_ScopeResult i)" "li_ScopeError i = []"
    "li_BudgetExceeded i = []" "li_NeedsInfoQuestions i = []" "\<not> li_ReviewNotReady i"
    "\<not> review_not_passed (li_Review i) \<or> ReviewFailureRoutesToHumanHandoff (li_Review i) (li_PRURL i)"
proof -
  note s = assms [unfolded lifecycleStatus_def, simplified else_branch status_eq_simps simp_thms]
  show "\<not> Blocks (li_ScopeResult i)" "li_ScopeError i = []" "li_BudgetExceeded i = []"
    "li_NeedsInfoQuestions i = []" "\<not> li_ReviewNotReady i"
    using s by simp_all
  have human: "ReviewFailureRoutesToHumanHandoff (li_Review i) (li_PRURL i) \<Longrightarrow> trim_space (li_PRURL i) \<noteq> []"
    by (simp add: ReviewFailureRoutesToHumanHandoff_def split: option.splits)
  have tail: "u \<noteq> [] \<and> (\<not> r \<or> h)"
    if "(if r then if h then StatusSuccess else StatusReviewFailed
         else if p \<and> u \<noteq> [] then StatusSuccess else if q then StatusFailed
         else if u = [] then StatusFailed else StatusSuccess) = StatusSuccess" and "h \<Longrightarrow> u \<noteq> []"
    for r h p q and u :: string
    using that by (auto split: if_splits)
  have "trim_space (li_PRURL i) \<noteq> []
      \<and> (\<not> review_not_passed (li_Review i) \<or> ReviewFailureRoutesToHumanHandoff (li_Review i) (li_PRURL i))"
    using s by (elim conjE) (rule tail [OF _ human], assumption+)
  then show "trim_space (li_PRURL i) \<noteq> []"
    "\<not> review_not_passed (li_Review i) \<or> ReviewFailureRoutesToHumanHandoff (li_Review i) (li_PRURL i)"
    by simp_all
qed

definition sample_attempt :: lifecycle_input where
  "sample_attempt = \<lparr>li_Phase = PhaseSuccess, li_PRURL = ''https://host/pr/1'', li_Review = None,
     li_ScopeResult = \<lparr>sg_Checked = True, sg_Warnings = [], sg_Violations = []\<rparr>, li_ScopeError = [],
     li_RuntimeOutcome = ''success'', li_RuntimeErrorKind = [], li_Error = [], li_BudgetExceeded = [],
     li_NeedsInfoQuestions = [], li_ReviewNotReady = False\<rparr>"

definition sample_outcome :: Outcome where
  "sample_outcome = \<lparr>oc_GitHubAuth = [], oc_StartedAt = 1, oc_EndedAt = 2, oc_RuntimeUsage = None, oc_Review = None,
     oc_PRURL = ''https://host/pr/1'', oc_Status = ''success'', oc_Error = [], oc_Budget = None, oc_BudgetExceeded = []\<rparr>"

lemma sample_attempt_success: "lifecycleStatus sample_attempt = ''success''" "lifecycleError sample_attempt = []"
  by code_simp+

section \<open>Properties\<close>

text \<open>
  C7: an attempt ends as a success only with a pull request, a change set inside its scope, no
  scope, budget or needs-info problem, and a review that passed, was not run, or failed for
  missing evidence only (which goes to a human).
\<close>

theorem lifecycle_success_sound:
  assumes "ld_Status (Decide i) = ''success''"
  shows "trim_space (li_PRURL i) \<noteq> [] \<and> \<not> Blocks (li_ScopeResult i) \<and> li_ScopeError i = []
    \<and> li_BudgetExceeded i = [] \<and> li_NeedsInfoQuestions i = [] \<and> \<not> li_ReviewNotReady i
    \<and> (case li_Review i of
         None \<Rightarrow> True
       | Some r \<Rightarrow> rv_Status r = [] \<or> rv_Status r = ''passed''
                   \<or> rv_Status r = ''failed'' \<and> rv_Classification r = MissingEvidenceOnly)"
proof -
  have s: "lifecycleStatus i = StatusSuccess" using assms by (simp add: StatusSuccess_def)
  note g = lifecycle_success_guards [OF s]
  have "case li_Review i of None \<Rightarrow> True | Some r \<Rightarrow> rv_Status r = [] \<or> rv_Status r = ''passed''
                   \<or> rv_Status r = ''failed'' \<and> rv_Classification r = MissingEvidenceOnly"
    using g(7) by (cases "li_Review i") (simp_all add: review_not_passed_def ReviewFailureRoutesToHumanHandoff_def, blast)
  with g(1-6) show ?thesis by blast
qed

theorem lifecycle_success_sound_witness:
  "trim_space (li_PRURL sample_attempt) \<noteq> [] \<and> \<not> Blocks (li_ScopeResult sample_attempt)"
  using lifecycle_success_sound [of sample_attempt] by (simp add: sample_attempt_success)

text \<open>
  The lifecycle and the cleanup policy agree on which attempts are over: a decided status is
  a terminal run status exactly when the review cannot be resumed.
\<close>

theorem lifecycle_terminal_or_resumable:
  "TerminalRunStatus (ld_Status (Decide i)) \<noteq> ld_CanResumeReview (Decide i)"
  using lifecycleStatus_range [of i]
  by (auto simp: TerminalRunStatus_def terminal_statuses_def status_defs)

text \<open>
  The outcome intent written with the attempt's result is the one the lifecycle decided, when
  no needs-info questions were raised (with questions the lifecycle reports \<open>needs_info\<close> also for
  a timeout).
\<close>

theorem outcome_intent_agrees:
  assumes "li_NeedsInfoQuestions i = []"
    and "oc_Status o' = ld_Status (Decide i)" "oc_Error o' = lifecycleError i" "oc_Review o' = li_Review i"
  shows "TerminalOutcomeIntent o' = ld_TerminalOutcomeIntent (Decide i)"
  using assms
  by (simp add: TerminalOutcomeIntent_def Decide_def Let_def classify_record_def classifyOutcome_def attempt_record_def)

theorem outcome_intent_agrees_witness:
  "TerminalOutcomeIntent sample_outcome = ld_TerminalOutcomeIntent (Decide sample_attempt)"
  by (rule outcome_intent_agrees)
     (simp_all add: sample_attempt_success, simp_all add: sample_outcome_def sample_attempt_def)

end
