(* ===== verification/SqlTable.thy ===== *)
theory SqlTable
  imports Prelude "HOL-Library.Product_Lexorder"
begin

text \<open>
  The SQL statements the state store runs, on a table seen as the list of its rows in rowid
  order: \<open>UPDATE ... WHERE\<close> with its count of affected rows, \<open>INSERT OR IGNORE\<close> and
  \<open>INSERT ... ON CONFLICT(key) DO UPDATE\<close> on a unique key, and \<open>SELECT ... ORDER BY\<close>.
  \<open>keyed_table\<close> is the contract of a table with a unique key: \<open>merge old new\<close> is the row the
  conflict clause leaves, which never changes the key.
\<close>

definition sql_update :: "('r \<Rightarrow> bool) \<Rightarrow> ('r \<Rightarrow> 'r) \<Rightarrow> 'r list \<Rightarrow> 'r list" where
  "sql_update P f rows = map (\<lambda>r. if P r then f r else r) rows"

definition rows_affected :: "('r \<Rightarrow> bool) \<Rightarrow> 'r list \<Rightarrow> nat" where
  "rows_affected P rows = length (filter P rows)"

definition sql_conflict :: "('r \<Rightarrow> 'k) \<Rightarrow> 'r \<Rightarrow> 'r list \<Rightarrow> bool" where
  "sql_conflict key new rows \<longleftrightarrow> list_ex (\<lambda>r. key r = key new) rows"

definition insert_or_ignore :: "('r \<Rightarrow> 'k) \<Rightarrow> 'r \<Rightarrow> 'r list \<Rightarrow> 'r list" where
  "insert_or_ignore key new rows = (if sql_conflict key new rows then rows else rows @ [new])"

definition sql_upsert :: "('r \<Rightarrow> 'k) \<Rightarrow> ('r \<Rightarrow> 'r \<Rightarrow> 'r) \<Rightarrow> 'r \<Rightarrow> 'r list \<Rightarrow> 'r list" where
  "sql_upsert key merge new rows =
     (if sql_conflict key new rows then sql_update (\<lambda>r. key r = key new) (\<lambda>old. merge old new) rows
      else rows @ [new])"

definition sql_delete :: "('r \<Rightarrow> bool) \<Rightarrow> 'r list \<Rightarrow> 'r list" where
  "sql_delete P rows = filter (\<lambda>r. \<not> P r) rows"

text \<open>\<open>lookup key k rows\<close>: \<open>SELECT ... WHERE key = k\<close> of a unique key.\<close>

definition lookup :: "('r \<Rightarrow> 'k) \<Rightarrow> 'k \<Rightarrow> 'r list \<Rightarrow> 'r option" where
  "lookup key k rows = find (\<lambda>r. key r = k) rows"

text \<open>A comparison in a \<open>WHERE\<close> clause is not satisfied when one side is NULL.\<close>

definition sql_le :: "int option \<Rightarrow> int option \<Rightarrow> bool" where
  "sql_le a b \<longleftrightarrow> (case a of None \<Rightarrow> False | Some x \<Rightarrow> (case b of None \<Rightarrow> False | Some y \<Rightarrow> x \<le> y))"

definition sql_less :: "int option \<Rightarrow> int option \<Rightarrow> bool" where
  "sql_less a b \<longleftrightarrow> (case a of None \<Rightarrow> False | Some x \<Rightarrow> (case b of None \<Rightarrow> False | Some y \<Rightarrow> x < y))"

text \<open>\<open>nullZeroInt\<close> and the \<open>COALESCE(x, 0)\<close> that reads it back; \<open>boolInt\<close>.\<close>

definition nullZeroInt :: "int \<Rightarrow> int option" where
  "nullZeroInt v = (if v = 0 then None else Some v)"

definition coalesce0 :: "int option \<Rightarrow> int" where
  "coalesce0 v = (case v of None \<Rightarrow> 0 | Some x \<Rightarrow> x)"

definition boolInt :: "bool \<Rightarrow> int" where
  "boolInt v = (if v then 1 else 0)"

lemma coalesce0_nullZeroInt [simp]: "coalesce0 (nullZeroInt v) = v"
  by (simp add: coalesce0_def nullZeroInt_def)

lemma boolInt_eq_1 [simp]: "boolInt v = 1 \<longleftrightarrow> v"
  by (simp add: boolInt_def)

section \<open>Rows and counts\<close>

lemma length_sql_update [simp]: "length (sql_update P f rows) = length rows"
  by (simp add: sql_update_def)

lemma sql_update_Nil [simp]: "sql_update P f [] = []"
  by (simp add: sql_update_def)

lemma sql_update_Cons [simp]: "sql_update P f (r # rs) = (if P r then f r else r) # sql_update P f rs"
  by (simp add: sql_update_def)

lemma sql_update_append [simp]: "sql_update P f (xs @ ys) = sql_update P f xs @ sql_update P f ys"
  by (simp add: sql_update_def)

lemma rows_affected_0_iff: "rows_affected P rows = 0 \<longleftrightarrow> (\<forall>r \<in> set rows. \<not> P r)"
  by (simp add: rows_affected_def filter_empty_conv)

lemma sql_update_none: "rows_affected P rows = 0 \<Longrightarrow> sql_update P f rows = rows"
  by (auto simp: rows_affected_0_iff sql_update_def intro: map_idI)

lemma map_key_sql_update: "(\<And>r. key (f r) = key r) \<Longrightarrow> map key (sql_update P f rows) = map key rows"
  by (simp add: sql_update_def)

lemma lookup_Nil [simp]: "lookup key k [] = None"
  by (simp add: lookup_def)

lemma lookup_Cons [simp]: "lookup key k (r # rs) = (if key r = k then Some r else lookup key k rs)"
  by (simp add: lookup_def)

lemma lookup_append: "lookup key k (xs @ ys) = (case lookup key k xs of None \<Rightarrow> lookup key k ys | Some r \<Rightarrow> Some r)"
  unfolding lookup_def by (simp add: find_append)

lemma lookup_Some: "lookup key k rows = Some r \<Longrightarrow> r \<in> set rows \<and> key r = k"
  unfolding lookup_def by (drule find_Some_mem) simp

lemma lookup_None_iff: "lookup key k rows = None \<longleftrightarrow> k \<notin> key ` set rows"
  by (auto simp: lookup_def find_None_iff)

lemma lookup_unique:
  "distinct (map key rows) \<Longrightarrow> r \<in> set rows \<Longrightarrow> lookup key (key r) rows = Some r"
  by (induction rows) (auto simp: image_iff)

lemma lookup_iff:
  "distinct (map key rows) \<Longrightarrow> lookup key k rows = Some r \<longleftrightarrow> r \<in> set rows \<and> key r = k"
  using lookup_unique [of key rows r] lookup_Some [of key k rows r] by auto

lemma sql_conflict_iff: "sql_conflict key new rows \<longleftrightarrow> lookup key (key new) rows \<noteq> None"
  by (auto simp: sql_conflict_def list_ex_iff lookup_None_iff intro: rev_image_eqI)

lemma lookup_sql_update:
  assumes "\<And>r. key (f r) = key r" and "distinct (map key rows)"
  shows "lookup key k (sql_update P f rows) =
           (case lookup key k rows of None \<Rightarrow> None | Some r \<Rightarrow> Some (if P r then f r else r))"
  using assms(2) by (induction rows) (auto simp: assms(1))

text \<open>A \<open>WHERE\<close> clause that fixes the unique key touches at most the row with that key.\<close>

lemma rows_affected_key:
  assumes "distinct (map key rows)"
  shows "rows_affected (\<lambda>r. key r = k \<and> Q r) rows =
           (case lookup key k rows of None \<Rightarrow> 0 | Some r \<Rightarrow> if Q r then 1 else 0)"
  using assms
proof (induction rows)
  case Nil
  then show ?case by (simp add: rows_affected_def)
next
  case (Cons x rows)
  have "rows_affected (\<lambda>r. key r = k \<and> Q r) rows = 0" if "key x = k"
    using Cons.prems that by (auto simp: rows_affected_0_iff intro: rev_image_eqI)
  then show ?case using Cons by (auto simp: rows_affected_def split: option.splits)
qed

lemma lookup_map_key_other:
  "k \<noteq> k' \<Longrightarrow> lookup key k (sql_update (\<lambda>r. key r = k' \<and> Q r) f rows) = lookup key k rows"
  if "\<And>r. key (f r) = key r"
  using that by (induction rows) auto

section \<open>The contract of a table with a unique key\<close>

locale keyed_table =
  fixes key :: "'r \<Rightarrow> 'k" and merge :: "'r \<Rightarrow> 'r \<Rightarrow> 'r"
  assumes merge_key: "key old = key new \<Longrightarrow> key (merge old new) = key new"
begin

definition upsert :: "'r \<Rightarrow> 'r list \<Rightarrow> 'r list" where
  "upsert = sql_upsert key merge"

definition keys_ok :: "'r list \<Rightarrow> bool" where
  "keys_ok rows \<longleftrightarrow> distinct (map key rows)"

lemma map_key_upsert_conflict: "map key (sql_update (\<lambda>r. key r = key new) (\<lambda>old. merge old new) rows) = map key rows"
  by (simp add: sql_update_def merge_key)

lemma upsert_keys_ok: "keys_ok rows \<Longrightarrow> keys_ok (sql_upsert key merge new rows)"
  unfolding keys_ok_def sql_upsert_def
  by (auto simp: map_key_upsert_conflict sql_conflict_iff lookup_None_iff)

lemma insert_or_ignore_keys_ok: "keys_ok rows \<Longrightarrow> keys_ok (insert_or_ignore key new rows)"
  unfolding keys_ok_def insert_or_ignore_def by (auto simp: sql_conflict_iff lookup_None_iff)

lemma update_keys_ok: "(\<And>r. key (f r) = key r) \<Longrightarrow> keys_ok rows \<Longrightarrow> keys_ok (sql_update P f rows)"
  unfolding keys_ok_def by (simp add: map_key_sql_update)

lemma lookup_merge_update:
  "lookup key k (sql_update (\<lambda>r. key r = key new) (\<lambda>old. merge old new) rows) =
     (if k = key new then map_option (\<lambda>old. merge old new) (lookup key k rows) else lookup key k rows)"
  by (induction rows) (auto simp: merge_key)

lemma lookup_upsert:
  "keys_ok rows \<Longrightarrow> lookup key k (sql_upsert key merge new rows) =
     (if k = key new then Some (case lookup key k rows of None \<Rightarrow> new | Some old \<Rightarrow> merge old new)
      else lookup key k rows)"
  by (cases "lookup key (key new) rows")
     (auto simp: sql_upsert_def lookup_merge_update sql_conflict_iff lookup_append split: option.splits)

text \<open>What is written is read back, and no other row changes.\<close>

lemma upsert_read_back:
  "keys_ok rows \<Longrightarrow> \<exists>r. lookup key (key new) (sql_upsert key merge new rows) = Some r \<and> key r = key new"
  using lookup_Some by (fastforce simp: lookup_upsert merge_key split: option.splits)

lemma upsert_frame:
  "keys_ok rows \<Longrightarrow> k \<noteq> key new \<Longrightarrow> lookup key k (sql_upsert key merge new rows) = lookup key k rows"
  by (simp add: lookup_upsert)

lemma lookup_insert_or_ignore:
  "lookup key k (insert_or_ignore key new rows) =
     (case lookup key k rows of Some r \<Rightarrow> Some r | None \<Rightarrow> if k = key new then Some new else None)"
  by (auto simp: insert_or_ignore_def sql_conflict_iff lookup_append split: option.splits)

end

end
