(* ===== verification/StoreBase.thy ===== *)
theory StoreBase
  imports SqlTable GoTime Json
begin

text \<open>
  The state store of internal/state/store.go: its error values, its environment, and the rows of
  its SQLite tables.  A time column holds the text \<open>format_time\<close> prints.  The environment stands
  for what is outside the store: the clock (\<open>time.Now().UTC()\<close>, one value for an operation),
  SQLite's \<open>julianday\<close> on such texts (\<open>None\<close> for NULL), JSON validity of a text, and the
  hexadecimal SHA-256 prefix of a text.  A statement fails only for the reasons visible in the SQL
  (a unique key that exists, a row that does not); failures of the disk or the driver are not
  modelled.  A transaction that returns an error leaves the database as it was.
\<close>

datatype store_error =
    StoreError string
  | LeaseHeld string
  | UnsupportedSchema string
  | NoRows string

type_synonym 'a result = "store_error + 'a"

record store_env =
  env_clock :: time
  env_julianday :: "string \<Rightarrow> int option"
  env_json_valid :: "string \<Rightarrow> bool"
  env_sha256 :: "string \<Rightarrow> string"

text \<open>\<open>now\<close> where the caller gave one, the clock for the zero time.\<close>

definition now_or_clock :: "store_env \<Rightarrow> time \<Rightarrow> time" where
  "now_or_clock env t = (if is_zero t then env_clock env else t)"

section \<open>Rows\<close>

record LeaseRow =
  lr_name :: string
  lr_scope :: string
  lr_owner :: string
  lr_acquired_at :: string
  lr_expires_at :: string
  lr_renewed_at :: string
  lr_released_at :: string
  lr_release_reason :: string

record FactRow =
  fr_attempt_id :: "int option"
  fr_source :: string
  fr_fact_key :: string
  fr_fact_json :: string
  fr_fact_hash :: string
  fr_captured_at :: string

record TaskRow =
  tr_task_key :: string
  tr_role :: string
  tr_issue_key :: string
  tr_issue_id :: string
  tr_attempt :: "int option"
  tr_status :: string
  tr_priority :: int
  tr_available_at :: string
  tr_lease_name :: string
  tr_payload_json :: string
  tr_created_at :: string
  tr_updated_at :: string

record ResultRow =
  wr_task_key :: string
  wr_role :: string
  wr_lane_name :: string
  wr_issue_key :: string
  wr_issue_id :: string
  wr_attempt :: "int option"
  wr_status :: string
  wr_did_work :: int
  wr_reason :: string
  wr_error :: string
  wr_payload_json :: string
  wr_started_at :: string
  wr_finished_at :: string
  wr_updated_at :: string

record HeartbeatRow =
  hr_process_id :: string
  hr_lane_name :: string
  hr_workflow_path :: string
  hr_cycle_number :: int
  hr_last_success_at :: string
  hr_last_error :: string
  hr_recovery_required :: int
  hr_active_task_key :: string
  hr_active_task_role :: string
  hr_active_lease_name :: string
  hr_active_task_started_at :: string
  hr_updated_at :: string

record EventRow =
  er_sequence :: int
  er_event_id :: string
  er_occurred_at :: string
  er_issue_key :: string
  er_issue_id :: string
  er_attempt :: "int option"
  er_run_id :: string
  er_source :: string
  er_event_type :: string
  er_payload_json :: string

record PayloadRefRow =
  pr_role :: string
  pr_phase :: string
  pr_issue_key :: string
  pr_issue_id :: string
  pr_attempt :: int
  pr_workspace_path :: string
  pr_branch_name :: string
  pr_pr_url :: string
  pr_payload_path :: string
  pr_status :: string
  pr_created_at :: string
  pr_updated_at :: string

record IntentRow =
  ir_issue_key :: string
  ir_issue_id :: string
  ir_attempt :: int
  ir_workspace_path :: string
  ir_branch_name :: string
  ir_agent_pr_url :: string
  ir_pr_url :: string
  ir_payload_path :: string
  ir_status :: string
  ir_result :: string
  ir_error :: string
  ir_created_at :: string
  ir_updated_at :: string
  ir_finished_at :: string

record AttemptRow =
  ar_id :: int
  ar_issue_key :: string
  ar_issue_id :: string
  ar_attempt :: int
  ar_workspace_path :: string
  ar_branch_name :: string
  ar_base_branch :: string
  ar_status :: string
  ar_created_at :: string
  ar_updated_at :: string

record PRMappingRow =
  pm_attempt_id :: int
  pm_repository :: string
  pm_branch_name :: string
  pm_base_branch :: string
  pm_pr_number :: "int option"
  pm_pr_url :: string
  pm_am_owned :: int
  pm_updated_at :: string

record ReviewRow =
  vr_attempt_id :: int
  vr_command_status :: string
  vr_passed :: int
  vr_classification :: string
  vr_output_ref :: string
  vr_output_hash :: string
  vr_merge_eligible :: int
  vr_updated_at :: string

record FeedbackRow =
  fb_attempt_id :: int
  fb_feedback_hash :: string
  fb_next_action :: string
  fb_updated_at :: string

record RetryRow =
  rd_attempt_id :: int
  rd_retry_count :: int
  rd_budget_state :: string
  rd_reason :: string
  rd_input_hash :: string
  rd_next_state :: string
  rd_decided_at :: string

record OutcomeRow =
  to_attempt_id :: int
  to_outcome :: string
  to_reason :: string
  to_recorded_at :: string

record CleanupRow =
  cs_attempt_id :: int
  cs_workspace_exists :: int
  cs_eligible :: int
  cs_decision :: string
  cs_deletion_result :: string
  cs_artifact_ref :: string
  cs_blocked_reason :: string
  cs_updated_at :: string

section \<open>The database\<close>

record db =
  db_leases :: "LeaseRow list"
  db_facts :: "FactRow list"
  db_tasks :: "TaskRow list"
  db_results :: "ResultRow list"
  db_heartbeats :: "HeartbeatRow list"
  db_events :: "EventRow list"
  db_event_seq :: int
  db_payload_refs :: "PayloadRefRow list"
  db_intents :: "IntentRow list"
  db_attempts :: "AttemptRow list"
  db_pr_mappings :: "PRMappingRow list"
  db_reviews :: "ReviewRow list"
  db_feedback :: "FeedbackRow list"
  db_retries :: "RetryRow list"
  db_outcomes :: "OutcomeRow list"
  db_cleanups :: "CleanupRow list"

definition empty_db :: db where
  "empty_db =
     \<lparr>db_leases = [], db_facts = [], db_tasks = [], db_results = [], db_heartbeats = [], db_events = [],
      db_event_seq = 0, db_payload_refs = [], db_intents = [], db_attempts = [], db_pr_mappings = [],
      db_reviews = [], db_feedback = [], db_retries = [], db_outcomes = [], db_cleanups = []\<rparr>"

definition tasks_ok :: "db \<Rightarrow> bool" where
  "tasks_ok db \<longleftrightarrow> distinct (map tr_task_key (db_tasks db))"

text \<open>
  What is relied on of \<open>julianday\<close>: it reads the texts the store writes, and keeps their order
  (to its precision of a millisecond).
\<close>

definition julianday_ok :: "(string \<Rightarrow> int option) \<Rightarrow> bool" where
  "julianday_ok jd \<longleftrightarrow>
     (\<forall>t. rfc_time t \<and> \<not> is_zero t \<longrightarrow> jd (format_time t) \<noteq> None)
     \<and> (\<forall>s t. rfc_time s \<and> rfc_time t \<and> \<not> is_zero s \<and> \<not> is_zero t \<and> s \<le> t
          \<longrightarrow> sql_le (jd (format_time s)) (jd (format_time t)))"

text \<open>A concrete reading of the texts that satisfies this: milliseconds.\<close>

definition julianday_ms :: "string \<Rightarrow> int option" where
  "julianday_ms s = (if s = [] then None else map_option (\<lambda>t. t div 1000000) (parse_time s))"

lemma julianday_ms_ok: "julianday_ok julianday_ms"
  by (auto simp: julianday_ok_def julianday_ms_def parse_format_time sql_le_def zdiv_mono1)

definition test_env :: store_env where
  "test_env = \<lparr>env_clock = 63000000000000000000, env_julianday = julianday_ms, env_json_valid = (\<lambda>s. s \<noteq> []),
               env_sha256 = (\<lambda>s. s)\<rparr>"

lemma test_env_simps [simp]:
  "env_clock test_env = 63000000000000000000" "env_julianday test_env = julianday_ms"
  "env_json_valid test_env s = (s \<noteq> [])" "env_sha256 test_env s = s"
  by (simp_all add: test_env_def)

text \<open>The instants of the examples.\<close>

lemma one_second_rfc: "rfc_time 1000000000" "rfc_time 2000000000" "rfc_time 5000000000"
  by code_simp+

end
