(* ===== verification/LeaseStore.thy ===== *)
theory LeaseStore
  imports StoreBase
begin

text \<open>
  The leases of internal/state/store.go: \<open>UpsertLease\<close>, \<open>AcquireLease\<close>, \<open>RenewLease\<close>,
  \<open>ReleaseLease\<close>, \<open>Lease\<close> and \<open>ReclaimLease\<close> over the \<open>leases\<close> table, with the reclaim facts they
  record.  \<open>lease_manager\<close> is the contract the callers rely on (who holds a name until when, and
  when an acquisition succeeds); the model's operations are its interpretation.
\<close>

record Lease =
  ls_Name :: string
  ls_Scope :: string
  ls_Owner :: string
  ls_AcquiredAt :: time
  ls_ExpiresAt :: time
  ls_RenewedAt :: time
  ls_ReleasedAt :: time
  ls_ReleaseReason :: string

definition zero_Lease :: Lease where
  "zero_Lease = \<lparr>ls_Name = [], ls_Scope = [], ls_Owner = [], ls_AcquiredAt = 0, ls_ExpiresAt = 0,
                 ls_RenewedAt = 0, ls_ReleasedAt = 0, ls_ReleaseReason = []\<rparr>"

definition normalizeLease :: "store_env \<Rightarrow> Lease \<Rightarrow> time \<Rightarrow> Lease result" where
  "normalizeLease env lease now0 =
     (if ls_Name lease = [] then Inl (StoreError ''name is required'')
      else if ls_Scope lease = [] then Inl (StoreError ''scope is required'')
      else if ls_Owner lease = [] then Inl (StoreError ''owner is required'')
      else let now = now_or_clock env now0;
               acquired = (if is_zero (ls_AcquiredAt lease) then now else ls_AcquiredAt lease);
               renewed = (if is_zero (ls_RenewedAt lease) then acquired else ls_RenewedAt lease);
               expires = (if is_zero (ls_ExpiresAt lease) then renewed else ls_ExpiresAt lease)
           in Inr (lease\<lparr>ls_AcquiredAt := acquired, ls_ExpiresAt := expires, ls_RenewedAt := renewed\<rparr>))"

definition lease_row :: "Lease \<Rightarrow> LeaseRow" where
  "lease_row lease =
     \<lparr>lr_name = ls_Name lease, lr_scope = ls_Scope lease, lr_owner = ls_Owner lease,
      lr_acquired_at = format_time (ls_AcquiredAt lease), lr_expires_at = format_time (ls_ExpiresAt lease),
      lr_renewed_at = format_time (ls_RenewedAt lease), lr_released_at = [], lr_release_reason = []\<rparr>"

text \<open>The \<open>SET\<close> clauses that hand a row to a lease (its name is the key, and stays).\<close>

definition take_over :: "Lease \<Rightarrow> LeaseRow \<Rightarrow> LeaseRow" where
  "take_over lease r = (lease_row lease)\<lparr>lr_name := lr_name r\<rparr>"

definition merge_lease :: "LeaseRow \<Rightarrow> LeaseRow \<Rightarrow> LeaseRow" where
  "merge_lease old new = new\<lparr>lr_name := lr_name old\<rparr>"

definition UpsertLease :: "store_env \<Rightarrow> Lease \<Rightarrow> db \<Rightarrow> unit result \<times> db" where
  "UpsertLease env lease0 db =
     (case normalizeLease env lease0 (env_clock env) of
        Inl e \<Rightarrow> (Inl e, db)
      | Inr lease \<Rightarrow> (Inr (), db\<lparr>db_leases := sql_upsert lr_name merge_lease (lease_row lease) (db_leases db)\<rparr>))"

definition fact_key_of :: "FactRow \<Rightarrow> string \<times> string \<times> string" where
  "fact_key_of f = (fr_source f, fr_fact_key f, fr_fact_hash f)"

definition reclaim_fact :: "string \<Rightarrow> string \<Rightarrow> string \<Rightarrow> string \<Rightarrow> time \<Rightarrow> FactRow" where
  "reclaim_fact name oldOwner newOwner reason capturedAt =
     \<lparr>fr_attempt_id = None, fr_source = ''lease'', fr_fact_key = ''lease_reclaim:'' @ name,
      fr_fact_json = json_render (JObj [(''lease'', JStr name), (''old_owner'', JStr oldOwner),
                                        (''new_owner'', JStr newOwner), (''reason'', JStr reason)]),
      fr_fact_hash = name @ '':'' @ oldOwner @ '':'' @ newOwner @ '':'' @ reason @ '':'' @ format_time capturedAt,
      fr_captured_at = format_time capturedAt\<rparr>"

definition recordLeaseReclaim ::
    "string \<Rightarrow> string \<Rightarrow> string \<Rightarrow> string \<Rightarrow> time \<Rightarrow> db \<Rightarrow> db result" where
  "recordLeaseReclaim name oldOwner newOwner reason capturedAt db =
     (let fact = reclaim_fact name oldOwner newOwner reason capturedAt in
      if sql_conflict fact_key_of fact (db_facts db) then Inl (StoreError ''record lease reclaim'')
      else Inr (db\<lparr>db_facts := db_facts db @ [fact]\<rparr>))"

text \<open>The row is reusable for SQLite: released, or expired by \<open>julianday\<close>.\<close>

definition reusable :: "store_env \<Rightarrow> time \<Rightarrow> LeaseRow \<Rightarrow> bool" where
  "reusable env now r \<longleftrightarrow>
     lr_released_at r \<noteq> [] \<or> sql_le (env_julianday env (lr_expires_at r)) (env_julianday env (format_time now))"

definition AcquireLease :: "store_env \<Rightarrow> Lease \<Rightarrow> time \<Rightarrow> db \<Rightarrow> bool result \<times> db" where
  "AcquireLease env lease0 now0 db =
     (let now = now_or_clock env now0 in
      case normalizeLease env lease0 now of
        Inl e \<Rightarrow> (Inl e, db)
      | Inr lease \<Rightarrow>
          (case lookup lr_name (ls_Name lease) (db_leases db) of
             None \<Rightarrow> (Inr True, db\<lparr>db_leases := insert_or_ignore lr_name (lease_row lease) (db_leases db)\<rparr>)
           | Some old \<Rightarrow>
               (case parse_time (lr_expires_at old) of
                  None \<Rightarrow> (Inl (StoreError ''parse existing lease expiry''), db)
                | Some expiresAt \<Rightarrow>
                    if lr_released_at old = [] \<and> now < expiresAt then (Inr False, db)
                    else let reason = (if lr_released_at old = [] then ''stale'' else ''released'');
                             sel = (\<lambda>r. lr_name r = ls_Name lease \<and> reusable env now r) in
                      if rows_affected sel (db_leases db) = 0 then (Inr False, db)
                      else (case recordLeaseReclaim (ls_Name lease) (lr_owner old) (ls_Owner lease) reason now
                                   (db\<lparr>db_leases := sql_update sel (take_over lease) (db_leases db)\<rparr>) of
                              Inl e \<Rightarrow> (Inl e, db)
                            | Inr db' \<Rightarrow> (Inr True, db')))))"

definition RenewLease :: "store_env \<Rightarrow> string \<Rightarrow> time \<Rightarrow> time \<Rightarrow> db \<Rightarrow> unit result \<times> db" where
  "RenewLease env name renewedAt0 expiresAt0 db =
     (if name = [] then (Inl (StoreError ''renew lease: name is required''), db)
      else let renewedAt = now_or_clock env renewedAt0;
               expiresAt = (if is_zero expiresAt0 then renewedAt else expiresAt0);
               sel = (\<lambda>r. lr_name r = name \<and> lr_released_at r = []) in
        if rows_affected sel (db_leases db) = 0 then (Inl (LeaseHeld ''renew lease''), db)
        else (Inr (), db\<lparr>db_leases := sql_update sel
                (\<lambda>r. r\<lparr>lr_expires_at := format_time expiresAt, lr_renewed_at := format_time renewedAt\<rparr>) (db_leases db)\<rparr>))"

definition ReleaseLease :: "store_env \<Rightarrow> string \<Rightarrow> time \<Rightarrow> string \<Rightarrow> db \<Rightarrow> unit result \<times> db" where
  "ReleaseLease env name releasedAt0 reason db =
     (if name = [] then (Inl (StoreError ''release lease: name is required''), db)
      else let releasedAt = now_or_clock env releasedAt0; sel = (\<lambda>r. lr_name r = name) in
        if rows_affected sel (db_leases db) = 0 then (Inl (LeaseHeld ''release lease''), db)
        else (Inr (), db\<lparr>db_leases := sql_update sel
                (\<lambda>r. r\<lparr>lr_released_at := format_time releasedAt, lr_release_reason := reason\<rparr>) (db_leases db)\<rparr>))"

definition scan_lease :: "LeaseRow \<Rightarrow> Lease result" where
  "scan_lease r =
     (case parse_time (lr_acquired_at r) of
        None \<Rightarrow> Inl (StoreError ''parse lease acquired_at'')
      | Some acquired \<Rightarrow>
     (case parse_time (lr_expires_at r) of
        None \<Rightarrow> Inl (StoreError ''parse lease expires_at'')
      | Some expires \<Rightarrow>
     (case parse_time (lr_renewed_at r) of
        None \<Rightarrow> Inl (StoreError ''parse lease renewed_at'')
      | Some renewed \<Rightarrow>
     (case parse_time (lr_released_at r) of
        None \<Rightarrow> Inl (StoreError ''parse lease released_at'')
      | Some released \<Rightarrow>
          Inr \<lparr>ls_Name = lr_name r, ls_Scope = lr_scope r, ls_Owner = lr_owner r, ls_AcquiredAt = acquired,
               ls_ExpiresAt = expires, ls_RenewedAt = renewed, ls_ReleasedAt = released,
               ls_ReleaseReason = lr_release_reason r\<rparr>))))"

text \<open>\<open>Store.Lease\<close>; the reading operation has another name than the record it returns.\<close>

definition ReadLease :: "string \<Rightarrow> db \<Rightarrow> Lease option result" where
  "ReadLease name db =
     (if name = [] then Inl (StoreError ''lease: name is required'')
      else case lookup lr_name name (db_leases db) of
             None \<Rightarrow> Inr None
           | Some r \<Rightarrow> (case scan_lease r of Inl e \<Rightarrow> Inl e | Inr l \<Rightarrow> Inr (Some l)))"

definition ReclaimLease :: "store_env \<Rightarrow> Lease \<Rightarrow> time \<Rightarrow> string \<Rightarrow> db \<Rightarrow> bool result \<times> db" where
  "ReclaimLease env lease0 now0 reason0 db =
     (let now = now_or_clock env now0; reason = (if reason0 = [] then ''reclaimed'' else reason0) in
      case normalizeLease env lease0 now of
        Inl e \<Rightarrow> (Inl e, db)
      | Inr lease \<Rightarrow>
          (case find (\<lambda>r. lr_name r = ls_Name lease \<and> lr_released_at r = []) (db_leases db) of
             None \<Rightarrow> (Inr False, db)
           | Some old \<Rightarrow>
               let sel = (\<lambda>r. lr_name r = ls_Name lease \<and> lr_owner r = lr_owner old \<and> lr_released_at r = []) in
               if rows_affected sel (db_leases db) = 0 then (Inr False, db)
               else (case recordLeaseReclaim (ls_Name lease) (lr_owner old) (ls_Owner lease) reason now
                            (db\<lparr>db_leases := sql_update sel (take_over lease) (db_leases db)\<rparr>) of
                       Inl e \<Rightarrow> (Inl e, db)
                     | Inr db' \<Rightarrow> (Inr True, db'))))"

section \<open>Well-formed lease tables\<close>

definition time_text :: "string \<Rightarrow> bool" where
  "time_text s \<longleftrightarrow> (case parse_time s of None \<Rightarrow> False | Some t \<Rightarrow> rfc_time t \<and> \<not> is_zero t \<and> format_time t = s)"

lemma time_text_format: "rfc_time t \<Longrightarrow> \<not> is_zero t \<Longrightarrow> time_text (format_time t)"
  by (simp add: time_text_def parse_format_time)

lemma time_text_obtain:
  assumes "time_text s"
  obtains t where "rfc_time t" "\<not> is_zero t" "s = format_time t" "parse_time s = Some t"
  using assms by (auto simp: time_text_def split: option.splits)

definition lease_row_ok :: "LeaseRow \<Rightarrow> bool" where
  "lease_row_ok r \<longleftrightarrow> lr_owner r \<noteq> [] \<and> time_text (lr_acquired_at r) \<and> time_text (lr_expires_at r)
     \<and> time_text (lr_renewed_at r) \<and> (lr_released_at r = [] \<or> time_text (lr_released_at r))"

definition leases_ok :: "db \<Rightarrow> bool" where
  "leases_ok db \<longleftrightarrow> distinct (map lr_name (db_leases db)) \<and> list_all lease_row_ok (db_leases db)"

definition valid_lease :: "Lease \<Rightarrow> bool" where
  "valid_lease l \<longleftrightarrow> ls_Name l \<noteq> [] \<and> ls_Scope l \<noteq> [] \<and> ls_Owner l \<noteq> []
     \<and> rfc_time (ls_AcquiredAt l) \<and> rfc_time (ls_ExpiresAt l) \<and> rfc_time (ls_RenewedAt l)
     \<and> \<not> is_zero (ls_AcquiredAt l) \<and> \<not> is_zero (ls_ExpiresAt l) \<and> \<not> is_zero (ls_RenewedAt l)"

text \<open>Who holds a name at an instant: the owner of the unreleased row whose expiry is still ahead.\<close>

definition holder :: "db \<Rightarrow> string \<Rightarrow> time \<Rightarrow> string option" where
  "holder db name t =
     (case lookup lr_name name (db_leases db) of
        None \<Rightarrow> None
      | Some r \<Rightarrow>
          if lr_released_at r \<noteq> [] then None
          else (case parse_time (lr_expires_at r) of None \<Rightarrow> None | Some e \<Rightarrow> if t < e then Some (lr_owner r) else None))"

definition acquire_request :: "store_env \<Rightarrow> Lease \<Rightarrow> time \<Rightarrow> db \<Rightarrow> bool \<times> db" where
  "acquire_request env l now db =
     (case AcquireLease env l now db of (Inr True, db') \<Rightarrow> (True, db') | (_, db') \<Rightarrow> (False, db'))"

lemma normalizeLease_valid [simp]: "valid_lease l \<Longrightarrow> normalizeLease env l now = Inr l"
  by (simp add: normalizeLease_def valid_lease_def Let_def)

lemma lease_row_simps [simp]:
  "lr_name (lease_row l) = ls_Name l" "lr_owner (lease_row l) = ls_Owner l" "lr_released_at (lease_row l) = []"
  "lr_expires_at (lease_row l) = format_time (ls_ExpiresAt l)"
  "lr_name (take_over l r) = lr_name r" "lr_owner (take_over l r) = ls_Owner l" "lr_released_at (take_over l r) = []"
  "lr_expires_at (take_over l r) = format_time (ls_ExpiresAt l)"
  by (simp_all add: lease_row_def take_over_def)

lemma lease_row_ok_new: "valid_lease l \<Longrightarrow> lease_row_ok (lease_row l)"
  by (simp add: lease_row_ok_def lease_row_def valid_lease_def time_text_format)

lemma lease_row_ok_take_over: "valid_lease l \<Longrightarrow> lease_row_ok (take_over l r)"
  by (simp add: lease_row_ok_def take_over_def lease_row_def valid_lease_def time_text_format)

interpretation leases: keyed_table lr_name merge_lease
  by unfold_locales (simp add: merge_lease_def)

lemma list_all_sql_update:
  "list_all Q rows \<Longrightarrow> (\<And>r. Q r \<Longrightarrow> Q (f r)) \<Longrightarrow> list_all Q (sql_update P f rows)"
  by (induction rows) auto

lemma leases_ok_update:
  "leases_ok db \<Longrightarrow> (\<And>r. lr_name (f r) = lr_name r) \<Longrightarrow> (\<And>r. lease_row_ok r \<Longrightarrow> lease_row_ok (f r))
   \<Longrightarrow> leases_ok (db\<lparr>db_leases := sql_update P f (db_leases db)\<rparr>)"
  by (simp add: leases_ok_def map_key_sql_update list_all_sql_update)

lemma leases_ok_facts [simp]: "leases_ok (db\<lparr>db_facts := fs\<rparr>) = leases_ok db"
  by (simp add: leases_ok_def)

lemma holder_facts [simp]: "holder (db\<lparr>db_facts := fs\<rparr>) = holder db"
  by (simp add: holder_def fun_eq_iff)

lemma recordLeaseReclaim_Inr:
  "recordLeaseReclaim n a b r t db = Inr db' \<Longrightarrow> db' = db\<lparr>db_facts := db_facts db @ [reclaim_fact n a b r t]\<rparr>"
  by (simp add: recordLeaseReclaim_def Let_def split: if_splits)

section \<open>The branches of an acquisition\<close>

definition taken_db :: "store_env \<Rightarrow> Lease \<Rightarrow> time \<Rightarrow> string \<Rightarrow> string \<Rightarrow> db \<Rightarrow> db" where
  "taken_db env l now oldOwner reason db =
     db\<lparr>db_leases := sql_update (\<lambda>r. lr_name r = ls_Name l \<and> reusable env now r) (take_over l) (db_leases db),
        db_facts := db_facts db @ [reclaim_fact (ls_Name l) oldOwner (ls_Owner l) reason now]\<rparr>"

lemma AcquireLease_cases:
  assumes "AcquireLease env l now db = (res, db')" and "valid_lease l" "\<not> is_zero now" "leases_ok db"
  obtains (fresh) "lookup lr_name (ls_Name l) (db_leases db) = None" "res = Inr True"
      "db' = db\<lparr>db_leases := db_leases db @ [lease_row l]\<rparr>"
  | (held) r e where "lookup lr_name (ls_Name l) (db_leases db) = Some r" "parse_time (lr_expires_at r) = Some e"
      "lr_released_at r = []" "now < e \<or> \<not> reusable env now r" "res = Inr False" "db' = db"
  | (taken) r e where "lookup lr_name (ls_Name l) (db_leases db) = Some r" "parse_time (lr_expires_at r) = Some e"
      "lr_released_at r \<noteq> [] \<or> e \<le> now" "reusable env now r" "res = Inr True"
      "db' = taken_db env l now (lr_owner r) (if lr_released_at r = [] then ''stale'' else ''released'') db"
  | (failed) r e err where "lookup lr_name (ls_Name l) (db_leases db) = Some r" "parse_time (lr_expires_at r) = Some e"
      "lr_released_at r \<noteq> [] \<or> e \<le> now" "res = Inl err" "db' = db"
proof (cases "lookup lr_name (ls_Name l) (db_leases db)")
  case None
  show ?thesis
  proof (rule fresh [OF None])
    show "res = Inr True" "db' = db\<lparr>db_leases := db_leases db @ [lease_row l]\<rparr>"
      using assms None by (auto simp: AcquireLease_def now_or_clock_def Let_def insert_or_ignore_def sql_conflict_iff)
  qed
next
  case (Some r)
  have mem: "r \<in> set (db_leases db)" using lookup_Some [OF Some] by simp
  have "lease_row_ok r" using assms(4) mem by (auto simp: leases_ok_def list_all_iff)
  then obtain e where e: "parse_time (lr_expires_at r) = Some e"
    by (auto simp: lease_row_ok_def elim: time_text_obtain)
  have dist: "distinct (map lr_name (db_leases db))" using assms(4) by (simp add: leases_ok_def)
  have rows: "rows_affected (\<lambda>r. lr_name r = ls_Name l \<and> reusable env now r) (db_leases db)
      = (if reusable env now r then 1 else 0)"
    using rows_affected_key [OF dist, of "ls_Name l" "reusable env now"] Some by simp
  have released: "lr_released_at r \<noteq> [] \<Longrightarrow> reusable env now r" by (simp add: reusable_def)
  note eq = assms(1) [unfolded AcquireLease_def now_or_clock_def Let_def, simplified assms(2,3) Some e
      normalizeLease_valid if_False sum.case option.case rows]
  consider "lr_released_at r = []" "now < e" | "\<not> (lr_released_at r = [] \<and> now < e)" "\<not> reusable env now r"
    | "\<not> (lr_released_at r = [] \<and> now < e)" "reusable env now r" by blast
  then show ?thesis
  proof cases
    case 1
    then show ?thesis using eq held [OF Some e] by simp
  next
    case 2
    then have "lr_released_at r = []" using released by blast
    then show ?thesis using 2 eq held [OF Some e] by simp
  next
    case 3
    then have c: "lr_released_at r \<noteq> [] \<or> e \<le> now" by auto
    from 3 eq have eq': "(case recordLeaseReclaim (ls_Name l) (lr_owner r) (ls_Owner l)
          (if lr_released_at r = [] then ''stale'' else ''released'') now
          (db\<lparr>db_leases := sql_update (\<lambda>r. lr_name r = ls_Name l \<and> reusable env now r) (take_over l) (db_leases db)\<rparr>) of
            Inl e \<Rightarrow> (Inl e, db) | Inr db' \<Rightarrow> (Inr True, db')) = (res, db')" by auto
    show ?thesis
    proof (cases "recordLeaseReclaim (ls_Name l) (lr_owner r) (ls_Owner l)
          (if lr_released_at r = [] then ''stale'' else ''released'') now
          (db\<lparr>db_leases := sql_update (\<lambda>r. lr_name r = ls_Name l \<and> reusable env now r) (take_over l) (db_leases db)\<rparr>)")
      case (Inl err)
      with eq' have "res = Inl err" "db' = db" by simp_all
      then show ?thesis by (rule failed [OF Some e c])
    next
      case (Inr db1)
      show ?thesis using Inr eq' taken [OF Some e c 3(2)] recordLeaseReclaim_Inr [OF Inr] by (simp add: taken_db_def)
    qed
  qed
qed

lemma lookup_taken:
  "leases_ok db \<Longrightarrow> lookup lr_name n (db_leases (taken_db env l now a r db)) =
     (case lookup lr_name n (db_leases db) of
        None \<Rightarrow> None
      | Some r \<Rightarrow> Some (if lr_name r = ls_Name l \<and> reusable env now r then take_over l r else r))"
  by (simp add: taken_db_def lookup_sql_update leases_ok_def)

lemma leases_ok_taken: "valid_lease l \<Longrightarrow> leases_ok db \<Longrightarrow> leases_ok (taken_db env l now a r db)"
  using leases_ok_update [of db "take_over l" "\<lambda>r. lr_name r = ls_Name l \<and> reusable env now r"]
  by (simp add: taken_db_def lease_row_ok_take_over leases_ok_def)

lemma acquire_request_cases:
  assumes "acquire_request env l now db = (b, db')" "valid_lease l" "\<not> is_zero now" "leases_ok db"
  shows "leases_ok db' \<and> (\<not> b \<longrightarrow> db' = db) \<and> (b \<longrightarrow> holder db (ls_Name l) now = None)
     \<and> (b \<longrightarrow> t < ls_ExpiresAt l \<longrightarrow> holder db' (ls_Name l) t = Some (ls_Owner l))
     \<and> (n \<noteq> ls_Name l \<longrightarrow> holder db' n t = holder db n t)"
proof -
  obtain res db1 where eq: "AcquireLease env l now db = (res, db1)" by fastforce
  have exp: "parse_time (format_time (ls_ExpiresAt l)) = Some (ls_ExpiresAt l)"
    using assms(2) by (simp add: valid_lease_def parse_format_time)
  from eq assms(2-4) show ?thesis
  proof (cases rule: AcquireLease_cases)
    case fresh
    then have "b" "db' = db1" using assms(1) eq by (auto simp: acquire_request_def)
    moreover have "leases_ok db1"
      using fresh assms(2,4) by (auto simp: leases_ok_def lease_row_ok_new lookup_None_iff)
    ultimately show ?thesis
      using fresh exp by (auto simp: holder_def lookup_append split: option.splits)
  next
    case (held r e)
    then show ?thesis using assms(1,4) eq by (simp add: acquire_request_def)
  next
    case (taken r e)
    then have b: "b" "db' = db1" using assms(1) eq by (auto simp: acquire_request_def)
    have name: "lr_name r = ls_Name l" using lookup_Some [OF taken(1)] by simp
    have "holder db (ls_Name l) now = None" using taken by (auto simp: holder_def)
    moreover have "holder db1 (ls_Name l) t = Some (ls_Owner l)" if "t < ls_ExpiresAt l"
      using taken exp that name by (simp add: holder_def lookup_taken [OF assms(4)])
    moreover have "holder db1 n t = holder db n t" if "n \<noteq> ls_Name l"
      using that unfolding taken holder_def lookup_taken [OF assms(4)]
      by (auto split: option.splits dest!: lookup_Some)
    ultimately show ?thesis using b leases_ok_taken [OF assms(2,4)] taken by simp
  next
    case (failed r e err)
    then show ?thesis using assms(1,4) eq by (simp add: acquire_request_def)
  qed
qed

section \<open>The lease contract\<close>

text \<open>
  What a client of the leases relies on.  \<open>acquire\<close> answers whether the name was taken; the laws
  say that it is taken only when nobody holds it, that the winner then holds it until the expiry
  it asked for, that a refused request changes nothing, and that other names are not touched.
\<close>

locale lease_manager =
  fixes ok :: "'db \<Rightarrow> bool" and holds :: "'db \<Rightarrow> 'n \<Rightarrow> int \<Rightarrow> 'o option"
    and acquire :: "'l \<Rightarrow> int \<Rightarrow> 'db \<Rightarrow> bool \<times> 'db"
    and name_of :: "'l \<Rightarrow> 'n" and owner_of :: "'l \<Rightarrow> 'o" and expiry_of :: "'l \<Rightarrow> int"
    and valid :: "'l \<Rightarrow> int \<Rightarrow> bool"
  assumes acquire_keeps: "ok db \<Longrightarrow> valid l now \<Longrightarrow> ok (snd (acquire l now db))"
    and acquire_only_free: "ok db \<Longrightarrow> valid l now \<Longrightarrow> fst (acquire l now db) \<Longrightarrow> holds db (name_of l) now = None"
    and acquire_gives: "ok db \<Longrightarrow> valid l now \<Longrightarrow> fst (acquire l now db) \<Longrightarrow> t < expiry_of l
          \<Longrightarrow> holds (snd (acquire l now db)) (name_of l) t = Some (owner_of l)"
    and acquire_other: "ok db \<Longrightarrow> valid l now \<Longrightarrow> n \<noteq> name_of l
          \<Longrightarrow> holds (snd (acquire l now db)) n t = holds db n t"
    and acquire_refused: "ok db \<Longrightarrow> valid l now \<Longrightarrow> \<not> fst (acquire l now db) \<Longrightarrow> snd (acquire l now db) = db"
    and holds_before: "holds db n t = Some x \<Longrightarrow> s \<le> t \<Longrightarrow> holds db n s = Some x"
begin

fun acquires :: "('l \<times> int) list \<Rightarrow> 'db \<Rightarrow> 'db" where
  "acquires [] db = db"
| "acquires ((l, now) # reqs) db = acquires reqs (snd (acquire l now db))"

lemma acquires_ok:
  "ok db \<Longrightarrow> \<forall>(l, now) \<in> set reqs. valid l now \<Longrightarrow> ok (acquires reqs db)"
  by (induction reqs arbitrary: db) (auto simp: acquire_keeps)

lemma one_acquire_keeps_holder:
  assumes "ok db" "valid l now" "holds db n t = Some x" "now \<le> t"
  shows "holds (snd (acquire l now db)) n t = Some x"
proof (cases "fst (acquire l now db)")
  case True
  have "n \<noteq> name_of l"
    using acquire_only_free [OF assms(1,2) True] holds_before [OF assms(3,4)] by auto
  then show ?thesis using acquire_other [OF assms(1,2)] assms(3) by simp
next
  case False
  then show ?thesis using acquire_refused [OF assms(1,2)] assms(3) by simp
qed

lemma no_steal:
  assumes "ok db" "holds db n t = Some x" "\<forall>(l, now) \<in> set reqs. valid l now \<and> now \<le> t"
  shows "holds (acquires reqs db) n t = Some x"
  using assms
proof (induction reqs arbitrary: db)
  case Nil
  then show ?case by simp
next
  case (Cons req reqs)
  obtain l now where req: "req = (l, now)" by fastforce
  with Cons.prems have v: "valid l now" "now \<le> t" by auto
  have "holds (snd (acquire l now db)) n t = Some x"
    by (rule one_acquire_keeps_holder [OF Cons.prems(1) v(1) Cons.prems(2) v(2)])
  then show ?case using Cons acquire_keeps [OF Cons.prems(1) v(1)] req by simp
qed

lemma mutual_exclusion:
  assumes "ok db" "valid l1 now1" "fst (acquire l1 now1 db)"
    and "\<forall>(l, now) \<in> set reqs. valid l now \<and> now < expiry_of l1"
    and "valid l2 now2" "name_of l2 = name_of l1" "now2 < expiry_of l1"
  shows "\<not> fst (acquire l2 now2 (acquires reqs (snd (acquire l1 now1 db))))"
proof
  let ?db = "acquires reqs (snd (acquire l1 now1 db))" and ?t = "expiry_of l1 - 1"
  assume won: "fst (acquire l2 now2 ?db)"
  have ok1: "ok (snd (acquire l1 now1 db))" by (rule acquire_keeps [OF assms(1,2)])
  have "holds (snd (acquire l1 now1 db)) (name_of l1) ?t = Some (owner_of l1)"
    by (rule acquire_gives [OF assms(1-3)]) simp
  then have held: "holds ?db (name_of l1) ?t = Some (owner_of l1)"
    by (rule no_steal [OF ok1]) (use assms(4) in auto)
  have "ok ?db" by (rule acquires_ok [OF ok1]) (use assms(4) in auto)
  then have "holds ?db (name_of l2) now2 = None" by (rule acquire_only_free [OF _ assms(5) won])
  moreover have "holds ?db (name_of l1) now2 = Some (owner_of l1)"
    by (rule holds_before [OF held]) (use assms(7) in simp)
  ultimately show False using assms(6) by simp
qed

end

lemma holder_before: "holder db n t = Some x \<Longrightarrow> s \<le> t \<Longrightarrow> holder db n s = Some x"
  by (auto simp: holder_def split: option.splits if_splits)

interpretation lm: lease_manager leases_ok holder "acquire_request env" ls_Name ls_Owner ls_ExpiresAt
    "\<lambda>l now. valid_lease l \<and> \<not> is_zero now" for env
proof unfold_locales
  fix db db' :: db and l now n t x s
  assume "leases_ok db" "valid_lease l \<and> \<not> is_zero now"
  note c = acquire_request_cases [of env l now db "fst (acquire_request env l now db)"
      "snd (acquire_request env l now db)", OF _ _ _ \<open>leases_ok db\<close>]
  note c' = c [OF prod.collapse [symmetric], OF conjunct1 [OF \<open>valid_lease l \<and> \<not> is_zero now\<close>]
      conjunct2 [OF \<open>valid_lease l \<and> \<not> is_zero now\<close>]]
  show "leases_ok (snd (acquire_request env l now db))"
    "fst (acquire_request env l now db) \<Longrightarrow> holder db (ls_Name l) now = None"
    "fst (acquire_request env l now db) \<Longrightarrow> t < ls_ExpiresAt l
       \<Longrightarrow> holder (snd (acquire_request env l now db)) (ls_Name l) t = Some (ls_Owner l)"
    "n \<noteq> ls_Name l \<Longrightarrow> holder (snd (acquire_request env l now db)) n t = holder db n t"
    "\<not> fst (acquire_request env l now db) \<Longrightarrow> snd (acquire_request env l now db) = db"
    using c' by blast+
qed (rule holder_before)

section \<open>Properties\<close>

fun acquire_all :: "store_env \<Rightarrow> (Lease \<times> time) list \<Rightarrow> db \<Rightarrow> db" where
  "acquire_all env [] db = db"
| "acquire_all env ((l, now) # reqs) db = acquire_all env reqs (snd (acquire_request env l now db))"

lemma acquire_all_eq: "acquire_all env reqs db = lm.acquires env reqs db"
  by (induction reqs arbitrary: db) auto

definition lease_request :: "string \<Rightarrow> string \<Rightarrow> time \<Rightarrow> time \<Rightarrow> Lease" where
  "lease_request name owner now expires =
     zero_Lease\<lparr>ls_Name := name, ls_Scope := ''scope'', ls_Owner := owner, ls_AcquiredAt := now,
                ls_RenewedAt := now, ls_ExpiresAt := expires\<rparr>"

text \<open>The first lease of a name, for the examples below.\<close>

lemma acquire_fresh:
  "lookup lr_name (ls_Name l) (db_leases db) = None \<Longrightarrow> valid_lease l \<Longrightarrow>
     AcquireLease env l now db = (Inr True, db\<lparr>db_leases := db_leases db @ [lease_row l]\<rparr>)"
  by (simp add: AcquireLease_def Let_def insert_or_ignore_def sql_conflict_iff)

lemma fresh_lease_ok:
  "lookup lr_name (ls_Name l) (db_leases db) = None \<Longrightarrow> valid_lease l \<Longrightarrow> leases_ok db \<Longrightarrow>
     leases_ok (db\<lparr>db_leases := db_leases db @ [lease_row l]\<rparr>)"
  by (auto simp: leases_ok_def lease_row_ok_new lookup_None_iff)

lemma fresh_lease_holder:
  "lookup lr_name (ls_Name l) (db_leases db) = None \<Longrightarrow> valid_lease l \<Longrightarrow> t < ls_ExpiresAt l \<Longrightarrow>
     holder (db\<lparr>db_leases := db_leases db @ [lease_row l]\<rparr>) (ls_Name l) t = Some (ls_Owner l)"
  by (simp add: holder_def lookup_append valid_lease_def parse_format_time)

lemma empty_db_ok [simp]: "leases_ok empty_db" "db_leases empty_db = []" "db_facts empty_db = []"
  by (simp_all add: leases_ok_def empty_db_def)

definition ann_lease :: Lease where "ann_lease = lease_request ''run:A-1'' ''ann#1'' 1000000000 9000000000"
definition bob_lease :: Lease where "bob_lease = lease_request ''run:A-1'' ''bob#2'' 2000000000 9500000000"

lemma witness_lease_ok [simp]: "valid_lease ann_lease" "valid_lease bob_lease"
  by code_simp+

lemma witness_lease_simps [simp]:
  "ls_Name ann_lease = ''run:A-1''" "ls_Name bob_lease = ''run:A-1''" "ls_Owner ann_lease = ''ann#1''"
  "ls_Owner bob_lease = ''bob#2''" "ls_ExpiresAt ann_lease = 9000000000" "ls_ExpiresAt bob_lease = 9500000000"
  "ls_ReleasedAt ann_lease = 0" "ls_ReleaseReason ann_lease = []"
  by (simp_all add: ann_lease_def bob_lease_def lease_request_def zero_Lease_def)

lemma ann_read_back [simp]: "ann_lease\<lparr>ls_ReleasedAt := 0, ls_ReleaseReason := []\<rparr> = ann_lease"
  by (simp add: ann_lease_def lease_request_def zero_Lease_def)

definition ann_db :: db where "ann_db = empty_db\<lparr>db_leases := [lease_row ann_lease]\<rparr>"

lemma ann_acquires: "AcquireLease env ann_lease now empty_db = (Inr True, ann_db)"
  using acquire_fresh [of ann_lease empty_db] by (simp add: ann_db_def)

lemma ann_db_ok [simp]: "leases_ok ann_db"
  using fresh_lease_ok [of ann_lease empty_db] by (simp add: ann_db_def)

lemma ann_db_holder: "t < 9000000000 \<Longrightarrow> holder ann_db ''run:A-1'' t = Some ''ann#1''"
  using fresh_lease_holder [of ann_lease empty_db] by (simp add: ann_db_def)

text \<open>
  C1: a lease excludes.  After an acquisition succeeded, no other acquisition of the same name
  succeeds before the lease expires, whatever valid acquisitions of any names came in between.
\<close>

theorem lease_mutual_exclusion:
  assumes "leases_ok db" "valid_lease l1" "\<not> is_zero now1" "fst (acquire_request env l1 now1 db)"
    and "\<forall>(l, now) \<in> set reqs. (valid_lease l \<and> \<not> is_zero now) \<and> now < ls_ExpiresAt l1"
    and "valid_lease l2" "\<not> is_zero now2" "ls_Name l2 = ls_Name l1" "now2 < ls_ExpiresAt l1"
  shows "\<not> fst (acquire_request env l2 now2 (acquire_all env reqs (snd (acquire_request env l1 now1 db))))"
  unfolding acquire_all_eq by (rule lm.mutual_exclusion) (use assms in simp_all)

theorem lease_mutual_exclusion_witness:
  "\<not> fst (acquire_request test_env bob_lease 2000000000
       (acquire_all test_env [(bob_lease, 1500000000)] (snd (acquire_request test_env ann_lease 1000000000 empty_db))))"
  by (rule lease_mutual_exclusion) (simp_all add: is_zero_def acquire_request_def ann_acquires)

lemma reusable_when_expired:
  assumes "julianday_ok (env_julianday env)" "rfc_time now" "\<not> is_zero now"
    and "lease_row_ok r" "parse_time (lr_expires_at r) = Some e" "e \<le> now"
  shows "reusable env now r"
proof -
  obtain t where "rfc_time t" "\<not> is_zero t" "lr_expires_at r = format_time t" "parse_time (lr_expires_at r) = Some t"
    using assms(4) by (auto simp: lease_row_ok_def elim: time_text_obtain)
  then show ?thesis
    using assms unfolding reusable_def julianday_ok_def by auto
qed

text \<open>
  C2: the two guards of \<open>AcquireLease\<close>, the comparison in Go and the \<open>julianday\<close> comparison in
  the \<open>UPDATE\<close>, never disagree: a valid request is refused exactly while somebody holds the name.
\<close>

theorem acquire_refused_iff_held:
  assumes "leases_ok db" "valid_lease l" "\<not> is_zero now" "rfc_time now" "julianday_ok (env_julianday env)"
  shows "fst (AcquireLease env l now db) = Inr False \<longleftrightarrow> holder db (ls_Name l) now \<noteq> None"
proof -
  obtain res db' where eq: "AcquireLease env l now db = (res, db')" by fastforce
  from eq assms(2,3,1) show ?thesis
  proof (cases rule: AcquireLease_cases)
    case fresh
    then show ?thesis using eq by (simp add: holder_def)
  next
    case (held r e)
    have "lease_row_ok r"
      using lookup_Some [OF held(1)] assms(1) by (auto simp: leases_ok_def list_all_iff)
    then have "now < e"
      using held(2,4) reusable_when_expired [OF assms(5,4,3)] by fastforce
    then show ?thesis using held eq by (simp add: holder_def)
  next
    case (taken r e)
    then show ?thesis using eq by (auto simp: holder_def)
  next
    case (failed r e err)
    then show ?thesis using eq by (auto simp: holder_def)
  qed
qed

theorem acquire_refused_iff_held_witness:
  "fst (AcquireLease test_env bob_lease 2000000000 ann_db) = Inr False"
proof -
  have "rfc_time 2000000000" by code_simp
  from acquire_refused_iff_held [OF ann_db_ok witness_lease_ok(2) _ this, of test_env]
  show ?thesis by (simp add: julianday_ms_ok is_zero_def ann_db_holder)
qed



lemma scan_lease_row:
  "valid_lease l \<Longrightarrow> lr_name r = ls_Name l \<Longrightarrow> scan_lease (take_over l r) = Inr (l\<lparr>ls_ReleasedAt := 0, ls_ReleaseReason := []\<rparr>)"
  "valid_lease l \<Longrightarrow> scan_lease (lease_row l) = Inr (l\<lparr>ls_ReleasedAt := 0, ls_ReleaseReason := []\<rparr>)"
  by (simp_all add: scan_lease_def take_over_def lease_row_def valid_lease_def parse_format_time parse_time_def [of "[]"])

text \<open>
  What is acquired is what is read: after a successful acquisition \<open>Lease\<close> returns the request,
  unreleased, with every time as it was given.
\<close>

theorem acquired_lease_read_back:
  assumes "leases_ok db" "valid_lease l" "\<not> is_zero now" "AcquireLease env l now db = (Inr True, db')"
  shows "ReadLease (ls_Name l) db' = Inr (Some (l\<lparr>ls_ReleasedAt := 0, ls_ReleaseReason := []\<rparr>))"
proof -
  have name: "ls_Name l \<noteq> []" using assms(2) by (simp add: valid_lease_def)
  from assms(4,2,3,1) show ?thesis
  proof (cases rule: AcquireLease_cases)
    case fresh
    then show ?thesis using name assms(2) by (simp add: ReadLease_def lookup_append scan_lease_row)
  next
    case (taken r e)
    moreover have "lr_name r = ls_Name l" using lookup_Some [OF taken(1)] by simp
    ultimately show ?thesis using name assms(2)
      by (simp add: ReadLease_def lookup_taken [OF assms(1)] scan_lease_row)
  qed simp_all
qed

theorem acquired_lease_read_back_witness:
  "ReadLease ''run:A-1'' ann_db = Inr (Some ann_lease)"
  using acquired_lease_read_back [OF empty_db_ok(1) witness_lease_ok(1) _ ann_acquires, of 1000000000]
  by (simp add: is_zero_def)

text \<open>
  \<open>ReleaseLease\<close> frees a name whoever holds it: it looks at the name only, so the late release
  of an owner whose lease expired and was taken over drops the lease of the new owner.
\<close>

theorem release_frees_any_holder:
  assumes "leases_ok db" "n \<noteq> []" "holder db n t = Some x"
    and "\<not> is_zero releasedAt"
  shows "fst (ReleaseLease env n releasedAt reason db) = Inr ()
     \<and> holder (snd (ReleaseLease env n releasedAt reason db)) n s = None"
proof -
  obtain r where r: "lookup lr_name n (db_leases db) = Some r"
    using assms(3) by (auto simp: holder_def split: option.splits)
  have dist: "distinct (map lr_name (db_leases db))" using assms(1) by (simp add: leases_ok_def)
  have one: "rows_affected (\<lambda>r. lr_name r = n) (db_leases db) = 1"
    using rows_affected_key [OF dist, of n "\<lambda>_. True"] r by simp
  have "lr_name r = n" using lookup_Some [OF r] by simp
  then show ?thesis
    using assms(2,4) one r
    by (simp add: ReleaseLease_def now_or_clock_def Let_def holder_def lookup_sql_update [OF _ dist])
qed

theorem release_frees_any_holder_witness:
  "holder (snd (ReleaseLease test_env ''run:A-1'' 3000000000 ''released'' ann_db)) ''run:A-1'' 4000000000 = None"
  using release_frees_any_holder [of ann_db "''run:A-1''" 4000000000 "''ann#1''" 3000000000]
  by (simp add: is_zero_def ann_db_holder)

end
