(* ===== verification/EventLog.thy ===== *)
theory EventLog
  imports StoreBase "HOL-Library.Multiset"
begin

text \<open>
  The event log of internal/state/store.go: \<open>AppendEvent\<close> and \<open>Events\<close> over the
  \<open>orchestration_events\<close> table.  Rows are in insertion order with growing sequence numbers (the
  numbers SQLite skips for an ignored insert are not modelled, only their order matters).  An event's
  identity is a hash of its content, so appending it again is ignored.
\<close>

datatype event_payload = NoPayload | RawPayload string | ValuePayload json

record Event =
  ev_ID :: string
  ev_Sequence :: int
  ev_OccurredAt :: time
  ev_IssueKey :: string
  ev_IssueID :: string
  ev_Attempt :: int
  ev_RunID :: string
  ev_Source :: string
  ev_Type :: string
  ev_Payload :: string

record EventInput =
  ei_OccurredAt :: time
  ei_IssueKey :: string
  ei_IssueID :: string
  ei_Attempt :: int
  ei_RunID :: string
  ei_Source :: string
  ei_Type :: string
  ei_Payload :: event_payload

record EventFilter =
  ef_IssueKey :: string
  ef_IssueID :: string
  ef_Attempt :: int
  ef_Type :: string
  ef_Limit :: int

definition normalizeEventPayload :: "store_env \<Rightarrow> event_payload \<Rightarrow> string result" where
  "normalizeEventPayload env payload =
     (case payload of
        NoPayload \<Rightarrow> Inr ''{}''
      | RawPayload raw \<Rightarrow>
          if \<not> env_json_valid env raw then Inl (StoreError ''payload must be valid JSON'') else Inr raw
      | ValuePayload v \<Rightarrow>
          let encoded = json_render v in
          if \<not> env_json_valid env encoded then Inl (StoreError ''payload must be valid JSON'') else Inr encoded)"

definition nul :: char where "nul = char_of (0::nat)"

definition event_identity :: "time \<Rightarrow> EventInput \<Rightarrow> string \<Rightarrow> string" where
  "event_identity occurredAt input payload =
     format_time occurredAt @ [nul] @ ei_Source input @ [nul] @ ei_Type input @ [nul] @ ei_IssueKey input @ [nul]
     @ itoa (ei_Attempt input) @ [nul] @ ei_RunID input @ [nul] @ payload"

definition normalizeEvent :: "store_env \<Rightarrow> EventInput \<Rightarrow> string \<Rightarrow> Event result" where
  "normalizeEvent env input payload =
     (if ei_Source input = [] then Inl (StoreError ''source is required'')
      else if ei_Type input = [] then Inl (StoreError ''type is required'')
      else let occurredAt = now_or_clock env (ei_OccurredAt input) in
        if ei_Attempt input < 0 then Inl (StoreError ''attempt cannot be negative'')
        else Inr \<lparr>ev_ID = ''evt_'' @ env_sha256 env (event_identity occurredAt input payload), ev_Sequence = 0,
                  ev_OccurredAt = occurredAt, ev_IssueKey = ei_IssueKey input, ev_IssueID = ei_IssueID input,
                  ev_Attempt = ei_Attempt input, ev_RunID = ei_RunID input, ev_Source = ei_Source input,
                  ev_Type = ei_Type input, ev_Payload = payload\<rparr>)"

definition event_row :: "int \<Rightarrow> Event \<Rightarrow> EventRow" where
  "event_row sq event =
     \<lparr>er_sequence = sq, er_event_id = ev_ID event, er_occurred_at = format_time (ev_OccurredAt event),
      er_issue_key = ev_IssueKey event, er_issue_id = ev_IssueID event, er_attempt = nullZeroInt (ev_Attempt event),
      er_run_id = ev_RunID event, er_source = ev_Source event, er_event_type = ev_Type event,
      er_payload_json = ev_Payload event\<rparr>"

definition insert_event :: "Event \<Rightarrow> db \<Rightarrow> db" where
  "insert_event event db =
     (let row = event_row (db_event_seq db + 1) event in
      if sql_conflict er_event_id row (db_events db) then db
      else db\<lparr>db_events := db_events db @ [row], db_event_seq := db_event_seq db + 1\<rparr>)"

definition appendEvent :: "store_env \<Rightarrow> EventInput \<Rightarrow> db \<Rightarrow> Event result \<times> db" where
  "appendEvent env input db =
     (case normalizeEventPayload env (ei_Payload input) of
        Inl e \<Rightarrow> (Inl e, db)
      | Inr payload \<Rightarrow>
          (case normalizeEvent env input payload of
             Inl e \<Rightarrow> (Inl e, db)
           | Inr event \<Rightarrow> (Inr event, insert_event event db)))"

definition event_matches :: "EventFilter \<Rightarrow> EventRow \<Rightarrow> bool" where
  "event_matches f r \<longleftrightarrow>
     (ef_IssueKey f = [] \<or> er_issue_key r = ef_IssueKey f)
     \<and> (ef_IssueID f = [] \<or> er_issue_id r = ef_IssueID f)
     \<and> (ef_Attempt f \<le> 0 \<or> er_attempt r = Some (ef_Attempt f))
     \<and> (ef_Type f = [] \<or> er_event_type r = ef_Type f)"

fun scanEvents :: "EventRow list \<Rightarrow> Event list result" where
  "scanEvents [] = Inr []"
| "scanEvents (r # rs) =
     (case parse_time (er_occurred_at r) of
        None \<Rightarrow> Inl (StoreError ''parse event occurred_at'')
      | Some t \<Rightarrow>
          (case scanEvents rs of
             Inl e \<Rightarrow> Inl e
           | Inr es \<Rightarrow>
               Inr (\<lparr>ev_ID = er_event_id r, ev_Sequence = er_sequence r, ev_OccurredAt = t, ev_IssueKey = er_issue_key r,
                     ev_IssueID = er_issue_id r, ev_Attempt = coalesce0 (er_attempt r), ev_RunID = er_run_id r,
                     ev_Source = er_source r, ev_Type = er_event_type r, ev_Payload = er_payload_json r\<rparr> # es)))"

definition event_limit :: "EventFilter \<Rightarrow> nat" where
  "event_limit f = nat (if ef_Limit f \<le> 0 then 10 else ef_Limit f)"

definition Events :: "EventFilter \<Rightarrow> db \<Rightarrow> Event list result" where
  "Events f db =
     (let rows = sort_key (\<lambda>r. - er_sequence r) (filter (event_matches f) (db_events db)) in
      case scanEvents (take (event_limit f) rows) of
        Inl e \<Rightarrow> Inl e
      | Inr es \<Rightarrow> Inr (rev es))"

definition RecentEvents :: "int \<Rightarrow> db \<Rightarrow> Event list result" where
  "RecentEvents limit db =
     Events \<lparr>ef_IssueKey = [], ef_IssueID = [], ef_Attempt = 0, ef_Type = [], ef_Limit = limit\<rparr> db"

section \<open>The log invariant\<close>

definition events_ok :: "db \<Rightarrow> bool" where
  "events_ok db \<longleftrightarrow>
     sorted_wrt (<) (map er_sequence (db_events db))
     \<and> list_all (\<lambda>r. er_sequence r \<le> db_event_seq db) (db_events db)
     \<and> distinct (map er_event_id (db_events db))"

lemma er_event_id_row [simp]: "er_event_id (event_row sq e) = ev_ID e" "er_sequence (event_row sq e) = sq"
  by (simp_all add: event_row_def)

lemma insert_event_ok: "events_ok db \<Longrightarrow> events_ok (insert_event e db)"
  by (fastforce simp: insert_event_def Let_def events_ok_def sorted_wrt_append list_all_iff sql_conflict_iff lookup_None_iff)

lemma appendEvent_ok: "events_ok db \<Longrightarrow> events_ok (snd (appendEvent env input db))"
  by (auto simp: appendEvent_def insert_event_ok split: sum.splits)

lemma insert_event_frame [simp]:
  "db_leases (insert_event e db) = db_leases db" "db_tasks (insert_event e db) = db_tasks db"
  "db_results (insert_event e db) = db_results db" "db_heartbeats (insert_event e db) = db_heartbeats db"
  "db_facts (insert_event e db) = db_facts db" "db_intents (insert_event e db) = db_intents db"
  "db_attempts (insert_event e db) = db_attempts db" "db_cleanups (insert_event e db) = db_cleanups db"
  "db_outcomes (insert_event e db) = db_outcomes db" "db_retries (insert_event e db) = db_retries db"
  "db_payload_refs (insert_event e db) = db_payload_refs db" "db_reviews (insert_event e db) = db_reviews db"
  "db_feedback (insert_event e db) = db_feedback db" "db_pr_mappings (insert_event e db) = db_pr_mappings db"
  by (simp_all add: insert_event_def Let_def)

lemma insert_event_twice: "ev_ID e' = ev_ID e \<Longrightarrow> insert_event e' (insert_event e db) = insert_event e db"
  by (auto simp: insert_event_def Let_def sql_conflict_def list_ex_iff)

text \<open>The log only grows: what is in it stays, in place.\<close>

lemma insert_event_prefix: "prefix (db_events db) (db_events (insert_event e db))"
  by (simp add: insert_event_def Let_def)

lemma sort_key_rev:
  "sorted_wrt (<) (map f xs) \<Longrightarrow> sort_key (\<lambda>x. - f x :: int) xs = rev xs"
proof (rule sort_key_inj_key_eq)
  assume s: "sorted_wrt (<) (map f xs)"
  show "mset xs = mset (rev xs)" by simp
  show "sorted (map (\<lambda>x. - f x) (rev xs))"
    using s by (induction xs) (auto simp: sorted_append)
  show "inj_on (\<lambda>x. - f x) (set xs)"
    using s by (induction xs) auto
qed

lemma sorted_filter_sequence: "events_ok db \<Longrightarrow> sorted_wrt (<) (map er_sequence (filter P (db_events db)))"
  unfolding events_ok_def by (simp add: sorted_wrt_map sorted_wrt_filter)

definition sample_input :: EventInput where
  "sample_input = \<lparr>ei_OccurredAt = 5000000000, ei_IssueKey = ''A-1'', ei_IssueID = [], ei_Attempt = 1, ei_RunID = [],
     ei_Source = ''runner'', ei_Type = ''attempt_started'', ei_Payload = NoPayload\<rparr>"

definition all_events :: EventFilter where
  "all_events = \<lparr>ef_IssueKey = [], ef_IssueID = [], ef_Attempt = 0, ef_Type = [], ef_Limit = 5\<rparr>"

section \<open>Properties\<close>

lemma scanEvents_append:
  "scanEvents (xs @ ys) = (case scanEvents xs of Inl e \<Rightarrow> Inl e | Inr as \<Rightarrow>
     (case scanEvents ys of Inl e \<Rightarrow> Inl e | Inr bs \<Rightarrow> Inr (as @ bs)))"
  by (induction xs) (auto split: option.splits sum.splits)

lemma scanEvents_error: "scanEvents rs = Inl e \<Longrightarrow> e = StoreError ''parse event occurred_at''"
  by (induction rs) (auto split: option.splits sum.splits)

lemma scanEvents_rev: "scanEvents (rev rs) = (case scanEvents rs of Inl e \<Rightarrow> Inl e | Inr es \<Rightarrow> Inr (rev es))"
proof (induction rs)
  case (Cons r rs)
  then show ?case
    by (cases "scanEvents rs") (auto simp: scanEvents_append split: option.splits dest: scanEvents_error)
qed simp

text \<open>
  \<open>Events\<close> returns the last matching events, in the order they were appended: the newest
  \<open>limit\<close> (ten when none is given), oldest first.
\<close>

theorem events_are_newest_in_order:
  assumes "events_ok db"
  shows "Events f db =
     scanEvents (let rows = filter (event_matches f) (db_events db) in drop (length rows - event_limit f) rows)"
proof -
  let ?rows = "filter (event_matches f) (db_events db)"
  have "sort_key (\<lambda>r. - er_sequence r) ?rows = rev ?rows"
    by (rule sort_key_rev) (rule sorted_filter_sequence [OF assms])
  then show ?thesis
    by (simp add: Events_def Let_def take_rev scanEvents_rev split: sum.splits)
qed

theorem events_are_newest_in_order_witness:
  "Events all_events (snd (appendEvent test_env sample_input empty_db)) =
     scanEvents (let rows = filter (event_matches all_events) (db_events (snd (appendEvent test_env sample_input empty_db)))
                 in drop (length rows - event_limit all_events) rows)"
  by (rule events_are_newest_in_order, rule appendEvent_ok) (simp add: events_ok_def empty_db_def)

text \<open>
  C4: appending is idempotent and loses nothing.  An event given with its time, appended again,
  changes nothing and gives the same identity; whatever was in the log stays there in its place;
  and after a successful append the log holds a row with the returned identity.
\<close>

theorem append_event_idempotent:
  assumes "\<not> is_zero (ei_OccurredAt i)" "appendEvent env i db = (Inr e, db')"
  shows "appendEvent env i db' = (Inr e, db') \<and> prefix (db_events db) (db_events db')
     \<and> lookup er_event_id (ev_ID e) (db_events db') \<noteq> None"
proof -
  obtain payload where p: "normalizeEventPayload env (ei_Payload i) = Inr payload" "normalizeEvent env i payload = Inr e"
    and db': "db' = insert_event e db"
    using assms(2) by (auto simp: appendEvent_def split: sum.splits)
  have "appendEvent env i db' = (Inr e, db')"
    using p db' by (simp add: appendEvent_def insert_event_twice)
  moreover have "lookup er_event_id (ev_ID e) (db_events db') \<noteq> None"
    by (auto simp: db' insert_event_def Let_def sql_conflict_iff lookup_append split: option.splits)
  ultimately show ?thesis by (simp add: db' insert_event_prefix)
qed

theorem append_event_idempotent_witness:
  "\<exists>e db'. appendEvent test_env sample_input empty_db = (Inr e, db') \<and> appendEvent test_env sample_input db' = (Inr e, db')"
proof -
  obtain e db' where eq: "appendEvent test_env sample_input empty_db = (Inr e, db')"
    by (simp add: appendEvent_def normalizeEventPayload_def normalizeEvent_def sample_input_def Let_def)
  have "\<not> is_zero (ei_OccurredAt sample_input)" by (simp add: sample_input_def is_zero_def)
  from append_event_idempotent [OF this eq] eq show ?thesis by blast
qed

end
