(* ===== verification/TaskStore.thy ===== *)
theory TaskStore
  imports LeaseStore EventLog
begin

text \<open>
  The worker task queue of internal/state/store.go: upserting, listing, claiming, completing,
  touching and requeueing tasks, the worker results and daemon heartbeats, and the recovery of
  stale claims.  \<open>claim_queue\<close> is the contract of a queue whose tasks are handed out at most once;
  \<open>ClaimWorkerTask\<close> and \<open>ClaimNextWorkerTask\<close> together are its interpretation.
\<close>

definition WorkerTaskStatusQueued :: string where "WorkerTaskStatusQueued = ''queued''"
definition WorkerTaskStatusClaimed :: string where "WorkerTaskStatusClaimed = ''claimed''"
definition WorkerTaskStatusCompleted :: string where "WorkerTaskStatusCompleted = ''completed''"
definition WorkerTaskStatusFailed :: string where "WorkerTaskStatusFailed = ''failed''"
definition WorkerTaskStatusCanceled :: string where "WorkerTaskStatusCanceled = ''canceled''"
definition WorkerTaskStatusReconciliationNeeded :: string where
  "WorkerTaskStatusReconciliationNeeded = ''reconciliation_needed''"

lemmas task_status_defs = WorkerTaskStatusQueued_def WorkerTaskStatusClaimed_def WorkerTaskStatusCompleted_def
  WorkerTaskStatusFailed_def WorkerTaskStatusCanceled_def WorkerTaskStatusReconciliationNeeded_def

record WorkerTask =
  wt_TaskKey :: string
  wt_Role :: string
  wt_IssueKey :: string
  wt_IssueID :: string
  wt_Attempt :: int
  wt_Status :: string
  wt_Priority :: int
  wt_AvailableAt :: time
  wt_LeaseName :: string
  wt_Payload :: string
  wt_CreatedAt :: time
  wt_UpdatedAt :: time

section \<open>Upserting and reading\<close>

definition task_row :: "WorkerTask \<Rightarrow> TaskRow" where
  "task_row t =
     \<lparr>tr_task_key = wt_TaskKey t, tr_role = wt_Role t, tr_issue_key = wt_IssueKey t, tr_issue_id = wt_IssueID t,
      tr_attempt = nullZeroInt (wt_Attempt t), tr_status = wt_Status t, tr_priority = wt_Priority t,
      tr_available_at = format_time (wt_AvailableAt t), tr_lease_name = wt_LeaseName t,
      tr_payload_json = wt_Payload t, tr_created_at = format_time (wt_CreatedAt t),
      tr_updated_at = format_time (wt_UpdatedAt t)\<rparr>"

definition merge_task :: "TaskRow \<Rightarrow> TaskRow \<Rightarrow> TaskRow" where
  "merge_task old new = new\<lparr>tr_task_key := tr_task_key old, tr_created_at := tr_created_at old\<rparr>"

definition normalize_task :: "store_env \<Rightarrow> WorkerTask \<Rightarrow> WorkerTask" where
  "normalize_task env t =
     t\<lparr>wt_Status := (if wt_Status t = [] then ''queued'' else wt_Status t),
       wt_AvailableAt := now_or_clock env (wt_AvailableAt t),
       wt_CreatedAt := now_or_clock env (wt_CreatedAt t),
       wt_UpdatedAt := now_or_clock env (wt_UpdatedAt t),
       wt_Payload := (if wt_Payload t = [] then ''{}'' else wt_Payload t)\<rparr>"

definition UpsertWorkerTask :: "store_env \<Rightarrow> WorkerTask \<Rightarrow> db \<Rightarrow> unit result \<times> db" where
  "UpsertWorkerTask env task0 db =
     (if wt_TaskKey task0 = [] then (Inl (StoreError ''upsert worker task: task_key is required''), db)
      else if wt_Role task0 = [] then (Inl (StoreError ''upsert worker task: role is required''), db)
      else let task = normalize_task env task0 in
        if \<not> env_json_valid env (wt_Payload task)
        then (Inl (StoreError ''upsert worker task: payload must be valid JSON''), db)
        else (Inr (), db\<lparr>db_tasks := sql_upsert tr_task_key merge_task (task_row task) (db_tasks db)\<rparr>))"

definition scan_task :: "TaskRow \<Rightarrow> WorkerTask result" where
  "scan_task r =
     (case parse_time (tr_available_at r) of
        None \<Rightarrow> Inl (StoreError ''parse worker task available_at'')
      | Some available \<Rightarrow>
     (case parse_time (tr_created_at r) of
        None \<Rightarrow> Inl (StoreError ''parse worker task created_at'')
      | Some created \<Rightarrow>
     (case parse_time (tr_updated_at r) of
        None \<Rightarrow> Inl (StoreError ''parse worker task updated_at'')
      | Some updated \<Rightarrow>
          Inr \<lparr>wt_TaskKey = tr_task_key r, wt_Role = tr_role r, wt_IssueKey = tr_issue_key r, wt_IssueID = tr_issue_id r,
               wt_Attempt = coalesce0 (tr_attempt r), wt_Status = tr_status r, wt_Priority = tr_priority r,
               wt_AvailableAt = available, wt_LeaseName = tr_lease_name r, wt_Payload = tr_payload_json r,
               wt_CreatedAt = created, wt_UpdatedAt = updated\<rparr>)))"

fun scan_tasks :: "TaskRow list \<Rightarrow> WorkerTask list result" where
  "scan_tasks [] = Inr []"
| "scan_tasks (r # rs) =
     (case scan_task r of
        Inl e \<Rightarrow> Inl e
      | Inr t \<Rightarrow> (case scan_tasks rs of Inl e \<Rightarrow> Inl e | Inr ts \<Rightarrow> Inr (t # ts)))"

text \<open>\<open>ORDER BY available_at, priority DESC, task_key\<close>; texts compare byte by byte.\<close>

definition task_order :: "TaskRow \<Rightarrow> string \<times> int \<times> string" where
  "task_order r = (tr_available_at r, - tr_priority r, tr_task_key r)"

definition WorkerTasks :: "string \<Rightarrow> db \<Rightarrow> WorkerTask list result" where
  "WorkerTasks role db =
     scan_tasks (sort_key task_order (filter (\<lambda>r. role = [] \<or> tr_role r = role) (db_tasks db)))"

definition workerTask :: "string \<Rightarrow> db \<Rightarrow> WorkerTask option result" where
  "workerTask taskKey db =
     (case lookup tr_task_key taskKey (db_tasks db) of
        None \<Rightarrow> Inr None
      | Some r \<Rightarrow> (case scan_task r of Inl e \<Rightarrow> Inl e | Inr t \<Rightarrow> Inr (Some t)))"

text \<open>\<open>Store.WorkerTask\<close>, under another name than the record.\<close>

definition ReadWorkerTask :: "string \<Rightarrow> db \<Rightarrow> WorkerTask option result" where
  "ReadWorkerTask taskKey db =
     (if taskKey = [] then Inl (StoreError ''worker task: task_key is required'') else workerTask taskKey db)"

section \<open>Claiming\<close>

definition set_status :: "string \<Rightarrow> time \<Rightarrow> TaskRow \<Rightarrow> TaskRow" where
  "set_status status now r = r\<lparr>tr_status := status, tr_updated_at := format_time now\<rparr>"

definition due :: "store_env \<Rightarrow> time \<Rightarrow> TaskRow \<Rightarrow> bool" where
  "due env now r \<longleftrightarrow> sql_le (env_julianday env (tr_available_at r)) (env_julianday env (format_time now))"

definition ClaimWorkerTask :: "store_env \<Rightarrow> string \<Rightarrow> time \<Rightarrow> db \<Rightarrow> WorkerTask option result \<times> db" where
  "ClaimWorkerTask env taskKey now0 db =
     (if taskKey = [] then (Inl (StoreError ''claim worker task: task_key is required''), db)
      else let now = now_or_clock env now0;
               sel = (\<lambda>r. tr_task_key r = taskKey \<and> tr_status r = WorkerTaskStatusQueued \<and> due env now r) in
        if rows_affected sel (db_tasks db) = 0 then (Inr None, db)
        else let db' = db\<lparr>db_tasks := sql_update sel (set_status WorkerTaskStatusClaimed now) (db_tasks db)\<rparr>
             in (workerTask taskKey db', db'))"

definition next_task :: "store_env \<Rightarrow> string \<Rightarrow> time \<Rightarrow> db \<Rightarrow> TaskRow option" where
  "next_task env role now db =
     (case sort_key task_order
             (filter (\<lambda>r. tr_role r = role \<and> tr_status r = WorkerTaskStatusQueued \<and> due env now r) (db_tasks db)) of
        [] \<Rightarrow> None | r # rs \<Rightarrow> Some r)"

definition ClaimNextWorkerTask :: "store_env \<Rightarrow> string \<Rightarrow> time \<Rightarrow> db \<Rightarrow> WorkerTask option result \<times> db" where
  "ClaimNextWorkerTask env role now0 db =
     (if role = [] then (Inl (StoreError ''claim next worker task: role is required''), db)
      else let now = now_or_clock env now0 in
        (case next_task env role now db of
           None \<Rightarrow> (Inr None, db)
         | Some r \<Rightarrow>
             let taskKey = tr_task_key r;
                 sel = (\<lambda>r. tr_task_key r = taskKey \<and> tr_status r = WorkerTaskStatusQueued) in
             if rows_affected sel (db_tasks db) = 0 then (Inr None, db)
             else let db' = db\<lparr>db_tasks := sql_update sel (set_status WorkerTaskStatusClaimed now) (db_tasks db)\<rparr>
                  in (workerTask taskKey db', db')))"

definition CompleteWorkerTask :: "store_env \<Rightarrow> string \<Rightarrow> string \<Rightarrow> time \<Rightarrow> db \<Rightarrow> unit result \<times> db" where
  "CompleteWorkerTask env taskKey status now0 db =
     (if taskKey = [] then (Inl (StoreError ''complete worker task: task_key is required''), db)
      else if status = [] then (Inl (StoreError ''complete worker task: status is required''), db)
      else let now = now_or_clock env now0;
               sel = (\<lambda>r. tr_task_key r = taskKey \<and> tr_status r = WorkerTaskStatusClaimed) in
        if rows_affected sel (db_tasks db) = 0 then (Inl (LeaseHeld ''complete worker task''), db)
        else (Inr (), db\<lparr>db_tasks := sql_update sel (set_status status now) (db_tasks db)\<rparr>))"

definition TouchClaimedWorkerTask :: "store_env \<Rightarrow> string \<Rightarrow> time \<Rightarrow> db \<Rightarrow> unit result \<times> db" where
  "TouchClaimedWorkerTask env taskKey now0 db =
     (if taskKey = [] then (Inl (StoreError ''touch claimed worker task: task_key is required''), db)
      else let now = now_or_clock env now0;
               sel = (\<lambda>r. tr_task_key r = taskKey \<and> tr_status r = WorkerTaskStatusClaimed) in
        if rows_affected sel (db_tasks db) = 0 then (Inl (LeaseHeld ''touch claimed worker task''), db)
        else (Inr (), db\<lparr>db_tasks := sql_update sel (\<lambda>r. r\<lparr>tr_updated_at := format_time now\<rparr>) (db_tasks db)\<rparr>))"

definition repair_event :: "WorkerTask \<Rightarrow> string \<Rightarrow> time \<Rightarrow> EventInput" where
  "repair_event task reason now =
     \<lparr>ei_OccurredAt = now, ei_IssueKey = wt_IssueKey task, ei_IssueID = wt_IssueID task, ei_Attempt = wt_Attempt task,
      ei_RunID = [], ei_Source = ''repair'', ei_Type = ''worker_task_repaired'',
      ei_Payload = ValuePayload (JObj
        [(''task_key'', JStr (wt_TaskKey task)), (''role'', JStr (wt_Role task)),
         (''old'', JStr WorkerTaskStatusReconciliationNeeded), (''new'', JStr WorkerTaskStatusQueued),
         (''reason'', JStr reason)])\<rparr>"

definition RequeueReconciliationNeededWorkerTask ::
    "store_env \<Rightarrow> string \<Rightarrow> string \<Rightarrow> time \<Rightarrow> db \<Rightarrow> WorkerTask result \<times> db" where
  "RequeueReconciliationNeededWorkerTask env taskKey reason0 now0 db =
     (if taskKey = [] then (Inl (StoreError ''requeue reconciliation worker task: task key is required''), db)
      else let now = now_or_clock env now0 in
        (case workerTask taskKey db of
           Inl e \<Rightarrow> (Inl e, db)
         | Inr None \<Rightarrow> (Inl (StoreError (''requeue reconciliation worker task: task '' @ taskKey @ '' not found'')), db)
         | Inr (Some task) \<Rightarrow>
             if wt_Status task \<noteq> WorkerTaskStatusReconciliationNeeded then
               (Inl (StoreError (''requeue reconciliation worker task: task '' @ taskKey @ '' status is ''
                  @ wt_Status task @ '', want '' @ WorkerTaskStatusReconciliationNeeded)), db)
             else let reason = (if trim_space reason0 = [] then ''operator_requeued_reconciliation_task'' else reason0);
                      sel = (\<lambda>r. tr_task_key r = taskKey \<and> tr_status r = WorkerTaskStatusReconciliationNeeded) in
               if rows_affected sel (db_tasks db) = 0 then
                 (Inl (StoreError (''requeue reconciliation worker task: task '' @ taskKey @ '' status changed before repair'')), db)
               else (case appendEvent env (repair_event task reason now)
                            (db\<lparr>db_tasks := sql_update sel
                                (\<lambda>r. (set_status WorkerTaskStatusQueued now r)\<lparr>tr_available_at := format_time now\<rparr>)
                                (db_tasks db)\<rparr>) of
                       (Inl e, _) \<Rightarrow> (Inl e, db)
                     | (Inr ev, db') \<Rightarrow>
                         (Inr (task\<lparr>wt_Status := WorkerTaskStatusQueued, wt_AvailableAt := now, wt_UpdatedAt := now\<rparr>), db'))))"

section \<open>Results and heartbeats\<close>

record WorkerResult =
  re_TaskKey :: string
  re_Role :: string
  re_LaneName :: string
  re_IssueKey :: string
  re_IssueID :: string
  re_Attempt :: int
  re_Status :: string
  re_DidWork :: bool
  re_Reason :: string
  re_Error :: string
  re_Payload :: string
  re_StartedAt :: time
  re_FinishedAt :: time
  re_UpdatedAt :: time

definition result_row :: "WorkerResult \<Rightarrow> ResultRow" where
  "result_row r =
     \<lparr>wr_task_key = re_TaskKey r, wr_role = re_Role r, wr_lane_name = re_LaneName r, wr_issue_key = re_IssueKey r,
      wr_issue_id = re_IssueID r, wr_attempt = nullZeroInt (re_Attempt r), wr_status = re_Status r,
      wr_did_work = boolInt (re_DidWork r), wr_reason = re_Reason r, wr_error = re_Error r,
      wr_payload_json = re_Payload r, wr_started_at = format_time (re_StartedAt r),
      wr_finished_at = format_time (re_FinishedAt r), wr_updated_at = format_time (re_UpdatedAt r)\<rparr>"

definition merge_result :: "ResultRow \<Rightarrow> ResultRow \<Rightarrow> ResultRow" where
  "merge_result old new = new\<lparr>wr_task_key := wr_task_key old\<rparr>"

definition normalize_result :: "store_env \<Rightarrow> WorkerResult \<Rightarrow> WorkerResult" where
  "normalize_result env r =
     (let finished = now_or_clock env (re_FinishedAt r) in
      r\<lparr>re_StartedAt := now_or_clock env (re_StartedAt r), re_FinishedAt := finished,
        re_UpdatedAt := (if is_zero (re_UpdatedAt r) then finished else re_UpdatedAt r),
        re_Payload := (if re_Payload r = [] then ''{}'' else re_Payload r)\<rparr>)"

definition UpsertWorkerResult :: "store_env \<Rightarrow> WorkerResult \<Rightarrow> db \<Rightarrow> unit result \<times> db" where
  "UpsertWorkerResult env result0 db =
     (if re_TaskKey result0 = [] then (Inl (StoreError ''upsert worker result: task_key is required''), db)
      else if re_Role result0 = [] then (Inl (StoreError ''upsert worker result: role is required''), db)
      else if re_Status result0 = [] then (Inl (StoreError ''upsert worker result: status is required''), db)
      else let result = normalize_result env result0 in
        if \<not> env_json_valid env (re_Payload result)
        then (Inl (StoreError ''upsert worker result: payload must be valid JSON''), db)
        else (Inr (), db\<lparr>db_results := sql_upsert wr_task_key merge_result (result_row result) (db_results db)\<rparr>))"

definition scan_result :: "ResultRow \<Rightarrow> WorkerResult result" where
  "scan_result r =
     (case parse_time (wr_started_at r) of
        None \<Rightarrow> Inl (StoreError ''parse worker result started_at'')
      | Some started \<Rightarrow>
     (case parse_time (wr_finished_at r) of
        None \<Rightarrow> Inl (StoreError ''parse worker result finished_at'')
      | Some finished \<Rightarrow>
     (case parse_time (wr_updated_at r) of
        None \<Rightarrow> Inl (StoreError ''parse worker result updated_at'')
      | Some updated \<Rightarrow>
          Inr \<lparr>re_TaskKey = wr_task_key r, re_Role = wr_role r, re_LaneName = wr_lane_name r,
               re_IssueKey = wr_issue_key r, re_IssueID = wr_issue_id r, re_Attempt = coalesce0 (wr_attempt r),
               re_Status = wr_status r, re_DidWork = (wr_did_work r = 1), re_Reason = wr_reason r,
               re_Error = wr_error r, re_Payload = wr_payload_json r, re_StartedAt = started,
               re_FinishedAt = finished, re_UpdatedAt = updated\<rparr>)))"

fun scan_results :: "ResultRow list \<Rightarrow> WorkerResult list result" where
  "scan_results [] = Inr []"
| "scan_results (r # rs) =
     (case scan_result r of
        Inl e \<Rightarrow> Inl e
      | Inr x \<Rightarrow> (case scan_results rs of Inl e \<Rightarrow> Inl e | Inr xs \<Rightarrow> Inr (x # xs)))"

text \<open>\<open>ORDER BY updated_at DESC, task_key\<close>: a stable sort by key, then by falling text.\<close>

definition sort_desc_then :: "('r \<Rightarrow> string) \<Rightarrow> ('r \<Rightarrow> string) \<Rightarrow> 'r list \<Rightarrow> 'r list" where
  "sort_desc_then f g rows = rev (sort_key f (rev (sort_key g rows)))"

definition WorkerResults :: "string \<Rightarrow> db \<Rightarrow> WorkerResult list result" where
  "WorkerResults role db =
     scan_results (sort_desc_then wr_updated_at wr_task_key (filter (\<lambda>r. role = [] \<or> wr_role r = role) (db_results db)))"

record DaemonHeartbeat =
  hb_ProcessID :: string
  hb_LaneName :: string
  hb_WorkflowPath :: string
  hb_CycleNumber :: int
  hb_LastSuccessAt :: time
  hb_LastError :: string
  hb_RecoveryRequired :: bool
  hb_ActiveTaskKey :: string
  hb_ActiveTaskRole :: string
  hb_ActiveLeaseName :: string
  hb_ActiveTaskStartedAt :: time
  hb_UpdatedAt :: time

definition heartbeat_row :: "DaemonHeartbeat \<Rightarrow> HeartbeatRow" where
  "heartbeat_row h =
     \<lparr>hr_process_id = hb_ProcessID h, hr_lane_name = hb_LaneName h, hr_workflow_path = hb_WorkflowPath h,
      hr_cycle_number = hb_CycleNumber h, hr_last_success_at = format_time (hb_LastSuccessAt h),
      hr_last_error = hb_LastError h, hr_recovery_required = boolInt (hb_RecoveryRequired h),
      hr_active_task_key = hb_ActiveTaskKey h, hr_active_task_role = hb_ActiveTaskRole h,
      hr_active_lease_name = hb_ActiveLeaseName h,
      hr_active_task_started_at = format_time (hb_ActiveTaskStartedAt h), hr_updated_at = format_time (hb_UpdatedAt h)\<rparr>"

text \<open>\<open>COALESCE(NULLIF(?, ''), last_success_at)\<close>: an empty new value keeps the old one.\<close>

definition merge_heartbeat :: "HeartbeatRow \<Rightarrow> HeartbeatRow \<Rightarrow> HeartbeatRow" where
  "merge_heartbeat old new =
     new\<lparr>hr_last_success_at := (if hr_last_success_at new = [] then hr_last_success_at old else hr_last_success_at new)\<rparr>"

definition UpsertDaemonHeartbeat :: "store_env \<Rightarrow> DaemonHeartbeat \<Rightarrow> db \<Rightarrow> unit result \<times> db" where
  "UpsertDaemonHeartbeat env heartbeat0 db =
     (if hb_ProcessID heartbeat0 = [] then (Inl (StoreError ''upsert daemon heartbeat: process_id is required''), db)
      else if hb_LaneName heartbeat0 = [] then (Inl (StoreError ''upsert daemon heartbeat: lane_name is required''), db)
      else let row = heartbeat_row (heartbeat0\<lparr>hb_UpdatedAt := now_or_clock env (hb_UpdatedAt heartbeat0)\<rparr>);
               sel = (\<lambda>r. hr_process_id r = hr_process_id row \<and> hr_lane_name r = hr_lane_name row) in
        if rows_affected sel (db_heartbeats db) > 0
        then (Inr (), db\<lparr>db_heartbeats := sql_update sel (\<lambda>old. merge_heartbeat old row) (db_heartbeats db)\<rparr>)
        else (Inr (), db\<lparr>db_heartbeats := db_heartbeats db @ [row]\<rparr>))"

section \<open>Stale claims\<close>

definition ownerHasHeartbeatAfter :: "store_env \<Rightarrow> string \<Rightarrow> time \<Rightarrow> db \<Rightarrow> bool" where
  "ownerHasHeartbeatAfter env owner cutoff db \<longleftrightarrow>
     rows_affected (\<lambda>r. hr_process_id r = owner
        \<and> sql_less (env_julianday env (format_time cutoff)) (env_julianday env (hr_updated_at r))) (db_heartbeats db) > 0"

definition claimedWorkerTaskIsRecoverable :: "store_env \<Rightarrow> WorkerTask \<Rightarrow> time \<Rightarrow> time \<Rightarrow> db \<Rightarrow> bool result" where
  "claimedWorkerTaskIsRecoverable env task now heartbeatCutoff db =
     (let leaseName = trim_space (wt_LeaseName task) in
      if leaseName = [] then Inr True
      else case ReadLease leaseName db of
             Inl e \<Rightarrow> Inl e
           | Inr None \<Rightarrow> Inr True
           | Inr (Some lease) \<Rightarrow>
               if \<not> is_zero (ls_ReleasedAt lease) then Inr True
               else if now < ls_ExpiresAt lease then Inr False
               else if trim_space (ls_Owner lease) = [] then Inr True
               else Inr (\<not> ownerHasHeartbeatAfter env (ls_Owner lease) heartbeatCutoff db))"

definition stale_payload :: "WorkerTask \<Rightarrow> duration \<Rightarrow> payload" where
  "stale_payload task staleAfter =
     put_if (trim_space (wt_LeaseName task) \<noteq> []) ''lease_name'' (JStr (wt_LeaseName task))
       [(''task_key'', JStr (wt_TaskKey task)), (''role'', JStr (wt_Role task)),
        (''status'', JStr WorkerTaskStatusReconciliationNeeded), (''previous'', JStr WorkerTaskStatusClaimed),
        (''reason'', JStr ''stale_claim_reconciliation_required''), (''stale_after_s'', JInt (staleAfter div second))]"

definition stale_result_row :: "WorkerTask \<Rightarrow> time \<Rightarrow> string \<Rightarrow> ResultRow" where
  "stale_result_row task now payloadJSON =
     \<lparr>wr_task_key = wt_TaskKey task, wr_role = wt_Role task, wr_lane_name = wt_Role task,
      wr_issue_key = wt_IssueKey task, wr_issue_id = wt_IssueID task, wr_attempt = nullZeroInt (wt_Attempt task),
      wr_status = WorkerTaskStatusReconciliationNeeded, wr_did_work = 0,
      wr_reason = ''stale_claim_reconciliation_required'', wr_error = [], wr_payload_json = payloadJSON,
      wr_started_at = format_time (wt_UpdatedAt task), wr_finished_at = format_time now,
      wr_updated_at = format_time now\<rparr>"

text \<open>This conflict clause keeps the start of an earlier result.\<close>

definition merge_stale_result :: "ResultRow \<Rightarrow> ResultRow \<Rightarrow> ResultRow" where
  "merge_stale_result old new = new\<lparr>wr_task_key := wr_task_key old, wr_started_at := wr_started_at old\<rparr>"

definition stale_event :: "WorkerTask \<Rightarrow> time \<Rightarrow> duration \<Rightarrow> EventInput" where
  "stale_event task now staleAfter =
     \<lparr>ei_OccurredAt = now, ei_IssueKey = wt_IssueKey task, ei_IssueID = wt_IssueID task, ei_Attempt = wt_Attempt task,
      ei_RunID = wt_TaskKey task, ei_Source = ''worker.'' @ wt_Role task, ei_Type = ''reconciliation_needed'',
      ei_Payload = ValuePayload (JObj (stale_payload task staleAfter))\<rparr>"

definition markWorkerTaskReconciliationNeeded ::
    "store_env \<Rightarrow> WorkerTask \<Rightarrow> time \<Rightarrow> duration \<Rightarrow> db \<Rightarrow> WorkerTask option result \<times> db" where
  "markWorkerTaskReconciliationNeeded env task now staleAfter db =
     (let sel = (\<lambda>r. tr_task_key r = wt_TaskKey task \<and> tr_status r = WorkerTaskStatusClaimed) in
      if rows_affected sel (db_tasks db) = 0 then (Inr None, db)
      else let row = stale_result_row task now (json_render (JObj (stale_payload task staleAfter)));
               db1 = db\<lparr>db_tasks := sql_update sel (set_status WorkerTaskStatusReconciliationNeeded now) (db_tasks db),
                        db_results := sql_upsert wr_task_key merge_stale_result row (db_results db)\<rparr> in
        (case appendEvent env (stale_event task now staleAfter) db1 of
           (Inl e, _) \<Rightarrow> (Inl e, db)
         | (Inr ev, db') \<Rightarrow>
             (Inr (Some (task\<lparr>wt_Status := WorkerTaskStatusReconciliationNeeded, wt_UpdatedAt := now\<rparr>)), db')))"

text \<open>The loop over the selected keys; it returns what it recovered together with the first error.\<close>

fun mark_stale_loop ::
    "store_env \<Rightarrow> time \<Rightarrow> time \<Rightarrow> duration \<Rightarrow> string list \<Rightarrow> WorkerTask list \<Rightarrow> db
       \<Rightarrow> (WorkerTask list \<times> store_error option) \<times> db" where
  "mark_stale_loop env now cutoff staleAfter [] recovered db = ((recovered, None), db)"
| "mark_stale_loop env now cutoff staleAfter (taskKey # keys) recovered db =
     (case workerTask taskKey db of
        Inl e \<Rightarrow> ((recovered, Some e), db)
      | Inr None \<Rightarrow> mark_stale_loop env now cutoff staleAfter keys recovered db
      | Inr (Some task) \<Rightarrow>
          if wt_Status task \<noteq> WorkerTaskStatusClaimed then mark_stale_loop env now cutoff staleAfter keys recovered db
          else (case claimedWorkerTaskIsRecoverable env task now cutoff db of
                  Inl e \<Rightarrow> ((recovered, Some e), db)
                | Inr recoverable \<Rightarrow>
                    if \<not> recoverable then mark_stale_loop env now cutoff staleAfter keys recovered db
                    else (case markWorkerTaskReconciliationNeeded env task now staleAfter db of
                            (Inl e, db') \<Rightarrow> ((recovered, Some e), db')
                          | (Inr None, db') \<Rightarrow> mark_stale_loop env now cutoff staleAfter keys recovered db'
                          | (Inr (Some updated), db') \<Rightarrow>
                              mark_stale_loop env now cutoff staleAfter keys (recovered @ [updated]) db')))"

definition stale_keys :: "store_env \<Rightarrow> time \<Rightarrow> db \<Rightarrow> string list" where
  "stale_keys env cutoff db =
     map tr_task_key (sort_key (\<lambda>r. (tr_updated_at r, tr_task_key r))
       (filter (\<lambda>r. tr_status r = WorkerTaskStatusClaimed
                    \<and> sql_le (env_julianday env (tr_updated_at r)) (env_julianday env (format_time cutoff))) (db_tasks db)))"

definition MarkStaleClaimedWorkerTasksReconciliationNeeded ::
    "store_env \<Rightarrow> time \<Rightarrow> duration \<Rightarrow> db \<Rightarrow> (WorkerTask list \<times> store_error option) \<times> db" where
  "MarkStaleClaimedWorkerTasksReconciliationNeeded env now0 staleAfter db =
     (let now = now_or_clock env now0 in
      if staleAfter \<le> 0 then (([], Some (StoreError ''mark stale worker tasks: stale_after must be positive'')), db)
      else mark_stale_loop env now (now - staleAfter) staleAfter (stale_keys env (now - staleAfter) db) [] db)"

section \<open>The status machine\<close>

inductive status_step :: "string \<Rightarrow> string \<Rightarrow> bool" where
  claim: "status_step ''queued'' ''claimed''"
| finish: "s \<noteq> [] \<Longrightarrow> status_step ''claimed'' s"
| requeue: "status_step ''reconciliation_needed'' ''queued''"

inductive_cases status_stepE: "status_step s s'"
inductive_simps status_step_from_queued: "status_step ''queued'' s"

code_pred status_step .

definition final_status :: "string \<Rightarrow> bool" where
  "final_status s \<longleftrightarrow> s \<noteq> ''queued'' \<and> s \<noteq> ''claimed'' \<and> s \<noteq> ''reconciliation_needed''"

lemma final_no_step: "final_status s \<Longrightarrow> \<not> status_step s s'"
  by (auto simp: final_status_def elim: status_stepE)

lemma final_no_steps: "status_step\<^sup>*\<^sup>* s s' \<Longrightarrow> final_status s \<Longrightarrow> s' = s"
  by (induction rule: converse_rtranclp_induct) (auto dest: final_no_step)

definition task_identity :: "TaskRow \<Rightarrow> TaskRow" where
  "task_identity r = r\<lparr>tr_status := [], tr_available_at := [], tr_updated_at := []\<rparr>"

definition task_step :: "TaskRow \<Rightarrow> TaskRow \<Rightarrow> bool" where
  "task_step r r' \<longleftrightarrow> task_identity r' = task_identity r \<and> status_step\<^sup>*\<^sup>* (tr_status r) (tr_status r')"

definition tasks_step :: "db \<Rightarrow> db \<Rightarrow> bool" where
  "tasks_step db db' \<longleftrightarrow> list_all2 task_step (db_tasks db) (db_tasks db')"

lemma task_step_refl [simp]: "task_step r r"
  by (simp add: task_step_def)

lemma task_step_trans: "task_step a b \<Longrightarrow> task_step b c \<Longrightarrow> task_step a c"
  by (auto simp: task_step_def intro: rtranclp_trans)

lemma tasks_step_refl [simp]: "tasks_step db db"
  by (simp add: tasks_step_def list_all2_refl)

lemma tasks_step_trans: "tasks_step a b \<Longrightarrow> tasks_step b c \<Longrightarrow> tasks_step a c"
  unfolding tasks_step_def by (rule list_all2_trans [OF task_step_trans])

lemma tasks_step_update:
  assumes "db_tasks db' = sql_update P f (db_tasks db)" and "\<And>r. P r \<Longrightarrow> task_step r (f r)"
  shows "tasks_step db db'"
  using assms unfolding tasks_step_def by (simp add: sql_update_def list_all2_conv_all_nth)

lemma set_status_simps [simp]:
  "tr_task_key (set_status s t r) = tr_task_key r" "tr_status (set_status s t r) = s"
  "tr_role (set_status s t r) = tr_role r" "task_identity (set_status s t r) = task_identity r"
  by (simp_all add: set_status_def task_identity_def)

lemma task_step_set_status: "status_step (tr_status r) s \<Longrightarrow> task_step r (set_status s now r)"
  by (simp add: task_step_def r_into_rtranclp)

lemmas status_steps [simp] =
  status_step.claim [folded task_status_defs] status_step.finish [folded task_status_defs]
  status_step.requeue [folded task_status_defs]

lemma appendEvent_tasks: "appendEvent env i db = (res, db') \<Longrightarrow> db_tasks db' = db_tasks db"
  by (auto simp: appendEvent_def split: sum.splits)

lemma appendEvent_leases: "appendEvent env i db = (res, db') \<Longrightarrow> db_leases db' = db_leases db"
  by (auto simp: appendEvent_def split: sum.splits)

lemma appendEvent_heartbeats: "appendEvent env i db = (res, db') \<Longrightarrow> db_heartbeats db' = db_heartbeats db"
  by (auto simp: appendEvent_def split: sum.splits)

section \<open>Every operation is a step\<close>

lemma touch_identity: "task_step r (r\<lparr>tr_updated_at := s\<rparr>)"
  by (simp add: task_step_def task_identity_def)

lemma status_update_step:
  "(\<And>r. P r \<Longrightarrow> status_step (tr_status r) s) \<Longrightarrow>
     tasks_step db (db\<lparr>db_tasks := sql_update P (set_status s now) (db_tasks db)\<rparr>)"
  by (rule tasks_step_update [where P = P and f = "set_status s now"]) (simp_all add: task_step_set_status)

lemma touch_update_step:
  "tasks_step db (db\<lparr>db_tasks := sql_update P (\<lambda>r. r\<lparr>tr_updated_at := s\<rparr>) (db_tasks db)\<rparr>)"
  by (rule tasks_step_update [where P = P and f = "\<lambda>r. r\<lparr>tr_updated_at := s\<rparr>"]) (simp_all add: touch_identity)

lemma tasks_step_same: "tasks_step db db1 \<Longrightarrow> db_tasks db' = db_tasks db1 \<Longrightarrow> tasks_step db db'"
  by (simp add: tasks_step_def)

lemma Claim_step: "tasks_step db (snd (ClaimWorkerTask env k now db))"
  by (auto simp: ClaimWorkerTask_def Let_def intro!: status_update_step)

lemma ClaimNext_step: "tasks_step db (snd (ClaimNextWorkerTask env role now db))"
  by (auto simp: ClaimNextWorkerTask_def Let_def split: option.splits intro!: status_update_step)

lemma Complete_step: "tasks_step db (snd (CompleteWorkerTask env k s now db))"
  by (auto simp: CompleteWorkerTask_def Let_def intro!: status_update_step)

lemma Touch_step: "tasks_step db (snd (TouchClaimedWorkerTask env k now db))"
  by (auto simp: TouchClaimedWorkerTask_def Let_def intro!: touch_update_step)

lemma requeue_row_step:
  "tr_status r = WorkerTaskStatusReconciliationNeeded \<Longrightarrow>
     task_step r ((set_status WorkerTaskStatusQueued now r)\<lparr>tr_available_at := s\<rparr>)"
  by (simp add: task_step_def task_identity_def set_status_def r_into_rtranclp)

lemma requeue_update_step:
  "tasks_step db (db\<lparr>db_tasks := sql_update (\<lambda>r. tr_task_key r = k \<and> tr_status r = WorkerTaskStatusReconciliationNeeded)
      (\<lambda>r. (set_status WorkerTaskStatusQueued now r)\<lparr>tr_available_at := s\<rparr>) (db_tasks db)\<rparr>)"
  by (rule tasks_step_update [where P = "\<lambda>r. tr_task_key r = k \<and> tr_status r = WorkerTaskStatusReconciliationNeeded"
        and f = "\<lambda>r. (set_status WorkerTaskStatusQueued now r)\<lparr>tr_available_at := s\<rparr>"])
     (simp_all add: requeue_row_step)

lemma Requeue_step: "tasks_step db (snd (RequeueReconciliationNeededWorkerTask env k reason now db))"
  unfolding RequeueReconciliationNeededWorkerTask_def Let_def
  by (auto split: sum.splits option.splits prod.splits dest!: appendEvent_tasks
      intro: tasks_step_same [OF requeue_update_step])

lemma mark_step: "tasks_step db (snd (markWorkerTaskReconciliationNeeded env task now d db))"
proof -
  have "tasks_step db (db\<lparr>db_tasks := sql_update (\<lambda>r. tr_task_key r = wt_TaskKey task \<and> tr_status r = WorkerTaskStatusClaimed)
      (set_status WorkerTaskStatusReconciliationNeeded now) (db_tasks db)\<rparr>)"
    by (rule status_update_step) (simp add: task_status_defs status_step.finish)
  then show ?thesis
    unfolding markWorkerTaskReconciliationNeeded_def Let_def
    by (auto split: sum.splits prod.splits dest!: appendEvent_tasks elim!: tasks_step_same)
qed

lemma mark_loop_step: "tasks_step db (snd (mark_stale_loop env now cutoff d keys acc db))"
proof (induction keys arbitrary: acc db)
  case Nil
  then show ?case by simp
next
  case (Cons k keys)
  have "tasks_step db (snd (mark_stale_loop env now cutoff d keys acc' db'))"
    if "markWorkerTaskReconciliationNeeded env task now d db = (res, db')" for task res db' acc'
    using tasks_step_trans [OF mark_step [of db env task now d]] Cons.IH that by (metis snd_conv)
  moreover have "tasks_step db db'"
    if "markWorkerTaskReconciliationNeeded env task now d db = (res, db')" for task res db'
    using mark_step [of db env task now d] that by simp
  ultimately show ?case
    using Cons.IH by (auto split: sum.splits option.splits prod.splits)
qed

lemma MarkStale_step: "tasks_step db (snd (MarkStaleClaimedWorkerTasksReconciliationNeeded env now d db))"
  by (simp add: MarkStaleClaimedWorkerTasksReconciliationNeeded_def Let_def mark_loop_step)

section \<open>Runs of the queue\<close>

datatype task_op =
    OpClaim string time
  | OpClaimNext string time
  | OpComplete string string time
  | OpTouch string time
  | OpRequeue string string time
  | OpMarkStale time duration

fun task_run :: "store_env \<Rightarrow> task_op list \<Rightarrow> db \<Rightarrow> db" where
  "task_run env [] db = db"
| "task_run env (OpClaim k now # ops) db = task_run env ops (snd (ClaimWorkerTask env k now db))"
| "task_run env (OpClaimNext role now # ops) db = task_run env ops (snd (ClaimNextWorkerTask env role now db))"
| "task_run env (OpComplete k s now # ops) db = task_run env ops (snd (CompleteWorkerTask env k s now db))"
| "task_run env (OpTouch k now # ops) db = task_run env ops (snd (TouchClaimedWorkerTask env k now db))"
| "task_run env (OpRequeue k reason now # ops) db =
     task_run env ops (snd (RequeueReconciliationNeededWorkerTask env k reason now db))"
| "task_run env (OpMarkStale now d # ops) db =
     task_run env ops (snd (MarkStaleClaimedWorkerTasksReconciliationNeeded env now d db))"

lemmas op_steps = Claim_step ClaimNext_step Complete_step Touch_step Requeue_step MarkStale_step

lemma task_run_step: "tasks_step db (task_run env ops db)"
  by (induction env ops db rule: task_run.induct) (auto intro: op_steps [THEN tasks_step_trans])

lemma task_identity_key: "tr_task_key (task_identity r) = tr_task_key r"
  by (simp add: task_identity_def)

lemma tasks_step_keys: "tasks_step db db' \<Longrightarrow> map tr_task_key (db_tasks db') = map tr_task_key (db_tasks db)"
proof -
  have "tr_task_key r' = tr_task_key r" if "task_step r r'" for r r'
    using that task_identity_key unfolding task_step_def by metis
  then show "tasks_step db db' \<Longrightarrow> map tr_task_key (db_tasks db') = map tr_task_key (db_tasks db)"
    unfolding tasks_step_def by (auto simp: list_all2_conv_all_nth intro: nth_equalityI)
qed

lemma tasks_ok_step: "tasks_step db db' \<Longrightarrow> tasks_ok db \<Longrightarrow> tasks_ok db'"
  by (simp add: tasks_ok_def tasks_step_keys)

section \<open>The queue contract\<close>

text \<open>
  A queue hands out keys: a claim gives only a key that was queued, after it that key is not queued
  any more, and no claim puts a key into the queue.
\<close>

locale claim_queue =
  fixes ok :: "'db \<Rightarrow> bool" and queued :: "'db \<Rightarrow> 'k \<Rightarrow> bool" and claim :: "'r \<Rightarrow> 'db \<Rightarrow> 'k option \<times> 'db"
  assumes claim_ok: "ok db \<Longrightarrow> ok (snd (claim r db))"
    and claim_was_queued: "ok db \<Longrightarrow> fst (claim r db) = Some k \<Longrightarrow> queued db k"
    and claim_dequeues: "ok db \<Longrightarrow> fst (claim r db) = Some k \<Longrightarrow> \<not> queued (snd (claim r db)) k"
    and claim_never_queues: "ok db \<Longrightarrow> queued (snd (claim r db)) k \<Longrightarrow> queued db k"
begin

fun claims :: "'r list \<Rightarrow> 'db \<Rightarrow> 'k list" where
  "claims [] db = []"
| "claims (r # rs) db =
     (case fst (claim r db) of None \<Rightarrow> claims rs (snd (claim r db)) | Some k \<Rightarrow> k # claims rs (snd (claim r db)))"

lemma claims_were_queued: "ok db \<Longrightarrow> k \<in> set (claims rs db) \<Longrightarrow> queued db k"
proof (induction rs arbitrary: db)
  case (Cons r rs)
  then show ?case
    using claim_ok [of db r] claim_was_queued [of db r k] claim_never_queues [of db r k]
    by (auto split: option.splits)
qed simp

lemma claims_distinct: "ok db \<Longrightarrow> distinct (claims rs db)"
proof (induction rs arbitrary: db)
  case (Cons r rs)
  note ok' = claim_ok [OF Cons.prems, of r]
  have "k \<notin> set (claims rs (snd (claim r db)))" if "fst (claim r db) = Some k" for k
    using claims_were_queued [OF ok'] claim_dequeues [OF Cons.prems that] by blast
  then show ?case using Cons.IH [OF ok'] by (auto split: option.splits)
qed simp

end

datatype claim_request = ByKey string time | NextOf string time

fun run_claim :: "store_env \<Rightarrow> claim_request \<Rightarrow> db \<Rightarrow> WorkerTask option result \<times> db" where
  "run_claim env (ByKey k now) db = ClaimWorkerTask env k now db"
| "run_claim env (NextOf role now) db = ClaimNextWorkerTask env role now db"

definition claimed_key :: "WorkerTask option result \<Rightarrow> string option" where
  "claimed_key res = (case res of Inr (Some t) \<Rightarrow> Some (wt_TaskKey t) | _ \<Rightarrow> None)"

definition claim_key :: "store_env \<Rightarrow> claim_request \<Rightarrow> db \<Rightarrow> string option \<times> db" where
  "claim_key env req db = (claimed_key (fst (run_claim env req db)), snd (run_claim env req db))"

definition queued_key :: "db \<Rightarrow> string \<Rightarrow> bool" where
  "queued_key db k \<longleftrightarrow> (case lookup tr_task_key k (db_tasks db) of None \<Rightarrow> False
                         | Some r \<Rightarrow> tr_status r = WorkerTaskStatusQueued)"

fun claimed_keys :: "store_env \<Rightarrow> claim_request list \<Rightarrow> db \<Rightarrow> string list" where
  "claimed_keys env [] db = []"
| "claimed_keys env (req # reqs) db =
     (case claimed_key (fst (run_claim env req db)) of
        None \<Rightarrow> claimed_keys env reqs (snd (run_claim env req db))
      | Some k \<Rightarrow> k # claimed_keys env reqs (snd (run_claim env req db)))"

lemma workerTask_key: "workerTask k db = Inr (Some t) \<Longrightarrow> wt_TaskKey t = k \<and> lookup tr_task_key k (db_tasks db) \<noteq> None"
  by (auto simp: workerTask_def scan_task_def split: option.splits sum.splits dest: lookup_Some)

lemma scan_task_fields: "scan_task r = Inr t \<Longrightarrow> wt_TaskKey t = tr_task_key r \<and> wt_Status t = tr_status r \<and> wt_Role t = tr_role r
    \<and> wt_LeaseName t = tr_lease_name r"
  by (auto simp: scan_task_def split: option.splits)

lemma lookup_status_update:
  "tasks_ok db \<Longrightarrow> lookup tr_task_key k (sql_update P (set_status s now) (db_tasks db)) =
     map_option (\<lambda>r. if P r then set_status s now r else r) (lookup tr_task_key k (db_tasks db))"
  by (simp add: lookup_sql_update tasks_ok_def option.case_eq_if map_option_case)

lemma queued_key_update:
  "tasks_ok db \<Longrightarrow> queued_key (db\<lparr>db_tasks := sql_update P (set_status WorkerTaskStatusClaimed now) (db_tasks db)\<rparr>) k
     \<longleftrightarrow> queued_key db k \<and> \<not> (case lookup tr_task_key k (db_tasks db) of None \<Rightarrow> False | Some r \<Rightarrow> P r)"
  by (auto simp: queued_key_def lookup_status_update task_status_defs split: option.splits)

definition claimable :: "store_env \<Rightarrow> string \<Rightarrow> time \<Rightarrow> TaskRow \<Rightarrow> bool" where
  "claimable env role now r \<longleftrightarrow> tr_role r = role \<and> tr_status r = WorkerTaskStatusQueued \<and> due env now r"

lemma next_task_Some:
  assumes "next_task env role now db = Some r"
  shows "r \<in> set (db_tasks db)" "claimable env role now r"
    "r' \<in> set (db_tasks db) \<Longrightarrow> claimable env role now r' \<Longrightarrow> task_order r \<le> task_order r'"
proof -
  let ?f = "filter (\<lambda>r. tr_role r = role \<and> tr_status r = WorkerTaskStatusQueued \<and> due env now r) (db_tasks db)"
  obtain rs where s: "sort_key task_order ?f = r # rs"
    using assms by (auto simp: next_task_def split: list.splits)
  have set: "set (r # rs) = set ?f" by (simp only: s [symmetric] set_sort)
  then have "r \<in> set ?f" by (simp only: set [symmetric] list.set_intros)
  then show "r \<in> set (db_tasks db)" "claimable env role now r" by (auto simp: claimable_def)
  have "sorted (map task_order (r # rs))" by (simp only: s [symmetric] sorted_sort_key)
  moreover assume "r' \<in> set (db_tasks db)" "claimable env role now r'"
  then have "r' \<in> set (r # rs)" unfolding set by (simp add: claimable_def)
  ultimately show "task_order r \<le> task_order r'" by auto
qed

lemma next_task_None: "next_task env role now db = None \<longleftrightarrow> \<not> list_ex (claimable env role now) (db_tasks db)"
proof -
  let ?f = "filter (\<lambda>r. tr_role r = role \<and> tr_status r = WorkerTaskStatusQueued \<and> due env now r) (db_tasks db)"
  have "next_task env role now db = None \<longleftrightarrow> sort_key task_order ?f = []"
    unfolding next_task_def by (cases "sort_key task_order ?f") simp_all
  also have "\<dots> \<longleftrightarrow> ?f = []" by (rule sort_key_Nil_iff)
  also have "\<dots> \<longleftrightarrow> \<not> list_ex (claimable env role now) (db_tasks db)"
    unfolding filter_empty_conv list_ex_iff claimable_def by blast
  finally show ?thesis .
qed

text \<open>What a claim does, for both operations: nothing, or one queued row becomes claimed.\<close>

lemma run_claim_cases:
  assumes "tasks_ok db"
  obtains (none) "claimed_key (fst (run_claim env req db)) = None"
      "snd (run_claim env req db) = db"
  | (claimed) k now r where "lookup tr_task_key k (db_tasks db) = Some r" "tr_status r = WorkerTaskStatusQueued"
      "due env now r" "now = now_or_clock env (case req of ByKey k n \<Rightarrow> n | NextOf role n \<Rightarrow> n)"
      "case req of ByKey k' _ \<Rightarrow> k' = k | NextOf role _ \<Rightarrow> tr_role r = role"
      "fst (run_claim env req db) = workerTask k (snd (run_claim env req db))"
      "\<exists>P. P r \<and> snd (run_claim env req db) =
         db\<lparr>db_tasks := sql_update P (set_status WorkerTaskStatusClaimed now) (db_tasks db)\<rparr>"
proof (cases req)
  case (ByKey k now)
  let ?now = "now_or_clock env now"
  let ?sel = "\<lambda>r. tr_task_key r = k \<and> tr_status r = WorkerTaskStatusQueued \<and> due env ?now r"
  show ?thesis
  proof (cases "k = [] \<or> rows_affected ?sel (db_tasks db) = 0")
    case True
    show ?thesis
      by (rule none) (use True ByKey in \<open>auto simp: ClaimWorkerTask_def Let_def claimed_key_def\<close>)
  next
    case False
    then obtain r where r: "lookup tr_task_key k (db_tasks db) = Some r" "tr_status r = WorkerTaskStatusQueued" "due env ?now r"
      using rows_affected_key [OF assms [unfolded tasks_ok_def], of k "\<lambda>r. tr_status r = WorkerTaskStatusQueued \<and> due env ?now r"]
      by (auto split: option.splits if_splits)
    have "run_claim env req db = (workerTask k (db\<lparr>db_tasks := sql_update ?sel (set_status WorkerTaskStatusClaimed ?now) (db_tasks db)\<rparr>),
        db\<lparr>db_tasks := sql_update ?sel (set_status WorkerTaskStatusClaimed ?now) (db_tasks db)\<rparr>)"
      using False ByKey by (simp add: ClaimWorkerTask_def Let_def)
    note eq = this
    have sel: "?sel r" using r lookup_Some [OF r(1)] by simp
    show ?thesis
    proof (rule claimed [OF r])
      show "fst (run_claim env req db) = workerTask k (snd (run_claim env req db))" by (simp only: eq fst_conv snd_conv)
      show "\<exists>P. P r \<and> snd (run_claim env req db) =
         db\<lparr>db_tasks := sql_update P (set_status WorkerTaskStatusClaimed ?now) (db_tasks db)\<rparr>"
        by (rule exI [where x = ?sel], rule conjI, rule sel) (simp only: eq snd_conv)
    qed (simp_all add: ByKey)
  qed
next
  case (NextOf role now)
  let ?now = "now_or_clock env now"
  show ?thesis
  proof (cases "role = [] \<or> next_task env role ?now db = None")
    case True
    show ?thesis
      by (rule none) (use True NextOf in \<open>auto simp: ClaimNextWorkerTask_def Let_def claimed_key_def\<close>)
  next
    case False
    then obtain r where n: "next_task env role ?now db = Some r" by auto
    let ?k = "tr_task_key r"
    let ?sel = "\<lambda>r'. tr_task_key r' = ?k \<and> tr_status r' = WorkerTaskStatusQueued"
    from next_task_Some [OF n] have r: "r \<in> set (db_tasks db)" "tr_role r = role" "tr_status r = WorkerTaskStatusQueued" "due env ?now r"
      by (auto simp: claimable_def)
    have l: "lookup tr_task_key ?k (db_tasks db) = Some r"
      using lookup_unique [OF assms [unfolded tasks_ok_def] r(1)] .
    have "rows_affected ?sel (db_tasks db) = 1"
      using rows_affected_key [OF assms [unfolded tasks_ok_def], of ?k "\<lambda>r. tr_status r = WorkerTaskStatusQueued"] l r(3) by simp
    then have "run_claim env req db = (workerTask ?k (db\<lparr>db_tasks := sql_update ?sel (set_status WorkerTaskStatusClaimed ?now) (db_tasks db)\<rparr>),
        db\<lparr>db_tasks := sql_update ?sel (set_status WorkerTaskStatusClaimed ?now) (db_tasks db)\<rparr>)"
      using False NextOf n by (simp add: ClaimNextWorkerTask_def Let_def)
    note eq = this
    have sel: "?sel r" using r by simp
    show ?thesis
    proof (rule claimed [OF l r(3,4)])
      show "fst (run_claim env req db) = workerTask ?k (snd (run_claim env req db))" by (simp only: eq fst_conv snd_conv)
      show "\<exists>P. P r \<and> snd (run_claim env req db) =
         db\<lparr>db_tasks := sql_update P (set_status WorkerTaskStatusClaimed ?now) (db_tasks db)\<rparr>"
        by (rule exI [where x = ?sel], rule conjI, rule sel) (simp only: eq snd_conv)
    qed (simp_all add: NextOf r(2))
  qed
qed

lemma claim_key_cases:
  assumes "tasks_ok db"
  shows "tasks_ok (snd (claim_key env req db))"
    "fst (claim_key env req db) = Some k \<Longrightarrow> queued_key db k \<and> \<not> queued_key (snd (claim_key env req db)) k"
    "queued_key (snd (claim_key env req db)) k \<Longrightarrow> queued_key db k"
proof -
  have "tasks_step db (snd (run_claim env req db))"
    by (cases req) (simp_all add: Claim_step ClaimNext_step)
  then show "tasks_ok (snd (claim_key env req db))" using assms by (simp add: claim_key_def tasks_ok_step)
  show "queued_key (snd (claim_key env req db)) k \<Longrightarrow> queued_key db k"
    using assms
  proof (cases rule: run_claim_cases [where env = env and req = req])
    case (claimed k' now r)
    then show "queued_key (snd (claim_key env req db)) k \<Longrightarrow> queued_key db k"
      by (auto simp: claim_key_def queued_key_update [OF assms])
  qed (simp add: claim_key_def)
  assume key: "fst (claim_key env req db) = Some k"
  show "queued_key db k \<and> \<not> queued_key (snd (claim_key env req db)) k"
    using assms
  proof (cases rule: run_claim_cases [where env = env and req = req])
    case none
    then show ?thesis using key by (simp add: claim_key_def)
  next
    case (claimed k' now r)
    from key have "k = k'"
      using claimed(6) by (auto simp: claim_key_def claimed_key_def dest!: workerTask_key split: sum.splits option.splits)
    moreover have "queued_key db k'" using claimed(1,2) by (simp add: queued_key_def)
    moreover have "\<not> queued_key (snd (claim_key env req db)) k'"
      using claimed(1,7) by (auto simp: claim_key_def queued_key_update [OF assms])
    ultimately show ?thesis by simp
  qed
qed

interpretation cq: claim_queue tasks_ok queued_key "claim_key env" for env
  by unfold_locales (use claim_key_cases in blast)+

lemma claimed_keys_eq: "claimed_keys env reqs db = cq.claims env reqs db"
proof (induction reqs arbitrary: db)
  case (Cons req reqs)
  have "fst (claim_key env req db) = claimed_key (fst (run_claim env req db))"
    "snd (claim_key env req db) = snd (run_claim env req db)" by (simp_all add: claim_key_def)
  then show ?case using Cons.IH by (simp only: claimed_keys.simps cq.claims.simps)
qed simp

end
