(* ===== verification/TaskQueue.thy ===== *)
theory TaskQueue
  imports TaskStore
begin

text \<open>
  What the task queue of the state store guarantees: at most one claim of a task, which task a
  claim takes, the status machine all operations follow, reading back what was written, and which
  claims the recovery of stale ones must leave alone.
\<close>

section \<open>Well-formed task tables\<close>

definition task_row_ok :: "TaskRow \<Rightarrow> bool" where
  "task_row_ok r \<longleftrightarrow> tr_task_key r \<noteq> [] \<and> time_text (tr_available_at r) \<and> time_text (tr_created_at r)
     \<and> time_text (tr_updated_at r)"

definition tasks_wf :: "db \<Rightarrow> bool" where
  "tasks_wf db \<longleftrightarrow> tasks_ok db \<and> list_all task_row_ok (db_tasks db)"

lemma scan_task_ok: "task_row_ok r \<Longrightarrow> \<exists>t. scan_task r = Inr t"
  by (auto simp: task_row_ok_def scan_task_def elim!: time_text_obtain)

lemma task_row_ok_set_status: "task_row_ok r \<Longrightarrow> rfc_time now \<Longrightarrow> \<not> is_zero now \<Longrightarrow> task_row_ok (set_status s now r)"
  by (simp add: task_row_ok_def set_status_def time_text_format)

definition valid_task :: "store_env \<Rightarrow> WorkerTask \<Rightarrow> bool" where
  "valid_task env t \<longleftrightarrow> wt_TaskKey t \<noteq> [] \<and> wt_Role t \<noteq> [] \<and> wt_Status t \<noteq> [] \<and> wt_Payload t \<noteq> []
     \<and> env_json_valid env (wt_Payload t)
     \<and> rfc_time (wt_AvailableAt t) \<and> rfc_time (wt_CreatedAt t) \<and> rfc_time (wt_UpdatedAt t)
     \<and> \<not> is_zero (wt_AvailableAt t) \<and> \<not> is_zero (wt_CreatedAt t) \<and> \<not> is_zero (wt_UpdatedAt t)"

lemma normalize_valid [simp]: "valid_task env t \<Longrightarrow> normalize_task env t = t"
  by (simp add: normalize_task_def valid_task_def now_or_clock_def)

interpretation tasks: keyed_table tr_task_key merge_task
  by unfold_locales (simp add: merge_task_def)

lemma tasks_keys_ok: "tasks_ok db = tasks.keys_ok (db_tasks db)"
  by (simp add: tasks_ok_def tasks.keys_ok_def)

definition sample_task :: "string \<Rightarrow> string \<Rightarrow> time \<Rightarrow> WorkerTask" where
  "sample_task key status available =
     \<lparr>wt_TaskKey = key, wt_Role = ''review'', wt_IssueKey = ''A-1'', wt_IssueID = [], wt_Attempt = 1, wt_Status = status,
      wt_Priority = 0, wt_AvailableAt = available, wt_LeaseName = ''lease'', wt_Payload = ''{}'',
      wt_CreatedAt = 1000000000, wt_UpdatedAt = 1000000000\<rparr>"

definition one_task_db :: "string \<Rightarrow> db" where
  "one_task_db status = empty_db\<lparr>db_tasks := [task_row (sample_task ''t1'' status 1000000000)]\<rparr>"

lemma sample_task_valid [simp]: "valid_task test_env (sample_task ''t1'' ''queued'' 1000000000)"
  by code_simp

lemma one_task_ok [simp]: "tasks_ok (one_task_db s)"
  by (simp add: tasks_ok_def one_task_db_def)

lemma one_task_wf: "tasks_wf (one_task_db ''queued'')"
  by code_simp

section \<open>Claims\<close>

text \<open>
  C8: a task is handed out at most once.  Whatever sequence of \<open>ClaimWorkerTask\<close> and
  \<open>ClaimNextWorkerTask\<close> calls runs on the store, with any roles, keys and instants, no key is
  returned twice.
\<close>

theorem task_claimed_at_most_once:
  assumes "tasks_ok db"
  shows "distinct (claimed_keys env reqs db)"
  unfolding claimed_keys_eq using assms by (rule cq.claims_distinct)

theorem task_claimed_at_most_once_witness:
  "distinct (claimed_keys test_env [ByKey ''t1'' 2000000000, NextOf ''review'' 2000000000] (one_task_db ''queued''))"
  by (rule task_claimed_at_most_once) simp

lemma lookup_claimed:
  "tasks_ok db \<Longrightarrow> lookup tr_task_key k (db_tasks db) = Some r \<Longrightarrow> P r \<Longrightarrow>
     lookup tr_task_key k (db_tasks (db\<lparr>db_tasks := sql_update P (set_status s now) (db_tasks db)\<rparr>)) = Some (set_status s now r)"
  by (simp add: lookup_status_update)

text \<open>
  C10: \<open>ClaimNextWorkerTask\<close> misses nothing and respects the order: on a well-formed table it
  answers none exactly when no queued task of the role is due, and otherwise claims the first due
  one by availability text, higher priority, key.
\<close>

theorem claim_next_takes_first_due:
  assumes "tasks_wf db" "role \<noteq> []" "rfc_time now" "\<not> is_zero now"
  shows "case fst (ClaimNextWorkerTask env role now db) of
           Inl e \<Rightarrow> False
         | Inr None \<Rightarrow> \<not> list_ex (claimable env role now) (db_tasks db)
         | Inr (Some t) \<Rightarrow>
             wt_Status t = ''claimed'' \<and>
             list_ex (\<lambda>r. claimable env role now r \<and> tr_task_key r = wt_TaskKey t
               \<and> list_all (\<lambda>r'. claimable env role now r' \<longrightarrow> task_order r \<le> task_order r') (db_tasks db)) (db_tasks db)"
proof (cases "next_task env role now db")
  case None
  then show ?thesis
    using assms next_task_None [of env role now db] by (simp add: ClaimNextWorkerTask_def now_or_clock_def Let_def)
next
  case (Some r)
  note r = next_task_Some [OF Some]
  have ok: "tasks_ok db" and rok: "task_row_ok r"
    using assms(1) r(1) by (auto simp: tasks_wf_def list_all_iff)
  let ?sel = "\<lambda>r'. tr_task_key r' = tr_task_key r \<and> tr_status r' = WorkerTaskStatusQueued"
  have l: "lookup tr_task_key (tr_task_key r) (db_tasks db) = Some r"
    by (rule lookup_unique [OF ok [unfolded tasks_ok_def] r(1)])
  have "rows_affected ?sel (db_tasks db) = 1"
    using rows_affected_key [OF ok [unfolded tasks_ok_def], of "tr_task_key r" "\<lambda>r. tr_status r = WorkerTaskStatusQueued"]
      l r(2) by (simp add: claimable_def)
  then have res: "fst (ClaimNextWorkerTask env role now db) = workerTask (tr_task_key r)
      (db\<lparr>db_tasks := sql_update ?sel (set_status WorkerTaskStatusClaimed now) (db_tasks db)\<rparr>)"
    using Some assms(2,4) by (simp add: ClaimNextWorkerTask_def now_or_clock_def Let_def)
  obtain t where t: "scan_task (set_status WorkerTaskStatusClaimed now r) = Inr t"
    using scan_task_ok [OF task_row_ok_set_status [OF rok assms(3,4)]] by blast
  have "fst (ClaimNextWorkerTask env role now db) = Inr (Some t)"
    unfolding res workerTask_def using lookup_claimed [OF ok l, of ?sel] r(2) t by (simp add: claimable_def)
  moreover have "wt_Status t = ''claimed''" "wt_TaskKey t = tr_task_key r"
    using scan_task_fields [OF t] by (simp_all add: task_status_defs)
  ultimately show ?thesis
    using r by (auto simp: list_ex_iff list_all_iff)
qed

theorem claim_next_takes_first_due_witness:
  "fst (ClaimNextWorkerTask test_env ''review'' 2000000000 (one_task_db ''queued'')) \<noteq> Inr None"
proof -
  have "list_ex (claimable test_env ''review'' 2000000000) (db_tasks (one_task_db ''queued''))" by code_simp
  with claim_next_takes_first_due [OF one_task_wf _ one_second_rfc(2), of "''review''" test_env] show ?thesis
    by (auto simp: is_zero_def split: sum.splits option.splits)
qed

section \<open>The status machine\<close>


text \<open>
  A finished task stays finished: no run of these operations changes the status of a task that
  is neither queued, claimed nor waiting for reconciliation.
\<close>

theorem finished_task_stays:
  assumes "tasks_ok db" "lookup tr_task_key k (db_tasks db) = Some r" "final_status (tr_status r)"
  shows "\<exists>r'. lookup tr_task_key k (db_tasks (task_run env ops db)) = Some r' \<and> tr_status r' = tr_status r"
proof -
  let ?db' = "task_run env ops db"
  have step: "tasks_step db ?db'" by (rule task_run_step)
  obtain i where i: "i < length (db_tasks db)" "db_tasks db ! i = r"
    using lookup_Some [OF assms(2)] by (auto simp: in_set_conv_nth)
  then have len: "i < length (db_tasks ?db')" and ts: "task_step r (db_tasks ?db' ! i)"
    using step unfolding tasks_step_def by (auto simp: list_all2_conv_all_nth)
  have "tr_status (db_tasks ?db' ! i) = tr_status r"
    using ts assms(3) by (auto simp: task_step_def dest: final_no_steps)
  moreover have "tr_task_key (db_tasks ?db' ! i) = k"
    using ts lookup_Some [OF assms(2)] task_identity_key unfolding task_step_def by metis
  moreover have "tasks_ok ?db'" by (rule tasks_ok_step [OF step assms(1)])
  ultimately show ?thesis
    using lookup_unique [of tr_task_key "db_tasks ?db'" "db_tasks ?db' ! i"] len by (auto simp: tasks_ok_def)
qed

lemma lookup_one_task: "lookup tr_task_key ''t1'' (db_tasks (one_task_db s)) = Some (task_row (sample_task ''t1'' s 1000000000))"
  by (simp add: one_task_db_def task_row_def sample_task_def)

lemma status_one_task [simp]: "tr_status (task_row (sample_task k s a)) = s"
  by (simp add: task_row_def sample_task_def)

theorem finished_task_stays_witness:
  "\<exists>r'. lookup tr_task_key ''t1'' (db_tasks (task_run test_env [OpClaim ''t1'' 2000000000, OpMarkStale 9000000000 5] (one_task_db ''completed''))) = Some r'
     \<and> tr_status r' = ''completed''"
  using finished_task_stays [OF one_task_ok lookup_one_task, of "''completed''" test_env
      "[OpClaim ''t1'' 2000000000, OpMarkStale 9000000000 5]"] by (simp add: final_status_def)

section \<open>Reading back\<close>

text \<open>
  A task that was upserted is read back as it was given, except that a task known before keeps
  its first creation time; and every other task is as it was.
\<close>

theorem upserted_task_read_back:
  assumes "tasks_wf db" "valid_task env t" "UpsertWorkerTask env t db = (Inr (), db')"
  shows "ReadWorkerTask (wt_TaskKey t) db' = Inr (Some (t\<lparr>wt_CreatedAt :=
           (case lookup tr_task_key (wt_TaskKey t) (db_tasks db) of
              None \<Rightarrow> wt_CreatedAt t | Some old \<Rightarrow> the (parse_time (tr_created_at old)))\<rparr>))
     \<and> (k = wt_TaskKey t \<or> lookup tr_task_key k (db_tasks db') = lookup tr_task_key k (db_tasks db))"
proof -
  have ok: "tasks.keys_ok (db_tasks db)" using assms(1) by (simp add: tasks_wf_def tasks_keys_ok)
  have db': "db' = db\<lparr>db_tasks := sql_upsert tr_task_key merge_task (task_row t) (db_tasks db)\<rparr>"
    using assms(3) normalize_valid [OF assms(2)] by (auto simp: UpsertWorkerTask_def Let_def split: if_splits)
  have key: "tr_task_key (task_row t) = wt_TaskKey t" by (simp add: task_row_def)
  have frame: "k = wt_TaskKey t \<or> lookup tr_task_key k (db_tasks db') = lookup tr_task_key k (db_tasks db)"
    using tasks.upsert_frame [OF ok, of k "task_row t"] key by (auto simp: db')
  have look: "lookup tr_task_key (wt_TaskKey t) (db_tasks db') =
      Some (case lookup tr_task_key (wt_TaskKey t) (db_tasks db) of None \<Rightarrow> task_row t | Some old \<Rightarrow> merge_task old (task_row t))"
    using tasks.lookup_upsert [OF ok, of "wt_TaskKey t" "task_row t"] key by (simp add: db')
  have times: "parse_time (format_time (wt_AvailableAt t)) = Some (wt_AvailableAt t)"
    "parse_time (format_time (wt_CreatedAt t)) = Some (wt_CreatedAt t)"
    "parse_time (format_time (wt_UpdatedAt t)) = Some (wt_UpdatedAt t)" "wt_TaskKey t \<noteq> []"
    using assms(2) by (simp_all add: valid_task_def parse_format_time)
  show ?thesis
  proof (cases "lookup tr_task_key (wt_TaskKey t) (db_tasks db)")
    case None
    then show ?thesis using look times frame
      by (simp add: ReadWorkerTask_def workerTask_def scan_task_def task_row_def)
  next
    case (Some old)
    have "task_row_ok old" using lookup_Some [OF Some] assms(1) by (auto simp: tasks_wf_def list_all_iff)
    then obtain c where "parse_time (tr_created_at old) = Some c"
      by (auto simp: task_row_ok_def elim: time_text_obtain)
    then show ?thesis using Some look times frame lookup_Some [OF Some]
      by (simp add: ReadWorkerTask_def workerTask_def scan_task_def task_row_def merge_task_def)
  qed
qed

theorem upserted_task_read_back_witness:
  "ReadWorkerTask ''t1'' (snd (UpsertWorkerTask test_env (sample_task ''t1'' ''queued'' 1000000000) empty_db))
     = Inr (Some (sample_task ''t1'' ''queued'' 1000000000))"
proof -
  have "tasks_wf empty_db" by (simp add: tasks_wf_def tasks_ok_def empty_db_def)
  moreover have "UpsertWorkerTask test_env (sample_task ''t1'' ''queued'' 1000000000) empty_db
      = (Inr (), snd (UpsertWorkerTask test_env (sample_task ''t1'' ''queued'' 1000000000) empty_db))"
    by (simp add: UpsertWorkerTask_def Let_def) (simp add: sample_task_def)
  ultimately show ?thesis
    using upserted_task_read_back [OF _ sample_task_valid] by (simp add: empty_db_def sample_task_def)
qed

text \<open>
  Upserting takes no notice of a claim.  Whatever the status of a task, an upsert that carries
  no status (or \<open>queued\<close>) makes it queued again, also while a worker holds it claimed: the next
  claim then hands it out a second time.
\<close>

theorem upsert_requeues_any_task:
  assumes "tasks_ok db" "wt_Status t = [] \<or> wt_Status t = ''queued''" "UpsertWorkerTask env t db = (Inr (), db')"
  shows "queued_key db' (wt_TaskKey t)"
proof -
  have ok: "tasks.keys_ok (db_tasks db)" using assms(1) by (simp add: tasks_keys_ok)
  have db': "db' = db\<lparr>db_tasks := sql_upsert tr_task_key merge_task (task_row (normalize_task env t)) (db_tasks db)\<rparr>"
    using assms(3) by (auto simp: UpsertWorkerTask_def Let_def split: if_splits)
  have key: "tr_task_key (task_row (normalize_task env t)) = wt_TaskKey t"
    and status: "tr_status (task_row (normalize_task env t)) = ''queued''"
    using assms(2) by (auto simp: task_row_def normalize_task_def)
  show ?thesis
    using tasks.lookup_upsert [OF ok, of "wt_TaskKey t" "task_row (normalize_task env t)"] key status
    by (simp add: queued_key_def db' task_status_defs merge_task_def split: option.splits)
qed

theorem upsert_requeues_any_task_witness:
  "queued_key (snd (UpsertWorkerTask test_env (sample_task ''t1'' ''queued'' 1000000000) (one_task_db ''claimed''))) ''t1''"
proof -
  have "UpsertWorkerTask test_env (sample_task ''t1'' ''queued'' 1000000000) (one_task_db ''claimed'')
      = (Inr (), snd (UpsertWorkerTask test_env (sample_task ''t1'' ''queued'' 1000000000) (one_task_db ''claimed'')))"
    by (simp add: UpsertWorkerTask_def Let_def) (simp add: sample_task_def)
  from upsert_requeues_any_task [OF one_task_ok _ this] show ?thesis by (simp add: sample_task_def)
qed

section \<open>Stale claims\<close>

lemma ReadLease_holder:
  assumes "holder db n now = Some x" "leases_ok db" "n \<noteq> []"
  shows "\<exists>l. ReadLease n db = Inr (Some l) \<and> is_zero (ls_ReleasedAt l) \<and> now < ls_ExpiresAt l"
proof -
  obtain r e where r: "lookup lr_name n (db_leases db) = Some r" "lr_released_at r = []"
      "parse_time (lr_expires_at r) = Some e" "now < e"
    using assms(1) by (auto simp: holder_def split: option.splits if_splits)
  have "lease_row_ok r" using lookup_Some [OF r(1)] assms(2) by (auto simp: leases_ok_def list_all_iff)
  then obtain a b where "parse_time (lr_acquired_at r) = Some a" "parse_time (lr_renewed_at r) = Some b"
    by (auto simp: lease_row_ok_def elim!: time_text_obtain)
  then show ?thesis
    using r assms(3) by (simp add: ReadLease_def scan_lease_def parse_time_def [of "[]"] is_zero_def)
qed

lemma markWorkerTask_frame:
  assumes "markWorkerTaskReconciliationNeeded env task now d db = (res, db')"
  shows "db_leases db' = db_leases db"
    and "k \<noteq> wt_TaskKey task \<Longrightarrow> lookup tr_task_key k (db_tasks db') = lookup tr_task_key k (db_tasks db)"
proof -
  show "db_leases db' = db_leases db"
    using assms by (auto simp: markWorkerTaskReconciliationNeeded_def Let_def split: if_splits sum.splits prod.splits
        dest!: appendEvent_leases)
  assume "k \<noteq> wt_TaskKey task"
  then show "lookup tr_task_key k (db_tasks db') = lookup tr_task_key k (db_tasks db)"
    using assms by (auto simp: markWorkerTaskReconciliationNeeded_def Let_def lookup_map_key_other
        split: if_splits sum.splits prod.splits dest!: appendEvent_tasks)
qed

lemma holder_same_leases: "db_leases db' = db_leases db \<Longrightarrow> holder db' n t = holder db n t"
  by (simp add: holder_def)

lemma leases_ok_same: "db_leases db' = db_leases db \<Longrightarrow> leases_ok db' = leases_ok db"
  by (simp add: leases_ok_def)

lemma mark_loop_keeps_live:
  assumes "leases_ok db" "lookup tr_task_key k (db_tasks db) = Some r"
    and "trim_space (tr_lease_name r) = n" "n \<noteq> []" "holder db n now = Some x"
  shows "lookup tr_task_key k (db_tasks (snd (mark_stale_loop env now cutoff d keys acc db))) = Some r"
  using assms
proof (induction keys arbitrary: acc db)
  case Nil
  then show ?case by simp
next
  case (Cons key keys)
  have stay: "lookup tr_task_key k (db_tasks (snd (mark_stale_loop env now cutoff d keys acc' db))) = Some r" for acc'
    using Cons.IH Cons.prems by blast
  show ?case
  proof (cases "workerTask key db")
    case (Inl e)
    then show ?thesis using Cons.prems by simp
  next
    case (Inr t)
    show ?thesis
    proof (cases t)
      case None
      then show ?thesis using Inr stay by simp
    next
      case (Some task)
      with Inr have wt: "workerTask key db = Inr (Some task)" by simp
      show ?thesis
      proof (cases "wt_Status task = WorkerTaskStatusClaimed")
        case False
        then show ?thesis using wt stay by simp
      next
        case True
        show ?thesis
        proof (cases "key = k")
          case True
          have lease: "trim_space (wt_LeaseName task) = n"
            using wt Cons.prems(2,3) True by (auto simp: workerTask_def split: option.splits sum.splits dest: scan_task_fields)
          obtain l where "ReadLease n db = Inr (Some l)" "is_zero (ls_ReleasedAt l)" "now < ls_ExpiresAt l"
            using ReadLease_holder [OF Cons.prems(5,1,4)] by blast
          then have "claimedWorkerTaskIsRecoverable env task now cutoff db = Inr False"
            using lease Cons.prems(4) by (simp add: claimedWorkerTaskIsRecoverable_def Let_def)
          then show ?thesis using wt stay by simp
        next
          case other: False
          have tk: "wt_TaskKey task = key" using workerTask_key [OF wt] by simp
          have next_db: "lookup tr_task_key k (db_tasks (snd (mark_stale_loop env now cutoff d keys acc' db'))) = Some r"
            if "markWorkerTaskReconciliationNeeded env task now d db = (res, db')" for res db' acc'
          proof (rule Cons.IH)
            note f = markWorkerTask_frame [OF that]
            show "leases_ok db'" using leases_ok_same [OF f(1)] Cons.prems(1) by simp
            show "lookup tr_task_key k (db_tasks db') = Some r" using f(2) [of k] other tk Cons.prems(2) by simp
            show "holder db' n now = Some x" using holder_same_leases [OF f(1)] Cons.prems(5) by simp
          qed (use Cons.prems in auto)
          have direct: "lookup tr_task_key k (db_tasks db') = Some r"
            if "markWorkerTaskReconciliationNeeded env task now d db = (res, db')" for res db'
            using markWorkerTask_frame(2) [OF that, of k] other tk Cons.prems(2) by simp
          show ?thesis using wt stay next_db direct Cons.prems(2) by (auto split: sum.splits option.splits prod.splits)
        qed
      qed
    qed
  qed
qed

text \<open>
  C11: recovering stale claims never takes a task away from a live owner: a task whose lease is
  still held at \<open>now\<close> is exactly as it was, however long it was not touched.
\<close>

theorem live_lease_is_not_recovered:
  assumes "leases_ok db" "lookup tr_task_key k (db_tasks db) = Some r" "\<not> is_zero now"
    and "trim_space (tr_lease_name r) \<noteq> []" "holder db (trim_space (tr_lease_name r)) now = Some x"
  shows "lookup tr_task_key k (db_tasks (snd (MarkStaleClaimedWorkerTasksReconciliationNeeded env now d db))) = Some r"
  using mark_loop_keeps_live [OF assms(1,2) refl assms(4,5)] assms(2,3)
  by (simp add: MarkStaleClaimedWorkerTasksReconciliationNeeded_def now_or_clock_def Let_def)

definition live_db :: db where
  "live_db = (one_task_db ''claimed'')\<lparr>db_leases := [lease_row (ann_lease\<lparr>ls_Name := ''lease''\<rparr>)]\<rparr>"

theorem live_lease_is_not_recovered_witness:
  "lookup tr_task_key ''t1'' (db_tasks (snd (MarkStaleClaimedWorkerTasksReconciliationNeeded test_env 8000000000 1000000000 live_db)))
     = Some (task_row (sample_task ''t1'' ''claimed'' 1000000000))"
proof -
  let ?l = "ann_lease\<lparr>ls_Name := ''lease''\<rparr>"
  have v: "valid_lease ?l" using witness_lease_ok(1) by (simp add: valid_lease_def)
  have "leases_ok live_db" using lease_row_ok_new [OF v] by (simp add: leases_ok_def live_db_def)
  moreover have "lookup tr_task_key ''t1'' (db_tasks live_db) = Some (task_row (sample_task ''t1'' ''claimed'' 1000000000))"
    using lookup_one_task by (simp add: live_db_def)
  moreover have lease: "trim_space (tr_lease_name (task_row (sample_task ''t1'' ''claimed'' 1000000000))) = ''lease''"
    by code_simp
  moreover have "holder live_db ''lease'' 8000000000 = Some ''ann#1''"
    using v by (simp add: holder_def live_db_def valid_lease_def parse_format_time)
  ultimately show ?thesis by (intro live_lease_is_not_recovered) (simp_all add: is_zero_def)
qed

text \<open>
  The queue's order is that of the texts, not of the instants: of two tasks that became
  available at second 1 and half a second later, the later one is claimed first, because its text
  \<open>...01.5Z\<close> sorts before \<open>...01Z\<close>.
\<close>

theorem later_task_claimed_first:
  "task_order (task_row (sample_task ''b'' ''queued'' 1500000000)) < task_order (task_row (sample_task ''a'' ''queued'' 1000000000))
   \<and> wt_AvailableAt (sample_task ''a'' ''queued'' 1000000000) < wt_AvailableAt (sample_task ''b'' ''queued'' 1500000000)"
proof -
  have a: "format_time 1000000000 = ''0001-01-01T00:00:01Z''" by code_simp
  have pad: "pad (numeral w) n = pad (pred_numeral w) (n div 10) @ [digit (n mod 10)]" for w n
    by (subst numeral_eq_Suc [of w]) (rule pad.simps)
  have digits: "digit 5 = CHR ''5''" "digit 0 = CHR ''0''" by code_simp+
  have frac: "frac_string 500000000 = ''.5''"
    by (simp add: frac_string_def pad digits trim_zeros_def)
  have "date_string 0 = ''0001-01-01''" "clock_string 1 = ''00:00:01''" by code_simp+
  then have b: "format_time 1500000000 = ''0001-01-01T00:00:01.5Z''"
    by (simp add: format_time_def is_zero_def rfc3339_nano_def Let_def duration_defs frac)
  have less: "CHR ''.'' < CHR ''Z''" by (simp add: less_char_def)
  show ?thesis
    by (simp add: task_order_def task_row_def sample_task_def a b less)
qed

definition queued_count :: "db \<Rightarrow> nat" where
  "queued_count db = length (filter (\<lambda>r. tr_status r = WorkerTaskStatusQueued) (db_tasks db))"

lemma queued_key_row:
  "queued_key db k \<Longrightarrow> k \<in> set (map tr_task_key (filter (\<lambda>r. tr_status r = WorkerTaskStatusQueued) (db_tasks db)))"
  by (auto simp: queued_key_def split: option.splits dest!: lookup_Some)

text \<open>
  Claiming ends.  Of any sequence of \<open>ClaimWorkerTask\<close> and \<open>ClaimNextWorkerTask\<close> calls, at most
  as many hand out a task as tasks were queued when it began, whatever roles, keys and instants the
  calls name: a worker that claims until nothing is left stops.
\<close>

theorem claims_run_dry:
  assumes "tasks_ok db"
  shows "length (claimed_keys env reqs db) \<le> queued_count db"
proof -
  let ?q = "map tr_task_key (filter (\<lambda>r. tr_status r = WorkerTaskStatusQueued) (db_tasks db))"
  have "set (claimed_keys env reqs db) \<subseteq> set ?q"
    using cq.claims_were_queued [OF assms] queued_key_row unfolding claimed_keys_eq by blast
  then have "card (set (claimed_keys env reqs db)) \<le> card (set ?q)" by (rule card_mono [OF finite_set])
  also have "\<dots> \<le> length ?q" by (rule card_length)
  finally show ?thesis
    using cq.claims_distinct [OF assms, of env reqs]
    by (simp add: claimed_keys_eq distinct_card queued_count_def)
qed

theorem claims_run_dry_witness:
  "length (claimed_keys test_env [NextOf ''review'' 2000000000, NextOf ''review'' 2000000000, ByKey ''t1'' 2000000000]
     (one_task_db ''queued'')) \<le> queued_count (one_task_db ''queued'') \<and> queued_count (one_task_db ''queued'') = 1"
proof (rule conjI [OF claims_run_dry [OF one_task_ok]])
  show "queued_count (one_task_db ''queued'') = 1" by code_simp
qed

end
