(* ===== verification/HandoffStore.thy ===== *)
theory HandoffStore
  imports StoreBase
begin

text \<open>
  The hand-over tables of internal/state/store.go: references to worker payload files, and the
  intents to open a pull request.  An intent that was completed or failed keeps that verdict
  through every later upsert and completion.
\<close>

section \<open>Worker payload references\<close>

record WorkerPayloadRef =
  wp_Role :: string
  wp_Phase :: string
  wp_IssueKey :: string
  wp_IssueID :: string
  wp_Attempt :: int
  wp_WorkspacePath :: string
  wp_BranchName :: string
  wp_PRURL :: string
  wp_PayloadPath :: string
  wp_Status :: string
  wp_CreatedAt :: time
  wp_UpdatedAt :: time

text \<open>Attempts count from one.\<close>

definition attempt_or_1 :: "int \<Rightarrow> int" where
  "attempt_or_1 a = (if a \<le> 0 then 1 else a)"

definition normalize_ref :: "store_env \<Rightarrow> WorkerPayloadRef \<Rightarrow> WorkerPayloadRef" where
  "normalize_ref env r =
     r\<lparr>wp_Attempt := attempt_or_1 (wp_Attempt r),
       wp_Status := (if wp_Status r = [] then ''pending'' else wp_Status r),
       wp_CreatedAt := now_or_clock env (wp_CreatedAt r), wp_UpdatedAt := now_or_clock env (wp_UpdatedAt r)\<rparr>"

definition ref_row :: "WorkerPayloadRef \<Rightarrow> PayloadRefRow" where
  "ref_row r =
     \<lparr>pr_role = wp_Role r, pr_phase = wp_Phase r, pr_issue_key = wp_IssueKey r, pr_issue_id = wp_IssueID r,
      pr_attempt = wp_Attempt r, pr_workspace_path = wp_WorkspacePath r, pr_branch_name = wp_BranchName r,
      pr_pr_url = wp_PRURL r, pr_payload_path = wp_PayloadPath r, pr_status = wp_Status r,
      pr_created_at = format_time (wp_CreatedAt r), pr_updated_at = format_time (wp_UpdatedAt r)\<rparr>"

definition ref_key :: "PayloadRefRow \<Rightarrow> string \<times> string \<times> string \<times> int" where
  "ref_key r = (pr_role r, pr_phase r, pr_issue_key r, pr_attempt r)"

definition merge_ref :: "PayloadRefRow \<Rightarrow> PayloadRefRow \<Rightarrow> PayloadRefRow" where
  "merge_ref old new =
     old\<lparr>pr_issue_id := pr_issue_id new, pr_workspace_path := pr_workspace_path new, pr_branch_name := pr_branch_name new,
         pr_pr_url := pr_pr_url new, pr_payload_path := pr_payload_path new, pr_status := pr_status new,
         pr_updated_at := pr_updated_at new\<rparr>"

definition UpsertWorkerPayloadRef :: "store_env \<Rightarrow> WorkerPayloadRef \<Rightarrow> db \<Rightarrow> unit result \<times> db" where
  "UpsertWorkerPayloadRef env ref db =
     (if wp_Role ref = [] then (Inl (StoreError ''upsert worker payload ref: role is required''), db)
      else if wp_Phase ref = [] then (Inl (StoreError ''upsert worker payload ref: phase is required''), db)
      else if wp_IssueKey ref = [] then (Inl (StoreError ''upsert worker payload ref: issue key is required''), db)
      else if wp_PayloadPath ref = [] then (Inl (StoreError ''upsert worker payload ref: payload path is required''), db)
      else (Inr (), db\<lparr>db_payload_refs :=
              sql_upsert ref_key merge_ref (ref_row (normalize_ref env ref)) (db_payload_refs db)\<rparr>))"

definition scan_ref :: "PayloadRefRow \<Rightarrow> WorkerPayloadRef result" where
  "scan_ref r =
     (case parse_time (pr_created_at r) of
        None \<Rightarrow> Inl (StoreError ''parse worker payload ref created_at'')
      | Some created \<Rightarrow>
     (case parse_time (pr_updated_at r) of
        None \<Rightarrow> Inl (StoreError ''parse worker payload ref updated_at'')
      | Some updated \<Rightarrow>
          Inr \<lparr>wp_Role = pr_role r, wp_Phase = pr_phase r, wp_IssueKey = pr_issue_key r, wp_IssueID = pr_issue_id r,
               wp_Attempt = pr_attempt r, wp_WorkspacePath = pr_workspace_path r, wp_BranchName = pr_branch_name r,
               wp_PRURL = pr_pr_url r, wp_PayloadPath = pr_payload_path r, wp_Status = pr_status r,
               wp_CreatedAt = created, wp_UpdatedAt = updated\<rparr>))"

fun scan_refs :: "PayloadRefRow list \<Rightarrow> WorkerPayloadRef list result" where
  "scan_refs [] = Inr []"
| "scan_refs (r # rs) =
     (case scan_ref r of
        Inl e \<Rightarrow> Inl e
      | Inr x \<Rightarrow> (case scan_refs rs of Inl e \<Rightarrow> Inl e | Inr xs \<Rightarrow> Inr (x # xs)))"

definition ref_pending :: "string \<Rightarrow> string \<Rightarrow> PayloadRefRow \<Rightarrow> bool" where
  "ref_pending role phase r \<longleftrightarrow>
     pr_status r = ''pending'' \<and> (role = [] \<or> pr_role r = role) \<and> (phase = [] \<or> pr_phase r = phase)"

definition PendingWorkerPayloadRefs :: "string \<Rightarrow> string \<Rightarrow> db \<Rightarrow> WorkerPayloadRef list result" where
  "PendingWorkerPayloadRefs role phase db =
     scan_refs (sort_key (\<lambda>r. (pr_updated_at r, pr_issue_key r)) (filter (ref_pending role phase) (db_payload_refs db)))"

definition CompleteWorkerPayloadRef :: "store_env \<Rightarrow> WorkerPayloadRef \<Rightarrow> string \<Rightarrow> time \<Rightarrow> db \<Rightarrow> unit result \<times> db" where
  "CompleteWorkerPayloadRef env ref status now0 db =
     (if wp_Role ref = [] then (Inl (StoreError ''complete worker payload ref: role is required''), db)
      else if wp_Phase ref = [] then (Inl (StoreError ''complete worker payload ref: phase is required''), db)
      else if wp_IssueKey ref = [] then (Inl (StoreError ''complete worker payload ref: issue key is required''), db)
      else if status = [] then (Inl (StoreError ''complete worker payload ref: status is required''), db)
      else (Inr (), db\<lparr>db_payload_refs :=
              sql_update (\<lambda>r. ref_key r = (wp_Role ref, wp_Phase ref, wp_IssueKey ref, attempt_or_1 (wp_Attempt ref)))
                (\<lambda>r. r\<lparr>pr_status := status, pr_updated_at := format_time (now_or_clock env now0)\<rparr>) (db_payload_refs db)\<rparr>))"

section \<open>Pull request hand-off intents\<close>

definition PRHandoffIntentStatusPending :: string where "PRHandoffIntentStatusPending = ''pending''"
definition PRHandoffIntentStatusCompleted :: string where "PRHandoffIntentStatusCompleted = ''completed''"
definition PRHandoffIntentStatusFailed :: string where "PRHandoffIntentStatusFailed = ''failed''"

lemmas intent_status_defs = PRHandoffIntentStatusPending_def PRHandoffIntentStatusCompleted_def PRHandoffIntentStatusFailed_def

record PRHandoffIntent =
  hi_IssueKey :: string
  hi_IssueID :: string
  hi_Attempt :: int
  hi_WorkspacePath :: string
  hi_BranchName :: string
  hi_AgentPRURL :: string
  hi_PRURL :: string
  hi_PayloadPath :: string
  hi_Status :: string
  hi_Result :: string
  hi_Error :: string
  hi_CreatedAt :: time
  hi_UpdatedAt :: time
  hi_FinishedAt :: time

definition normalize_intent :: "store_env \<Rightarrow> PRHandoffIntent \<Rightarrow> PRHandoffIntent" where
  "normalize_intent env i =
     i\<lparr>hi_Attempt := attempt_or_1 (hi_Attempt i),
       hi_Status := (if hi_Status i = [] then PRHandoffIntentStatusPending else hi_Status i),
       hi_CreatedAt := now_or_clock env (hi_CreatedAt i), hi_UpdatedAt := now_or_clock env (hi_UpdatedAt i)\<rparr>"

definition intent_row :: "PRHandoffIntent \<Rightarrow> IntentRow" where
  "intent_row i =
     \<lparr>ir_issue_key = hi_IssueKey i, ir_issue_id = hi_IssueID i, ir_attempt = hi_Attempt i,
      ir_workspace_path = hi_WorkspacePath i, ir_branch_name = hi_BranchName i, ir_agent_pr_url = hi_AgentPRURL i,
      ir_pr_url = hi_PRURL i, ir_payload_path = hi_PayloadPath i, ir_status = hi_Status i, ir_result = hi_Result i,
      ir_error = hi_Error i, ir_created_at = format_time (hi_CreatedAt i), ir_updated_at = format_time (hi_UpdatedAt i),
      ir_finished_at = format_time (hi_FinishedAt i)\<rparr>"

definition intent_key :: "IntentRow \<Rightarrow> string \<times> int" where
  "intent_key r = (ir_issue_key r, ir_attempt r)"

definition merge_intent :: "IntentRow \<Rightarrow> IntentRow \<Rightarrow> IntentRow" where
  "merge_intent old new =
     old\<lparr>ir_issue_id := ir_issue_id new, ir_workspace_path := ir_workspace_path new, ir_branch_name := ir_branch_name new,
         ir_agent_pr_url := ir_agent_pr_url new, ir_payload_path := ir_payload_path new,
         ir_status := (if ir_status old = ''completed'' \<or> ir_status old = ''failed'' then ir_status old else ir_status new),
         ir_updated_at := ir_updated_at new\<rparr>"

definition UpsertPRHandoffIntent :: "store_env \<Rightarrow> PRHandoffIntent \<Rightarrow> db \<Rightarrow> unit result \<times> db" where
  "UpsertPRHandoffIntent env intent db =
     (if hi_IssueKey intent = [] then (Inl (StoreError ''upsert PR handoff intent: issue key is required''), db)
      else (Inr (), db\<lparr>db_intents :=
              sql_upsert intent_key merge_intent (intent_row (normalize_intent env intent)) (db_intents db)\<rparr>))"

definition CompletePRHandoffIntent ::
    "store_env \<Rightarrow> string \<Rightarrow> int \<Rightarrow> string \<Rightarrow> string \<Rightarrow> string \<Rightarrow> time \<Rightarrow> db \<Rightarrow> unit result \<times> db" where
  "CompletePRHandoffIntent env issueKey attempt0 status prURL errorText now0 db =
     (if issueKey = [] then (Inl (StoreError ''complete PR handoff intent: issue key is required''), db)
      else if status = [] then (Inl (StoreError ''complete PR handoff intent: status is required''), db)
      else let attempt = attempt_or_1 attempt0; now = now_or_clock env now0;
               result = (if status \<noteq> PRHandoffIntentStatusCompleted then ''failed'' else ''success'') in
        (Inr (), db\<lparr>db_intents :=
           sql_update (\<lambda>r. intent_key r = (issueKey, attempt) \<and> ir_status r = PRHandoffIntentStatusPending)
             (\<lambda>r. r\<lparr>ir_status := status, ir_pr_url := prURL, ir_result := result, ir_error := errorText,
                    ir_finished_at := format_time now, ir_updated_at := format_time now\<rparr>) (db_intents db)\<rparr>))"

text \<open>\<open>Store.PRHandoffIntent\<close>.\<close>

definition ReadPRHandoffIntent :: "string \<Rightarrow> int \<Rightarrow> db \<Rightarrow> PRHandoffIntent option result" where
  "ReadPRHandoffIntent issueKey attempt db =
     (case lookup intent_key (issueKey, attempt_or_1 attempt) (db_intents db) of
        None \<Rightarrow> Inr None
      | Some r \<Rightarrow>
     (case parse_time (ir_created_at r) of
        None \<Rightarrow> Inl (StoreError ''parse PR handoff intent created_at'')
      | Some created \<Rightarrow>
     (case parse_time (ir_updated_at r) of
        None \<Rightarrow> Inl (StoreError ''parse PR handoff intent updated_at'')
      | Some updated \<Rightarrow>
     (case parse_time (ir_finished_at r) of
        None \<Rightarrow> Inl (StoreError ''parse PR handoff intent finished_at'')
      | Some finished \<Rightarrow>
          Inr (Some \<lparr>hi_IssueKey = ir_issue_key r, hi_IssueID = ir_issue_id r, hi_Attempt = ir_attempt r,
             hi_WorkspacePath = ir_workspace_path r, hi_BranchName = ir_branch_name r,
             hi_AgentPRURL = ir_agent_pr_url r, hi_PRURL = ir_pr_url r, hi_PayloadPath = ir_payload_path r,
             hi_Status = ir_status r, hi_Result = ir_result r, hi_Error = ir_error r, hi_CreatedAt = created,
             hi_UpdatedAt = updated, hi_FinishedAt = finished\<rparr>)))))"

section \<open>Lemmas\<close>

interpretation refs: keyed_table ref_key merge_ref
  by unfold_locales (simp add: ref_key_def merge_ref_def)

interpretation intents: keyed_table intent_key merge_intent
  by unfold_locales (simp add: intent_key_def merge_intent_def)

datatype intent_op =
    IntentUpsert PRHandoffIntent
  | IntentComplete string int string string string time

fun intent_step :: "store_env \<Rightarrow> intent_op \<Rightarrow> db \<Rightarrow> db" where
  "intent_step env (IntentUpsert i) db = snd (UpsertPRHandoffIntent env i db)"
| "intent_step env (IntentComplete k a s u e now) db = snd (CompletePRHandoffIntent env k a s u e now db)"

definition intent_run :: "store_env \<Rightarrow> intent_op list \<Rightarrow> db \<Rightarrow> db" where
  "intent_run env ops db = fold (intent_step env) ops db"

definition intent_final :: "IntentRow \<Rightarrow> bool" where
  "intent_final r \<longleftrightarrow> ir_status r = ''completed'' \<or> ir_status r = ''failed''"

text \<open>What a finished intent says: its verdict, pull request, result, error and end.\<close>

definition intent_verdict :: "IntentRow \<Rightarrow> string \<times> string \<times> string \<times> string \<times> string" where
  "intent_verdict r = (ir_status r, ir_pr_url r, ir_result r, ir_error r, ir_finished_at r)"

lemma merge_intent_final: "intent_final old \<Longrightarrow> intent_verdict (merge_intent old new) = intent_verdict old"
  by (auto simp: intent_final_def intent_verdict_def merge_intent_def)

lemma intent_step_keeps_verdict:
  assumes "intents.keys_ok (db_intents db)" "lookup intent_key k (db_intents db) = Some r" "intent_final r"
  shows "intents.keys_ok (db_intents (intent_step env op db))
     \<and> (\<exists>r'. lookup intent_key k (db_intents (intent_step env op db)) = Some r' \<and> intent_verdict r' = intent_verdict r)"
proof (cases op)
  case (IntentUpsert i)
  show ?thesis
  proof (cases "hi_IssueKey i = []")
    case True
    then show ?thesis using assms IntentUpsert by (simp add: UpsertPRHandoffIntent_def)
  next
    case False
    let ?new = "intent_row (normalize_intent env i)"
    have db': "db_intents (intent_step env op db) = sql_upsert intent_key merge_intent ?new (db_intents db)"
      using IntentUpsert False by (simp add: UpsertPRHandoffIntent_def)
    show ?thesis
      unfolding db' using intents.upsert_keys_ok [OF assms(1), of ?new] intents.lookup_upsert [OF assms(1), of k ?new]
        assms(2) merge_intent_final [OF assms(3)] by auto
  qed
next
  case (IntentComplete ik a s u e now)
  show ?thesis
  proof (cases "ik = [] \<or> s = []")
    case True
    then show ?thesis using assms IntentComplete by (auto simp: CompletePRHandoffIntent_def)
  next
    case False
    let ?f = "\<lambda>r. r\<lparr>ir_status := s, ir_pr_url := u, ir_result := (if s \<noteq> PRHandoffIntentStatusCompleted then ''failed'' else ''success''),
        ir_error := e, ir_finished_at := format_time (now_or_clock env now), ir_updated_at := format_time (now_or_clock env now)\<rparr>"
    let ?P = "\<lambda>r. intent_key r = (ik, attempt_or_1 a) \<and> ir_status r = PRHandoffIntentStatusPending"
    have db': "db_intents (intent_step env op db) = sql_update ?P ?f (db_intents db)"
      using IntentComplete False by (simp add: CompletePRHandoffIntent_def Let_def)
    have key: "intent_key (?f r) = intent_key r" for r by (simp add: intent_key_def)
    have "\<not> ?P r" using assms(3) by (auto simp: intent_final_def intent_status_defs)
    moreover have "lookup intent_key k (sql_update ?P ?f (db_intents db)) = Some (if ?P r then ?f r else r)"
      using lookup_sql_update [of intent_key ?f "db_intents db" k ?P, OF key] assms(1,2) by (simp add: intents.keys_ok_def)
    ultimately have "lookup intent_key k (sql_update ?P ?f (db_intents db)) = Some r" by (simp only: if_False)
    then show ?thesis
      unfolding db' using intents.update_keys_ok [of ?f "db_intents db" ?P, OF key assms(1)] by blast
  qed
qed

text \<open>
  C12: a hand-off intent is decided once.  Once an intent is completed or failed, no sequence of
  upserts and completions, for any issue, changes its status, pull request, result, error or
  finishing time.
\<close>

theorem decided_intent_is_final:
  assumes "distinct (map intent_key (db_intents db))" "lookup intent_key k (db_intents db) = Some r" "intent_final r"
  shows "\<exists>r'. lookup intent_key k (db_intents (intent_run env ops db)) = Some r' \<and> intent_verdict r' = intent_verdict r"
proof -
  have "intents.keys_ok (db_intents db)" using assms(1) by (simp add: intents.keys_ok_def)
  then show ?thesis using assms(2,3)
  proof (induction ops arbitrary: db r)
    case Nil
    then show ?case by (simp add: intent_run_def)
  next
    case (Cons op ops)
    obtain r1 where r1: "intents.keys_ok (db_intents (intent_step env op db))"
        "lookup intent_key k (db_intents (intent_step env op db)) = Some r1" "intent_verdict r1 = intent_verdict r"
      using intent_step_keeps_verdict [OF Cons.prems] by blast
    have "intent_final r1" using r1(3) Cons.prems(3) by (simp add: intent_final_def intent_verdict_def)
    from Cons.IH [OF r1(1,2) this] r1(3) show ?case by (simp add: intent_run_def)
  qed
qed

definition sample_intent :: PRHandoffIntent where
  "sample_intent = \<lparr>hi_IssueKey = ''A-1'', hi_IssueID = [], hi_Attempt = 1, hi_WorkspacePath = [], hi_BranchName = [],
     hi_AgentPRURL = [], hi_PRURL = ''https://host/pr/1'', hi_PayloadPath = [], hi_Status = ''completed'',
     hi_Result = ''success'', hi_Error = [], hi_CreatedAt = 1, hi_UpdatedAt = 1, hi_FinishedAt = 1\<rparr>"

theorem decided_intent_is_final_witness:
  "\<exists>r'. lookup intent_key (''A-1'', 1) (db_intents (intent_run test_env
          [IntentUpsert (sample_intent\<lparr>hi_Status := ''pending''\<rparr>), IntentComplete ''A-1'' 1 ''failed'' [] ''late'' 5]
          (empty_db\<lparr>db_intents := [intent_row sample_intent]\<rparr>))) = Some r'
     \<and> intent_verdict r' = intent_verdict (intent_row sample_intent)"
  by (rule decided_intent_is_final) (simp_all add: intent_key_def intent_row_def sample_intent_def intent_final_def)

end
