(* ===== verification/AttemptStore.thy ===== *)
theory AttemptStore
  imports LeaseStore EventLog
begin

text \<open>
  The attempts of internal/state/store.go: \<open>UpsertAttemptResult\<close> and \<open>UpsertRunArtifact\<close> write an
  attempt with its pull request, review, feedback, retry and terminal outcome in one transaction;
  \<open>UpsertCleanupState\<close> and \<open>RecordArtifactExportFailure\<close> add to it; \<open>CleanupFacts\<close>,
  \<open>ReconciliationFacts\<close> and the snapshots read it back through left joins.  Where SQLite leaves the
  choice among joined rows of equal order open, the model takes the first in table order.
\<close>

record AttemptResult =
  at_IssueKey :: string
  at_IssueID :: string
  at_Attempt :: int
  at_WorkspacePath :: string
  at_BranchName :: string
  at_BaseBranch :: string
  at_Status :: string
  at_StartedAt :: time
  at_UpdatedAt :: time
  at_Repository :: string
  at_PRNumber :: int
  at_PRURL :: string
  at_ReviewStatus :: string
  at_ReviewPassed :: bool
  at_ReviewClassification :: string
  at_ReviewOutputRef :: string
  at_ReviewOutputHash :: string
  at_MergeEligible :: bool
  at_FeedbackHash :: string
  at_FeedbackNextAction :: string
  at_RetryCount :: int
  at_RetryBudgetState :: string
  at_RetryReason :: string
  at_RetryInputHash :: string
  at_RetryNextState :: string
  at_TerminalOutcome :: string
  at_TerminalReason :: string

record RunArtifactSnapshot =
  sn_SchemaVersion :: int
  sn_ArtifactSchemaVersion :: int
  sn_ArtifactSchemaSource :: string
  sn_IssueKey :: string
  sn_IssueID :: string
  sn_Attempt :: int
  sn_WorkspacePath :: string
  sn_BranchName :: string
  sn_BaseBranch :: string
  sn_Status :: string
  sn_StartedAt :: time
  sn_UpdatedAt :: time
  sn_Repository :: string
  sn_PRNumber :: int
  sn_PRURL :: string
  sn_ReviewStatus :: string
  sn_ReviewPassed :: bool
  sn_ReviewClassification :: string
  sn_ReviewOutputRef :: string
  sn_ReviewOutputHash :: string
  sn_MergeEligible :: bool
  sn_FeedbackHash :: string
  sn_FeedbackNextAction :: string
  sn_RetryCount :: int
  sn_RetryBudgetState :: string
  sn_RetryReason :: string
  sn_RetryInputHash :: string
  sn_RetryNextState :: string
  sn_TerminalOutcome :: string
  sn_TerminalReason :: string
  sn_RunArtifactRef :: string
  sn_EvaluationRef :: string

definition CurrentSchemaVersion :: int where "CurrentSchemaVersion = 8"

definition attemptResultFromRunArtifactSnapshot :: "RunArtifactSnapshot \<Rightarrow> AttemptResult" where
  "attemptResultFromRunArtifactSnapshot s =
     \<lparr>at_IssueKey = sn_IssueKey s, at_IssueID = sn_IssueID s, at_Attempt = sn_Attempt s,
      at_WorkspacePath = sn_WorkspacePath s, at_BranchName = sn_BranchName s, at_BaseBranch = sn_BaseBranch s,
      at_Status = sn_Status s, at_StartedAt = sn_StartedAt s, at_UpdatedAt = sn_UpdatedAt s,
      at_Repository = sn_Repository s, at_PRNumber = sn_PRNumber s, at_PRURL = sn_PRURL s,
      at_ReviewStatus = sn_ReviewStatus s, at_ReviewPassed = sn_ReviewPassed s,
      at_ReviewClassification = sn_ReviewClassification s, at_ReviewOutputRef = sn_ReviewOutputRef s,
      at_ReviewOutputHash = sn_ReviewOutputHash s, at_MergeEligible = sn_MergeEligible s,
      at_FeedbackHash = sn_FeedbackHash s, at_FeedbackNextAction = sn_FeedbackNextAction s,
      at_RetryCount = sn_RetryCount s, at_RetryBudgetState = sn_RetryBudgetState s,
      at_RetryReason = sn_RetryReason s, at_RetryInputHash = sn_RetryInputHash s,
      at_RetryNextState = sn_RetryNextState s, at_TerminalOutcome = sn_TerminalOutcome s,
      at_TerminalReason = sn_TerminalReason s\<rparr>"

section \<open>Writing an attempt\<close>

definition attempt_key :: "AttemptRow \<Rightarrow> string \<times> int" where
  "attempt_key r = (ar_issue_key r, ar_attempt r)"

text \<open>An \<open>INTEGER PRIMARY KEY\<close> without \<open>AUTOINCREMENT\<close>: one more than the largest id in use.\<close>

definition next_attempt_id :: "AttemptRow list \<Rightarrow> int" where
  "next_attempt_id rows = foldr (\<lambda>r n. max (ar_id r) n) rows 0 + 1"

definition merge_attempt :: "AttemptRow \<Rightarrow> AttemptRow \<Rightarrow> AttemptRow" where
  "merge_attempt old new =
     old\<lparr>ar_issue_id := ar_issue_id new, ar_workspace_path := ar_workspace_path new, ar_branch_name := ar_branch_name new,
         ar_base_branch := ar_base_branch new, ar_status := ar_status new, ar_updated_at := ar_updated_at new\<rparr>"

definition attempt_row :: "AttemptResult \<Rightarrow> time \<Rightarrow> int \<Rightarrow> AttemptRow" where
  "attempt_row r now i =
     \<lparr>ar_id = i, ar_issue_key = at_IssueKey r, ar_issue_id = at_IssueID r, ar_attempt = at_Attempt r,
      ar_workspace_path = at_WorkspacePath r, ar_branch_name = at_BranchName r, ar_base_branch = at_BaseBranch r,
      ar_status = at_Status r,
      ar_created_at = format_time (if is_zero (at_StartedAt r) then now else at_StartedAt r),
      ar_updated_at = format_time now\<rparr>"

definition attemptID :: "string \<Rightarrow> int \<Rightarrow> db \<Rightarrow> int result" where
  "attemptID issueKey attempt db =
     (case lookup attempt_key (issueKey, attempt) (db_attempts db) of
        None \<Rightarrow> Inl (NoRows ''read issue attempt id'')
      | Some r \<Rightarrow> Inr (ar_id r))"

definition pr_key :: "PRMappingRow \<Rightarrow> string \<times> string" where
  "pr_key r = (pm_repository r, pm_branch_name r)"

definition merge_pr :: "PRMappingRow \<Rightarrow> PRMappingRow \<Rightarrow> PRMappingRow" where
  "merge_pr old new = new\<lparr>pm_repository := pm_repository old, pm_branch_name := pm_branch_name old\<rparr>"

definition pr_row :: "AttemptResult \<Rightarrow> time \<Rightarrow> int \<Rightarrow> PRMappingRow" where
  "pr_row r now aid =
     \<lparr>pm_attempt_id = aid, pm_repository = at_Repository r, pm_branch_name = at_BranchName r,
      pm_base_branch = at_BaseBranch r, pm_pr_number = nullZeroInt (at_PRNumber r), pm_pr_url = at_PRURL r,
      pm_am_owned = 1, pm_updated_at = format_time now\<rparr>"

definition merge_review :: "ReviewRow \<Rightarrow> ReviewRow \<Rightarrow> ReviewRow" where
  "merge_review old new = new\<lparr>vr_attempt_id := vr_attempt_id old\<rparr>"

definition review_row :: "AttemptResult \<Rightarrow> time \<Rightarrow> int \<Rightarrow> ReviewRow" where
  "review_row r now aid =
     \<lparr>vr_attempt_id = aid, vr_command_status = at_ReviewStatus r, vr_passed = boolInt (at_ReviewPassed r),
      vr_classification = at_ReviewClassification r, vr_output_ref = at_ReviewOutputRef r,
      vr_output_hash = at_ReviewOutputHash r, vr_merge_eligible = boolInt (at_MergeEligible r),
      vr_updated_at = format_time now\<rparr>"

definition merge_feedback :: "FeedbackRow \<Rightarrow> FeedbackRow \<Rightarrow> FeedbackRow" where
  "merge_feedback old new = new\<lparr>fb_attempt_id := fb_attempt_id old\<rparr>"

definition feedback_row :: "AttemptResult \<Rightarrow> time \<Rightarrow> int \<Rightarrow> FeedbackRow" where
  "feedback_row r now aid =
     \<lparr>fb_attempt_id = aid, fb_feedback_hash = at_FeedbackHash r, fb_next_action = at_FeedbackNextAction r,
      fb_updated_at = format_time now\<rparr>"

text \<open>Without a count of its own a retry is one more than the recorded one, or the first.\<close>

definition retry_count_of :: "AttemptResult \<Rightarrow> int \<Rightarrow> RetryRow list \<Rightarrow> int" where
  "retry_count_of r aid rows =
     (if 0 < at_RetryCount r then at_RetryCount r
      else (case lookup rd_attempt_id aid rows of None \<Rightarrow> 1 | Some old \<Rightarrow> rd_retry_count old + 1))"

definition retry_row :: "AttemptResult \<Rightarrow> time \<Rightarrow> int \<Rightarrow> int \<Rightarrow> RetryRow" where
  "retry_row r now aid n =
     \<lparr>rd_attempt_id = aid, rd_retry_count = n, rd_budget_state = at_RetryBudgetState r, rd_reason = at_RetryReason r,
      rd_input_hash = at_RetryInputHash r, rd_next_state = at_RetryNextState r, rd_decided_at = format_time now\<rparr>"

definition merge_outcome :: "OutcomeRow \<Rightarrow> OutcomeRow \<Rightarrow> OutcomeRow" where
  "merge_outcome old new = new\<lparr>to_attempt_id := to_attempt_id old\<rparr>"

definition outcome_row :: "AttemptResult \<Rightarrow> time \<Rightarrow> int \<Rightarrow> OutcomeRow" where
  "outcome_row r now aid =
     \<lparr>to_attempt_id = aid, to_outcome = at_TerminalOutcome r, to_reason = at_TerminalReason r,
      to_recorded_at = format_time now\<rparr>"

definition default_attempt :: "AttemptResult \<Rightarrow> AttemptResult" where
  "default_attempt r =
     r\<lparr>at_Attempt := (if at_Attempt r \<le> 0 then 1 else at_Attempt r),
       at_BranchName := (if at_BranchName r = [] then at_IssueKey r else at_BranchName r),
       at_BaseBranch := (if at_BaseBranch r = [] then ''main'' else at_BaseBranch r)\<rparr>"

text \<open>The statements after the attempt itself, each with the row of the attempt's id.\<close>

definition write_pr :: "AttemptResult \<Rightarrow> time \<Rightarrow> int \<Rightarrow> db \<Rightarrow> db" where
  "write_pr r now aid db =
     (if at_PRURL r \<noteq> [] \<or> at_Repository r \<noteq> []
      then db\<lparr>db_pr_mappings := sql_upsert pr_key merge_pr (pr_row r now aid) (db_pr_mappings db)\<rparr> else db)"

definition write_review :: "AttemptResult \<Rightarrow> time \<Rightarrow> int \<Rightarrow> db \<Rightarrow> db" where
  "write_review r now aid db =
     (if at_ReviewStatus r \<noteq> [] \<or> at_ReviewClassification r \<noteq> []
      then db\<lparr>db_reviews := sql_upsert vr_attempt_id merge_review (review_row r now aid) (db_reviews db)\<rparr> else db)"

definition write_feedback :: "AttemptResult \<Rightarrow> time \<Rightarrow> int \<Rightarrow> db \<Rightarrow> db" where
  "write_feedback r now aid db =
     db\<lparr>db_feedback := sql_upsert fb_attempt_id merge_feedback (feedback_row r now aid) (db_feedback db)\<rparr>"

definition write_retry :: "AttemptResult \<Rightarrow> time \<Rightarrow> int \<Rightarrow> db \<Rightarrow> db" where
  "write_retry r now aid db =
     (if at_RetryNextState r \<noteq> [] \<or> at_RetryReason r \<noteq> []
      then db\<lparr>db_retries := sql_delete (\<lambda>q. rd_attempt_id q = aid) (db_retries db)
                @ [retry_row r now aid (retry_count_of r aid (db_retries db))]\<rparr> else db)"

definition write_outcome :: "AttemptResult \<Rightarrow> time \<Rightarrow> int \<Rightarrow> db \<Rightarrow> db" where
  "write_outcome r now aid db =
     (if at_TerminalOutcome r \<noteq> []
      then db\<lparr>db_outcomes := sql_upsert to_attempt_id merge_outcome (outcome_row r now aid) (db_outcomes db)\<rparr> else db)"

definition upsertAttemptResultTx :: "AttemptResult \<Rightarrow> time \<Rightarrow> db \<Rightarrow> unit result \<times> db" where
  "upsertAttemptResultTx result0 now db =
     (if at_IssueKey result0 = [] then (Inl (StoreError ''upsert attempt result: issue key is required''), db)
      else let r = default_attempt result0;
               db1 = db\<lparr>db_attempts := sql_upsert attempt_key merge_attempt
                          (attempt_row r now (next_attempt_id (db_attempts db))) (db_attempts db)\<rparr> in
        (case attemptID (at_IssueKey r) (at_Attempt r) db1 of
           Inl e \<Rightarrow> (Inl e, db1)
         | Inr aid \<Rightarrow>
             (Inr (), write_outcome r now aid (write_retry r now aid (write_feedback r now aid
                        (write_review r now aid (write_pr r now aid db1)))))))"

section \<open>Events of an attempt\<close>

definition attempt_event :: "RunArtifactSnapshot \<Rightarrow> time \<Rightarrow> string \<Rightarrow> payload \<Rightarrow> EventInput" where
  "attempt_event s occurredAt etype payload =
     \<lparr>ei_OccurredAt = occurredAt, ei_IssueKey = sn_IssueKey s, ei_IssueID = sn_IssueID s, ei_Attempt = sn_Attempt s,
      ei_RunID = sn_WorkspacePath s, ei_Source = ''runner.run_attempt'', ei_Type = etype,
      ei_Payload = ValuePayload (JObj payload)\<rparr>"

definition base_payload :: "RunArtifactSnapshot \<Rightarrow> payload" where
  "base_payload s =
     put_if (sn_FeedbackNextAction s \<noteq> []) ''next_action'' (JStr (sn_FeedbackNextAction s))
     (put_if (sn_TerminalReason s \<noteq> []) ''terminal_reason'' (JStr (sn_TerminalReason s))
     (put_if (sn_TerminalOutcome s \<noteq> []) ''terminal_outcome'' (JStr (sn_TerminalOutcome s))
     (put_if (sn_ReviewClassification s \<noteq> []) ''review_classification'' (JStr (sn_ReviewClassification s))
     (put_if (sn_ReviewStatus s \<noteq> []) ''review_status'' (JStr (sn_ReviewStatus s))
     (put_if (sn_PRURL s \<noteq> []) ''pr_url'' (JStr (sn_PRURL s))
       [(''status'', JStr (sn_Status s)), (''schema_version'', JInt (sn_SchemaVersion s)),
        (''artifact_schema_version'', JInt (sn_ArtifactSchemaVersion s)),
        (''artifact_schema_source'', JStr (sn_ArtifactSchemaSource s))])))))"

definition runArtifactEventInputs :: "RunArtifactSnapshot \<Rightarrow> time \<Rightarrow> EventInput list" where
  "runArtifactEventInputs s occurredAt =
     [attempt_event s occurredAt
        (if sn_TerminalOutcome s \<noteq> [] then ''attempt_finished'' else ''attempt_started'') (base_payload s)]
     @ (if sn_PRURL s \<noteq> []
        then [attempt_event s occurredAt ''pr_detected''
                [(''pr_url'', JStr (sn_PRURL s)), (''status'', JStr (sn_Status s))]] else [])
     @ (if sn_ReviewStatus s \<noteq> [] \<or> sn_ReviewClassification s \<noteq> []
        then [attempt_event s occurredAt ''review_completed''
                [(''review_status'', JStr (sn_ReviewStatus s)), (''classification'', JStr (sn_ReviewClassification s)),
                 (''status'', JStr (sn_Status s))]] else [])
     @ (if sn_TerminalOutcome s \<noteq> [] \<and> sn_TerminalOutcome s \<noteq> ''handoff_ready'' \<and> sn_TerminalOutcome s \<noteq> ''merged''
        then [attempt_event s occurredAt ''error_recorded''
                [(''status'', JStr (sn_Status s)), (''terminal_outcome'', JStr (sn_TerminalOutcome s)),
                 (''reason'', JStr (sn_TerminalReason s))]] else [])"

definition zero_Snapshot :: RunArtifactSnapshot where
  "zero_Snapshot =
     \<lparr>sn_SchemaVersion = 0, sn_ArtifactSchemaVersion = 0, sn_ArtifactSchemaSource = [], sn_IssueKey = [], sn_IssueID = [],
      sn_Attempt = 0, sn_WorkspacePath = [], sn_BranchName = [], sn_BaseBranch = [], sn_Status = [], sn_StartedAt = 0,
      sn_UpdatedAt = 0, sn_Repository = [], sn_PRNumber = 0, sn_PRURL = [], sn_ReviewStatus = [], sn_ReviewPassed = False,
      sn_ReviewClassification = [], sn_ReviewOutputRef = [], sn_ReviewOutputHash = [], sn_MergeEligible = False,
      sn_FeedbackHash = [], sn_FeedbackNextAction = [], sn_RetryCount = 0, sn_RetryBudgetState = [], sn_RetryReason = [],
      sn_RetryInputHash = [], sn_RetryNextState = [], sn_TerminalOutcome = [], sn_TerminalReason = [],
      sn_RunArtifactRef = [], sn_EvaluationRef = []\<rparr>"

definition attemptResultEventInputs :: "AttemptResult \<Rightarrow> time \<Rightarrow> EventInput list" where
  "attemptResultEventInputs r occurredAt =
     runArtifactEventInputs (zero_Snapshot
       \<lparr>sn_SchemaVersion := CurrentSchemaVersion, sn_IssueKey := at_IssueKey r, sn_IssueID := at_IssueID r,
        sn_Attempt := at_Attempt r, sn_WorkspacePath := at_WorkspacePath r, sn_Status := at_Status r,
        sn_PRURL := at_PRURL r, sn_ReviewStatus := at_ReviewStatus r,
        sn_ReviewClassification := at_ReviewClassification r, sn_FeedbackNextAction := at_FeedbackNextAction r,
        sn_TerminalOutcome := at_TerminalOutcome r, sn_TerminalReason := at_TerminalReason r\<rparr>) occurredAt"

text \<open>\<open>append*EventsBestEffort\<close>: the error of an append is dropped.\<close>

fun append_best_effort :: "store_env \<Rightarrow> EventInput list \<Rightarrow> db \<Rightarrow> db" where
  "append_best_effort env [] db = db"
| "append_best_effort env (i # is) db = append_best_effort env is (snd (appendEvent env i db))"

definition UpsertAttemptResult :: "store_env \<Rightarrow> AttemptResult \<Rightarrow> db \<Rightarrow> unit result \<times> db" where
  "UpsertAttemptResult env result0 db =
     (if at_IssueKey result0 = [] then (Inl (StoreError ''upsert attempt result: issue key is required''), db)
      else let r = default_attempt result0; now = now_or_clock env (at_UpdatedAt result0) in
        (case upsertAttemptResultTx r now db of
           (Inl e, _) \<Rightarrow> (Inl e, db)
         | (Inr _, db1) \<Rightarrow> (Inr (), append_best_effort env (attemptResultEventInputs r now) db1)))"

section \<open>Run artifacts\<close>

definition default_snapshot :: "RunArtifactSnapshot \<Rightarrow> RunArtifactSnapshot" where
  "default_snapshot s =
     s\<lparr>sn_Attempt := (if sn_Attempt s \<le> 0 then 1 else sn_Attempt s),
       sn_BranchName := (if sn_BranchName s = [] then sn_IssueKey s else sn_BranchName s),
       sn_BaseBranch := (if sn_BaseBranch s = [] then ''main'' else sn_BaseBranch s),
       sn_SchemaVersion := (if sn_SchemaVersion s = 0 then CurrentSchemaVersion else sn_SchemaVersion s),
       sn_ArtifactSchemaVersion := (if sn_ArtifactSchemaVersion s = 0 then 1 else sn_ArtifactSchemaVersion s),
       sn_ArtifactSchemaSource := (if sn_ArtifactSchemaSource s = [] then ''current'' else sn_ArtifactSchemaSource s)\<rparr>"

definition artifact_fact :: "RunArtifactSnapshot \<Rightarrow> time \<Rightarrow> int \<Rightarrow> string \<times> string \<Rightarrow> FactRow" where
  "artifact_fact s now aid kr =
     \<lparr>fr_attempt_id = Some aid, fr_source = ''artifact'', fr_fact_key = fst kr,
      fr_fact_json = json_render (JObj [(''ref'', JStr (snd kr)), (''schema_version'', JInt (sn_ArtifactSchemaVersion s)),
         (''schema_source'', JStr (sn_ArtifactSchemaSource s)), (''projection_schema_version'', JInt (sn_SchemaVersion s))]),
      fr_fact_hash = snd kr, fr_captured_at = format_time now\<rparr>"

text \<open>The loop over the two references; Go leaves the order of the map open, and the two keys differ.\<close>

fun record_artifacts :: "RunArtifactSnapshot \<Rightarrow> time \<Rightarrow> int \<Rightarrow> (string \<times> string) list \<Rightarrow> FactRow list \<Rightarrow> FactRow list" where
  "record_artifacts s now aid [] facts = facts"
| "record_artifacts s now aid (kr # krs) facts =
     record_artifacts s now aid krs
       (if snd kr = [] then facts else insert_or_ignore fact_key_of (artifact_fact s now aid kr) facts)"

definition UpsertRunArtifact :: "store_env \<Rightarrow> RunArtifactSnapshot \<Rightarrow> db \<Rightarrow> unit result \<times> db" where
  "UpsertRunArtifact env snap0 db =
     (if sn_IssueKey snap0 = [] then (Inl (StoreError ''upsert run artifact: issue key is required''), db)
      else let s = default_snapshot snap0; now = now_or_clock env (sn_UpdatedAt snap0) in
        (case upsertAttemptResultTx (attemptResultFromRunArtifactSnapshot s) now db of
           (Inl e, _) \<Rightarrow> (Inl e, db)
         | (Inr _, db1) \<Rightarrow>
             (case attemptID (sn_IssueKey s) (sn_Attempt s) db1 of
                Inl e \<Rightarrow> (Inl e, db)
              | Inr aid \<Rightarrow>
                  (Inr (), append_best_effort env (runArtifactEventInputs s now)
                     (db1\<lparr>db_facts := record_artifacts s now aid
                        [(''run_record'', sn_RunArtifactRef s), (''evaluation'', sn_EvaluationRef s)] (db_facts db1)\<rparr>)))))"

text \<open>A plain \<open>INSERT\<close>: the unique key of the facts makes a repeated one an error.\<close>

definition RecordArtifactExportFailure :: "store_env \<Rightarrow> string \<Rightarrow> int \<Rightarrow> string \<Rightarrow> string \<Rightarrow> time \<Rightarrow> db \<Rightarrow> unit result \<times> db" where
  "RecordArtifactExportFailure env issueKey attempt0 artifact0 message capturedAt0 db =
     (if issueKey = [] then (Inl (StoreError ''record artifact export failure: issue key is required''), db)
      else let attempt = (if attempt0 \<le> 0 then 1 else attempt0);
               artifact = (if artifact0 = [] then ''unknown'' else artifact0);
               capturedAt = now_or_clock env capturedAt0 in
        (case attemptID issueKey attempt db of
           Inl e \<Rightarrow> (Inl e, db)
         | Inr aid \<Rightarrow>
             let row = \<lparr>fr_attempt_id = Some aid, fr_source = ''artifact'', fr_fact_key = ''artifact_export_failure'',
                        fr_fact_json = json_render (JObj [(''artifact'', JStr artifact), (''error'', JStr message)]),
                        fr_fact_hash = artifact @ '':'' @ message, fr_captured_at = format_time capturedAt\<rparr> in
             if sql_conflict fact_key_of row (db_facts db)
             then (Inl (StoreError ''record artifact export failure: UNIQUE constraint failed''), db)
             else (Inr (), db\<lparr>db_facts := db_facts db @ [row]\<rparr>)))"

section \<open>Cleanup state\<close>

record CleanupState =
  cu_IssueKey :: string
  cu_Attempt :: int
  cu_WorkspaceExists :: bool
  cu_Eligible :: bool
  cu_Decision :: string
  cu_DeletionResult :: string
  cu_ArtifactRef :: string
  cu_BlockedReason :: string
  cu_UpdatedAt :: time

definition cleanupStateEventType :: "CleanupState \<Rightarrow> string" where
  "cleanupStateEventType c =
     (if cu_DeletionResult c = ''deleted'' then ''cleanup_completed''
      else if cu_DeletionResult c = ''failed'' then ''cleanup_deletion_failed'' else ''cleanup_skipped'')"

definition cleanup_row :: "CleanupState \<Rightarrow> time \<Rightarrow> int \<Rightarrow> CleanupRow" where
  "cleanup_row c now aid =
     \<lparr>cs_attempt_id = aid, cs_workspace_exists = boolInt (cu_WorkspaceExists c), cs_eligible = boolInt (cu_Eligible c),
      cs_decision = cu_Decision c, cs_deletion_result = cu_DeletionResult c, cs_artifact_ref = cu_ArtifactRef c,
      cs_blocked_reason = cu_BlockedReason c, cs_updated_at = format_time now\<rparr>"

definition merge_cleanup :: "CleanupRow \<Rightarrow> CleanupRow \<Rightarrow> CleanupRow" where
  "merge_cleanup old new = new\<lparr>cs_attempt_id := cs_attempt_id old\<rparr>"

definition cleanup_event :: "CleanupState \<Rightarrow> time \<Rightarrow> EventInput" where
  "cleanup_event c now =
     \<lparr>ei_OccurredAt = now, ei_IssueKey = cu_IssueKey c, ei_IssueID = [], ei_Attempt = cu_Attempt c, ei_RunID = [],
      ei_Source = ''runner.cleanup'', ei_Type = cleanupStateEventType c,
      ei_Payload = ValuePayload (JObj [(''decision'', JStr (cu_Decision c)),
        (''deletion_result'', JStr (cu_DeletionResult c)), (''eligible'', JBool (cu_Eligible c))])\<rparr>"

definition UpsertCleanupState :: "store_env \<Rightarrow> CleanupState \<Rightarrow> db \<Rightarrow> unit result \<times> db" where
  "UpsertCleanupState env cleanup0 db =
     (if cu_IssueKey cleanup0 = [] then (Inl (StoreError ''upsert cleanup state: issue key is required''), db)
      else let c = cleanup0\<lparr>cu_Attempt := (if cu_Attempt cleanup0 \<le> 0 then 1 else cu_Attempt cleanup0)\<rparr>;
               now = now_or_clock env (cu_UpdatedAt cleanup0) in
        (case lookup attempt_key (cu_IssueKey c, cu_Attempt c) (db_attempts db) of
           None \<Rightarrow> (Inl (NoRows ''read cleanup attempt id''), db)
         | Some a \<Rightarrow>
             (case appendEvent env (cleanup_event c now)
                     (db\<lparr>db_cleanups := sql_upsert cs_attempt_id merge_cleanup (cleanup_row c now (ar_id a)) (db_cleanups db)\<rparr>) of
                (Inl e, _) \<Rightarrow> (Inl e, db)
              | (Inr ev, db1) \<Rightarrow> (Inr (), db1))))"

section \<open>Reading an attempt back\<close>

text \<open>\<open>LEFT JOIN\<close>: the matching rows, or one row of NULLs; \<open>col\<close> is \<open>COALESCE(column, default)\<close>.\<close>

definition left_join :: "('r \<Rightarrow> bool) \<Rightarrow> 'r list \<Rightarrow> 'r option list" where
  "left_join P rows = (case filter P rows of [] \<Rightarrow> [None] | rs \<Rightarrow> map Some rs)"

definition col :: "('r \<Rightarrow> 'v) \<Rightarrow> 'v \<Rightarrow> 'r option \<Rightarrow> 'v" where
  "col f d r = (case r of None \<Rightarrow> d | Some x \<Rightarrow> f x)"

definition latest_attempt :: "string \<Rightarrow> db \<Rightarrow> AttemptRow option" where
  "latest_attempt issueKey db =
     (case sort_key (\<lambda>a. - ar_attempt a) (filter (\<lambda>a. ar_issue_key a = issueKey) (db_attempts db)) of
        [] \<Rightarrow> None | a # as \<Rightarrow> Some a)"

record CleanupFacts =
  cf_IssueKey :: string
  cf_Attempt :: int
  cf_WorkspacePath :: string
  cf_BranchName :: string
  cf_BaseBranch :: string
  cf_Status :: string
  cf_TerminalOutcome :: string
  cf_PRURL :: string
  cf_CleanupDecision :: string
  cf_DeletionResult :: string
  cf_ArtifactRef :: string
  cf_UpdatedAt :: time

definition ReadCleanupFacts :: "string \<Rightarrow> db \<Rightarrow> CleanupFacts option result" where
  "ReadCleanupFacts issueKey db =
     (if issueKey = [] then Inl (StoreError ''cleanup facts: issue key is required'')
      else (case latest_attempt issueKey db of
        None \<Rightarrow> Inr None
      | Some a \<Rightarrow>
          let t = find (\<lambda>r. to_attempt_id r = ar_id a) (db_outcomes db);
              p = find (\<lambda>r. pm_attempt_id r = ar_id a) (db_pr_mappings db);
              c = find (\<lambda>r. cs_attempt_id r = ar_id a) (db_cleanups db) in
          (case parse_time (ar_updated_at a) of
             None \<Rightarrow> Inl (StoreError ''parse cleanup facts updated_at'')
           | Some updated \<Rightarrow>
               Inr (Some \<lparr>cf_IssueKey = ar_issue_key a, cf_Attempt = ar_attempt a, cf_WorkspacePath = ar_workspace_path a,
                 cf_BranchName = ar_branch_name a, cf_BaseBranch = ar_base_branch a, cf_Status = ar_status a,
                 cf_TerminalOutcome = col to_outcome [] t, cf_PRURL = col pm_pr_url [] p,
                 cf_CleanupDecision = col cs_decision [] c, cf_DeletionResult = col cs_deletion_result [] c,
                 cf_ArtifactRef = col cs_artifact_ref [] c, cf_UpdatedAt = updated\<rparr>))))"

record ReconciliationFacts =
  rf_IssueKey :: string
  rf_Attempt :: int
  rf_WorkspacePath :: string
  rf_BranchName :: string
  rf_Status :: string
  rf_PRURL :: string
  rf_ReviewStatus :: string
  rf_ReviewClassification :: string
  rf_ReviewOutputRef :: string
  rf_ReviewOutputHash :: string
  rf_RetryNextState :: string
  rf_RetryReason :: string
  rf_RetryCount :: int
  rf_RetryDecidedAt :: time
  rf_FeedbackHash :: string
  rf_FeedbackNextAction :: string
  rf_TerminalOutcome :: string
  rf_TerminalReason :: string
  rf_CleanupDecision :: string
  rf_CleanupResult :: string
  rf_CleanupArtifactRef :: string
  rf_UpdatedAt :: time

definition facts_of ::
    "AttemptRow \<Rightarrow> PRMappingRow option \<Rightarrow> ReviewRow option \<Rightarrow> RetryRow option \<Rightarrow> FeedbackRow option
       \<Rightarrow> OutcomeRow option \<Rightarrow> CleanupRow option \<Rightarrow> time \<Rightarrow> time \<Rightarrow> ReconciliationFacts" where
  "facts_of a p rs r f t c updated decided =
     \<lparr>rf_IssueKey = ar_issue_key a, rf_Attempt = ar_attempt a, rf_WorkspacePath = ar_workspace_path a,
      rf_BranchName = ar_branch_name a, rf_Status = ar_status a, rf_PRURL = col pm_pr_url [] p,
      rf_ReviewStatus = col vr_command_status [] rs, rf_ReviewClassification = col vr_classification [] rs,
      rf_ReviewOutputRef = col vr_output_ref [] rs, rf_ReviewOutputHash = col vr_output_hash [] rs,
      rf_RetryNextState = col rd_next_state [] r, rf_RetryReason = col rd_reason [] r,
      rf_RetryCount = col rd_retry_count 0 r, rf_RetryDecidedAt = decided,
      rf_FeedbackHash = col fb_feedback_hash [] f, rf_FeedbackNextAction = col fb_next_action [] f,
      rf_TerminalOutcome = col to_outcome [] t, rf_TerminalReason = col to_reason [] t,
      rf_CleanupDecision = col cs_decision [] c, rf_CleanupResult = col cs_deletion_result [] c,
      rf_CleanupArtifactRef = col cs_artifact_ref [] c, rf_UpdatedAt = updated\<rparr>"

definition parse_decided :: "string \<Rightarrow> time option" where
  "parse_decided raw = (if raw \<noteq> [] then parse_time raw else Some 0)"

definition ReadReconciliationFacts :: "string \<Rightarrow> db \<Rightarrow> ReconciliationFacts option result" where
  "ReadReconciliationFacts issueKey db =
     (if issueKey = [] then Inl (StoreError ''reconciliation facts: issue key is required'')
      else (case latest_attempt issueKey db of
        None \<Rightarrow> Inr None
      | Some a \<Rightarrow>
          let p = find (\<lambda>r. pm_attempt_id r = ar_id a) (db_pr_mappings db);
              rs = find (\<lambda>r. vr_attempt_id r = ar_id a) (db_reviews db);
              r = find (\<lambda>r. rd_attempt_id r = ar_id a) (db_retries db);
              f = find (\<lambda>r. fb_attempt_id r = ar_id a) (db_feedback db);
              t = find (\<lambda>r. to_attempt_id r = ar_id a) (db_outcomes db);
              c = find (\<lambda>r. cs_attempt_id r = ar_id a) (db_cleanups db) in
          (case parse_time (ar_updated_at a) of
             None \<Rightarrow> Inl (StoreError ''parse reconciliation facts updated_at'')
           | Some updated \<Rightarrow>
          (case parse_decided (col rd_decided_at [] r) of
             None \<Rightarrow> Inl (StoreError ''parse retry decided_at'')
           | Some decided \<Rightarrow> Inr (Some (facts_of a p rs r f t c updated decided))))))"

record SnapshotAttempt =
  sa_IssueKey :: string
  sa_Attempt :: int
  sa_WorkspacePath :: string
  sa_BranchName :: string
  sa_Status :: string
  sa_ReviewStatus :: string
  sa_ReviewPassed :: bool
  sa_PRURL :: string
  sa_TerminalOutcome :: string
  sa_RetryBudgetState :: string
  sa_RetryNextState :: string
  sa_UpdatedAt :: time

text \<open>\<open>t, _ = parseTime(raw)\<close>: the zero time when the text is none.\<close>

definition parse_time_or_zero :: "string \<Rightarrow> time" where
  "parse_time_or_zero s = (case parse_time s of None \<Rightarrow> 0 | Some t \<Rightarrow> t)"

definition snapshot_row ::
    "AttemptRow \<Rightarrow> ReviewRow option \<Rightarrow> PRMappingRow option \<Rightarrow> OutcomeRow option \<Rightarrow> RetryRow option \<Rightarrow> SnapshotAttempt" where
  "snapshot_row a rs pm t rd =
     \<lparr>sa_IssueKey = ar_issue_key a, sa_Attempt = ar_attempt a, sa_WorkspacePath = ar_workspace_path a,
      sa_BranchName = ar_branch_name a, sa_Status = ar_status a, sa_ReviewStatus = col vr_command_status [] rs,
      sa_ReviewPassed = (col vr_passed 0 rs = 1), sa_PRURL = col pm_pr_url [] pm,
      sa_TerminalOutcome = col to_outcome [] t, sa_RetryBudgetState = col rd_budget_state [] rd,
      sa_RetryNextState = col rd_next_state [] rd, sa_UpdatedAt = parse_time_or_zero (ar_updated_at a)\<rparr>"

definition SnapshotAttempts :: "db \<Rightarrow> SnapshotAttempt list" where
  "SnapshotAttempts db =
     concat (map (\<lambda>a. [snapshot_row a rs pm t rd.
         rs \<leftarrow> left_join (\<lambda>r. vr_attempt_id r = ar_id a) (db_reviews db),
         pm \<leftarrow> left_join (\<lambda>r. pm_attempt_id r = ar_id a) (db_pr_mappings db),
         t \<leftarrow> left_join (\<lambda>r. to_attempt_id r = ar_id a) (db_outcomes db),
         rd \<leftarrow> left_join (\<lambda>r. rd_attempt_id r = ar_id a) (db_retries db)])
       (sort_key (\<lambda>a. (ar_issue_key a, ar_attempt a)) (db_attempts db)))"

record SnapshotHeartbeat =
  sh_ProcessID :: string
  sh_LaneName :: string
  sh_WorkflowPath :: string
  sh_CycleNumber :: int
  sh_LastSuccessAt :: time
  sh_LastError :: string
  sh_RecoveryRequired :: bool
  sh_ActiveTaskKey :: string
  sh_ActiveTaskRole :: string
  sh_ActiveLeaseName :: string
  sh_ActiveTaskStartedAt :: time
  sh_UpdatedAt :: time

definition snapshot_heartbeat :: "HeartbeatRow \<Rightarrow> SnapshotHeartbeat" where
  "snapshot_heartbeat h =
     \<lparr>sh_ProcessID = hr_process_id h, sh_LaneName = hr_lane_name h, sh_WorkflowPath = hr_workflow_path h,
      sh_CycleNumber = hr_cycle_number h, sh_LastSuccessAt = parse_time_or_zero (hr_last_success_at h),
      sh_LastError = hr_last_error h, sh_RecoveryRequired = (hr_recovery_required h = 1),
      sh_ActiveTaskKey = hr_active_task_key h, sh_ActiveTaskRole = hr_active_task_role h,
      sh_ActiveLeaseName = hr_active_lease_name h,
      sh_ActiveTaskStartedAt = parse_time_or_zero (hr_active_task_started_at h),
      sh_UpdatedAt = parse_time_or_zero (hr_updated_at h)\<rparr>"

definition SnapshotHeartbeats :: "db \<Rightarrow> SnapshotHeartbeat list" where
  "SnapshotHeartbeats db = map snapshot_heartbeat (sort_key (\<lambda>h. (hr_lane_name h, hr_updated_at h)) (db_heartbeats db))"

end
