(* ===== verification/AttemptFacts.thy ===== *)
theory AttemptFacts
  imports AttemptStore
begin

text \<open>
  What the attempt tables promise: every row of a review, a retry, an outcome, a clean-up or a pull
  request belongs to a recorded attempt, each attempt has at most one of each, and the facts read
  back are the last ones written.  The tables are keyed tables, and their unique keys carry the
  invariant.
\<close>

text \<open>Rows that hang off an attempt: at most one for each, and none without its attempt.\<close>

definition refs_ok :: "'k set \<Rightarrow> ('r \<Rightarrow> 'k) \<Rightarrow> 'r list \<Rightarrow> bool" where
  "refs_ok ids key rows \<longleftrightarrow> distinct (map key rows) \<and> key ` set rows \<subseteq> ids"

lemma refs_ok_mono: "refs_ok ids key rows \<Longrightarrow> ids \<subseteq> ids' \<Longrightarrow> refs_ok ids' key rows"
  by (auto simp: refs_ok_def)

lemma refs_ok_replace:
  "refs_ok ids key rows \<Longrightarrow> key r \<in> ids \<Longrightarrow> refs_ok ids key (sql_delete (\<lambda>q. key q = key r) rows @ [r])"
  by (auto simp: refs_ok_def sql_delete_def distinct_map_filter)

context keyed_table
begin

lemma keys_upsert: "key ` set (sql_upsert key merge new rows) = insert (key new) (key ` set rows)"
proof (cases "sql_conflict key new rows")
  case True
  then have mem: "key new \<in> key ` set rows" by (auto simp: sql_conflict_iff lookup_None_iff)
  have "key ` set (sql_upsert key merge new rows) = set (map key (sql_upsert key merge new rows))" by simp
  also have "\<dots> = set (map key rows)" using True by (simp add: sql_upsert_def map_key_upsert_conflict)
  finally show ?thesis using mem by auto
qed (simp add: sql_upsert_def)

lemma keys_ok_refs: "refs_ok ids key rows \<Longrightarrow> keys_ok rows"
  by (simp add: refs_ok_def keys_ok_def)

end

lemma refs_ok_upsert:
  assumes "keyed_table key merge" "refs_ok ids key rows" "key new \<in> ids"
  shows "refs_ok ids key (sql_upsert key merge new rows)"
  using keyed_table.upsert_keys_ok [OF assms(1), of rows new] keyed_table.keys_upsert [OF assms(1), of new rows] assms(2,3)
  by (simp add: refs_ok_def keyed_table.keys_ok_def [OF assms(1)])

interpretation attempts: keyed_table attempt_key merge_attempt
  by unfold_locales (simp add: attempt_key_def merge_attempt_def)

interpretation mappings: keyed_table pr_key merge_pr
  by unfold_locales (simp add: pr_key_def merge_pr_def)

interpretation reviews: keyed_table vr_attempt_id merge_review
  by unfold_locales (simp add: merge_review_def)

interpretation feedback: keyed_table fb_attempt_id merge_feedback
  by unfold_locales (simp add: merge_feedback_def)

interpretation outcomes: keyed_table to_attempt_id merge_outcome
  by unfold_locales (simp add: merge_outcome_def)

interpretation cleanups: keyed_table cs_attempt_id merge_cleanup
  by unfold_locales (simp add: merge_cleanup_def)

section \<open>The invariant\<close>

definition attempt_ids :: "db \<Rightarrow> int set" where
  "attempt_ids db = ar_id ` set (db_attempts db)"

definition attempt_rows_ok :: "AttemptRow list \<Rightarrow> bool" where
  "attempt_rows_ok rows \<longleftrightarrow> distinct (map attempt_key rows) \<and> distinct (map ar_id rows)"

definition attempts_ok :: "db \<Rightarrow> bool" where
  "attempts_ok db \<longleftrightarrow>
     attempt_rows_ok (db_attempts db)
     \<and> distinct (map pr_key (db_pr_mappings db)) \<and> pm_attempt_id ` set (db_pr_mappings db) \<subseteq> attempt_ids db
     \<and> refs_ok (attempt_ids db) vr_attempt_id (db_reviews db)
     \<and> refs_ok (attempt_ids db) fb_attempt_id (db_feedback db)
     \<and> refs_ok (attempt_ids db) rd_attempt_id (db_retries db)
     \<and> refs_ok (attempt_ids db) to_attempt_id (db_outcomes db)
     \<and> refs_ok (attempt_ids db) cs_attempt_id (db_cleanups db)"

lemma next_attempt_id_fresh: "r \<in> set rows \<Longrightarrow> ar_id r < next_attempt_id rows"
  unfolding next_attempt_id_def by (induction rows) auto

lemma attempt_upsert_ok:
  assumes "attempt_rows_ok rows" "ar_id new = next_attempt_id rows"
  shows "attempt_rows_ok (sql_upsert attempt_key merge_attempt new rows)"
    and "ar_id ` set rows \<subseteq> ar_id ` set (sql_upsert attempt_key merge_attempt new rows)"
proof -
  have keys: "distinct (map attempt_key (sql_upsert attempt_key merge_attempt new rows))"
    using attempts.upsert_keys_ok [of rows new] assms(1) by (simp add: attempts.keys_ok_def attempt_rows_ok_def)
  have ids: "map ar_id (sql_upsert attempt_key merge_attempt new rows) =
               (if sql_conflict attempt_key new rows then map ar_id rows else map ar_id rows @ [ar_id new])"
    by (simp add: sql_upsert_def sql_update_def merge_attempt_def)
  have "ar_id new \<notin> set (map ar_id rows)"
    using next_attempt_id_fresh [of _ rows] assms(2) by force
  then show "attempt_rows_ok (sql_upsert attempt_key merge_attempt new rows)"
    using keys assms(1) ids by (simp add: attempt_rows_ok_def del: set_map)
  have "set (map ar_id rows) \<subseteq> set (map ar_id (sql_upsert attempt_key merge_attempt new rows))"
    unfolding ids by (auto split: if_split)
  then show "ar_id ` set rows \<subseteq> ar_id ` set (sql_upsert attempt_key merge_attempt new rows)" by simp
qed

text \<open>The row just upserted is there, so reading its id cannot fail.\<close>

definition upsert_attempt :: "AttemptResult \<Rightarrow> time \<Rightarrow> db \<Rightarrow> db" where
  "upsert_attempt r now db =
     db\<lparr>db_attempts := sql_upsert attempt_key merge_attempt
          (attempt_row r now (next_attempt_id (db_attempts db))) (db_attempts db)\<rparr>"

lemma attempt_key_row [simp]: "attempt_key (attempt_row r now i) = (at_IssueKey r, at_Attempt r)" "ar_id (attempt_row r now i) = i"
  by (simp_all add: attempt_key_def attempt_row_def)

lemma attemptID_upsert:
  assumes "attempt_rows_ok (db_attempts db)"
  obtains a where "lookup attempt_key (at_IssueKey r, at_Attempt r) (db_attempts (upsert_attempt r now db)) = Some a"
    "attemptID (at_IssueKey r) (at_Attempt r) (upsert_attempt r now db) = Inr (ar_id a)"
    "ar_id a \<in> attempt_ids (upsert_attempt r now db)"
proof -
  have "attempts.keys_ok (db_attempts db)" using assms by (simp add: attempt_rows_ok_def attempts.keys_ok_def)
  from attempts.upsert_read_back [OF this, of "attempt_row r now (next_attempt_id (db_attempts db))"]
  obtain a where a: "lookup attempt_key (at_IssueKey r, at_Attempt r) (db_attempts (upsert_attempt r now db)) = Some a"
    by (auto simp: upsert_attempt_def)
  then show ?thesis
    using that [OF a] lookup_Some [OF a] by (auto simp: attemptID_def attempt_ids_def)
qed

lemma upsert_attempt_frame [simp]:
  "db_pr_mappings (upsert_attempt r now db) = db_pr_mappings db" "db_reviews (upsert_attempt r now db) = db_reviews db"
  "db_feedback (upsert_attempt r now db) = db_feedback db" "db_retries (upsert_attempt r now db) = db_retries db"
  "db_outcomes (upsert_attempt r now db) = db_outcomes db" "db_cleanups (upsert_attempt r now db) = db_cleanups db"
  "db_facts (upsert_attempt r now db) = db_facts db" "db_events (upsert_attempt r now db) = db_events db"
  "db_event_seq (upsert_attempt r now db) = db_event_seq db"
  by (simp_all add: upsert_attempt_def)

lemma upsert_attempt_ok:
  assumes "attempts_ok db"
  shows "attempts_ok (upsert_attempt r now db)"
proof -
  let ?db = "upsert_attempt r now db"
  have rows: "attempt_rows_ok (db_attempts db)" using assms by (simp add: attempts_ok_def)
  have "attempt_rows_ok (db_attempts ?db)" and ids: "attempt_ids db \<subseteq> attempt_ids ?db"
    using attempt_upsert_ok [OF rows, of "attempt_row r now (next_attempt_id (db_attempts db))"]
    by (simp_all add: upsert_attempt_def attempt_ids_def)
  then show ?thesis
    using assms by (auto simp: attempts_ok_def intro: refs_ok_mono)
qed

section \<open>Every operation keeps the invariant\<close>

lemma write_pr_ok: "attempts_ok db \<Longrightarrow> aid \<in> attempt_ids db \<Longrightarrow> attempts_ok (write_pr r now aid db)"
proof -
  assume ok: "attempts_ok db" and aid: "aid \<in> attempt_ids db"
  let ?rows = "sql_upsert pr_key merge_pr (pr_row r now aid) (db_pr_mappings db)"
  have "distinct (map pr_key ?rows)"
    using mappings.upsert_keys_ok [of "db_pr_mappings db"] ok by (simp add: attempts_ok_def mappings.keys_ok_def)
  moreover have "pm_attempt_id ` set ?rows \<subseteq> attempt_ids db"
    using ok aid by (auto simp: attempts_ok_def sql_upsert_def sql_update_def merge_pr_def pr_row_def)
  ultimately show ?thesis using ok by (simp add: write_pr_def attempts_ok_def attempt_ids_def)
qed

lemma write_review_ok: "attempts_ok db \<Longrightarrow> aid \<in> attempt_ids db \<Longrightarrow> attempts_ok (write_review r now aid db)"
  unfolding write_review_def attempts_ok_def attempt_ids_def
  by (simp add: refs_ok_upsert [OF reviews.keyed_table_axioms] review_row_def)

lemma write_feedback_ok: "attempts_ok db \<Longrightarrow> aid \<in> attempt_ids db \<Longrightarrow> attempts_ok (write_feedback r now aid db)"
  unfolding write_feedback_def attempts_ok_def attempt_ids_def
  by (simp add: refs_ok_upsert [OF feedback.keyed_table_axioms] feedback_row_def)

lemma write_outcome_ok: "attempts_ok db \<Longrightarrow> aid \<in> attempt_ids db \<Longrightarrow> attempts_ok (write_outcome r now aid db)"
  unfolding write_outcome_def attempts_ok_def attempt_ids_def
  by (simp add: refs_ok_upsert [OF outcomes.keyed_table_axioms] outcome_row_def)

lemma rd_attempt_id_row [simp]: "rd_attempt_id (retry_row r now aid n) = aid"
  by (simp add: retry_row_def)

lemma write_retry_ok: "attempts_ok db \<Longrightarrow> aid \<in> attempt_ids db \<Longrightarrow> attempts_ok (write_retry r now aid db)"
  using refs_ok_replace [of "attempt_ids db" rd_attempt_id "db_retries db" "retry_row r now aid (retry_count_of r aid (db_retries db))"]
  by (simp add: write_retry_def attempts_ok_def attempt_ids_def)

lemma write_attempt_ids [simp]:
  "attempt_ids (write_pr r now aid db) = attempt_ids db" "attempt_ids (write_review r now aid db) = attempt_ids db"
  "attempt_ids (write_feedback r now aid db) = attempt_ids db" "attempt_ids (write_retry r now aid db) = attempt_ids db"
  "attempt_ids (write_outcome r now aid db) = attempt_ids db"
  by (simp_all add: attempt_ids_def write_pr_def write_review_def write_feedback_def write_retry_def write_outcome_def)

text \<open>The transaction in one equation.\<close>

lemma default_attempt_IssueKey [simp]: "at_IssueKey (default_attempt r) = at_IssueKey r"
  by (simp add: default_attempt_def)

lemma default_attempt_idem [simp]: "default_attempt (default_attempt r) = default_attempt r"
  by (simp add: default_attempt_def)

definition write_all :: "AttemptResult \<Rightarrow> time \<Rightarrow> int \<Rightarrow> db \<Rightarrow> db" where
  "write_all r now aid db =
     write_outcome r now aid (write_retry r now aid (write_feedback r now aid (write_review r now aid (write_pr r now aid db))))"

lemma write_all_ok: "attempts_ok db \<Longrightarrow> aid \<in> attempt_ids db \<Longrightarrow> attempts_ok (write_all r now aid db)"
  by (simp add: write_all_def write_outcome_ok write_retry_ok write_feedback_ok write_review_ok write_pr_ok)

lemma upsertAttemptResultTx_eq:
  assumes "attempt_rows_ok (db_attempts db)" "at_IssueKey result \<noteq> []"
  shows "\<exists>a. lookup attempt_key (at_IssueKey result, at_Attempt (default_attempt result))
                (db_attempts (upsert_attempt (default_attempt result) now db)) = Some a
          \<and> ar_id a \<in> attempt_ids (upsert_attempt (default_attempt result) now db)
          \<and> upsertAttemptResultTx result now db =
              (Inr (), write_all (default_attempt result) now (ar_id a) (upsert_attempt (default_attempt result) now db))"
proof -
  let ?r = "default_attempt result"
  let ?db = "upsert_attempt ?r now db"
  from attemptID_upsert [OF assms(1), of ?r now]
  obtain a where a: "lookup attempt_key (at_IssueKey result, at_Attempt ?r) (db_attempts ?db) = Some a"
      "attemptID (at_IssueKey ?r) (at_Attempt ?r) ?db = Inr (ar_id a)" "ar_id a \<in> attempt_ids ?db"
    unfolding default_attempt_IssueKey by metis
  have "upsertAttemptResultTx result now db = (Inr (), write_all ?r now (ar_id a) ?db)"
    unfolding upsertAttemptResultTx_def Let_def upsert_attempt_def [symmetric] a(2) write_all_def
    by (simp only: assms(2) if_False sum.case)
  with a(1,3) show ?thesis by blast
qed

lemma upsertAttemptResultTx_ok:
  assumes "attempts_ok db"
  shows "attempts_ok (snd (upsertAttemptResultTx result now db))"
proof (cases "at_IssueKey result = []")
  case True
  then show ?thesis using assms by (simp add: upsertAttemptResultTx_def)
next
  case False
  have rows: "attempt_rows_ok (db_attempts db)" using assms by (simp add: attempts_ok_def)
  from upsertAttemptResultTx_eq [OF rows False, of now]
  obtain a :: AttemptRow where "ar_id a \<in> attempt_ids (upsert_attempt (default_attempt result) now db)"
    and eq: "upsertAttemptResultTx result now db =
              (Inr (), write_all (default_attempt result) now (ar_id a) (upsert_attempt (default_attempt result) now db))"
    by blast
  then show ?thesis by (simp only: eq snd_conv write_all_ok [OF upsert_attempt_ok [OF assms]])
qed

lemma attempts_ok_frame:
  "db_attempts db' = db_attempts db \<Longrightarrow> db_pr_mappings db' = db_pr_mappings db \<Longrightarrow> db_reviews db' = db_reviews db
   \<Longrightarrow> db_feedback db' = db_feedback db \<Longrightarrow> db_retries db' = db_retries db \<Longrightarrow> db_outcomes db' = db_outcomes db
   \<Longrightarrow> db_cleanups db' = db_cleanups db \<Longrightarrow> attempts_ok db' = attempts_ok db"
  by (simp add: attempts_ok_def attempt_ids_def)

lemma appendEvent_attempts_ok [simp]: "attempts_ok (snd (appendEvent env i db)) = attempts_ok db"
  by (rule attempts_ok_frame) (simp_all add: appendEvent_def split: sum.splits)

lemma append_best_effort_attempts_ok [simp]: "attempts_ok (append_best_effort env is db) = attempts_ok db"
  by (induction "is" arbitrary: db) simp_all

lemma facts_attempts_ok [simp]: "attempts_ok (db\<lparr>db_facts := f\<rparr>) = attempts_ok db"
  by (rule attempts_ok_frame) simp_all

lemma UpsertRunArtifact_ok:
  assumes "attempts_ok db"
  shows "attempts_ok (snd (UpsertRunArtifact env snap db))"
proof -
  let ?s = "default_snapshot snap" and ?now = "now_or_clock env (sn_UpdatedAt snap)"
  obtain x db1 where tx: "upsertAttemptResultTx (attemptResultFromRunArtifactSnapshot ?s) ?now db = (x, db1)"
    by (meson surj_pair)
  then have "attempts_ok db1"
    using upsertAttemptResultTx_ok [OF assms, of "attemptResultFromRunArtifactSnapshot ?s" ?now] by simp
  then show ?thesis
    using assms unfolding UpsertRunArtifact_def Let_def tx
    by (cases x; cases "attemptID (sn_IssueKey ?s) (sn_Attempt ?s) db1") (simp_all split: if_split)
qed

lemma cleanup_rows_ok:
  assumes "attempts_ok db" "lookup attempt_key k (db_attempts db) = Some a"
  shows "attempts_ok (db\<lparr>db_cleanups := sql_upsert cs_attempt_id merge_cleanup (cleanup_row c now (ar_id a)) (db_cleanups db)\<rparr>)"
proof -
  have "cs_attempt_id (cleanup_row c now (ar_id a)) \<in> attempt_ids db"
    using lookup_Some [OF assms(2)] by (simp add: cleanup_row_def attempt_ids_def)
  from refs_ok_upsert [OF cleanups.keyed_table_axioms _ this] assms(1) show ?thesis
    by (simp add: attempts_ok_def attempt_ids_def)
qed

lemma UpsertCleanupState_ok:
  assumes "attempts_ok db"
  shows "attempts_ok (snd (UpsertCleanupState env c db))"
proof (cases "cu_IssueKey c = [] \<or> lookup attempt_key (cu_IssueKey c, if cu_Attempt c \<le> 0 then 1 else cu_Attempt c) (db_attempts db) = None")
  case True
  then show ?thesis using assms by (auto simp: UpsertCleanupState_def Let_def)
next
  case False
  then obtain a where a: "lookup attempt_key (cu_IssueKey c, if cu_Attempt c \<le> 0 then 1 else cu_Attempt c) (db_attempts db) = Some a"
    and key: "cu_IssueKey c \<noteq> []" by auto
  let ?c = "c\<lparr>cu_Attempt := if cu_Attempt c \<le> 0 then 1 else cu_Attempt c\<rparr>" and ?now = "now_or_clock env (cu_UpdatedAt c)"
  let ?db1 = "db\<lparr>db_cleanups := sql_upsert cs_attempt_id merge_cleanup (cleanup_row ?c ?now (ar_id a)) (db_cleanups db)\<rparr>"
  have eq: "snd (UpsertCleanupState env c db) =
      (case fst (appendEvent env (cleanup_event ?c ?now) ?db1) of Inl e \<Rightarrow> db
       | Inr ev \<Rightarrow> snd (appendEvent env (cleanup_event ?c ?now) ?db1))"
    using a key by (simp add: UpsertCleanupState_def Let_def split: prod.split sum.split)
  show ?thesis
    unfolding eq by (simp add: assms cleanup_rows_ok [OF assms a] split: sum.split)
qed

section \<open>The attempt database\<close>

datatype attempt_op =
    PutResult AttemptResult
  | PutArtifact RunArtifactSnapshot
  | PutCleanup CleanupState
  | ExportFailure string int string string time

fun attempt_step :: "store_env \<Rightarrow> attempt_op \<Rightarrow> db \<Rightarrow> db" where
  "attempt_step env (PutResult r) db = snd (UpsertAttemptResult env r db)"
| "attempt_step env (PutArtifact s) db = snd (UpsertRunArtifact env s db)"
| "attempt_step env (PutCleanup c) db = snd (UpsertCleanupState env c db)"
| "attempt_step env (ExportFailure key n artifact message t) db =
     snd (RecordArtifactExportFailure env key n artifact message t db)"

definition attempt_run :: "store_env \<Rightarrow> attempt_op list \<Rightarrow> db" where
  "attempt_run env ops = fold (attempt_step env) ops empty_db"

lemma UpsertAttemptResult_ok:
  assumes "attempts_ok db"
  shows "attempts_ok (snd (UpsertAttemptResult env result db))"
proof -
  let ?now = "now_or_clock env (at_UpdatedAt result)"
  obtain x db1 where tx: "upsertAttemptResultTx (default_attempt result) ?now db = (x, db1)"
    by (meson surj_pair)
  then have "attempts_ok db1"
    using upsertAttemptResultTx_ok [OF assms, of "default_attempt result" ?now] by simp
  then show ?thesis
    using assms unfolding UpsertAttemptResult_def Let_def tx by (cases x) (simp_all split: if_split)
qed

lemma RecordArtifactExportFailure_ok:
  "attempts_ok db \<Longrightarrow> attempts_ok (snd (RecordArtifactExportFailure env key n artifact message t db))"
  by (simp add: RecordArtifactExportFailure_def Let_def split: sum.split)

lemma attempt_step_ok: "attempts_ok db \<Longrightarrow> attempts_ok (attempt_step env op db)"
  by (cases op) (simp_all add: UpsertAttemptResult_ok UpsertRunArtifact_ok UpsertCleanupState_ok RecordArtifactExportFailure_ok)

text \<open>
  C13: the attempt tables stay consistent.  After any sequence of attempt results, run artifacts,
  clean-up states and export failures on a fresh database, failed ones included, attempts are unique
  by issue and number and by id, each has at most one review, feedback, retry decision, outcome and
  clean-up, a branch of a repository is mapped once, and no such row lacks its attempt.
\<close>

theorem attempt_tables_consistent: "attempts_ok (attempt_run env ops)"
proof -
  have "attempts_ok (fold (attempt_step env) ops db)" if "attempts_ok db" for db
    using that by (induction ops arbitrary: db) (simp_all add: attempt_step_ok)
  moreover have "attempts_ok empty_db"
    by (simp add: attempts_ok_def empty_db_def attempt_rows_ok_def refs_ok_def)
  ultimately show ?thesis by (simp add: attempt_run_def)
qed

lemma merge_same:
  "vr_attempt_id old = vr_attempt_id new \<Longrightarrow> merge_review old new = new"
  "fb_attempt_id f = fb_attempt_id f' \<Longrightarrow> merge_feedback f f' = f'"
  "to_attempt_id told = to_attempt_id tnew \<Longrightarrow> merge_outcome told tnew = tnew"
  by (simp_all add: merge_review_def merge_feedback_def merge_outcome_def)

lemma lookup_delete_append:
  "key r = k \<Longrightarrow> lookup key k (sql_delete (\<lambda>q. key q = k) rows @ [r]) = Some r"
  by (auto simp: lookup_append sql_delete_def lookup_None_iff split: option.splits dest: lookup_Some)

lemma lookup_delete_other:
  "key r = k \<Longrightarrow> k' \<noteq> k \<Longrightarrow> lookup key k' (sql_delete (\<lambda>q. key q = k) rows @ [r]) = lookup key k' rows"
  by (induction rows) (auto simp: sql_delete_def)

text \<open>The rows of the attempt after its transaction.\<close>

lemma write_all_rows:
  assumes "attempts_ok db"
  shows "lookup vr_attempt_id aid (db_reviews (write_all r now aid db)) =
           (if at_ReviewStatus r \<noteq> [] \<or> at_ReviewClassification r \<noteq> [] then Some (review_row r now aid)
            else lookup vr_attempt_id aid (db_reviews db))"
    and "lookup fb_attempt_id aid (db_feedback (write_all r now aid db)) = Some (feedback_row r now aid)"
    and "lookup rd_attempt_id aid (db_retries (write_all r now aid db)) =
           (if at_RetryNextState r \<noteq> [] \<or> at_RetryReason r \<noteq> []
            then Some (retry_row r now aid (retry_count_of r aid (db_retries db)))
            else lookup rd_attempt_id aid (db_retries db))"
    and "lookup to_attempt_id aid (db_outcomes (write_all r now aid db)) =
           (if at_TerminalOutcome r \<noteq> [] then Some (outcome_row r now aid)
            else lookup to_attempt_id aid (db_outcomes db))"
    and "db_attempts (write_all r now aid db) = db_attempts db" "db_cleanups (write_all r now aid db) = db_cleanups db"
proof -
  have ok: "reviews.keys_ok (db_reviews db)" "feedback.keys_ok (db_feedback db)" "outcomes.keys_ok (db_outcomes db)"
    using assms by (auto simp: attempts_ok_def intro: reviews.keys_ok_refs feedback.keys_ok_refs outcomes.keys_ok_refs)
  have ids: "vr_attempt_id (review_row r now aid) = aid" "fb_attempt_id (feedback_row r now aid) = aid"
      "to_attempt_id (outcome_row r now aid) = aid"
    by (simp_all add: review_row_def feedback_row_def outcome_row_def)
  note defs = write_all_def write_pr_def write_review_def write_feedback_def write_retry_def write_outcome_def
  show "lookup vr_attempt_id aid (db_reviews (write_all r now aid db)) =
           (if at_ReviewStatus r \<noteq> [] \<or> at_ReviewClassification r \<noteq> [] then Some (review_row r now aid)
            else lookup vr_attempt_id aid (db_reviews db))"
    using reviews.lookup_upsert [OF ok(1), of aid "review_row r now aid"] ids(1)
    by (auto simp: defs merge_same dest!: lookup_Some split: option.splits)
  show "lookup fb_attempt_id aid (db_feedback (write_all r now aid db)) = Some (feedback_row r now aid)"
    using feedback.lookup_upsert [OF ok(2), of aid "feedback_row r now aid"] ids(2)
    by (auto simp: defs merge_same dest!: lookup_Some split: option.splits)
  show "lookup to_attempt_id aid (db_outcomes (write_all r now aid db)) =
           (if at_TerminalOutcome r \<noteq> [] then Some (outcome_row r now aid)
            else lookup to_attempt_id aid (db_outcomes db))"
    using outcomes.lookup_upsert [OF ok(3), of aid "outcome_row r now aid"] ids(3)
    by (auto simp: defs merge_same dest!: lookup_Some split: option.splits)
  show "lookup rd_attempt_id aid (db_retries (write_all r now aid db)) =
           (if at_RetryNextState r \<noteq> [] \<or> at_RetryReason r \<noteq> []
            then Some (retry_row r now aid (retry_count_of r aid (db_retries db)))
            else lookup rd_attempt_id aid (db_retries db))"
    by (simp add: defs lookup_delete_append)
  show "db_attempts (write_all r now aid db) = db_attempts db" "db_cleanups (write_all r now aid db) = db_cleanups db"
    by (simp_all add: defs)
qed

lemma appendEvent_frame [simp]:
  "db_attempts (snd (appendEvent env i db)) = db_attempts db" "db_reviews (snd (appendEvent env i db)) = db_reviews db"
  "db_feedback (snd (appendEvent env i db)) = db_feedback db" "db_retries (snd (appendEvent env i db)) = db_retries db"
  "db_outcomes (snd (appendEvent env i db)) = db_outcomes db" "db_cleanups (snd (appendEvent env i db)) = db_cleanups db"
  "db_pr_mappings (snd (appendEvent env i db)) = db_pr_mappings db" "db_facts (snd (appendEvent env i db)) = db_facts db"
  by (simp_all add: appendEvent_def split: sum.splits)

lemma append_best_effort_frame [simp]:
  "db_attempts (append_best_effort env is db) = db_attempts db" "db_reviews (append_best_effort env is db) = db_reviews db"
  "db_feedback (append_best_effort env is db) = db_feedback db" "db_retries (append_best_effort env is db) = db_retries db"
  "db_outcomes (append_best_effort env is db) = db_outcomes db" "db_cleanups (append_best_effort env is db) = db_cleanups db"
  "db_pr_mappings (append_best_effort env is db) = db_pr_mappings db" "db_facts (append_best_effort env is db) = db_facts db"
  by (induction "is" arbitrary: db) simp_all

lemma upsert_attempt_row:
  assumes "attempt_rows_ok (db_attempts db)"
  shows "lookup attempt_key (at_IssueKey r, at_Attempt r) (db_attempts (upsert_attempt r now db)) =
     Some (case lookup attempt_key (at_IssueKey r, at_Attempt r) (db_attempts db) of
             None \<Rightarrow> attempt_row r now (next_attempt_id (db_attempts db))
           | Some old \<Rightarrow> merge_attempt old (attempt_row r now (next_attempt_id (db_attempts db))))"
  using attempts.lookup_upsert [of "db_attempts db"] assms
  by (simp add: upsert_attempt_def attempts.keys_ok_def attempt_rows_ok_def)

lemma UpsertAttemptResult_eq:
  fixes env :: store_env
  assumes "attempts_ok db" "at_IssueKey result \<noteq> []"
  defines "r \<equiv> default_attempt result" and "now \<equiv> now_or_clock env (at_UpdatedAt result)"
  shows "\<exists>a is. lookup attempt_key (at_IssueKey r, at_Attempt r) (db_attempts (upsert_attempt r now db)) = Some a
     \<and> UpsertAttemptResult env result db = (Inr (), append_best_effort env is (write_all r now (ar_id a) (upsert_attempt r now db)))"
proof -
  have rows: "attempt_rows_ok (db_attempts db)" using assms(1) by (simp add: attempts_ok_def)
  from upsertAttemptResultTx_eq [OF rows, of r now] assms(2)
  obtain a :: AttemptRow where "lookup attempt_key (at_IssueKey r, at_Attempt r) (db_attempts (upsert_attempt r now db)) = Some a"
    "upsertAttemptResultTx r now db = (Inr (), write_all r now (ar_id a) (upsert_attempt r now db))"
    unfolding r_def default_attempt_idem default_attempt_IssueKey by blast
  then show ?thesis
    using assms(2) unfolding UpsertAttemptResult_def Let_def r_def [symmetric] now_def [symmetric] by auto
qed

section \<open>What is read back\<close>

lemma latest_attempt_eq:
  assumes "distinct (map attempt_key (db_attempts db))" "a \<in> set (db_attempts db)" "ar_issue_key a = key"
    and max: "\<And>b. b \<in> set (db_attempts db) \<Longrightarrow> ar_issue_key b = key \<Longrightarrow> ar_attempt b \<le> ar_attempt a"
  shows "latest_attempt key db = Some a"
proof -
  let ?f = "filter (\<lambda>a. ar_issue_key a = key) (db_attempts db)"
  let ?s = "sort_key (\<lambda>a. - ar_attempt a) ?f"
  have mem: "a \<in> set ?s" using assms(2,3) by simp
  then obtain b bs where s: "?s = b # bs" by (cases ?s) auto
  have "sorted (map (\<lambda>a. - ar_attempt a) ?s)" by (rule sorted_sort_key)
  then have "- ar_attempt b \<le> - ar_attempt a" using mem unfolding s by auto
  moreover have b: "b \<in> set (db_attempts db)" "ar_issue_key b = key"
    using arg_cong [OF s, of set] by auto
  ultimately have "attempt_key b = attempt_key a"
    using max [of b] assms(3) by (simp add: attempt_key_def)
  then have "b = a"
    using assms(1,2) b(1) by (auto simp: distinct_map dest: inj_onD)
  then show ?thesis unfolding latest_attempt_def s by simp
qed

text \<open>No recorded attempt of the issue has a larger number.\<close>

definition newest_attempt :: "string \<Rightarrow> int \<Rightarrow> db \<Rightarrow> bool" where
  "newest_attempt key n db \<longleftrightarrow> list_all (\<lambda>a. ar_issue_key a \<noteq> key \<or> ar_attempt a \<le> n) (db_attempts db)"

lemma latest_after_upsert:
  assumes "attempt_rows_ok (db_attempts db)" "newest_attempt (at_IssueKey r) (at_Attempt r) db"
    and a: "lookup attempt_key (at_IssueKey r, at_Attempt r) (db_attempts (upsert_attempt r now db)) = Some a"
  shows "latest_attempt (at_IssueKey r) (upsert_attempt r now db) = Some a"
proof (rule latest_attempt_eq)
  let ?new = "attempt_row r now (next_attempt_id (db_attempts db))"
  show "distinct (map attempt_key (db_attempts (upsert_attempt r now db)))"
    using attempt_upsert_ok(1) [OF assms(1), of ?new] by (simp add: upsert_attempt_def attempt_rows_ok_def)
  show "a \<in> set (db_attempts (upsert_attempt r now db))" "ar_issue_key a = at_IssueKey r"
    using lookup_Some [OF a] by (auto simp: attempt_key_def)
  have n: "ar_attempt a = at_Attempt r" using lookup_Some [OF a] by (auto simp: attempt_key_def)
  fix b assume "b \<in> set (db_attempts (upsert_attempt r now db))" "ar_issue_key b = at_IssueKey r"
  then have "attempt_key b \<in> insert (attempt_key ?new) (attempt_key ` set (db_attempts db))"
    using attempts.keys_upsert [of ?new "db_attempts db"] by (auto simp: upsert_attempt_def)
  then show "ar_attempt b \<le> ar_attempt a"
    using assms(2) \<open>ar_issue_key b = at_IssueKey r\<close> n
    by (auto simp: newest_attempt_def list_all_iff attempt_key_def attempt_row_def)
qed

lemma latest_attempt_frame: "db_attempts db' = db_attempts db \<Longrightarrow> latest_attempt key db' = latest_attempt key db"
  by (simp add: latest_attempt_def)

definition retry_given :: "AttemptResult \<Rightarrow> bool" where
  "retry_given r \<longleftrightarrow> at_RetryNextState r \<noteq> [] \<or> at_RetryReason r \<noteq> []"

definition retries_readable :: "db \<Rightarrow> bool" where
  "retries_readable db \<longleftrightarrow> list_all (\<lambda>q. parse_time (rd_decided_at q) \<noteq> None) (db_retries db)"

text \<open>What reconciliation reads of an attempt after a result for it, by the row the result left.\<close>

definition result_read_back :: "AttemptResult \<Rightarrow> time \<Rightarrow> ReconciliationFacts \<Rightarrow> bool" where
  "result_read_back r now f \<longleftrightarrow>
     rf_IssueKey f = at_IssueKey r \<and> rf_Attempt f = at_Attempt r \<and> rf_WorkspacePath f = at_WorkspacePath r
     \<and> rf_BranchName f = at_BranchName r \<and> rf_Status f = at_Status r \<and> rf_UpdatedAt f = now
     \<and> rf_FeedbackHash f = at_FeedbackHash r \<and> rf_FeedbackNextAction f = at_FeedbackNextAction r
     \<and> (at_ReviewStatus r = [] \<and> at_ReviewClassification r = []
         \<or> rf_ReviewStatus f = at_ReviewStatus r \<and> rf_ReviewClassification f = at_ReviewClassification r
            \<and> rf_ReviewOutputRef f = at_ReviewOutputRef r \<and> rf_ReviewOutputHash f = at_ReviewOutputHash r)
     \<and> (if retry_given r then rf_RetryNextState f = at_RetryNextState r \<and> rf_RetryReason f = at_RetryReason r
            \<and> rf_RetryDecidedAt f = now else True)
     \<and> (if at_TerminalOutcome r = [] then True
         else rf_TerminalOutcome f = at_TerminalOutcome r \<and> rf_TerminalReason f = at_TerminalReason r)"

lemma upsert_attempt_row_fields:
  assumes "attempt_rows_ok (db_attempts db)"
    "lookup attempt_key (at_IssueKey r, at_Attempt r) (db_attempts (upsert_attempt r now db)) = Some a"
  shows "ar_issue_key a = at_IssueKey r" "ar_attempt a = at_Attempt r" "ar_workspace_path a = at_WorkspacePath r"
    "ar_branch_name a = at_BranchName r" "ar_status a = at_Status r" "ar_updated_at a = format_time now"
  using assms(2) unfolding upsert_attempt_row [OF assms(1)]
  by (auto simp: attempt_row_def merge_attempt_def attempt_key_def split: option.splits dest!: lookup_Some)

lemma decided_readable:
  assumes "retries_readable db" "rfc_time now" "attempts_ok db"
  shows "\<exists>t. parse_decided (col rd_decided_at [] (lookup rd_attempt_id i (db_retries (write_all r now i db)))) = Some t
          \<and> (if retry_given r then t = now else True)"
proof (cases "retry_given r")
  case True
  then show ?thesis
    using parse_format_time [OF assms(2)]
    by (simp add: write_all_rows(3) [OF assms(3)] retry_given_def col_def retry_row_def parse_decided_def is_zero_def)
next
  case False
  then have eq: "lookup rd_attempt_id i (db_retries (write_all r now i db)) = lookup rd_attempt_id i (db_retries db)"
    by (simp add: write_all_rows(3) [OF assms(3)] retry_given_def)
  have "parse_time (rd_decided_at q) \<noteq> None" if "lookup rd_attempt_id i (db_retries db) = Some q" for q
    using assms(1) lookup_Some [OF that] by (auto simp: retries_readable_def list_all_iff)
  then show ?thesis
    using False unfolding eq by (cases "lookup rd_attempt_id i (db_retries db)") (auto simp: col_def parse_decided_def)
qed

lemma read_facts_eq:
  assumes "latest_attempt key db = Some a" "key \<noteq> []" "parse_time (ar_updated_at a) = Some u"
    and "parse_decided (col rd_decided_at [] (lookup rd_attempt_id (ar_id a) (db_retries db))) = Some d"
  shows "ReadReconciliationFacts key db = Inr (Some (facts_of a (lookup pm_attempt_id (ar_id a) (db_pr_mappings db))
     (lookup vr_attempt_id (ar_id a) (db_reviews db)) (lookup rd_attempt_id (ar_id a) (db_retries db))
     (lookup fb_attempt_id (ar_id a) (db_feedback db)) (lookup to_attempt_id (ar_id a) (db_outcomes db))
     (lookup cs_attempt_id (ar_id a) (db_cleanups db)) u d))"
  using assms by (simp add: ReadReconciliationFacts_def lookup_def)

lemma facts_of_result:
  assumes "ar_issue_key a = at_IssueKey r" "ar_attempt a = at_Attempt r" "ar_workspace_path a = at_WorkspacePath r"
    "ar_branch_name a = at_BranchName r" "ar_status a = at_Status r" "if retry_given r then d = now else True"
  shows "result_read_back r now (facts_of a p
     (if at_ReviewStatus r \<noteq> [] \<or> at_ReviewClassification r \<noteq> [] then Some (review_row r now i) else rs)
     (if at_RetryNextState r \<noteq> [] \<or> at_RetryReason r \<noteq> [] then Some (retry_row r now i n) else q)
     (Some (feedback_row r now i)) (if at_TerminalOutcome r \<noteq> [] then Some (outcome_row r now i) else out) c now d)"
proof -
  note defs = facts_of_def col_def review_row_def retry_row_def feedback_row_def outcome_row_def
  show ?thesis
    unfolding result_read_back_def retry_given_def
    using assms by (intro conjI) (simp_all add: defs retry_given_def split: if_split)
qed

text \<open>The retry decision reconciliation reads: the one of the result, or the one recorded before.\<close>

definition retry_read_back :: "AttemptResult \<Rightarrow> int \<Rightarrow> db \<Rightarrow> ReconciliationFacts \<Rightarrow> bool" where
  "retry_read_back r aid db f \<longleftrightarrow>
     (if retry_given r
      then rf_RetryNextState f = at_RetryNextState r \<and> rf_RetryCount f = retry_count_of r aid (db_retries db)
      else rf_RetryNextState f = col rd_next_state [] (lookup rd_attempt_id aid (db_retries db)))"

lemma facts_retry:
  "retry_read_back r i db (facts_of a p rs
     (if at_RetryNextState r \<noteq> [] \<or> at_RetryReason r \<noteq> [] then Some (retry_row r now i (retry_count_of r i (db_retries db)))
      else lookup rd_attempt_id i (db_retries db)) fb out c u d)"
  by (simp add: retry_read_back_def retry_given_def facts_of_def col_def retry_row_def)

lemma read_after_write:
  fixes r :: AttemptResult
  assumes ok: "attempts_ok db" and readable: "retries_readable db" and now: "rfc_time now"
    and newest: "newest_attempt (at_IssueKey r) (at_Attempt r) db" and key: "at_IssueKey r \<noteq> []"
    and a: "lookup attempt_key (at_IssueKey r, at_Attempt r) (db_attempts (upsert_attempt r now db)) = Some a"
  shows "\<exists>f. ReadReconciliationFacts (at_IssueKey r)
            (append_best_effort env is (write_all r now (ar_id a) (upsert_attempt r now db))) = Inr (Some f)
          \<and> result_read_back r now f \<and> retry_read_back r (ar_id a) db f"
proof -
  let ?D = "upsert_attempt r now db"
  let ?W = "write_all r now (ar_id a) ?D"
  have okD: "attempts_ok ?D" by (rule upsert_attempt_ok [OF ok])
  have rows: "attempt_rows_ok (db_attempts db)" using ok by (simp add: attempts_ok_def)
  note row = write_all_rows [OF okD, where aid = "ar_id a" and r = r and now = now]
  have latest: "latest_attempt (at_IssueKey r) (append_best_effort env is ?W) = Some a"
    using latest_after_upsert [OF rows newest a] latest_attempt_frame [of "append_best_effort env is ?W" ?D] row(5) by simp
  have "retries_readable ?D" using readable by (simp add: retries_readable_def)
  from decided_readable [OF this now okD, where i = "ar_id a" and r = r] obtain d
    where d: "parse_decided (col rd_decided_at [] (lookup rd_attempt_id (ar_id a) (db_retries (append_best_effort env is ?W)))) = Some d"
      and given: "if retry_given r then d = now else True" by auto
  note flds = upsert_attempt_row_fields [OF rows a]
  have "parse_time (ar_updated_at a) = Some now" by (simp add: flds parse_format_time now)
  from read_facts_eq [OF latest key this d] facts_of_result [OF flds(1-5) given] show ?thesis
    using facts_retry [of r "ar_id a" db] unfolding append_best_effort_frame row upsert_attempt_frame by blast
qed

text \<open>
  C14: what \<open>UpsertAttemptResult\<close> writes for the newest attempt of an issue is what reconciliation
  reads: the attempt with its number, workspace, branch, status, feedback and time, and the review,
  the retry decision and the terminal outcome where the result gives them.
\<close>

theorem reconciliation_reads_last_result:
  assumes "attempts_ok db" "retries_readable db" "rfc_time (now_or_clock env (at_UpdatedAt result))"
    and "newest_attempt (at_IssueKey result) (at_Attempt (default_attempt result)) db" "at_IssueKey result \<noteq> []"
  shows "\<exists>f. ReadReconciliationFacts (at_IssueKey result) (snd (UpsertAttemptResult env result db)) = Inr (Some f)
     \<and> result_read_back (default_attempt result) (now_or_clock env (at_UpdatedAt result)) f"
proof -
  from UpsertAttemptResult_eq [OF assms(1,5), of env] obtain a :: AttemptRow and evs
    where a: "lookup attempt_key (at_IssueKey (default_attempt result), at_Attempt (default_attempt result))
               (db_attempts (upsert_attempt (default_attempt result) (now_or_clock env (at_UpdatedAt result)) db)) = Some a"
      and eq: "UpsertAttemptResult env result db = (Inr (), append_best_effort env evs
               (write_all (default_attempt result) (now_or_clock env (at_UpdatedAt result)) (ar_id a)
                  (upsert_attempt (default_attempt result) (now_or_clock env (at_UpdatedAt result)) db)))"
    by blast
  from read_after_write [OF assms(1,2,3) _ _ a, of env evs] assms(4,5) show ?thesis
    unfolding eq snd_conv default_attempt_IssueKey by blast
qed

definition sample_result :: AttemptResult where
  "sample_result =
     \<lparr>at_IssueKey = ''A-1'', at_IssueID = ''id'', at_Attempt = 0, at_WorkspacePath = ''/w/A-1'', at_BranchName = [],
      at_BaseBranch = [], at_Status = ''success'', at_StartedAt = 0, at_UpdatedAt = 5000000000, at_Repository = [],
      at_PRNumber = 7, at_PRURL = ''https://host/pr/7'', at_ReviewStatus = ''pass'', at_ReviewPassed = True,
      at_ReviewClassification = [], at_ReviewOutputRef = [], at_ReviewOutputHash = [], at_MergeEligible = True,
      at_FeedbackHash = [], at_FeedbackNextAction = [], at_RetryCount = 0, at_RetryBudgetState = ''within'',
      at_RetryReason = ''flaky'', at_RetryInputHash = [], at_RetryNextState = [], at_TerminalOutcome = ''handoff_ready'',
      at_TerminalReason = []\<rparr>"

lemma empty_db_attempts [simp]: "attempts_ok empty_db" "retries_readable empty_db" "newest_attempt k n empty_db"
  by (simp_all add: attempts_ok_def empty_db_def attempt_rows_ok_def refs_ok_def retries_readable_def newest_attempt_def)

theorem reconciliation_reads_last_result_witness:
  "\<exists>f. ReadReconciliationFacts (at_IssueKey sample_result) (snd (UpsertAttemptResult test_env sample_result empty_db)) = Inr (Some f)
     \<and> result_read_back (default_attempt sample_result) (now_or_clock test_env (at_UpdatedAt sample_result)) f"
  by (rule reconciliation_reads_last_result)
     (simp_all add: sample_result_def now_or_clock_def is_zero_def one_second_rfc)

section \<open>Counting retries\<close>

definition recorded_retries :: "string \<Rightarrow> int \<Rightarrow> db \<Rightarrow> int" where
  "recorded_retries key n db =
     (case lookup attempt_key (key, n) (db_attempts db) of
        None \<Rightarrow> 0
      | Some a \<Rightarrow> col rd_retry_count 0 (lookup rd_attempt_id (ar_id a) (db_retries db)))"

text \<open>The attempt row keeps its id, and a new id has no retries yet.\<close>

lemma retries_before:
  assumes ok: "attempts_ok db"
    and a: "lookup attempt_key (at_IssueKey r, at_Attempt r) (db_attempts (upsert_attempt r now db)) = Some a"
  shows "col rd_retry_count 0 (lookup rd_attempt_id (ar_id a) (db_retries db)) = recorded_retries (at_IssueKey r) (at_Attempt r) db"
proof (cases "lookup attempt_key (at_IssueKey r, at_Attempt r) (db_attempts db)")
  case None
  have rows: "attempt_rows_ok (db_attempts db)" using ok by (simp add: attempts_ok_def)
  have "ar_id a = next_attempt_id (db_attempts db)"
    using a unfolding upsert_attempt_row [OF rows] None by (auto simp: attempt_row_def)
  then have "ar_id a \<notin> attempt_ids db"
    using next_attempt_id_fresh [of _ "db_attempts db"] by (fastforce simp: attempt_ids_def)
  then have "lookup rd_attempt_id (ar_id a) (db_retries db) = None"
    using ok by (auto simp: attempts_ok_def refs_ok_def lookup_None_iff)
  then show ?thesis by (simp add: recorded_retries_def None col_def)
next
  case (Some old)
  have rows: "attempt_rows_ok (db_attempts db)" using ok by (simp add: attempts_ok_def)
  have "ar_id a = ar_id old"
    using a unfolding upsert_attempt_row [OF rows] Some by (auto simp: merge_attempt_def)
  then show ?thesis by (simp add: recorded_retries_def Some)
qed

lemma retry_step:
  assumes ok: "attempts_ok db" and key: "at_IssueKey result \<noteq> []"
  shows "recorded_retries (at_IssueKey result) (at_Attempt (default_attempt result)) (snd (UpsertAttemptResult env result db)) =
     (if retry_given result
      then (if 0 < at_RetryCount result then at_RetryCount result
            else recorded_retries (at_IssueKey result) (at_Attempt (default_attempt result)) db + 1)
      else recorded_retries (at_IssueKey result) (at_Attempt (default_attempt result)) db)"
proof -
  let ?r = "default_attempt result" and ?now = "now_or_clock env (at_UpdatedAt result)"
  from UpsertAttemptResult_eq [OF assms, of env] obtain a :: AttemptRow and evs
    where a: "lookup attempt_key (at_IssueKey ?r, at_Attempt ?r) (db_attempts (upsert_attempt ?r ?now db)) = Some a"
      and eq: "UpsertAttemptResult env result db =
        (Inr (), append_best_effort env evs (write_all ?r ?now (ar_id a) (upsert_attempt ?r ?now db)))"
    by blast
  note row = write_all_rows [OF upsert_attempt_ok [OF ok], where aid = "ar_id a" and r = ?r and now = ?now]
  have fields_eq: "at_RetryCount ?r = at_RetryCount result" "retry_given ?r = retry_given result"
    by (simp_all add: default_attempt_def retry_given_def)
  have count: "retry_count_of ?r (ar_id a) (db_retries db) =
      (if 0 < at_RetryCount result then at_RetryCount result else recorded_retries (at_IssueKey ?r) (at_Attempt ?r) db + 1)"
    using retries_before [OF ok a] by (auto simp: retry_count_of_def col_def fields_eq split: option.splits)
  have "recorded_retries (at_IssueKey ?r) (at_Attempt ?r) (snd (UpsertAttemptResult env result db)) =
      col rd_retry_count 0 (if retry_given result then Some (retry_row ?r ?now (ar_id a) (retry_count_of ?r (ar_id a) (db_retries db)))
         else lookup rd_attempt_id (ar_id a) (db_retries db))"
    unfolding recorded_retries_def eq snd_conv append_best_effort_frame row(3,5) a option.case
      retry_given_def [of ?r, symmetric] fields_eq upsert_attempt_frame ..
  then show ?thesis
    using retries_before [OF ok a] count by (auto simp: col_def retry_row_def)
qed

text \<open>
  The retry budget counts every retry.  Over any number of results for one attempt that leave
  the count to the store, the recorded number of retries grows by one for each result with a retry
  decision and stays for the others.
\<close>

theorem retries_are_counted:
  assumes "attempts_ok db" "key \<noteq> []"
    and "list_all (\<lambda>r. at_IssueKey r = key \<and> at_Attempt (default_attempt r) = n \<and> at_RetryCount r \<le> 0) rs"
  shows "recorded_retries key n (fold (\<lambda>r db. snd (UpsertAttemptResult env r db)) rs db) =
           recorded_retries key n db + int (length (filter retry_given rs))"
  using assms
proof (induction rs arbitrary: db)
  case (Cons r rs)
  have r: "at_IssueKey r = key" "at_Attempt (default_attempt r) = n" "at_RetryCount r \<le> 0"
    using Cons.prems(3) by simp_all
  have "recorded_retries key n (snd (UpsertAttemptResult env r db)) =
      recorded_retries key n db + (if retry_given r then 1 else 0)"
    using retry_step [OF Cons.prems(1), of r env] r Cons.prems(2) by auto
  moreover have "list_all (\<lambda>r. at_IssueKey r = key \<and> at_Attempt (default_attempt r) = n \<and> at_RetryCount r \<le> 0) rs"
    using Cons.prems(3) by simp
  ultimately show ?case
    using Cons.IH [OF UpsertAttemptResult_ok [OF Cons.prems(1), of env r] Cons.prems(2)] by simp
qed simp

theorem retries_are_counted_witness:
  "recorded_retries ''A-1'' 1 (fold (\<lambda>r db. snd (UpsertAttemptResult test_env r db))
       [sample_result, sample_result\<lparr>at_RetryReason := []\<rparr>, sample_result] empty_db) =
     recorded_retries ''A-1'' 1 empty_db
       + int (length (filter retry_given [sample_result, sample_result\<lparr>at_RetryReason := []\<rparr>, sample_result]))"
  by (rule retries_are_counted) (simp_all add: sample_result_def default_attempt_def)

section \<open>Export failures\<close>

text \<open>
  An export failure is recorded once for all issues.  After a failure of an artifact with a
  message has been recorded, the same failure of any attempt of any issue is refused with the error
  of the unique key, and nothing is recorded for it.
\<close>

theorem export_failure_recorded_once:
  assumes "RecordArtifactExportFailure env key n artifact message t db = (Inr (), db')"
    and "lookup attempt_key (key', if n' \<le> 0 then 1 else n') (db_attempts db') \<noteq> None" "key' \<noteq> []"
  shows "RecordArtifactExportFailure env key' n' artifact message t' db' =
           (Inl (StoreError ''record artifact export failure: UNIQUE constraint failed''), db')"
proof -
  let ?art = "if artifact = [] then ''unknown'' else artifact"
  have hash: "list_ex (\<lambda>f. fact_key_of f = (''artifact'', ''artifact_export_failure'', ?art @ '':'' @ message)) (db_facts db')"
    using assms(1)
    by (auto simp: RecordArtifactExportFailure_def Let_def fact_key_of_def split: if_splits sum.splits)
  obtain i where "attemptID key' (if n' \<le> 0 then 1 else n') db' = Inr i"
    using assms(2) by (auto simp: attemptID_def split: option.splits)
  then show ?thesis
    using assms(3) hash unfolding RecordArtifactExportFailure_def Let_def
    by (simp add: sql_conflict_def fact_key_of_def split: if_split)
qed

definition two_attempts_db :: db where
  "two_attempts_db = empty_db\<lparr>db_attempts := [attempt_row (default_attempt sample_result) 1 1,
     attempt_row ((default_attempt sample_result)\<lparr>at_IssueKey := ''B-2''\<rparr>) 1 2]\<rparr>"

theorem export_failure_recorded_once_witness:
  "RecordArtifactExportFailure test_env ''B-2'' 1 ''run.json'' ''disk full'' 9
     (snd (RecordArtifactExportFailure test_env ''A-1'' 1 ''run.json'' ''disk full'' 5 two_attempts_db)) =
   (Inl (StoreError ''record artifact export failure: UNIQUE constraint failed''),
    snd (RecordArtifactExportFailure test_env ''A-1'' 1 ''run.json'' ''disk full'' 5 two_attempts_db))"
proof -
  let ?db' = "snd (RecordArtifactExportFailure test_env ''A-1'' 1 ''run.json'' ''disk full'' 5 two_attempts_db)"
  have facts: "db_facts two_attempts_db = []" by (simp add: two_attempts_db_def empty_db_def)
  have ids: "attemptID ''A-1'' 1 two_attempts_db = Inr 1"
    by (simp add: two_attempts_db_def attemptID_def attempt_key_def attempt_row_def default_attempt_def sample_result_def)
  have ok: "RecordArtifactExportFailure test_env ''A-1'' 1 ''run.json'' ''disk full'' 5 two_attempts_db = (Inr (), ?db')"
    by (simp add: RecordArtifactExportFailure_def Let_def ids sql_conflict_def facts)
  have "db_attempts ?db' = db_attempts two_attempts_db"
    by (simp add: RecordArtifactExportFailure_def Let_def ids sql_conflict_def facts)
  then have "lookup attempt_key (''B-2'', if (1::int) \<le> 0 then 1 else 1) (db_attempts ?db') \<noteq> None"
    by (simp add: two_attempts_db_def attempt_key_def attempt_row_def default_attempt_def sample_result_def)
  from export_failure_recorded_once [OF ok this] show ?thesis by simp
qed

end
