(* ===== verification/Migrations.thy ===== *)
theory Migrations
  imports StoreBase
begin

text \<open>
  The schema of internal/state/store.go and its migrations: \<open>init\<close> brings a database from any
  version it knows to the current one in one transaction, and refuses a newer or a half-migrated
  database.  A schema is its tables with their columns, its indexes, and the rows of
  \<open>schema_migrations\<close>; column types and constraints are not modelled.  A statement fails where SQLite
  refuses it: a table or an index that exists, a missing table or column.
\<close>

datatype ddl =
    CreateTable string "string list"
  | CreateIndex string string "string list"
  | AddColumn string string

record MigrationRow =
  mg_version :: int
  mg_name :: string
  mg_checksum :: string
  mg_applied_at :: string
  mg_success :: bool

text \<open>\<open>sc_migrations\<close> is \<open>None\<close> before the table exists.\<close>

record layout =
  lo_tables :: "(string \<times> string list) list"
  lo_indexes :: "string list"

record schema =
  sc_layout :: layout
  sc_migrations :: "MigrationRow list option"

definition fresh_schema :: schema where
  "fresh_schema = \<lparr>sc_layout = \<lparr>lo_tables = [], lo_indexes = []\<rparr>, sc_migrations = None\<rparr>"

definition table_columns :: "string \<Rightarrow> layout \<Rightarrow> string list option" where
  "table_columns t s = map_of (lo_tables s) t"

definition name_taken :: "string \<Rightarrow> layout \<Rightarrow> bool" where
  "name_taken n s \<longleftrightarrow> n \<in> set (map fst (lo_tables s)) \<or> n \<in> set (lo_indexes s)"

fun exec_ddl :: "ddl \<Rightarrow> layout \<Rightarrow> layout option" where
  "exec_ddl (CreateTable t cols) s =
     (if name_taken t s then None else Some (s\<lparr>lo_tables := lo_tables s @ [(t, cols)]\<rparr>))"
| "exec_ddl (CreateIndex n t cols) s =
     (if name_taken n s then None
      else (case table_columns t s of
              None \<Rightarrow> None
            | Some have \<Rightarrow> if list_all (\<lambda>c. c \<in> set have) cols then Some (s\<lparr>lo_indexes := lo_indexes s @ [n]\<rparr>) else None))"
| "exec_ddl (AddColumn t c) s =
     (case table_columns t s of
        None \<Rightarrow> None
      | Some have \<Rightarrow>
          if c \<in> set have then None
          else Some (s\<lparr>lo_tables := map (\<lambda>(n, cs). if n = t then (n, cs @ [c]) else (n, cs)) (lo_tables s)\<rparr>))"

fun exec_all :: "ddl list \<Rightarrow> layout \<Rightarrow> layout option" where
  "exec_all [] s = Some s"
| "exec_all (d # ds) s = (case exec_ddl d s of None \<Rightarrow> None | Some s' \<Rightarrow> exec_all ds s')"

definition v1Schema :: "ddl list" where
  "v1Schema =
     [CreateTable ''issue_attempts''
        [''id'', ''issue_key'', ''issue_id'', ''attempt'', ''workspace_path'', ''branch_name'', ''base_branch'',
         ''prompt_hash'', ''validation_summary'', ''status'', ''created_at'', ''updated_at''],
      CreateTable ''pr_mappings''
        [''id'', ''attempt_id'', ''repository'', ''branch_name'', ''base_branch'', ''pr_number'', ''pr_url'',
         ''head_sha'', ''base_sha'', ''am_owned'', ''updated_at''],
      CreateTable ''review_states''
        [''attempt_id'', ''command_status'', ''passed'', ''classification'', ''output_ref'', ''output_hash'',
         ''merge_eligible'', ''updated_at''],
      CreateTable ''feedback_states''
        [''attempt_id'', ''feedback_hash'', ''incorporated'', ''stale'', ''next_action'', ''updated_at''],
      CreateTable ''merge_blockers''
        [''id'', ''attempt_id'', ''code'', ''reason'', ''external_state_hash'', ''active'', ''updated_at''],
      CreateTable ''cleanup_states''
        [''attempt_id'', ''workspace_exists'', ''eligible'', ''decision'', ''deletion_result'', ''artifact_ref'',
         ''blocked_reason'', ''updated_at''],
      CreateTable ''leases''
        [''name'', ''scope'', ''owner'', ''acquired_at'', ''expires_at'', ''renewed_at'', ''released_at'',
         ''release_reason''],
      CreateTable ''daemon_heartbeats''
        [''id'', ''process_id'', ''lane_name'', ''workflow_path'', ''cycle_number'', ''last_success_at'',
         ''last_error'', ''recovery_required'', ''updated_at''],
      CreateTable ''retry_decisions''
        [''id'', ''attempt_id'', ''retry_count'', ''budget_state'', ''reason'', ''input_hash'', ''next_state'',
         ''decided_at''],
      CreateTable ''terminal_outcomes''
        [''attempt_id'', ''outcome'', ''reason'', ''cleaned'', ''recorded_at''],
      CreateTable ''external_fact_snapshots''
        [''id'', ''attempt_id'', ''source'', ''fact_key'', ''fact_json'', ''fact_hash'', ''captured_at''],
      CreateIndex ''idx_issue_attempts_status'' ''issue_attempts'' [''status''],
      CreateIndex ''idx_pr_mappings_pr_number'' ''pr_mappings'' [''repository'', ''pr_number''],
      CreateIndex ''idx_merge_blockers_active'' ''merge_blockers'' [''active'', ''code''],
      CreateIndex ''idx_leases_expires_at'' ''leases'' [''expires_at''],
      CreateIndex ''idx_daemon_heartbeats_lane'' ''daemon_heartbeats'' [''lane_name'', ''updated_at'']]"

definition v2Schema :: "ddl list" where
  "v2Schema =
     [CreateTable ''orchestration_events''
        [''sequence'', ''event_id'', ''occurred_at'', ''issue_key'', ''issue_id'', ''attempt'', ''run_id'',
         ''source'', ''event_type'', ''payload_json''],
      CreateIndex ''idx_orchestration_events_issue'' ''orchestration_events'' [''issue_key'', ''attempt'',
         ''sequence''],
      CreateIndex ''idx_orchestration_events_type'' ''orchestration_events'' [''event_type'', ''sequence'']]"

definition v3Schema :: "ddl list" where
  "v3Schema =
     [CreateTable ''worker_tasks''
        [''id'', ''task_key'', ''role'', ''issue_key'', ''issue_id'', ''attempt'', ''status'', ''priority'',
         ''available_at'', ''lease_name'', ''payload_json'', ''created_at'', ''updated_at''],
      CreateIndex ''idx_worker_tasks_role_status'' ''worker_tasks'' [''role'', ''status'', ''available_at'',
         ''priority''],
      CreateIndex ''idx_worker_tasks_issue'' ''worker_tasks'' [''issue_key'', ''attempt'']]"

definition v4Schema :: "ddl list" where
  "v4Schema =
     [CreateTable ''worker_results''
        [''task_key'', ''role'', ''lane_name'', ''issue_key'', ''issue_id'', ''attempt'', ''status'', ''did_work'',
         ''reason'', ''error'', ''payload_json'', ''started_at'', ''finished_at'', ''updated_at''],
      CreateIndex ''idx_worker_results_role_status'' ''worker_results'' [''role'', ''status'', ''updated_at''],
      CreateIndex ''idx_worker_results_lane_status'' ''worker_results'' [''lane_name'', ''status'', ''updated_at'']]"

definition v5Schema :: "ddl list" where
  "v5Schema =
     [CreateTable ''worker_payload_refs''
        [''id'', ''role'', ''phase'', ''issue_key'', ''issue_id'', ''attempt'', ''workspace_path'',
         ''branch_name'', ''pr_url'', ''payload_path'', ''status'', ''created_at'', ''updated_at''],
      CreateIndex ''idx_worker_payload_refs_role_phase_status'' ''worker_payload_refs'' [''role'', ''phase'',
         ''status'', ''updated_at''],
      CreateIndex ''idx_worker_payload_refs_issue'' ''worker_payload_refs'' [''issue_key'', ''attempt'']]"

definition v6Schema :: "ddl list" where
  "v6Schema =
     [CreateTable ''pr_handoff_intents''
        [''id'', ''issue_key'', ''issue_id'', ''attempt'', ''workspace_path'', ''branch_name'', ''agent_pr_url'',
         ''pr_url'', ''payload_path'', ''status'', ''result'', ''error'', ''created_at'', ''updated_at'',
         ''finished_at''],
      CreateIndex ''idx_pr_handoff_intents_status'' ''pr_handoff_intents'' [''status'', ''updated_at''],
      CreateIndex ''idx_pr_handoff_intents_issue'' ''pr_handoff_intents'' [''issue_key'', ''attempt'']]"

definition v7Schema :: "ddl list" where
  "v7Schema =
     [AddColumn ''daemon_heartbeats'' ''active_task_key'',
      AddColumn ''daemon_heartbeats'' ''active_task_role'',
      AddColumn ''daemon_heartbeats'' ''active_lease_name'',
      AddColumn ''daemon_heartbeats'' ''active_task_started_at'']"


definition schema_version_limit :: int where "schema_version_limit = 8"

text \<open>\<open>INSERT INTO schema_migrations\<close>; the version is the primary key.\<close>

definition record_migration :: "store_env \<Rightarrow> int \<Rightarrow> string \<Rightarrow> string \<Rightarrow> schema \<Rightarrow> schema result" where
  "record_migration env v name checksum s =
     (case sc_migrations s of
        None \<Rightarrow> Inl (StoreError (''record migration '' @ checksum))
      | Some rows \<Rightarrow>
          if list_ex (\<lambda>r. mg_version r = v) rows then Inl (StoreError (''record migration '' @ checksum))
          else Inr (s\<lparr>sc_migrations := Some (rows @
                 [\<lparr>mg_version = v, mg_name = name, mg_checksum = checksum,
                   mg_applied_at = format_time (env_clock env), mg_success = True\<rparr>])\<rparr>))"

definition migrate :: "store_env \<Rightarrow> int \<Rightarrow> string \<Rightarrow> string \<Rightarrow> ddl list \<Rightarrow> schema \<Rightarrow> schema result" where
  "migrate env v name checksum stmts s =
     (case exec_all stmts (sc_layout s) of
        None \<Rightarrow> Inl (StoreError (''apply migration '' @ checksum))
      | Some l \<Rightarrow> record_migration env v name checksum (s\<lparr>sc_layout := l\<rparr>))"

definition migrateV1 :: "store_env \<Rightarrow> schema \<Rightarrow> schema result" where
  "migrateV1 env = migrate env 1 ''initial orchestration state'' ''v1'' v1Schema"

definition migrateV2 :: "store_env \<Rightarrow> schema \<Rightarrow> schema result" where
  "migrateV2 env = migrate env 2 ''durable orchestration event log'' ''v2'' v2Schema"

definition migrateV3 :: "store_env \<Rightarrow> schema \<Rightarrow> schema result" where
  "migrateV3 env = migrate env 3 ''durable worker task queue'' ''v3'' v3Schema"

definition migrateV4 :: "store_env \<Rightarrow> schema \<Rightarrow> schema result" where
  "migrateV4 env = migrate env 4 ''durable worker result read model'' ''v4'' v4Schema"

definition migrateV5 :: "store_env \<Rightarrow> schema \<Rightarrow> schema result" where
  "migrateV5 env = migrate env 5 ''durable worker payload refs'' ''v5'' v5Schema"

definition migrateV6 :: "store_env \<Rightarrow> schema \<Rightarrow> schema result" where
  "migrateV6 env = migrate env 6 ''durable PR handoff intents'' ''v6'' v6Schema"

definition migrateV7 :: "store_env \<Rightarrow> schema \<Rightarrow> schema result" where
  "migrateV7 env = migrate env 7 ''active worker task heartbeat'' ''v7'' v7Schema"

definition tableColumnExists :: "string \<Rightarrow> string \<Rightarrow> schema \<Rightarrow> bool" where
  "tableColumnExists t c s = (case table_columns t (sc_layout s) of None \<Rightarrow> False | Some cols \<Rightarrow> c \<in> set cols)"

text \<open>Databases of before the ownership column get it here; newer ones have it from v1.\<close>

definition migrateV8 :: "store_env \<Rightarrow> schema \<Rightarrow> schema result" where
  "migrateV8 env s =
     migrate env 8 ''agent machine ownership column'' ''v8''
       (if tableColumnExists ''pr_mappings'' ''am_owned'' s then [] else [AddColumn ''pr_mappings'' ''am_owned'']) s"

definition ensureMigrationTable :: "schema \<Rightarrow> schema result" where
  "ensureMigrationTable s =
     (let rows = (case sc_migrations s of None \<Rightarrow> [] | Some rs \<Rightarrow> rs);
          failed = length (filter (\<lambda>r. \<not> mg_success r) rows) in
      if failed > 0
      then Inl (UnsupportedSchema (''database contains '' @ itoa (int failed) @ '' failed migration record(s)''))
      else Inr (s\<lparr>sc_migrations := Some rows\<rparr>))"

definition currentVersion :: "schema \<Rightarrow> int" where
  "currentVersion s =
     (case sc_migrations s of
        None \<Rightarrow> 0
      | Some rows \<Rightarrow> (case map mg_version (filter mg_success rows) of [] \<Rightarrow> 0 | v # vs \<Rightarrow> fold max vs v))"

text \<open>One rung of the ladder: \<open>if version < n { migrateVn }\<close>.\<close>

definition rung :: "int \<Rightarrow> int \<Rightarrow> (schema \<Rightarrow> schema result) \<Rightarrow> schema result \<Rightarrow> schema result" where
  "rung version n f r = (case r of Inl e \<Rightarrow> Inl e | Inr s \<Rightarrow> if version < n then f s else Inr s)"

definition init_tx :: "store_env \<Rightarrow> schema \<Rightarrow> schema result" where
  "init_tx env s0 =
     (case ensureMigrationTable s0 of
        Inl e \<Rightarrow> Inl e
      | Inr s \<Rightarrow>
          let version = currentVersion s in
          if version > schema_version_limit then
            Inl (UnsupportedSchema (''database version '' @ itoa version @ '' is newer than supported version ''
               @ itoa schema_version_limit))
          else rung version 8 (migrateV8 env) (rung version 7 (migrateV7 env) (rung version 6 (migrateV6 env)
                 (rung version 5 (migrateV5 env) (rung version 4 (migrateV4 env) (rung version 3 (migrateV3 env)
                    (rung version 2 (migrateV2 env) (rung version 1 (migrateV1 env) (Inr s)))))))))"

text \<open>\<open>Store.init\<close>: the transaction commits, or leaves the database as it was.\<close>

definition init :: "store_env \<Rightarrow> schema \<Rightarrow> unit result \<times> schema" where
  "init env s = (case init_tx env s of Inl e \<Rightarrow> (Inl e, s) | Inr s' \<Rightarrow> (Inr (), s'))"

text \<open>\<open>ORDER BY version DESC LIMIT 1\<close>, whether or not the migration succeeded.\<close>

definition SchemaVersion :: "schema \<Rightarrow> int result" where
  "SchemaVersion s =
     (case sc_migrations s of
        None \<Rightarrow> Inl (StoreError ''read schema version: no such table'')
      | Some rows \<Rightarrow>
          (case map mg_version rows of
             [] \<Rightarrow> Inl (NoRows ''read schema version'')
           | v # vs \<Rightarrow>
               let version = fold max vs v in
               if version > schema_version_limit then
                 Inl (UnsupportedSchema (''database version '' @ itoa version @ '' is newer than supported version ''
                    @ itoa schema_version_limit))
               else Inr version))"

section \<open>Upgrading\<close>

text \<open>What a release that knew the first \<open>k\<close> migrations left behind.\<close>

definition bind_result :: "schema result \<Rightarrow> (schema \<Rightarrow> schema result) \<Rightarrow> schema result" where
  "bind_result r f = (case r of Inl e \<Rightarrow> Inl e | Inr s \<Rightarrow> f s)"

definition all_migrations :: "store_env \<Rightarrow> (schema \<Rightarrow> schema result) list" where
  "all_migrations env = [migrateV1 env, migrateV2 env, migrateV3 env, migrateV4 env, migrateV5 env, migrateV6 env,
     migrateV7 env, migrateV8 env]"

definition old_release :: "store_env \<Rightarrow> nat \<Rightarrow> schema result" where
  "old_release env k = foldl bind_result (ensureMigrationTable fresh_schema) (take k (all_migrations env))"

fun layout_after :: "nat \<Rightarrow> layout" where
  "layout_after 0 = \<lparr>lo_tables = [], lo_indexes = []\<rparr>"
| "layout_after (Suc k) =
     (case exec_all ([v1Schema, v2Schema, v3Schema, v4Schema, v5Schema, v6Schema, v7Schema] ! k) (layout_after k) of
        None \<Rightarrow> layout_after k | Some l \<Rightarrow> l)"

lemma exec_schemas:
  "exec_all v1Schema (layout_after 0) = Some (layout_after 1)"
  "exec_all v2Schema (layout_after 1) = Some (layout_after 2)"
  "exec_all v3Schema (layout_after 2) = Some (layout_after 3)"
  "exec_all v4Schema (layout_after 3) = Some (layout_after 4)"
  "exec_all v5Schema (layout_after 4) = Some (layout_after 5)"
  "exec_all v6Schema (layout_after 5) = Some (layout_after 6)"
  "exec_all v7Schema (layout_after 6) = Some (layout_after 7)"
  by code_simp+

lemma owned_column: "tableColumnExists ''pr_mappings'' ''am_owned'' \<lparr>sc_layout = layout_after 7, sc_migrations = m\<rparr>"
  unfolding tableColumnExists_def schema.simps by code_simp

declare layout_after.simps [simp del]

lemma migrate_step:
  assumes "exec_all stmts l = Some l'" "v \<notin> mg_version ` set rows"
  shows "migrate env v name checksum stmts \<lparr>sc_layout = l, sc_migrations = Some rows\<rparr> =
     Inr \<lparr>sc_layout = l', sc_migrations = Some (rows @ [\<lparr>mg_version = v, mg_name = name, mg_checksum = checksum,
            mg_applied_at = format_time (env_clock env), mg_success = True\<rparr>])\<rparr>"
  using assms by (auto simp: migrate_def record_migration_def list_ex_iff)

text \<open>\<open>done s k\<close>: the first \<open>k\<close> migrations are recorded, and their layout is there.\<close>

definition migrated :: "nat \<Rightarrow> schema \<Rightarrow> bool" where
  "migrated k s \<longleftrightarrow> (\<exists>rows. s = \<lparr>sc_layout = layout_after (min k 7), sc_migrations = Some rows\<rparr>
     \<and> map mg_version rows = map int [1..<Suc k] \<and> list_all mg_success rows)"

lemma migration_versions:
  "map mg_version rows = map int [1..<Suc k] \<Longrightarrow> int (Suc k) \<notin> mg_version ` set rows"
  by (metis atLeastLessThan_iff image_iff image_set list.set_map nat_less_le of_nat_eq_iff set_upt)

lemma migrated_step:
  assumes "migrated k s" "k < 7" "exec_all stmts (layout_after k) = Some (layout_after (Suc k))"
  shows "\<exists>s'. migrate env (int (Suc k)) name checksum stmts s = Inr s' \<and> migrated (Suc k) s'"
proof -
  obtain rows where s: "s = \<lparr>sc_layout = layout_after k, sc_migrations = Some rows\<rparr>"
    and rows: "map mg_version rows = map int [1..<Suc k]" "list_all mg_success rows"
    using assms(1,2) by (auto simp: migrated_def)
  show ?thesis
    unfolding s migrate_step [OF assms(3) migration_versions [OF rows(1)]]
    using rows assms(2) by (simp add: migrated_def)
qed

lemma migrated_last:
  assumes "migrated 7 s"
  shows "\<exists>s'. migrateV8 env s = Inr s' \<and> migrated 8 s'"
proof -
  obtain rows where s: "s = \<lparr>sc_layout = layout_after 7, sc_migrations = Some rows\<rparr>"
    and rows: "map mg_version rows = map int [1..<Suc 7]" "list_all mg_success rows"
    using assms(1) by (auto simp: migrated_def)
  have "8 \<notin> mg_version ` set rows" using migration_versions [OF rows(1)] by simp
  moreover have "map int [1..<Suc 8] = map int [1..<Suc 7] @ [8]"
    using upt_Suc_append [of 1 8] by simp
  moreover have "migrateV8 env s = migrate env 8 ''agent machine ownership column'' ''v8'' [] s"
    unfolding migrateV8_def s using owned_column [of "Some rows"] by simp
  ultimately show ?thesis
    using rows by (simp add: s migrate_step [where l' = "layout_after 7"] migrated_def del: upt_Suc)
qed

lemma ladder_step:
  assumes "k < 8" "migrated k s"
  shows "\<exists>s'. (all_migrations env ! k) s = Inr s' \<and> migrated (Suc k) s'"
proof -
  consider "k = 0" | "k = 1" | "k = 2" | "k = 3" | "k = 4" | "k = 5" | "k = 6" | "k = 7" using assms(1) by linarith
  then show ?thesis
    using migrated_step [OF assms(2), of _ env] migrated_last [of s env] assms(2) exec_schemas
    by cases (simp_all add: all_migrations_def migrateV1_def migrateV2_def migrateV3_def migrateV4_def migrateV5_def
        migrateV6_def migrateV7_def numeral_eq_Suc)
qed

lemma old_release_migrated: "\<exists>s. old_release env k = Inr s \<and> migrated (min k 8) s"
proof (induction k)
  case 0
  show ?case by (simp add: old_release_def ensureMigrationTable_def fresh_schema_def migrated_def layout_after.simps)
next
  case (Suc k)
  then obtain s where s: "old_release env k = Inr s" "migrated (min k 8) s" by blast
  show ?case
  proof (cases "k < 8")
    case True
    then have "take (Suc k) (all_migrations env) = take k (all_migrations env) @ [all_migrations env ! k]"
      by (intro take_Suc_conv_app_nth) (simp add: all_migrations_def)
    then have "old_release env (Suc k) = (all_migrations env ! k) s"
      using s(1) by (simp add: old_release_def bind_result_def)
    then show ?thesis using ladder_step [of k s env] True s(2) by (simp add: min_def)
  next
    case False
    then have "old_release env (Suc k) = old_release env k"
      by (simp add: old_release_def all_migrations_def)
    then show ?thesis using s False by (simp add: min_def split: if_splits)
  qed
qed

lemma fold_max_upt: "fold max (map int [2..<Suc n]) 1 = int (max n 1)"
  by (induction n) (auto simp: max_def)

lemma migrated_version:
  assumes "migrated k s"
  shows "ensureMigrationTable s = Inr s" "currentVersion s = int k" "k \<le> 8 \<Longrightarrow> 0 < k \<Longrightarrow> SchemaVersion s = Inr (int k)"
proof -
  obtain l rows where s: "s = \<lparr>sc_layout = l, sc_migrations = Some rows\<rparr>"
    and rows: "map mg_version rows = map int [1..<Suc k]" "list_all mg_success rows"
    using assms by (auto simp: migrated_def)
  have all: "filter mg_success rows = rows" "filter (\<lambda>r. \<not> mg_success r) rows = []"
    using rows(2) by (auto simp: list_all_iff filter_id_conv filter_empty_conv)
  show "ensureMigrationTable s = Inr s" by (simp add: ensureMigrationTable_def s all)
  have cons: "map int [1..<Suc k] = 1 # map int [2..<Suc k]" if "0 < k"
    using that upt_conv_Cons [of 1 "Suc k"] by (simp add: numeral_2_eq_2 del: upt_Suc)
  show "currentVersion s = int k"
  proof (cases "k = 0")
    case True
    then show ?thesis using rows by (simp add: currentVersion_def s)
  next
    case False
    then show ?thesis
      using fold_max_upt [of k] cons by (simp add: currentVersion_def s all rows(1) max_def del: upt_Suc)
  qed
  show "SchemaVersion s = Inr (int k)" if "k \<le> 8" "0 < k"
    using fold_max_upt [of k] cons that by (simp add: SchemaVersion_def s rows(1) max_def schema_version_limit_def del: upt_Suc)
qed

lemma rung_step:
  assumes "\<exists>s. r = Inr s \<and> migrated (max k j) s" "j < 8" "v = int (Suc j)" "f = all_migrations env ! j"
  shows "\<exists>s'. rung (int k) v f r = Inr s' \<and> migrated (max k (Suc j)) s'"
proof -
  obtain s where s: "r = Inr s" "migrated (max k j) s" using assms(1) by blast
  show ?thesis
  proof (cases "k < Suc j")
    case True
    then show ?thesis
      using ladder_step [OF assms(2), of s env] s by (simp add: rung_def assms(3,4) max_def split: if_splits)
  next
    case False
    then show ?thesis using s by (simp add: rung_def assms(3) max_def)
  qed
qed

lemma nth_migrations:
  "all_migrations env ! 0 = migrateV1 env" "all_migrations env ! 1 = migrateV2 env" "all_migrations env ! 2 = migrateV3 env"
  "all_migrations env ! 3 = migrateV4 env" "all_migrations env ! 4 = migrateV5 env" "all_migrations env ! 5 = migrateV6 env"
  "all_migrations env ! 6 = migrateV7 env" "all_migrations env ! 7 = migrateV8 env"
  by (simp_all add: all_migrations_def)

lemma rung_at:
  assumes "\<exists>s. r = Inr s \<and> migrated (max k j) s" "j < 8" "all_migrations env ! j = f" "v = int j + 1" "j' = Suc j"
  shows "\<exists>s. rung (int k) v f r = Inr s \<and> migrated (max k j') s"
  using rung_step [OF assms(1,2), of v f env] assms(3,4,5) by simp

lemma init_migrated:
  assumes "migrated k s" "k \<le> 8"
  shows "\<exists>s'. init env s = (Inr (), s') \<and> migrated 8 s'"
proof -
  note v = migrated_version [OF assms(1)]
  have r0: "\<exists>s'. Inr s = Inr s' \<and> migrated (max k 0) s'" using assms(1) by simp
  let ?r1 = "rung (int k) 1 (migrateV1 env) (Inr s)"
  have r1: "\<exists>s'. ?r1 = Inr s' \<and> migrated (max k 1) s'"
    by (rule rung_at [OF r0, of env]) (simp_all add: all_migrations_def)
  let ?r2 = "rung (int k) 2 (migrateV2 env) ?r1"
  have r2: "\<exists>s'. ?r2 = Inr s' \<and> migrated (max k 2) s'"
    by (rule rung_at [OF r1, of env]) (simp_all add: all_migrations_def)
  let ?r3 = "rung (int k) 3 (migrateV3 env) ?r2"
  have r3: "\<exists>s'. ?r3 = Inr s' \<and> migrated (max k 3) s'"
    by (rule rung_at [OF r2, of env]) (simp_all add: all_migrations_def)
  let ?r4 = "rung (int k) 4 (migrateV4 env) ?r3"
  have r4: "\<exists>s'. ?r4 = Inr s' \<and> migrated (max k 4) s'"
    by (rule rung_at [OF r3, of env]) (simp_all add: all_migrations_def)
  let ?r5 = "rung (int k) 5 (migrateV5 env) ?r4"
  have r5: "\<exists>s'. ?r5 = Inr s' \<and> migrated (max k 5) s'"
    by (rule rung_at [OF r4, of env]) (simp_all add: all_migrations_def)
  let ?r6 = "rung (int k) 6 (migrateV6 env) ?r5"
  have r6: "\<exists>s'. ?r6 = Inr s' \<and> migrated (max k 6) s'"
    by (rule rung_at [OF r5, of env]) (simp_all add: all_migrations_def)
  let ?r7 = "rung (int k) 7 (migrateV7 env) ?r6"
  have r7: "\<exists>s'. ?r7 = Inr s' \<and> migrated (max k 7) s'"
    by (rule rung_at [OF r6, of env]) (simp_all add: all_migrations_def)
  let ?r8 = "rung (int k) 8 (migrateV8 env) ?r7"
  have r8: "\<exists>s'. ?r8 = Inr s' \<and> migrated (max k 8) s'"
    by (rule rung_at [OF r7, of env]) (simp_all add: all_migrations_def)
  show ?thesis
    using r8 assms(2) v(1,2) by (auto simp: init_def init_tx_def schema_version_limit_def)
qed

section \<open>Properties\<close>

lemma init_fresh: "\<exists>s'. init env fresh_schema = (Inr (), s') \<and> migrated 8 s'"
proof -
  have "ensureMigrationTable (fresh_schema\<lparr>sc_migrations := Some []\<rparr>) = ensureMigrationTable fresh_schema"
    by (simp add: ensureMigrationTable_def fresh_schema_def)
  then have tx: "init_tx env (fresh_schema\<lparr>sc_migrations := Some []\<rparr>) = init_tx env fresh_schema"
    by (simp add: init_tx_def)
  have "migrated 0 (fresh_schema\<lparr>sc_migrations := Some []\<rparr>)"
    by (simp add: migrated_def fresh_schema_def layout_after.simps)
  from init_migrated [OF this, of env] show ?thesis
    unfolding init_def tx by (auto split: sum.splits)
qed


text \<open>Any transaction that commits leaves a clean ladder up to version 8.\<close>

definition ladder_rows :: "MigrationRow list \<Rightarrow> bool" where
  "ladder_rows rows \<longleftrightarrow> list_all (\<lambda>r. mg_success r \<and> mg_version r \<le> 8) rows"

definition ladder_ok :: "schema \<Rightarrow> bool" where
  "ladder_ok s \<longleftrightarrow> (case sc_migrations s of None \<Rightarrow> False | Some rows \<Rightarrow> ladder_rows rows)"

definition has_version :: "int \<Rightarrow> schema \<Rightarrow> bool" where
  "has_version v s \<longleftrightarrow> (case sc_migrations s of None \<Rightarrow> False | Some rows \<Rightarrow> list_ex (\<lambda>r. mg_version r = v) rows)"

lemma migrate_ladder:
  "migrate env v name checksum stmts s = Inr s' \<Longrightarrow> v \<le> 8 \<Longrightarrow> ladder_ok s \<Longrightarrow> ladder_ok s' \<and> has_version v s'"
  by (auto simp: migrate_def record_migration_def ladder_ok_def ladder_rows_def has_version_def split: option.splits if_splits)

lemmas migration_defs = migrateV1_def migrateV2_def migrateV3_def migrateV4_def migrateV5_def migrateV6_def migrateV7_def
  migrateV8_def

lemma migrations_ladder:
  "f \<in> {migrateV1 env, migrateV2 env, migrateV3 env, migrateV4 env, migrateV5 env, migrateV6 env, migrateV7 env, migrateV8 env}
   \<Longrightarrow> f s = Inr s' \<Longrightarrow> ladder_ok s \<Longrightarrow> ladder_ok s'"
  by (auto simp: migration_defs dest!: migrate_ladder)

definition result_ok :: "schema result \<Rightarrow> bool" where
  "result_ok r \<longleftrightarrow> (case r of Inl e \<Rightarrow> True | Inr s \<Rightarrow> ladder_ok s)"

lemma rung_result_ok:
  assumes "result_ok r"
    and "f \<in> {migrateV1 env, migrateV2 env, migrateV3 env, migrateV4 env, migrateV5 env, migrateV6 env, migrateV7 env, migrateV8 env}"
  shows "result_ok (rung version n f r)"
  using assms(1) migrations_ladder [OF assms(2)] by (auto simp: rung_def result_ok_def split: sum.splits)

lemma fold_max_ge: "fold max vs (v::int) \<ge> v \<and> list_all (\<lambda>x. x \<le> fold max vs v) vs"
proof -
  have "fold max vs v = Max (set (v # vs))" by (rule Max.set_eq_fold [symmetric])
  then show ?thesis by (simp add: list_all_iff)
qed

lemma fold_max_mem: "fold max vs (v::int) \<in> set (v # vs)"
proof -
  have "fold max vs v = Max (set (v # vs))" by (rule Max.set_eq_fold [symmetric])
  then show ?thesis using Max_in [of "set (v # vs)"] by simp
qed

lemma current_version_8:
  assumes "ladder_ok s" "has_version 8 s"
  shows "currentVersion s = 8"
proof -
  obtain rows where rows: "sc_migrations s = Some rows" "ladder_rows rows" "8 \<in> mg_version ` set rows"
    using assms by (auto simp: ladder_ok_def has_version_def list_ex_iff split: option.splits)
  have succ: "filter mg_success rows = rows"
    using rows(2) by (auto simp: ladder_rows_def list_all_iff filter_id_conv)
  obtain v vs where vs: "map mg_version rows = v # vs" using rows(3) by (cases rows) auto
  have set: "set (v # vs) = mg_version ` set rows" unfolding vs [symmetric] by simp
  have "8 \<le> fold max vs v" using fold_max_ge [of v vs] rows(3) set by (auto simp: list_all_iff)
  moreover have "fold max vs v \<le> 8"
  proof -
    have "fold max vs v \<in> mg_version ` set rows" using fold_max_mem [of vs v] unfolding set .
    then show ?thesis using rows(2) by (auto simp: ladder_rows_def list_all_iff)
  qed
  ultimately show ?thesis by (simp add: currentVersion_def rows(1) succ vs)
qed

lemma ensured_ladder:
  assumes "ensureMigrationTable s = Inr s1" "currentVersion s1 \<le> 8"
  shows "ladder_ok s1 \<and> (currentVersion s1 = 8 \<longrightarrow> has_version 8 s1)"
proof -
  obtain rows where rows: "sc_migrations s1 = Some rows" "filter (\<lambda>r. \<not> mg_success r) rows = []"
    using assms(1) by (auto simp: ensureMigrationTable_def Let_def split: if_splits)
  have succ: "list_all mg_success rows" using rows(2) by (auto simp: filter_empty_conv list_all_iff)
  then have all: "filter mg_success rows = rows" by (auto simp: list_all_iff filter_id_conv)
  show ?thesis
  proof (cases "map mg_version rows")
    case Nil
    then show ?thesis using rows(1) by (simp add: ladder_ok_def ladder_rows_def currentVersion_def)
  next
    case (Cons v vs)
    have set: "set (v # vs) = mg_version ` set rows" unfolding Cons [symmetric] by simp
    have cur: "currentVersion s1 = fold max vs v" by (simp add: currentVersion_def rows(1) all Cons)
    have "x \<le> fold max vs v" if "x \<in> set (v # vs)" for x
      using that fold_max_ge [of v vs] by (auto simp: list_all_iff)
    then have "mg_version r \<le> 8" if "r \<in> set rows" for r
      using that assms(2) unfolding cur set by fastforce
    moreover have "fold max vs v \<in> mg_version ` set rows" using fold_max_mem [of vs v] unfolding set .
    ultimately show ?thesis
      using succ cur rows(1) by (force simp: ladder_ok_def ladder_rows_def has_version_def list_all_iff list_ex_iff)
  qed
qed

lemma rung_same: "rung v v f r = r" "v \<ge> n \<Longrightarrow> rung v n f r = r"
  by (auto simp: rung_def split: sum.splits)

lemma init_clean:
  assumes "init env s = (Inr (), s')"
  shows "ladder_ok s' \<and> has_version 8 s'"
proof -
  obtain s1 where s1: "ensureMigrationTable s = Inr s1" "currentVersion s1 \<le> 8"
    and tx: "init_tx env s = Inr s'"
    using assms by (auto simp: init_def init_tx_def Let_def schema_version_limit_def split: sum.splits if_splits)
  note ok = ensured_ladder [OF s1]
  let ?v = "currentVersion s1"
  define r7 where "r7 = rung ?v 7 (migrateV7 env) (rung ?v 6 (migrateV6 env)
                 (rung ?v 5 (migrateV5 env) (rung ?v 4 (migrateV4 env) (rung ?v 3 (migrateV3 env)
                    (rung ?v 2 (migrateV2 env) (rung ?v 1 (migrateV1 env) (Inr s1)))))))"
  have r8: "rung ?v 8 (migrateV8 env) r7 = Inr s'"
    using tx s1 by (simp add: init_tx_def r7_def schema_version_limit_def Let_def)
  have "result_ok (Inr s1)" using ok by (simp add: result_ok_def)
  then have res7: "result_ok r7"
    unfolding r7_def by (intro rung_result_ok [where env = env]) simp_all
  then have ok7: "ladder_ok s7" if "r7 = Inr s7" for s7
    using that by (simp add: result_ok_def)
  have "result_ok (Inr s')"
    unfolding r8 [symmetric] by (rule rung_result_ok [where env = env]) (simp_all add: res7)
  then have "ladder_ok s'" by (simp add: result_ok_def)
  moreover have "has_version 8 s'"
  proof (cases "?v = 8")
    case True
    then have "s' = s1" using r8 by (simp add: rung_same r7_def)
    then show ?thesis using ok True by simp
  next
    case False
    then have "\<exists>s7. r7 = Inr s7 \<and> migrateV8 env s7 = Inr s'"
      using r8 s1(2) by (auto simp: rung_def split: sum.splits)
    then show ?thesis
      using ok7 unfolding migrateV8_def by (auto dest!: migrate_ladder)
  qed
  ultimately show ?thesis ..
qed

text \<open>
  Opening a database twice is opening it once.  After \<open>init\<close> has succeeded on any database, in
  whatever state it was found, a second \<open>init\<close> succeeds and changes nothing.
\<close>

theorem init_idempotent:
  assumes "init env s = (Inr (), s')"
  shows "init env' s' = (Inr (), s')"
proof -
  note clean = init_clean [OF assms]
  have v: "currentVersion s' = 8" using current_version_8 clean by blast
  obtain rows where rows: "sc_migrations s' = Some rows" "ladder_rows rows"
    using clean by (auto simp: ladder_ok_def split: option.splits)
  then have "filter (\<lambda>r. \<not> mg_success r) rows = []" by (auto simp: ladder_rows_def list_all_iff filter_empty_conv)
  then have "ensureMigrationTable s' = Inr s'" by (simp add: ensureMigrationTable_def rows(1))
  then show ?thesis by (simp add: init_def init_tx_def v schema_version_limit_def rung_same)
qed

theorem init_idempotent_witness:
  "init test_env (snd (init test_env fresh_schema)) = (Inr (), snd (init test_env fresh_schema))"
proof -
  obtain s' where s': "init test_env fresh_schema = (Inr (), s')" using init_fresh by blast
  from init_idempotent [OF s', of test_env] show ?thesis by (simp add: s')
qed

lemma migrate_error: "migrate env v name checksum stmts s = Inl e \<Longrightarrow> \<exists>m. e = StoreError m"
  by (auto simp: migrate_def record_migration_def split: option.splits if_splits)

lemma rung_supported:
  assumes "r \<noteq> Inl (UnsupportedSchema m)" "\<And>s e. f s = Inl e \<Longrightarrow> \<exists>x. e = StoreError x"
  shows "rung version n f r \<noteq> Inl (UnsupportedSchema m)"
  using assms by (auto simp: rung_def split: sum.splits if_splits)

lemma migrations_error:
  "migrateV1 env s = Inl e \<Longrightarrow> \<exists>m. e = StoreError m" "migrateV2 env s = Inl e \<Longrightarrow> \<exists>m. e = StoreError m"
  "migrateV3 env s = Inl e \<Longrightarrow> \<exists>m. e = StoreError m" "migrateV4 env s = Inl e \<Longrightarrow> \<exists>m. e = StoreError m"
  "migrateV5 env s = Inl e \<Longrightarrow> \<exists>m. e = StoreError m" "migrateV6 env s = Inl e \<Longrightarrow> \<exists>m. e = StoreError m"
  "migrateV7 env s = Inl e \<Longrightarrow> \<exists>m. e = StoreError m" "migrateV8 env s = Inl e \<Longrightarrow> \<exists>m. e = StoreError m"
  unfolding migration_defs by (rule migrate_error, assumption)+

lemma ladder_supported:
  "rung v 8 (migrateV8 env) (rung v 7 (migrateV7 env) (rung v 6 (migrateV6 env) (rung v 5 (migrateV5 env)
     (rung v 4 (migrateV4 env) (rung v 3 (migrateV3 env) (rung v 2 (migrateV2 env) (rung v 1 (migrateV1 env) (Inr s))))))))
   \<noteq> Inl (UnsupportedSchema m)"
  by (intro rung_supported) (auto dest: migrations_error)

definition failed_migration :: "schema \<Rightarrow> bool" where
  "failed_migration s \<longleftrightarrow> (case sc_migrations s of None \<Rightarrow> False | Some rows \<Rightarrow> list_ex (\<lambda>r. \<not> mg_success r) rows)"

text \<open>
  \<open>init\<close> calls a database unsupported exactly when a migration of it failed or its version is
  newer than this program's, and then leaves it untouched.
\<close>

theorem unsupported_schema_refused:
  "(\<exists>m. init env s = (Inl (UnsupportedSchema m), s)) \<longleftrightarrow> failed_migration s \<or> currentVersion s > 8"
proof -
  have ensure: "ensureMigrationTable s =
      (if failed_migration s then Inl (UnsupportedSchema (''database contains ''
          @ itoa (int (length (filter (\<lambda>r. \<not> mg_success r) (case sc_migrations s of None \<Rightarrow> [] | Some rs \<Rightarrow> rs))))
          @ '' failed migration record(s)''))
       else Inr (s\<lparr>sc_migrations := Some (case sc_migrations s of None \<Rightarrow> [] | Some rs \<Rightarrow> rs)\<rparr>))"
    by (auto simp: ensureMigrationTable_def Let_def failed_migration_def list_ex_iff filter_empty_conv split: option.splits)
  have version: "currentVersion (s\<lparr>sc_migrations := Some (case sc_migrations s of None \<Rightarrow> [] | Some rs \<Rightarrow> rs)\<rparr>) = currentVersion s"
    by (simp add: currentVersion_def split: option.split)
  show ?thesis
  proof (cases "failed_migration s \<or> currentVersion s > 8")
    case True
    then show ?thesis
      by (auto simp: init_def init_tx_def ensure version schema_version_limit_def)
  next
    case False
    have "init env s \<noteq> (Inl (UnsupportedSchema m), s)" for m
    proof
      assume "init env s = (Inl (UnsupportedSchema m), s)"
      then have "init_tx env s = Inl (UnsupportedSchema m)" by (auto simp: init_def split: sum.splits)
      moreover have "init_tx env s \<noteq> Inl (UnsupportedSchema m)"
        using False by (simp add: init_tx_def ensure version schema_version_limit_def Let_def ladder_supported)
      ultimately show False by blast
    qed
    then show ?thesis using False by blast
  qed
qed

end
