(* ===== verification/JsonParse.thy ===== *)
theory JsonParse
  imports Json GoTime
begin

text \<open>
  Reading JSON as \<open>encoding/json\<close> does: white space, literals, numbers, strings with their escapes
  and UTF-16 surrogate pairs, arrays and objects.  The parser is bounded by a depth-and-length fuel;
  the length of the text is always enough.  An integer literal is a \<open>JInt\<close>, another number keeps its
  literal.  What \<open>json_render\<close> prints is read back, with the keys of objects in byte order.
\<close>

definition dquote :: char where "dquote = char_of (34::nat)"
definition bslash :: char where "bslash = char_of (92::nat)"

definition json_space :: "char \<Rightarrow> bool" where
  "json_space c \<longleftrightarrow> (let n = (of_char c :: nat) in n = 32 \<or> n = 9 \<or> n = 10 \<or> n = 13)"

definition skip_ws :: "string \<Rightarrow> string" where
  "skip_ws s = dropWhile json_space s"

section \<open>Strings\<close>

definition hex_val :: "char \<Rightarrow> nat option" where
  "hex_val c = (let n = (of_char c :: nat) in
     if 48 \<le> n \<and> n \<le> 57 then Some (n - 48)
     else if 97 \<le> n \<and> n \<le> 102 then Some (n - 87)
     else if 65 \<le> n \<and> n \<le> 70 then Some (n - 55) else None)"

definition hex4 :: "char \<Rightarrow> char \<Rightarrow> char \<Rightarrow> char \<Rightarrow> nat option" where
  "hex4 a b c d = (case (hex_val a, hex_val b, hex_val c, hex_val d) of
     (Some w, Some x, Some y, Some z) \<Rightarrow> Some (4096 * w + 256 * x + 16 * y + z) | _ \<Rightarrow> None)"

definition utf8 :: "nat \<Rightarrow> string" where
  "utf8 u =
     (if u < 128 then [char_of u]
      else if u < 2048 then [char_of (192 + u div 64), char_of (128 + u mod 64)]
      else if u < 65536 then [char_of (224 + u div 4096), char_of (128 + u div 64 mod 64), char_of (128 + u mod 64)]
      else [char_of (240 + u div 262144), char_of (128 + u div 4096 mod 64), char_of (128 + u div 64 mod 64),
            char_of (128 + u mod 64)])"

definition simple_escape :: "char \<Rightarrow> char option" where
  "simple_escape e =
     (if e = dquote \<or> e = bslash \<or> e = CHR ''/'' then Some e
      else if e = CHR ''b'' then Some (char_of (8::nat)) else if e = CHR ''f'' then Some (char_of (12::nat))
      else if e = CHR ''n'' then Some (char_of (10::nat)) else if e = CHR ''r'' then Some (char_of (13::nat))
      else if e = CHR ''t'' then Some (char_of (9::nat)) else None)"

text \<open>The second half of a surrogate pair, when one follows.\<close>

definition low_surrogate :: "string \<Rightarrow> nat option" where
  "low_surrogate s =
     (case s of
        x # y # a # b # c # d # r \<Rightarrow>
          if x = bslash \<and> y = CHR ''u''
          then (case hex4 a b c d of Some v \<Rightarrow> if 56320 \<le> v \<and> v < 57344 then Some v else None | None \<Rightarrow> None)
          else None
      | _ \<Rightarrow> None)"

definition unicode_escape :: "nat \<Rightarrow> string \<Rightarrow> string \<times> nat" where
  "unicode_escape u s =
     (if 55296 \<le> u \<and> u < 57344 then
        (case (if u < 56320 then low_surrogate s else None) of
           Some v \<Rightarrow> (utf8 (65536 + (u - 55296) * 1024 + (v - 56320)), 6)
         | None \<Rightarrow> (utf8 65533, 0))
      else (utf8 u, 0))"

definition prepend :: "string \<Rightarrow> (string \<times> string) option \<Rightarrow> (string \<times> string) option" where
  "prepend p r = (case r of None \<Rightarrow> None | Some (x, s) \<Rightarrow> Some (p @ x, s))"

text \<open>The rest of a string after its opening quote.\<close>

function parse_chars :: "string \<Rightarrow> (string \<times> string) option" where
  "parse_chars [] = None"
| "parse_chars (c # s) =
     (if c = dquote then Some ([], s)
      else if (of_char c :: nat) < 32 then None
      else if c = bslash then
        (case s of
           [] \<Rightarrow> None
         | e # t \<Rightarrow>
             if e = CHR ''u'' then
               (case t of
                  w # x # y # z # r \<Rightarrow>
                    (case hex4 w x y z of
                       None \<Rightarrow> None
                     | Some u \<Rightarrow> prepend (fst (unicode_escape u r)) (parse_chars (drop (snd (unicode_escape u r)) r)))
                | _ \<Rightarrow> None)
             else (case simple_escape e of None \<Rightarrow> None | Some d \<Rightarrow> prepend [d] (parse_chars t)))
      else prepend [c] (parse_chars s))"
  by pat_completeness auto
termination by (relation "measure length") auto

section \<open>Values\<close>

definition exponent_part :: "string \<Rightarrow> (string \<times> string) option" where
  "exponent_part s =
     (case s of
        e # t \<Rightarrow>
          if e = CHR ''e'' \<or> e = CHR ''E'' then
            (let sign = (case t of c # r \<Rightarrow> if c = CHR ''+'' \<or> c = CHR ''-'' then [c] else [] | [] \<Rightarrow> []);
                 ds = takeWhile is_digit (drop (length sign) t) in
             if ds = [] then None else Some (e # sign @ ds, drop (length sign + length ds) t))
          else Some ([], s)
      | [] \<Rightarrow> Some ([], s))"

definition fraction_part :: "string \<Rightarrow> (string \<times> string) option" where
  "fraction_part s =
     (case s of
        p # t \<Rightarrow>
          if p = CHR ''.'' then
            (let ds = takeWhile is_digit t in if ds = [] then None else Some (p # ds, drop (length ds) t))
          else Some ([], s)
      | [] \<Rightarrow> Some ([], s))"

definition parse_number :: "string \<Rightarrow> (json \<times> string) option" where
  "parse_number s =
     (let neg = (case s of c # r \<Rightarrow> c = CHR ''-'' | [] \<Rightarrow> False);
          t = (if neg then tl s else s);
          ds0 = takeWhile is_digit t;
          ds = (if ds0 \<noteq> [] \<and> hd ds0 = CHR ''0'' then take 1 ds0 else ds0) in
      if ds = [] then None
      else (case fraction_part (drop (length ds) t) of
              None \<Rightarrow> None
            | Some (frac, r) \<Rightarrow>
                (case exponent_part r of
                   None \<Rightarrow> None
                 | Some (ex, r') \<Rightarrow>
                     if frac = [] \<and> ex = []
                     then Some (JInt (if neg then - int (digits_val ds) else int (digits_val ds)), r')
                     else Some (JFloat ((if neg then ''-'' else []) @ ds @ frac @ ex), r'))))"

definition parse_literal :: "string \<Rightarrow> (json \<times> string) option" where
  "parse_literal s =
     (if has_prefix s ''null'' then Some (JNull, drop 4 s)
      else if has_prefix s ''true'' then Some (JBool True, drop 4 s)
      else if has_prefix s ''false'' then Some (JBool False, drop 5 s)
      else parse_number s)"

fun parse_value :: "nat \<Rightarrow> string \<Rightarrow> (json \<times> string) option"
and parse_elems :: "nat \<Rightarrow> string \<Rightarrow> (json list \<times> string) option"
and parse_members :: "nat \<Rightarrow> string \<Rightarrow> ((string \<times> json) list \<times> string) option" where
  "parse_value 0 s = None"
| "parse_value (Suc n) s =
     (case skip_ws s of
        [] \<Rightarrow> None
      | c # t \<Rightarrow>
          if c = dquote then (case parse_chars t of None \<Rightarrow> None | Some (x, r) \<Rightarrow> Some (JStr x, r))
          else if c = CHR ''['' then
            (case skip_ws t of
               [] \<Rightarrow> None
             | d # r \<Rightarrow>
                 if d = CHR '']'' then Some (JArr [], r)
                 else (case parse_elems n t of None \<Rightarrow> None | Some (vs, r') \<Rightarrow> Some (JArr vs, r')))
          else if c = CHR ''{'' then
            (case skip_ws t of
               [] \<Rightarrow> None
             | d # r \<Rightarrow>
                 if d = CHR ''}'' then Some (JObj [], r)
                 else (case parse_members n t of None \<Rightarrow> None | Some (ms, r') \<Rightarrow> Some (JObj ms, r')))
          else parse_literal (c # t))"
| "parse_elems 0 s = None"
| "parse_elems (Suc n) s =
     (case parse_value n s of
        None \<Rightarrow> None
      | Some (v, r) \<Rightarrow>
          (case skip_ws r of
             [] \<Rightarrow> None
           | d # r' \<Rightarrow>
               if d = CHR '']'' then Some ([v], r')
               else if d = CHR '','' then
                 (case parse_elems n r' of None \<Rightarrow> None | Some (vs, r'') \<Rightarrow> Some (v # vs, r''))
               else None))"
| "parse_members 0 s = None"
| "parse_members (Suc n) s =
     (case skip_ws s of
        [] \<Rightarrow> None
      | c # t \<Rightarrow>
          if c \<noteq> dquote then None
          else (case parse_chars t of
                  None \<Rightarrow> None
                | Some (k, r) \<Rightarrow>
                    (case skip_ws r of
                       [] \<Rightarrow> None
                     | d # r1 \<Rightarrow>
                         if d \<noteq> CHR '':'' then None
                         else (case parse_value n r1 of
                                 None \<Rightarrow> None
                               | Some (v, r2) \<Rightarrow>
                                   (case skip_ws r2 of
                                      [] \<Rightarrow> None
                                    | e # r3 \<Rightarrow>
                                        if e = CHR ''}'' then Some ([(k, v)], r3)
                                        else if e = CHR '','' then
                                          (case parse_members n r3 of
                                             None \<Rightarrow> None | Some (ms, r4) \<Rightarrow> Some ((k, v) # ms, r4))
                                        else None)))))"

definition json_parse :: "string \<Rightarrow> json option" where
  "json_parse s =
     (case parse_value (Suc (length s)) s of
        None \<Rightarrow> None
      | Some (v, r) \<Rightarrow> if skip_ws r = [] then Some v else None)"

definition json_valid :: "string \<Rightarrow> bool" where
  "json_valid s \<longleftrightarrow> json_parse s \<noteq> None"

section \<open>Fields of a struct\<close>

text \<open>
  \<open>json.Unmarshal\<close> into a struct: a field takes the values of the members whose key is its name, in
  any case; the last one stays, null leaves it, and a value of another kind is an error.
\<close>

definition field_values :: "string \<Rightarrow> (string \<times> json) list \<Rightarrow> json list" where
  "field_values name ms = filter (\<lambda>v. v \<noteq> JNull) (map snd (filter (\<lambda>(k, v). equal_fold k name) ms))"

definition field_of :: "(json \<Rightarrow> 'a option) \<Rightarrow> 'a \<Rightarrow> string \<Rightarrow> (string \<times> json) list \<Rightarrow> 'a option" where
  "field_of read zero name ms =
     (let vs = map read (field_values name ms) in
      if list_ex (\<lambda>v. v = None) vs then None else if vs = [] then Some zero else last vs)"

definition read_string :: "json \<Rightarrow> string option" where
  "read_string j = (case j of JStr s \<Rightarrow> Some s | _ \<Rightarrow> None)"

definition read_int :: "json \<Rightarrow> int option" where
  "read_int j = (case j of JInt i \<Rightarrow> if - (2 ^ 63) \<le> i \<and> i < 2 ^ 63 then Some i else None | _ \<Rightarrow> None)"

definition read_bool :: "json \<Rightarrow> bool option" where
  "read_bool j = (case j of JBool b \<Rightarrow> Some b | _ \<Rightarrow> None)"

definition string_field :: "string \<Rightarrow> (string \<times> json) list \<Rightarrow> string option" where
  "string_field = field_of read_string []"

definition int_field :: "string \<Rightarrow> (string \<times> json) list \<Rightarrow> int option" where
  "int_field = field_of read_int 0"

definition bool_field :: "string \<Rightarrow> (string \<times> json) list \<Rightarrow> bool option" where
  "bool_field = field_of read_bool False"

text \<open>The members of the object a text is; \<open>null\<close> decodes to the zero struct.\<close>

definition object_members :: "string \<Rightarrow> (string \<times> json) list option" where
  "object_members s =
     (case json_parse s of Some (JObj ms) \<Rightarrow> Some ms | Some JNull \<Rightarrow> Some [] | _ \<Rightarrow> None)"

lemma hex_val_digit: "k < 16 \<Longrightarrow> hex_val (hex_digit k) = Some k"
  by (auto simp: hex_val_def hex_digit_def Let_def)

lemma hex_val_zero: "hex_val CHR ''0'' = Some 0"
  by (simp add: hex_val_def)

lemma of_char_marks [simp]: "(of_char dquote :: nat) = 34" "(of_char bslash :: nat) = 92"
  by (simp_all add: dquote_def bslash_def)

lemma char_eq_of_char: "c = d \<longleftrightarrow> (of_char c :: nat) = of_char d"
  by simp

lemma marks_differ [simp]: "dquote \<noteq> bslash" "bslash \<noteq> dquote" "dquote \<noteq> CHR ''u''" "bslash \<noteq> CHR ''u''"
  "CHR ''u'' \<noteq> dquote" "CHR ''u'' \<noteq> bslash"
  by (simp_all add: char_eq_of_char del: of_char_eq_iff)

lemma letters_not_marks [simp]:
  "CHR ''b'' \<noteq> dquote" "CHR ''b'' \<noteq> bslash" "CHR ''t'' \<noteq> dquote" "CHR ''t'' \<noteq> bslash"
  "CHR ''n'' \<noteq> dquote" "CHR ''n'' \<noteq> bslash" "CHR ''f'' \<noteq> dquote" "CHR ''f'' \<noteq> bslash"
  "CHR ''r'' \<noteq> dquote" "CHR ''r'' \<noteq> bslash"
  "CHR ''['' \<noteq> dquote" "CHR ''{'' \<noteq> dquote" "CHR '']'' \<noteq> dquote" "CHR ''}'' \<noteq> dquote"
  "CHR ''-'' \<noteq> dquote"
  by (simp_all add: char_eq_of_char del: of_char_eq_iff)

lemmas marks_not_letters [simp] = letters_not_marks [symmetric]

lemma parse_escape:
  "e \<noteq> CHR ''u'' \<Longrightarrow> simple_escape e = Some d \<Longrightarrow> parse_chars (bslash # e # t) = prepend [d] (parse_chars t)"
  by simp

lemma parse_plain:
  "c \<noteq> dquote \<Longrightarrow> c \<noteq> bslash \<Longrightarrow> \<not> (of_char c :: nat) < 32 \<Longrightarrow> parse_chars (c # t) = prepend [c] (parse_chars t)"
  by simp

lemma parse_unicode:
  "hex4 w x y z = Some u \<Longrightarrow> u < 128 \<Longrightarrow>
   parse_chars (bslash # CHR ''u'' # w # x # y # z # t) = prepend [char_of u] (parse_chars t)"
  by (simp add: unicode_escape_def utf8_def)

declare parse_chars.simps(2) [simp del]

lemma simple_escapes:
  "simple_escape CHR ''b'' = Some (char_of (8::nat))" "simple_escape CHR ''t'' = Some (char_of (9::nat))"
  "simple_escape CHR ''n'' = Some (char_of (10::nat))" "simple_escape CHR ''f'' = Some (char_of (12::nat))"
  "simple_escape CHR ''r'' = Some (char_of (13::nat))"
  by (simp_all add: simple_escape_def)

lemma escape_char_read: "parse_chars (json_escape_char c @ t) = prepend [c] (parse_chars t)"
proof -
  let ?n = "of_char c :: nat"
  have c: "c = char_of ?n" by simp
  have b: "char_of (92::nat) = bslash" by (simp add: bslash_def)
  note esc = json_escape_char_def Let_def b
  consider (quote) "?n = 34 \<or> ?n = 92" | (short) "?n \<in> {8, 9, 10, 12, 13}"
    | (hex) "(?n < 32 \<or> ?n = 60 \<or> ?n = 62 \<or> ?n = 38) \<and> ?n \<notin> {8, 9, 10, 12, 13}"
    | (plain) "32 \<le> ?n \<and> ?n \<notin> {34, 92, 60, 62, 38}"
    by fastforce
  then show ?thesis
  proof cases
    case quote
    then have m: "c = dquote \<or> c = bslash" by (metis c dquote_def bslash_def)
    then have "c \<noteq> CHR ''u''" using marks_differ by blast
    moreover have "simple_escape c = Some c"
      unfolding simple_escape_def by (rule if_P) (use m in blast)
    moreover have "json_escape_char c = [bslash, c]" using quote by (simp add: esc)
    ultimately show ?thesis using parse_escape by simp
  next
    case short
    have letter: "parse_chars (json_escape_char c @ t) = prepend [c] (parse_chars t)"
      if "json_escape_char c = [bslash, e]" "simple_escape e = Some c" "e \<noteq> CHR ''u''" for e
      using that parse_escape by simp
    have "c = char_of (8::nat) \<or> c = char_of (9::nat) \<or> c = char_of (10::nat) \<or> c = char_of (12::nat) \<or> c = char_of (13::nat)"
      using short by (metis c empty_iff insert_iff)
    then show ?thesis
    proof (elim disjE)
      assume "c = char_of (8::nat)"
      then show ?thesis by (intro letter [of "CHR ''b''"]) (simp_all add: esc simple_escapes)
    next
      assume "c = char_of (9::nat)"
      then show ?thesis by (intro letter [of "CHR ''t''"]) (simp_all add: esc simple_escapes)
    next
      assume "c = char_of (10::nat)"
      then show ?thesis by (intro letter [of "CHR ''n''"]) (simp_all add: esc simple_escapes)
    next
      assume "c = char_of (12::nat)"
      then show ?thesis by (intro letter [of "CHR ''f''"]) (simp_all add: esc simple_escapes)
    next
      assume "c = char_of (13::nat)"
      then show ?thesis by (intro letter [of "CHR ''r''"]) (simp_all add: esc simple_escapes)
    qed
  next
    case hex
    have "?n div 16 < 16" by (simp add: less_mult_imp_div_less)
    then have h: "hex4 CHR ''0'' CHR ''0'' (hex_digit (?n div 16)) (hex_digit (?n mod 16)) = Some ?n"
      by (simp add: hex4_def hex_val_digit hex_val_zero)
    have "?n \<noteq> 34" "?n \<noteq> 92" "?n \<noteq> 8" "?n \<noteq> 12" "?n \<noteq> 10" "?n \<noteq> 13" "?n \<noteq> 9" "?n < 128"
      using hex by auto
    then have "json_escape_char c = [bslash, CHR ''u'', CHR ''0'', CHR ''0'', hex_digit (?n div 16), hex_digit (?n mod 16)]"
      using hex by (simp add: esc)
    with parse_unicode [OF h \<open>?n < 128\<close>, of t] show ?thesis by (simp del: parse_chars.simps)
  next
    case plain
    then have "c \<noteq> dquote" "c \<noteq> bslash" by auto
    then show ?thesis using plain parse_plain by (auto simp: esc)
  qed
qed

lemma parse_chars_render: "parse_chars (concat (map json_escape_char s) @ dquote # rest) = Some (s, rest)"
  by (induction s) (simp_all add: escape_char_read prepend_def parse_chars.simps(2))

section \<open>Numbers\<close>

definition num_end :: "string \<Rightarrow> bool" where
  "num_end s \<longleftrightarrow> (case s of [] \<Rightarrow> True | c # r \<Rightarrow> \<not> is_digit c \<and> c \<noteq> CHR ''.'' \<and> c \<noteq> CHR ''e'' \<and> c \<noteq> CHR ''E'')"

lemma digit_char: "m < 10 \<Longrightarrow> (of_char (char_of (48 + m) :: char) :: nat) = 48 + m"
  by simp

lemma nat_digits_small: "n < 10 \<Longrightarrow> nat_digits n = [char_of (48 + n)]"
  by (subst nat_digits.simps) simp

lemma nat_digits_large: "\<not> n < 10 \<Longrightarrow> nat_digits n = nat_digits (n div 10) @ [char_of (48 + n mod 10)]"
  by (subst nat_digits.simps) simp

lemma nat_digits_digits: "list_all is_digit (nat_digits n)"
proof (induction n rule: nat_digits.induct)
  case (1 n)
  then show ?case
    by (cases "n < 10") (simp_all add: nat_digits_small nat_digits_large is_digit_def digit_char)
qed

lemma nat_digits_val: "digits_val (nat_digits n) = n"
proof (induction n rule: nat_digits.induct)
  case (1 n)
  have v: "digit_val (char_of (48 + m)) = m" if "m < 10" for m using that by (simp add: digit_val_def digit_char)
  show ?case
  proof (cases "n < 10")
    case True
    then show ?thesis using v [OF True] by (simp add: nat_digits_small digits_val_def)
  next
    case False
    then show ?thesis using 1 v [of "n mod 10"] by (simp add: nat_digits_large digits_val_snoc)
  qed
qed

lemma nat_digits_lead: "hd (nat_digits n) = CHR ''0'' \<Longrightarrow> n = 0"
proof (induction n rule: nat_digits.induct)
  case (1 n)
  show ?case
  proof (cases "n < 10")
    case True
    then have "(of_char (char_of (48 + n) :: char) :: nat) = of_char (CHR ''0'')"
      using "1.prems" by (simp add: nat_digits_small)
    then show ?thesis using digit_char [OF True] by simp
  next
    case False
    then have "hd (nat_digits (n div 10)) = CHR ''0''" using "1.prems" by (simp add: nat_digits_large)
    then show ?thesis using 1 False by (simp add: div_eq_0_iff)
  qed
qed

lemma takeWhile_digits:
  "list_all is_digit ds \<Longrightarrow> num_end rest \<Longrightarrow> takeWhile is_digit (ds @ rest) = ds"
  by (induction ds) (auto simp: num_end_def split: list.splits)

lemma parse_parts_end: "num_end rest \<Longrightarrow> fraction_part rest = Some ([], rest)" "num_end rest \<Longrightarrow> exponent_part rest = Some ([], rest)"
  by (auto simp: num_end_def fraction_part_def exponent_part_def split: list.splits)

lemma parse_itoa:
  assumes "num_end rest"
  shows "parse_number (itoa i @ rest) = Some (JInt i, rest)"
proof -
  define m where "m = nat (abs i)"
  define ds where "ds = nat_digits m"
  have shown: "itoa i = (if i < 0 then CHR ''-'' # ds else ds)"
    by (simp add: itoa_def ds_def m_def)
  have ds: "list_all is_digit ds" "digits_val ds = m" "ds \<noteq> []"
    by (simp_all add: ds_def nat_digits_digits nat_digits_val)
  have minus: "\<not> is_digit CHR ''-''" by (simp add: is_digit_def)
  have neg: "(case itoa i @ rest of c # r \<Rightarrow> c = CHR ''-'' | [] \<Rightarrow> False) = (i < 0)"
    using ds minus by (cases ds) (auto simp: shown)
  have tail: "(if i < 0 then tl (itoa i @ rest) else itoa i @ rest) = ds @ rest" by (simp add: shown)
  have whole: "(if ds \<noteq> [] \<and> hd ds = CHR ''0'' then take 1 ds else ds) = ds"
  proof (cases "hd ds = CHR ''0''")
    case True
    then have "m = 0" using nat_digits_lead by (simp add: ds_def)
    then show ?thesis by (simp add: ds_def nat_digits_small)
  qed simp
  have val: "(if i < 0 then - int (digits_val ds) else int (digits_val ds)) = i"
    by (simp add: ds(2) m_def)
  show ?thesis
    unfolding parse_number_def neg tail takeWhile_digits [OF ds(1) assms] Let_def whole
    using parse_parts_end [OF assms] ds(3) val by simp
qed

section \<open>Values\<close>

fun json_plain :: "json \<Rightarrow> bool" where
  "json_plain (JFloat l) = False"
| "json_plain (JArr xs) = list_all json_plain xs"
| "json_plain (JObj m) = list_all (\<lambda>(k, v). json_plain v) m"
| "json_plain _ = True"

fun canon :: "json \<Rightarrow> json" where
  "canon (JArr xs) = JArr (map canon xs)"
| "canon (JObj m) = JObj (sort_key fst (map (\<lambda>(k, v). (k, canon v)) m))"
| "canon j = j"

lemma insort_key_map: "insort_key f (g x) (map g xs) = map g (insort_key (\<lambda>y. f (g y)) x xs)"
  by (induction xs) auto

lemma sort_key_map: "sort_key f (map g xs) = map g (sort_key (\<lambda>y. f (g y)) xs)"
  by (induction xs) (simp_all add: insort_key_map)

definition member_text :: "string \<times> json \<Rightarrow> string" where
  "member_text m = json_string (fst m) @ '':'' @ json_render (snd m)"

lemma render_object:
  "json_render (JObj m) = ''{'' @ join '','' (map member_text (sort_key fst m)) @ ''}''"
proof -
  have "sort_key fst (map (\<lambda>(k, v). (k, json_string k @ '':'' @ json_render v)) m) =
      map (\<lambda>(k, v). (k, json_string k @ '':'' @ json_render v)) (sort_key fst m)"
    by (subst sort_key_map) (simp add: case_prod_beta')
  then show ?thesis
    by (simp add: member_text_def [abs_def] case_prod_beta' comp_def del: sort_key_simps)
qed

lemma canon_object: "canon (JObj m) = JObj (map (\<lambda>(k, v). (k, canon v)) (sort_key fst m))"
  by (simp add: sort_key_map case_prod_beta')

lemma skip_ws_plain: "\<not> json_space c \<Longrightarrow> skip_ws (c # t) = c # t"
  by (simp add: skip_ws_def)

lemma json_string_read:
  "json_string s @ rest = dquote # concat (map json_escape_char s) @ dquote # rest"
  by (simp add: json_string_def dquote_def)

lemma dquote_not_space [simp]: "\<not> json_space dquote"
  by (simp add: json_space_def)

definition reads :: "json \<Rightarrow> bool" where
  "reads v \<longleftrightarrow> (\<forall>n rest. length (json_render v) < n \<longrightarrow> num_end rest \<longrightarrow>
     parse_value n (json_render v @ rest) = Some (canon v, rest))"

lemma num_end_marks: "num_end ('','' @ r)" "num_end ('']'' @ r)" "num_end (''}'' @ r)" "num_end []"
  by (simp_all add: num_end_def is_digit_def)

lemma comma_text: "xs \<noteq> [] \<Longrightarrow> join '','' (x # xs) = x @ '','' @ join '','' xs"
  by (cases xs) simp_all

lemma marks_not_space: "\<not> json_space CHR '',''" "\<not> json_space CHR '']''" "\<not> json_space CHR ''}''"
    "\<not> json_space CHR '':''" "\<not> json_space CHR ''[''" "\<not> json_space CHR ''{''"
  by (simp_all add: json_space_def)

lemma elems_read:
  assumes "xs \<noteq> []" "list_all reads xs" "length (join '','' (map json_render xs)) + 1 < n"
  shows "parse_elems n (join '','' (map json_render xs) @ '']'' @ rest) = Some (map canon xs, rest)"
  using assms
proof (induction xs arbitrary: n)
  case (Cons x xs)
  obtain n' where n: "n = Suc n'" using Cons.prems(3) by (cases n) auto
  have x: "reads x" using Cons.prems(2) by simp
  show ?case
  proof (cases "xs = []")
    case True
    then have "parse_value n' (json_render x @ '']'' @ rest) = Some (canon x, '']'' @ rest)"
      using x Cons.prems(3) n num_end_marks(2) by (simp add: reads_def)
    then show ?thesis using True by (simp add: n skip_ws_plain marks_not_space)
  next
    case False
    let ?r = "join '','' (map json_render xs) @ '']'' @ rest"
    have eq: "join '','' (map json_render (x # xs)) = json_render x @ '','' @ join '','' (map json_render xs)"
      using False by (simp add: comma_text)
    have "parse_value n' (json_render x @ '','' @ ?r) = Some (canon x, '','' @ ?r)"
      using x Cons.prems(3) [unfolded eq] n num_end_marks(1) by (simp add: reads_def)
    moreover have "parse_elems n' ?r = Some (map canon xs, rest)"
      using Cons.IH [OF False, of n'] Cons.prems(2) Cons.prems(3) [unfolded eq] n by simp
    ultimately show ?thesis unfolding eq by (simp add: n skip_ws_plain marks_not_space)
  qed
qed simp

lemma members_read:
  assumes "ms \<noteq> []" "list_all (\<lambda>(k, v). reads v) ms" "length (join '','' (map member_text ms)) + 1 < n"
  shows "parse_members n (join '','' (map member_text ms) @ ''}'' @ rest) = Some (map (\<lambda>(k, v). (k, canon v)) ms, rest)"
  using assms
proof (induction ms arbitrary: n)
  case (Cons m ms)
  obtain k v where m: "m = (k, v)" by (cases m)
  obtain n' where n: "n = Suc n'" using Cons.prems(3) by (cases n) auto
  have v: "reads v" using Cons.prems(2) m by simp
  have head: "member_text m @ r = dquote # concat (map json_escape_char k) @ dquote # CHR '':'' # json_render v @ r" for r
    by (simp add: member_text_def m json_string_def dquote_def)
  show ?case
  proof (cases "ms = []")
    case True
    then have "parse_value n' (json_render v @ ''}'' @ rest) = Some (canon v, ''}'' @ rest)"
      using v Cons.prems(3) n num_end_marks(3) by (simp add: reads_def m member_text_def)
    then show ?thesis
      using True head [of "''}'' @ rest"] by (simp add: n m skip_ws_plain marks_not_space parse_chars_render)
  next
    case False
    let ?r = "join '','' (map member_text ms) @ ''}'' @ rest"
    have eq: "join '','' (map member_text (m # ms)) = member_text m @ '','' @ join '','' (map member_text ms)"
      using False by (simp add: comma_text)
    have "parse_value n' (json_render v @ '','' @ ?r) = Some (canon v, '','' @ ?r)"
      using v Cons.prems(3) [unfolded eq] n num_end_marks(1) by (simp add: reads_def m member_text_def)
    moreover have "parse_members n' ?r = Some (map (\<lambda>(k, v). (k, canon v)) ms, rest)"
      using Cons.IH [OF False, of n'] Cons.prems(2) Cons.prems(3) [unfolded eq] n by simp
    ultimately show ?thesis
      using head [of "'','' @ ?r"] unfolding eq by (simp add: n m skip_ws_plain marks_not_space parse_chars_render)
  qed
qed simp

lemma itoa_start: "\<exists>c t. itoa i = c # t \<and> (is_digit c \<or> c = CHR ''-'')"
proof -
  obtain c t where "nat_digits (nat i) = c # t" "is_digit c"
    using nat_digits_digits [of "nat i"] by (cases "nat_digits (nat i)") auto
  then show ?thesis by (auto simp: itoa_def)
qed

lemma render_start:
  "json_plain v \<Longrightarrow> \<exists>c t. json_render v = c # t \<and> \<not> json_space c \<and> c \<noteq> CHR '']'' \<and> c \<noteq> CHR ''}''"
proof (cases v)
  case (JInt i)
  have "\<exists>c t. itoa i = c # t \<and> (is_digit c \<or> c = CHR ''-'')" by (rule itoa_start)
  then show ?thesis using JInt by (auto simp: json_space_def is_digit_def)
next
  case (JStr s)
  then show ?thesis by (auto simp: json_string_def dquote_def [symmetric])
qed (auto simp: json_space_def render_object simp del: json_render.simps(7))

lemma value_read: "json_plain v \<Longrightarrow> reads v"
proof (induction v)
  case (JInt i)
  show ?case
    unfolding reads_def
  proof (intro allI impI)
    fix n rest assume "length (json_render (JInt i)) < n" and e: "num_end rest"
    then obtain n' where n: "n = Suc n'" by (cases n) auto
    obtain c t where ct: "itoa i = c # t" "is_digit c \<or> c = CHR ''-''"
      using itoa_start by blast
    have no: "\<not> json_space c" "c \<noteq> dquote" "c \<noteq> CHR ''[''" "c \<noteq> CHR ''{''" "c \<noteq> CHR ''n''" "c \<noteq> CHR ''t''" "c \<noteq> CHR ''f''"
      using ct(2) by (auto simp: json_space_def is_digit_def)
    have "parse_value n (json_render (JInt i) @ rest) = parse_literal (itoa i @ rest)"
      using no ct(1) by (simp add: n skip_ws_plain)
    also have "\<dots> = parse_number (itoa i @ rest)"
      using no ct(1) by (simp add: parse_literal_def has_prefix_def)
    also have "\<dots> = Some (JInt i, rest)" by (rule parse_itoa [OF e])
    finally show "parse_value n (json_render (JInt i) @ rest) = Some (canon (JInt i), rest)" by simp
  qed
next
  case (JStr s)
  then show ?case
    by (auto simp: reads_def less_iff_Suc_add json_string_read skip_ws_plain parse_chars_render)
next
  case (JArr xs)
  show ?case
    unfolding reads_def
  proof (intro allI impI)
    fix n rest assume l: "length (json_render (JArr xs)) < n"
    then obtain n' where n: "n = Suc n'" by (cases n) auto
    show "parse_value n (json_render (JArr xs) @ rest) = Some (canon (JArr xs), rest)"
    proof (cases xs)
      case Nil
      then show ?thesis by (simp add: n skip_ws_plain marks_not_space)
    next
      case (Cons x ys)
      have all: "list_all reads xs" using JArr by (auto simp: list_all_iff)
      obtain c t where x: "json_render x = c # t" "\<not> json_space c" "c \<noteq> CHR '']''"
        using render_start [of x] JArr.prems Cons by auto
      have "\<exists>u. join '','' (map json_render xs) @ '']'' @ rest = c # u"
        using x(1) Cons by (cases ys) auto
      then obtain u where u: "join '','' (map json_render xs) @ '']'' @ rest = c # u" by blast
      have "parse_elems n' (c # u) = Some (map canon xs, rest)"
        using elems_read [OF _ all, of n' rest] l Cons n unfolding u by simp
      then show ?thesis using u x by (simp add: n skip_ws_plain marks_not_space)
    qed
  qed
next
  case (JObj ms)
  show ?case
    unfolding reads_def
  proof (intro allI impI)
    fix n rest assume l: "length (json_render (JObj ms)) < n"
    then obtain n' where n: "n = Suc n'" by (cases n) auto
    let ?ms = "sort_key fst ms"
    have render: "json_render (JObj ms) @ rest = CHR ''{'' # join '','' (map member_text ?ms) @ ''}'' @ rest"
      unfolding render_object by simp
    show "parse_value n (json_render (JObj ms) @ rest) = Some (canon (JObj ms), rest)"
    proof (cases ?ms)
      case Nil
      then show ?thesis unfolding render canon_object by (simp add: n skip_ws_plain marks_not_space)
    next
      case (Cons m mm)
      have all: "list_all (\<lambda>(k, v). reads v) ?ms" using JObj by (auto simp: list_all_iff)
      have "\<exists>u. join '','' (map member_text ?ms) @ ''}'' @ rest = dquote # u"
        unfolding Cons by (cases mm) (auto simp: member_text_def json_string_def dquote_def)
      then obtain u where u: "join '','' (map member_text ?ms) @ ''}'' @ rest = dquote # u" by blast
      have "parse_members n' (dquote # u) = Some (map (\<lambda>(k, v). (k, canon v)) ?ms, rest)"
        using members_read [OF _ all, of n' rest] l [unfolded render_object] Cons n unfolding u by simp
      then show ?thesis unfolding render u canon_object by (simp add: n skip_ws_plain marks_not_space)
    qed
  qed
qed (auto simp: reads_def less_iff_Suc_add skip_ws_plain json_space_def parse_literal_def has_prefix_def)

text \<open>
  What the program prints for a value whose numbers are integers, the reader turns back into that
  value, with the keys of every object in byte order; the fuel of the reader is always enough.
\<close>

theorem json_parse_render:
  assumes "json_plain v"
  shows "json_parse (json_render v) = Some (canon v)"
proof -
  have "parse_value (Suc (length (json_render v))) (json_render v @ []) = Some (canon v, [])"
    using value_read [OF assms] num_end_marks(4) unfolding reads_def by blast
  then show ?thesis by (simp add: json_parse_def skip_ws_def)
qed

section \<open>Structs\<close>

text \<open>A struct prints its members in the order of its fields.\<close>

definition render_struct :: "(string \<times> json) list \<Rightarrow> string" where
  "render_struct ms = ''{'' @ join '','' (map member_text ms) @ ''}''"

lemma json_parse_struct:
  assumes "list_all (\<lambda>(k, v). json_plain v) ms"
  shows "json_parse (render_struct ms) = Some (JObj (map (\<lambda>(k, v). (k, canon v)) ms))"
proof (cases ms)
  case Nil
  have "json_parse ''{}'' = Some (JObj [])" by code_simp
  then show ?thesis by (simp add: Nil render_struct_def)
next
  case (Cons m mm)
  let ?n = "length (render_struct ms)"
  have all: "list_all (\<lambda>(k, v). reads v) ms" using assms by (auto simp: list_all_iff value_read)
  have "\<exists>u. join '','' (map member_text ms) @ ''}'' = dquote # u"
    unfolding Cons by (cases mm) (auto simp: member_text_def json_string_def dquote_def)
  then obtain u where u: "join '','' (map member_text ms) @ ''}'' = dquote # u" by blast
  have "parse_members ?n (dquote # u) = Some (map (\<lambda>(k, v). (k, canon v)) ms, [])"
    using members_read [OF _ all, of ?n "[]"] Cons unfolding append_Nil2 u by (simp add: render_struct_def)
  then have "parse_value (Suc ?n) (CHR ''{'' # dquote # u) = Some (JObj (map (\<lambda>(k, v). (k, canon v)) ms), [])"
    by (simp add: skip_ws_plain marks_not_space)
  then show ?thesis
    using u by (simp add: json_parse_def skip_ws_def render_struct_def)
qed

lemma object_members_struct:
  "list_all (\<lambda>(k, v). json_plain v) ms \<Longrightarrow> object_members (render_struct ms) = Some (map (\<lambda>(k, v). (k, canon v)) ms)"
  by (simp add: object_members_def json_parse_struct)

end
