(* ===== verification/WorkerPolicy.thy ===== *)
theory WorkerPolicy
  imports TaskStore JsonParse GoPath
begin

text \<open>
  internal/workertask/policy.go: the worker roles, which task statuses block a new dispatch, and the
  pause after a failed task.  A Go \<open>error\<close> is the list of the messages it joins: \<open>[]\<close> is nil, and
  \<open>errors.Join\<close> is append.
\<close>

type_synonym err_list = "string list"

fun store_error_text :: "store_error \<Rightarrow> string" where
  "store_error_text (StoreError m) = m"
| "store_error_text (LeaseHeld m) = m @ '': lease is already held''"
| "store_error_text (UnsupportedSchema m) = ''unsupported sqlite orchestration schema: '' @ m"
| "store_error_text (NoRows m) = m @ '': sql: no rows in result set''"

definition err_of :: "'a result \<Rightarrow> err_list" where
  "err_of r = (case r of Inl e \<Rightarrow> [store_error_text e] | Inr x \<Rightarrow> [])"

definition RoleStatus :: string where "RoleStatus = ''status''"
definition RolePlan :: string where "RolePlan = ''plan''"
definition RoleScheduler :: string where "RoleScheduler = ''scheduler''"
definition RoleCleanup :: string where "RoleCleanup = ''cleanup''"
definition RoleMerge :: string where "RoleMerge = ''merge''"
definition RoleReconciliation :: string where "RoleReconciliation = ''reconciliation''"
definition RoleReview :: string where "RoleReview = ''review''"
definition RoleImplementation :: string where "RoleImplementation = ''implementation''"
definition RoleHandoff :: string where "RoleHandoff = ''handoff''"
definition RoleLinearStatus :: string where "RoleLinearStatus = ''linear-status''"
definition RoleWork :: string where "RoleWork = ''work''"

lemmas role_defs = RoleStatus_def RolePlan_def RoleScheduler_def RoleCleanup_def RoleMerge_def RoleReconciliation_def
  RoleReview_def RoleImplementation_def RoleHandoff_def RoleLinearStatus_def RoleWork_def

definition NormalizeRole :: "string \<Rightarrow> string" where
  "NormalizeRole role = trim_space role"

definition SupportedSelectedRoles :: "string list" where
  "SupportedSelectedRoles = [RoleStatus, RolePlan, RoleCleanup, RoleMerge, RoleReconciliation, RoleReview,
     RoleImplementation, RoleHandoff, RoleLinearStatus, RoleWork]"

definition SupportedSelectedRole :: "string \<Rightarrow> bool" where
  "SupportedSelectedRole role \<longleftrightarrow> list_ex (\<lambda>supported. NormalizeRole role = supported) SupportedSelectedRoles"

definition RequireSupportedSelectedRole :: "string \<Rightarrow> err_list" where
  "RequireSupportedSelectedRole role =
     (if SupportedSelectedRole (NormalizeRole role) then []
      else [''unsupported worker role '' @ quote (NormalizeRole role) @ ''; supported roles: ''
            @ join '', '' SupportedSelectedRoles])"

definition SelectedRoleNeedsWorkspaceRoot :: "string \<Rightarrow> bool" where
  "SelectedRoleNeedsWorkspaceRoot role \<longleftrightarrow>
     NormalizeRole role \<in> {RoleCleanup, RoleMerge, RoleReconciliation, RoleReview, RoleImplementation, RoleHandoff, RoleWork}"

definition BlocksDispatch :: "string \<Rightarrow> bool" where
  "BlocksDispatch status \<longleftrightarrow>
     status \<in> {WorkerTaskStatusQueued, WorkerTaskStatusClaimed, WorkerTaskStatusReconciliationNeeded}"

definition minute :: duration where "minute = 60 * second"

definition RetryBackoff :: "string \<Rightarrow> duration" where
  "RetryBackoff role =
     (if role \<in> {RoleImplementation, RoleWork} then 5 * minute
      else if role \<in> {RoleReview, RoleHandoff, RoleMerge} then 2 * minute
      else minute)"

text \<open>The loop over the results: the newest one of the task decides.\<close>

fun after_latest_failure :: "string \<Rightarrow> string \<Rightarrow> time \<Rightarrow> WorkerResult list \<Rightarrow> time" where
  "after_latest_failure taskKey role now [] = now"
| "after_latest_failure taskKey role now (r # rs) =
     (if re_TaskKey r \<noteq> taskKey then after_latest_failure taskKey role now rs
      else if re_Status r \<noteq> WorkerTaskStatusFailed then now
      else let finishedAt = (if is_zero (re_FinishedAt r) then re_UpdatedAt r else re_FinishedAt r);
               availableAt = finishedAt + RetryBackoff role
           in if now < availableAt then availableAt else now)"

definition AvailableAtAfterLatestFailure :: "db option \<Rightarrow> string \<Rightarrow> string \<Rightarrow> time \<Rightarrow> time result" where
  "AvailableAtAfterLatestFailure store taskKey role now =
     (case store of
        None \<Rightarrow> Inr now
      | Some db \<Rightarrow>
          if taskKey = [] \<or> role = [] then Inr now
          else (case WorkerResults role db of
                  Inl e \<Rightarrow> Inl e
                | Inr results \<Rightarrow> Inr (after_latest_failure taskKey role now results)))"

definition RequeueReconciliationNeeded :: "store_env \<Rightarrow> db option \<Rightarrow> string \<Rightarrow> time \<Rightarrow> WorkerTask result \<times> db option" where
  "RequeueReconciliationNeeded env store taskKey0 now =
     (let taskKey = trim_space taskKey0 in
      if taskKey = [] then (Inl (StoreError ''repair worker task: task key is required''), store)
      else (case store of
              None \<Rightarrow> (Inl (StoreError ''repair worker task: state store is required''), None)
            | Some db \<Rightarrow>
                (case RequeueReconciliationNeededWorkerTask env taskKey ''operator_requeued_reconciliation_task'' now db of
                   (r, db') \<Rightarrow> (r, Some db'))))"

text \<open>\<open>state.DefaultDBPath\<close>: where the store of a workspace root lives.\<close>

definition DefaultDBPath :: "string \<Rightarrow> string" where
  "DefaultDBPath workspaceRoot =
     (if workspaceRoot = [] then []
      else let c = clean workspaceRoot in
        if base c = ''workspaces'' \<and> base (dir c) = ''.am''
        then join2 (dir c) ''state/am.db'' else join2 c ''state/am.db'')"

section \<open>Lemmas\<close>

lemma supported_role_normalized: "SupportedSelectedRole (NormalizeRole role) = SupportedSelectedRole role"
  by (simp add: SupportedSelectedRole_def NormalizeRole_def)

lemma RetryBackoff_bounds: "minute \<le> RetryBackoff role" "RetryBackoff role \<le> 5 * minute"
  by (simp_all add: RetryBackoff_def minute_def second_def)

text \<open>A queued task never starts before the pause after its last failure, and never waits longer than that.\<close>

lemma after_latest_failure_bounds: "now \<le> after_latest_failure taskKey role now rs"
  by (induction rs) (auto simp: Let_def)

text \<open>
  The statuses that block a dispatch are those of the status machine's open tasks.
\<close>

lemma blocks_dispatch_iff: "BlocksDispatch s \<longleftrightarrow> \<not> final_status s"
  by (auto simp: BlocksDispatch_def final_status_def task_status_defs)

end
