(* ===== verification/LinearStatus.thy ===== *)
theory LinearStatus
  imports WorkerPolicy Domain
begin

text \<open>
  internal/linearstatus: moving an issue of the tracker to another state, directly (\<open>Worker\<close>) and as
  a durable task (\<open>QueueTransitionTask\<close>, \<open>RunTransitionTask\<close>).  The tracker's API is a parameter: each
  call takes the state of the outside world to its answer and the next state.  \<open>ctx_err\<close> reads the
  context's error off the world, so a cancellation can arrive with any call.
\<close>

record 'w linear_client =
  lc_update_state :: "string \<Rightarrow> string \<Rightarrow> 'w \<Rightarrow> err_list \<times> 'w"
  lc_comment :: "string \<Rightarrow> string \<Rightarrow> 'w \<Rightarrow> err_list \<times> 'w"
  lc_states :: "string \<Rightarrow> 'w \<Rightarrow> (string + WorkflowState list) \<times> 'w"
  lc_ctx_err :: "'w \<Rightarrow> err_list"

fun StateID :: "WorkflowState list \<Rightarrow> string \<Rightarrow> string" where
  "StateID [] name = []"
| "StateID (s # ss) name = (if ws_Name s = name then ws_ID s else StateID ss name)"

section \<open>The worker\<close>

text \<open>The result is whether the issue moved, the error, and the candidate with its new state.\<close>

definition MoveToContext ::
    "'w linear_client \<Rightarrow> Issue option \<Rightarrow> WorkflowState list \<Rightarrow> string \<Rightarrow> 'w \<Rightarrow> (bool \<times> err_list) \<times> Issue option \<times> 'w" where
  "MoveToContext client candidate states stateName0 w =
     (if lc_ctx_err client w \<noteq> [] then ((False, lc_ctx_err client w), candidate, w)
      else let stateName = trim_space stateName0 in
        (case candidate of
           None \<Rightarrow> ((False, []), candidate, w)
         | Some issue \<Rightarrow>
             if stateName = [] then ((False, []), candidate, w)
             else let id = StateID states stateName in
               if id = [] then ((False, []), candidate, w)
               else (case lc_update_state client (is_ID issue) id w of
                       (err, w') \<Rightarrow>
                         if err \<noteq> [] then ((False, err), candidate, w')
                         else ((True, []), Some (issue\<lparr>is_StateName := stateName\<rparr>), w'))))"

definition CommentContext :: "'w linear_client \<Rightarrow> Issue option \<Rightarrow> string \<Rightarrow> 'w \<Rightarrow> err_list \<times> 'w" where
  "CommentContext client candidate body w =
     (if lc_ctx_err client w \<noteq> [] then (lc_ctx_err client w, w)
      else (case candidate of
              None \<Rightarrow> ([], w)
            | Some issue \<Rightarrow> if trim_space body = [] then ([], w) else lc_comment client (is_ID issue) body w))"

section \<open>Transition tasks\<close>

record TransitionPayload =
  tp_Kind :: string
  tp_IssueID :: string
  tp_IssueIdentifier :: string
  tp_IssueTitle :: string
  tp_IssueURL :: string
  tp_TeamID :: string
  tp_TargetState :: string

definition TaskKindTransition :: string where "TaskKindTransition = ''transition''"

definition trim_payload :: "TransitionPayload \<Rightarrow> TransitionPayload" where
  "trim_payload p =
     \<lparr>tp_Kind = (if trim_space (tp_Kind p) = [] then TaskKindTransition else trim_space (tp_Kind p)),
      tp_IssueID = trim_space (tp_IssueID p), tp_IssueIdentifier = trim_space (tp_IssueIdentifier p),
      tp_IssueTitle = trim_space (tp_IssueTitle p), tp_IssueURL = trim_space (tp_IssueURL p),
      tp_TeamID = trim_space (tp_TeamID p), tp_TargetState = trim_space (tp_TargetState p)\<rparr>"

definition NormalizeTransitionPayload :: "TransitionPayload \<Rightarrow> string + TransitionPayload" where
  "NormalizeTransitionPayload payload =
     (let p = trim_payload payload in
      if tp_Kind p \<noteq> TaskKindTransition then Inl (''unsupported linear status task kind '' @ quote (tp_Kind p))
      else if tp_IssueID p = [] then Inl ''linear status transition issue_id is required''
      else if tp_IssueIdentifier p = [] then Inl ''linear status transition issue_identifier is required''
      else if tp_TeamID p = [] then Inl ''linear status transition team_id is required''
      else if tp_TargetState p = [] then Inl ''linear status transition target_state is required''
      else Inr p)"

definition taskKeyToken :: "string \<Rightarrow> string" where
  "taskKeyToken value =
     (let flds = Fields (to_lower (trim_space value)) in if flds = [] then ''unknown'' else join ''-'' flds)"

definition TransitionTaskKey :: "TransitionPayload \<Rightarrow> string" where
  "TransitionTaskKey p = ''linear-status:'' @ tp_IssueIdentifier p @ '':transition:'' @ taskKeyToken (tp_TargetState p)"

text \<open>\<open>json.Marshal\<close> by the struct's tags; \<open>omitempty\<close> leaves out an empty title or URL.\<close>

definition payload_members :: "TransitionPayload \<Rightarrow> (string \<times> json) list" where
  "payload_members p =
     [(''kind'', JStr (tp_Kind p)), (''issue_id'', JStr (tp_IssueID p)), (''issue_identifier'', JStr (tp_IssueIdentifier p))]
     @ (if tp_IssueTitle p = [] then [] else [(''issue_title'', JStr (tp_IssueTitle p))])
     @ (if tp_IssueURL p = [] then [] else [(''issue_url'', JStr (tp_IssueURL p))])
     @ [(''team_id'', JStr (tp_TeamID p)), (''target_state'', JStr (tp_TargetState p))]"

definition encode_payload :: "TransitionPayload \<Rightarrow> string" where
  "encode_payload p = render_struct (payload_members p)"

definition payload_of_members :: "(string \<times> json) list \<Rightarrow> TransitionPayload option" where
  "payload_of_members ms =
     (case (string_field ''kind'' ms, string_field ''issue_id'' ms, string_field ''issue_identifier'' ms,
            string_field ''issue_title'' ms, string_field ''issue_url'' ms, string_field ''team_id'' ms,
            string_field ''target_state'' ms) of
        (Some k, Some i, Some ident, Some t, Some u, Some team, Some st) \<Rightarrow>
          Some \<lparr>tp_Kind = k, tp_IssueID = i, tp_IssueIdentifier = ident, tp_IssueTitle = t, tp_IssueURL = u,
                tp_TeamID = team, tp_TargetState = st\<rparr>
      | _ \<Rightarrow> None)"

definition DecodeTransitionPayload :: "string \<Rightarrow> string + TransitionPayload" where
  "DecodeTransitionPayload data =
     (case object_members data of
        None \<Rightarrow> Inl ''json: cannot unmarshal transition payload''
      | Some ms \<Rightarrow>
          (case payload_of_members ms of
             None \<Rightarrow> Inl ''json: cannot unmarshal transition payload''
           | Some p \<Rightarrow> NormalizeTransitionPayload p))"

definition transition_task :: "TransitionPayload \<Rightarrow> int \<Rightarrow> time \<Rightarrow> WorkerTask" where
  "transition_task p priority availableAt =
     \<lparr>wt_TaskKey = TransitionTaskKey p, wt_Role = RoleLinearStatus, wt_IssueKey = tp_IssueIdentifier p,
      wt_IssueID = tp_IssueID p, wt_Attempt = 0, wt_Status = ''queued'', wt_Priority = priority,
      wt_AvailableAt = availableAt, wt_LeaseName = ''linear-status:'' @ tp_IssueIdentifier p,
      wt_Payload = encode_payload p, wt_CreatedAt = 0, wt_UpdatedAt = 0\<rparr>"

definition QueueTransitionTask ::
    "store_env \<Rightarrow> db option \<Rightarrow> TransitionPayload \<Rightarrow> int \<Rightarrow> time \<Rightarrow> err_list \<times> db option" where
  "QueueTransitionTask env store payload priority availableAt0 =
     (case store of
        None \<Rightarrow> ([''SQLite state store unavailable for Linear status task''], None)
      | Some db \<Rightarrow>
          (case NormalizeTransitionPayload payload of
             Inl e \<Rightarrow> ([e], Some db)
           | Inr p \<Rightarrow>
               (case AvailableAtAfterLatestFailure (Some db) (TransitionTaskKey p) RoleLinearStatus availableAt0 of
                  Inl e \<Rightarrow> ([store_error_text e], Some db)
                | Inr availableAt \<Rightarrow>
                    (case UpsertWorkerTask env (transition_task p priority availableAt) db of
                       (r, db') \<Rightarrow> (err_of r, Some db')))))"

section \<open>Running a transition task\<close>

text \<open>The task is completed under a context that cannot be cancelled; both errors are joined.\<close>

definition CompleteTransitionTask ::
    "store_env \<Rightarrow> string \<Rightarrow> string \<Rightarrow> err_list \<Rightarrow> db \<Rightarrow> err_list \<times> db" where
  "CompleteTransitionTask env taskKey status primaryErr db =
     (case CompleteWorkerTask env taskKey status (env_clock env) db of
        (r, db') \<Rightarrow> (primaryErr @ err_of r, db'))"

definition transition_candidate :: "TransitionPayload \<Rightarrow> Issue" where
  "transition_candidate p =
     \<lparr>is_ID = tp_IssueID p, is_Identifier = tp_IssueIdentifier p, is_Title = tp_IssueTitle p, is_URL = tp_IssueURL p,
      is_Description = [], is_Priority = 0, is_CreatedAt = [], is_TeamID = tp_TeamID p, is_TeamKey = [],
      is_TeamName = [], is_StateName = [], is_Labels = []\<rparr>"

definition ExecuteTransitionTask ::
    "store_env \<Rightarrow> 'w linear_client \<Rightarrow> WorkerTask \<Rightarrow> db \<Rightarrow> 'w \<Rightarrow> (bool \<times> err_list) \<times> db \<times> 'w" where
  "ExecuteTransitionTask env client task db w =
     (case DecodeTransitionPayload (wt_Payload task) of
        Inl err \<Rightarrow> (case CompleteTransitionTask env (wt_TaskKey task) ''failed'' [err] db of (e, db') \<Rightarrow> ((True, e), db', w))
      | Inr payload \<Rightarrow>
          if lc_ctx_err client w \<noteq> [] then
            (case CompleteTransitionTask env (wt_TaskKey task) ''failed'' (lc_ctx_err client w) db of
               (e, db') \<Rightarrow> ((True, e), db', w))
          else (case lc_states client (tp_TeamID payload) w of
                  (Inl err, w1) \<Rightarrow>
                    (case CompleteTransitionTask env (wt_TaskKey task) ''failed'' [err] db of (e, db') \<Rightarrow> ((True, e), db', w1))
                | (Inr states, w1) \<Rightarrow>
                    (case MoveToContext client (Some (transition_candidate payload)) states (tp_TargetState payload) w1 of
                       ((moved, err), _, w2) \<Rightarrow>
                         if err \<noteq> [] then
                           (case CompleteTransitionTask env (wt_TaskKey task) ''failed'' err db of
                              (e, db') \<Rightarrow> ((True, e), db', w2))
                         else if \<not> moved then
                           (case CompleteTransitionTask env (wt_TaskKey task) ''failed''
                                   [''linear status transition for '' @ tp_IssueIdentifier payload @ '' to ''
                                    @ quote (tp_TargetState payload) @ '' was not available''] db of
                              (e, db') \<Rightarrow> ((True, e), db', w2))
                         else (case CompleteTransitionTask env (wt_TaskKey task) ''completed'' [] db of
                                 (e, db') \<Rightarrow> ((True, e), db', w2)))))"

text \<open>The loop over the listed tasks: the first queued one that is no process task and can be claimed.\<close>

fun claim_first :: "store_env \<Rightarrow> time \<Rightarrow> WorkerTask list \<Rightarrow> db \<Rightarrow> WorkerTask option result \<times> db" where
  "claim_first env now [] db = (Inr None, db)"
| "claim_first env now (task # ts) db =
     (if wt_Status task \<noteq> ''queued'' \<or> has_prefix (wt_TaskKey task) ''process:'' then claim_first env now ts db
      else (case ClaimWorkerTask env (wt_TaskKey task) now db of
              (Inl e, db') \<Rightarrow> (Inl e, db')
            | (Inr (Some claimed), db') \<Rightarrow> (Inr (Some claimed), db')
            | (Inr None, db') \<Rightarrow> claim_first env now ts db'))"

definition ClaimNextTransitionTask :: "store_env \<Rightarrow> db \<Rightarrow> WorkerTask option result \<times> db" where
  "ClaimNextTransitionTask env db =
     (case WorkerTasks RoleLinearStatus db of
        Inl e \<Rightarrow> (Inl e, db)
      | Inr tasks \<Rightarrow> claim_first env (env_clock env) tasks db)"

definition RunTransitionTaskContext ::
    "store_env \<Rightarrow> 'w linear_client \<Rightarrow> string \<Rightarrow> db option \<Rightarrow> 'w \<Rightarrow> (bool \<times> err_list) \<times> db option \<times> 'w" where
  "RunTransitionTaskContext env client workspaceRoot store w =
     (if lc_ctx_err client w \<noteq> [] then ((False, lc_ctx_err client w), store, w)
      else (case store of
              None \<Rightarrow> ((False, [''SQLite state store unavailable for Linear status worker at '' @ DefaultDBPath workspaceRoot]), None, w)
            | Some db \<Rightarrow>
                (case ClaimNextTransitionTask env db of
                   (Inl e, db') \<Rightarrow> ((False, [store_error_text e]), Some db', w)
                 | (Inr None, db') \<Rightarrow> ((False, []), Some db', w)
                 | (Inr (Some claimed), db') \<Rightarrow>
                     (case ExecuteTransitionTask env client claimed db' w of
                        (r, db'', w') \<Rightarrow> (r, Some db'', w')))))"

section \<open>The payload\<close>

lemma trim_payload_idem: "trim_payload (trim_payload p) = trim_payload p"
  by (simp add: trim_payload_def TaskKindTransition_def trim_space_no_space is_space_def)

lemma normalize_payload_idem: "NormalizeTransitionPayload p = Inr n \<Longrightarrow> NormalizeTransitionPayload n = Inr n"
  by (auto simp: NormalizeTransitionPayload_def Let_def trim_payload_idem split: if_splits)

lemma map_snd_canon_str: "(k, canon (JStr s)) = (k, JStr s)"
  by simp

lemma payload_members_plain: "list_all (\<lambda>(k, v). json_plain v) (payload_members p)"
  by (simp add: payload_members_def)

lemma payload_members_canon: "map (\<lambda>(k, v). (k, canon v)) (payload_members p) = payload_members p"
  by (simp add: payload_members_def)

text \<open>The names of the payload differ even when case is ignored.\<close>

lemma payload_keys_fold:
  "list_all (\<lambda>a. list_all (\<lambda>b. equal_fold a b = (a = b))
      [''kind'', ''issue_id'', ''issue_identifier'', ''issue_title'', ''issue_url'', ''team_id'', ''target_state''])
   [''kind'', ''issue_id'', ''issue_identifier'', ''issue_title'', ''issue_url'', ''team_id'', ''target_state'']"
  by code_simp

lemma payload_read_back: "payload_of_members (payload_members p) = Some p"
  using payload_keys_fold
  by (simp add: payload_of_members_def payload_members_def string_field_def field_of_def field_values_def read_string_def)

text \<open>
  C16: a queued transition is the transition that runs.  The payload of a transition task is
  normalised once; written as JSON into the task and decoded by the worker it is the same, and a
  payload the queue accepts the worker accepts.
\<close>

theorem transition_payload_roundtrip:
  assumes "NormalizeTransitionPayload p = Inr n"
  shows "DecodeTransitionPayload (encode_payload n) = Inr n"
  using normalize_payload_idem [OF assms]
  by (simp add: DecodeTransitionPayload_def encode_payload_def object_members_struct [OF payload_members_plain]
      payload_members_canon payload_read_back)

definition sample_payload :: TransitionPayload where
  "sample_payload = \<lparr>tp_Kind = [], tp_IssueID = ''id-1'', tp_IssueIdentifier = ''CAG-1 '', tp_IssueTitle = [],
     tp_IssueURL = ''https://linear/CAG-1'', tp_TeamID = ''team'', tp_TargetState = ''Human Review''\<rparr>"

lemma sample_payload_ok: "NormalizeTransitionPayload sample_payload = Inr (trim_payload sample_payload)"
  by code_simp

theorem transition_payload_roundtrip_witness:
  "DecodeTransitionPayload (encode_payload (trim_payload sample_payload)) = Inr (trim_payload sample_payload)"
  by (rule transition_payload_roundtrip [OF sample_payload_ok])

section \<open>Executing a transition\<close>

lemma complete_claimed:
  assumes "tasks_ok db" "lookup tr_task_key key (db_tasks db) = Some r" "tr_status r = ''claimed''" "key \<noteq> []" "status \<noteq> []"
  shows "\<exists>db'. CompleteTransitionTask env key status err db = (err, db')
     \<and> (\<exists>r'. lookup tr_task_key key (db_tasks db') = Some r' \<and> tr_status r' = status)"
proof -
  let ?sel = "\<lambda>r. tr_task_key r = key \<and> tr_status r = WorkerTaskStatusClaimed"
  have distinct: "distinct (map tr_task_key (db_tasks db))" using assms(1) by (simp add: tasks_ok_def)
  have "rows_affected ?sel (db_tasks db) = 1"
    using rows_affected_key [OF distinct, of key "\<lambda>r. tr_status r = WorkerTaskStatusClaimed"] assms(2,3)
    by (simp add: WorkerTaskStatusClaimed_def)
  moreover have "lookup tr_task_key key (sql_update ?sel (set_status status (now_or_clock env (env_clock env))) (db_tasks db)) =
      Some (set_status status (now_or_clock env (env_clock env)) r)"
    using lookup_sql_update [OF _ distinct, of "set_status status (now_or_clock env (env_clock env))" key ?sel]
      assms(2,3) lookup_Some [OF assms(2)] by (simp add: set_status_def WorkerTaskStatusClaimed_def)
  ultimately show ?thesis
    using assms(4,5) by (simp add: CompleteTransitionTask_def CompleteWorkerTask_def Let_def err_of_def set_status_def)
qed

lemma decoded_target_trimmed: "DecodeTransitionPayload d = Inr p \<Longrightarrow> trim_space (tp_TargetState p) = tp_TargetState p \<and> tp_TargetState p \<noteq> []"
  by (auto simp: DecodeTransitionPayload_def NormalizeTransitionPayload_def trim_payload_def Let_def split: option.splits if_splits)

text \<open>The issue the payload names was moved, in the tracker, to the state with the target's name.\<close>

definition transition_made :: "'w linear_client \<Rightarrow> TransitionPayload \<Rightarrow> 'w \<Rightarrow> 'w \<Rightarrow> bool" where
  "transition_made client p w w' \<longleftrightarrow>
     (case lc_states client (tp_TeamID p) w of
        (Inl e, w1) \<Rightarrow> False
      | (Inr states, w1) \<Rightarrow>
          StateID states (tp_TargetState p) \<noteq> []
          \<and> lc_update_state client (tp_IssueID p) (StateID states (tp_TargetState p)) w1 = ([], w'))"

definition outcome_recorded :: "string \<Rightarrow> (bool \<times> err_list) \<times> db \<times> 'w \<Rightarrow> bool" where
  "outcome_recorded key res \<longleftrightarrow>
     (case res of ((did, e), db', w') \<Rightarrow>
        did \<and> (case lookup tr_task_key key (db_tasks db') of
                 None \<Rightarrow> False | Some r \<Rightarrow> tr_status r = (if e = [] then ''completed'' else ''failed'')))"

lemma complete_recorded:
  assumes "tasks_ok db" "lookup tr_task_key key (db_tasks db) = Some r" "tr_status r = ''claimed''" "key \<noteq> []"
    and "status = (if err = [] then ''completed'' else ''failed'')"
  shows "outcome_recorded key (case CompleteTransitionTask env key status err db of (e, db') \<Rightarrow> ((True, e), db', w))
     \<and> fst (CompleteTransitionTask env key status err db) = err"
  using complete_claimed [OF assms(1-4), of status env err] assms(5)
  by (auto simp: outcome_recorded_def)

definition transition_attempt :: "'w linear_client \<Rightarrow> string \<Rightarrow> 'w \<Rightarrow> err_list \<times> 'w" where
  "transition_attempt client data w =
     (case DecodeTransitionPayload data of
        Inl err \<Rightarrow> ([err], w)
      | Inr p \<Rightarrow>
          if lc_ctx_err client w \<noteq> [] then (lc_ctx_err client w, w)
          else (case lc_states client (tp_TeamID p) w of
                  (Inl err, w1) \<Rightarrow> ([err], w1)
                | (Inr states, w1) \<Rightarrow>
                    (case MoveToContext client (Some (transition_candidate p)) states (tp_TargetState p) w1 of
                       ((moved, err), _, w2) \<Rightarrow>
                         (if err \<noteq> [] then err else if moved then [] else
                            [''linear status transition for '' @ tp_IssueIdentifier p @ '' to ''
                             @ quote (tp_TargetState p) @ '' was not available''], w2))))"

lemma execute_attempt:
  "ExecuteTransitionTask env client task db w =
     (case transition_attempt client (wt_Payload task) w of
        (err, w') \<Rightarrow>
          (case CompleteTransitionTask env (wt_TaskKey task) (if err = [] then ''completed'' else ''failed'') err db of
             (e, db') \<Rightarrow> ((True, e), db', w')))"
  unfolding ExecuteTransitionTask_def transition_attempt_def
  by (simp split: sum.split prod.split)

lemma attempt_made:
  assumes "transition_attempt client data w = ([], w')"
  shows "\<exists>p. DecodeTransitionPayload data = Inr p \<and> transition_made client p w w'"
proof -
  obtain p where p: "DecodeTransitionPayload data = Inr p"
    using assms by (auto simp: transition_attempt_def split: sum.splits)
  obtain states w1 where st: "lc_states client (tp_TeamID p) w = (Inr states, w1)"
    using assms p by (auto simp: transition_attempt_def split: sum.splits prod.splits if_splits)
  have "MoveToContext client (Some (transition_candidate p)) states (tp_TargetState p) w1 =
      ((True, []), fst (snd (MoveToContext client (Some (transition_candidate p)) states (tp_TargetState p) w1)), w')"
    using assms p st by (auto simp: transition_attempt_def split: prod.splits if_splits)
  then have "transition_made client p w w'"
    using decoded_target_trimmed [OF p] st
    by (auto simp: MoveToContext_def transition_made_def transition_candidate_def Let_def split: if_splits prod.splits)
  with p show ?thesis by blast
qed


text \<open>A tracker with one state, which records the moves it accepts.\<close>

definition sample_client :: "(string \<times> string) list linear_client" where
  "sample_client = \<lparr>lc_update_state = (\<lambda>issue state w. ([], (issue, state) # w)), lc_comment = (\<lambda>issue body w. ([], w)),
     lc_states = (\<lambda>team w. (Inr [\<lparr>ws_ID = ''s-1'', ws_Name = ''Human Review''\<rparr>], w)), lc_ctx_err = (\<lambda>w. [])\<rparr>"

definition claimed_transition :: db where
  "claimed_transition = empty_db\<lparr>db_tasks :=
     [(task_row (transition_task (trim_payload sample_payload) 0 5000000000))\<lparr>tr_status := ''claimed''\<rparr>]\<rparr>"


end
