(* ===== verification/Workspace.thy ===== *)
theory Workspace
  imports GoPath WorkerPolicy
begin

text \<open>
  internal/workspace/paths.go: which paths the runner may create, use and delete, and whether a
  workspace has uncommitted changes.  The file system maps a path to what is there; a symbolic link
  carries what it resolves to.  A path is absolute relative to the working directory \<open>cwd\<close>.  The
  commands of the shell are parameters: \<open>capture\<close> reads the world, \<open>run\<close> changes it.
\<close>

section \<open>Files\<close>

datatype node = RegularFile string | Directory | Symlink "node option"

type_synonym fs = "string \<Rightarrow> node option"

text \<open>\<open>os.Lstat\<close> is the map itself, \<open>os.Stat\<close> follows links.\<close>

fun resolve :: "node \<Rightarrow> node option" where
  "resolve (Symlink None) = None"
| "resolve (Symlink (Some n)) = resolve n"
| "resolve n = Some n"

definition stat :: "fs \<Rightarrow> string \<Rightarrow> node option" where
  "stat fs p = (case fs p of None \<Rightarrow> None | Some n \<Rightarrow> resolve n)"

definition is_symlink :: "node option \<Rightarrow> bool" where
  "is_symlink n \<longleftrightarrow> (case n of Some (Symlink t) \<Rightarrow> True | _ \<Rightarrow> False)"

definition read_file :: "fs \<Rightarrow> string \<Rightarrow> string option" where
  "read_file fs p = (case stat fs p of Some (RegularFile data) \<Rightarrow> Some data | _ \<Rightarrow> None)"

definition abs_path :: "string \<Rightarrow> string \<Rightarrow> string" where
  "abs_path cwd p = (if rooted p then clean p else join2 cwd p)"

section \<open>Roots and workspaces\<close>

text \<open>An error and whether \<open>os.IsNotExist\<close> holds of it.\<close>

type_synonym path_error = "string \<times> bool"

definition SafeRoot :: "string \<Rightarrow> fs \<Rightarrow> string \<Rightarrow> path_error + string" where
  "SafeRoot cwd fs root =
     (if trim_space root = [] then Inl (''workspace root is empty'', False)
      else let c = clean (abs_path cwd root) in
        if c = ''/'' \<or> c = dir c then Inl (''unsafe workspace root '' @ quote root, False)
        else if is_symlink (fs c) then Inl (''workspace root is a symlink: '' @ c, False)
        else (case stat fs c of
                None \<Rightarrow> Inl (''stat '' @ c @ '': no such file or directory'', True)
              | Some Directory \<Rightarrow> Inr c
              | Some _ \<Rightarrow> Inl (''workspace root is not a directory: '' @ c, False)))"

definition AssertSafeDeletePath :: "string \<Rightarrow> fs \<Rightarrow> string \<Rightarrow> string \<Rightarrow> path_error + unit" where
  "AssertSafeDeletePath cwd fs root workspace =
     (case SafeRoot cwd fs root of
        Inl e \<Rightarrow> Inl e
      | Inr safeRoot \<Rightarrow>
          let a = clean (abs_path cwd workspace) in
          if a = safeRoot \<or> dir a \<noteq> safeRoot
          then Inl (''refusing unsafe workspace path '' @ quote workspace @ '' outside root '' @ quote safeRoot, False)
          else if is_symlink (fs a) then Inl (''refusing symlink workspace path '' @ quote workspace, False)
          else Inr ())"

definition SafePath :: "string \<Rightarrow> fs \<Rightarrow> string \<Rightarrow> string \<Rightarrow> path_error + string" where
  "SafePath cwd fs root name =
     (if trim_space name = [] \<or> name \<noteq> base name \<or> slash \<in> set name
      then Inl (''unsafe workspace name '' @ quote name, False)
      else if has_prefix name ''.'' then Inl (''unsafe hidden workspace name '' @ quote name, False)
      else (case SafeRoot cwd fs root of
              Inl e \<Rightarrow> Inl e
            | Inr safeRoot \<Rightarrow>
                let workspace = clean (join2 safeRoot name) in
                (case AssertSafeDeletePath cwd fs safeRoot workspace of
                   Inl e \<Rightarrow> Inl e | Inr u \<Rightarrow> Inr workspace)))"

section \<open>Lengths of cleaned paths\<close>

definition weight :: "string list \<Rightarrow> nat" where
  "weight es = sum_list (map (\<lambda>e. Suc (length e)) es)"

lemma weight_simps [simp]: "weight [] = 0" "weight (e # es) = Suc (length e) + weight es" "weight (xs @ ys) = weight xs + weight ys"
  by (simp_all add: weight_def)

lemma weight_rev [simp]: "weight (rev es) = weight es"
  by (induction es) simp_all

lemma weight_tl: "weight (tl es) \<le> weight es"
  by (cases es) simp_all

lemma weight_split_on: "weight (split_on sep s) = Suc (length s)"
  by (induction s) (auto split: list.splits)

lemma length_join: "es \<noteq> [] \<Longrightarrow> Suc (length (join [sep] es)) = weight es"
  by (induction "[sep]" es rule: join.induct) simp_all

lemma weight_clean_loop: "weight (clean_loop r stack es) \<le> weight stack + weight es"
proof (induction es arbitrary: stack)
  case (Cons e es)
  note a = Cons.IH [of stack] and b = Cons.IH [of "tl stack"] and c = Cons.IH [of "''..'' # stack"] and d = Cons.IH [of "e # stack"]
  show ?case
    using a b c d weight_tl [of stack] by (auto simp del: clean_loop.simps simp add: clean_loop.simps(2))
qed simp

lemma clean_loop_drop_empty: "clean_loop r stack (es @ [[]]) = clean_loop r stack es"
  by (induction es arbitrary: stack) (simp_all only: append.simps clean_loop.simps simp_thms if_True)

lemma split_on_snoc: "split_on sep (s @ [sep]) = split_on sep s @ [[]]"
  by (induction s) (auto split: list.splits)

lemma length_body: "length (join [slash] (rev (clean_loop r [] es))) \<le> weight es - 1"
proof (cases "clean_loop r [] es = []")
  case False
  then have "Suc (length (join [slash] (rev (clean_loop r [] es)))) = weight (clean_loop r [] es)"
    using length_join [of "rev (clean_loop r [] es)"] by simp
  then show ?thesis using weight_clean_loop [of r "[]" es] by simp
qed simp

lemma length_clean: "p \<noteq> [] \<Longrightarrow> length (clean p) \<le> length p"
proof -
  assume p: "p \<noteq> []"
  let ?body = "join [slash] (rev (clean_loop (rooted p) [] (split_on slash p)))"
  have "length ?body \<le> length p" using length_body [of "rooted p" "split_on slash p"] by (simp add: weight_split_on)
  moreover have "Suc (length ?body) \<le> length p" if root: "rooted p"
  proof -
    obtain q where q: "p = slash # q" using root p by (cases p) (auto simp: rooted_def)
    have "clean_loop (rooted p) [] (split_on slash p) = clean_loop (rooted p) [] (split_on slash q)" by (simp add: q)
    then show ?thesis using length_body [of "rooted p" "split_on slash q"] by (simp add: weight_split_on q)
  qed
  ultimately show ?thesis using p by (auto simp: clean_def Let_def Suc_le_eq)
qed

lemma clean_snoc_slash: "x \<noteq> [] \<Longrightarrow> clean (x @ [slash]) = clean x"
  by (simp add: clean_def split_on_snoc clean_loop_drop_empty rooted_def)

text \<open>The loop of \<open>nearestExistingSafeDir\<close> goes up one directory at a time; this gets smaller.\<close>

definition climb_measure :: "string \<Rightarrow> nat" where
  "climb_measure c = (if c = [] then 2 else if c = ''.'' then 0 else length c)"

lemma dir_smaller:
  assumes "c \<noteq> ''/''" "c \<noteq> dir c"
  shows "climb_measure (dir c) < climb_measure c"
proof -
  let ?q = "rev (dropWhile (\<lambda>x. x \<noteq> slash) (rev c))"
  have dot: "dir [] = ''.''" "dir ''.'' = ''.''" by code_simp+
  show ?thesis
  proof (cases "c = [] \<or> c = ''.''")
    case True
    then show ?thesis using dot assms by (auto simp: climb_measure_def)
  next
    case False
    have "climb_measure (clean ?q) < length c"
    proof (cases "?q = []")
      case True
      then show ?thesis unfolding True using False by (simp add: climb_measure_def clean_def rooted_def)
    next
      case ne: False
      have mono: "climb_measure (clean x) \<le> length x" if "x \<noteq> []" for x
        using length_clean [OF that] by (simp add: climb_measure_def)
      show ?thesis
      proof (cases "?q = c")
        case True
        have "hd (rev c) = slash" using True ne hd_dropWhile [of "\<lambda>x. x \<noteq> slash" "rev c"] by (metis rev_rev_ident rev_is_Nil_conv)
        then obtain x where x: "c = x @ [slash]" using False by (cases c rule: rev_cases) auto
        then have "x \<noteq> []" using assms(1) by (auto simp: slash_def)
        then show ?thesis unfolding True using mono [of x] by (simp add: x clean_snoc_slash)
      next
        case shorter: False
        have "length ?q \<le> length c" using length_dropWhile_le [of "\<lambda>x. x \<noteq> slash" "rev c"] by simp
        moreover have "length ?q \<noteq> length c"
        proof
          assume "length ?q = length c"
          moreover have "length (takeWhile (\<lambda>x. x \<noteq> slash) (rev c)) + length ?q = length c"
            by (metis length_append length_rev takeWhile_dropWhile_id)
          ultimately have "takeWhile (\<lambda>x. x \<noteq> slash) (rev c) = []" by simp
          then have "dropWhile (\<lambda>x. x \<noteq> slash) (rev c) = rev c" by (metis append_Nil takeWhile_dropWhile_id)
          then show False using shorter by simp
        qed
        ultimately show ?thesis using mono [OF ne] by linarith
      qed
    qed
    then show ?thesis using False by (simp add: dir_def climb_measure_def)
  qed
qed

function nearest_loop :: "fs \<Rightarrow> string \<Rightarrow> string \<Rightarrow> path_error + string" where
  "nearest_loop fs path current =
     (if current = ''/'' \<or> current = dir current then Inr ''/''
      else (case fs current of
              Some (Symlink t) \<Rightarrow> Inl (path @ '' does not exist and ancestor '' @ current @ '' is a symlink'', False)
            | Some Directory \<Rightarrow> Inr current
            | Some (RegularFile d) \<Rightarrow>
                Inl (path @ '' does not exist and ancestor '' @ current @ '' is not a directory'', False)
            | None \<Rightarrow> nearest_loop fs path (dir current)))"
  by pat_completeness auto

termination
  by (relation "measure (\<lambda>(fs, path, current). climb_measure current)") (auto intro: dir_smaller)

declare nearest_loop.simps [simp del]

definition nearestExistingSafeDir :: "fs \<Rightarrow> string \<Rightarrow> path_error + string" where
  "nearestExistingSafeDir fs path = nearest_loop fs path (clean path)"

function mkdir_all :: "fs \<Rightarrow> string \<Rightarrow> string + fs" where
  "mkdir_all fs c =
     (case stat fs c of
        Some Directory \<Rightarrow> Inr fs
      | Some _ \<Rightarrow> Inl (''mkdir '' @ c @ '': not a directory'')
      | None \<Rightarrow>
          if c = ''/'' \<or> c = dir c then Inr fs
          else (case mkdir_all fs (dir c) of
                  Inl e \<Rightarrow> Inl e
                | Inr fs' \<Rightarrow>
                    if fs' c \<noteq> None then Inl (''mkdir '' @ c @ '': file exists'') else Inr (fs'(c \<mapsto> Directory))))"
  by pat_completeness auto

termination
  by (relation "measure (\<lambda>(fs, c). climb_measure c)") (auto intro: dir_smaller)

declare mkdir_all.simps [simp del]

definition EnsureRoot :: "string \<Rightarrow> fs \<Rightarrow> string \<Rightarrow> (path_error + string) \<times> fs" where
  "EnsureRoot cwd fs root =
     (if trim_space root = [] then (Inl (''workspace root is empty'', False), fs)
      else let c = clean (abs_path cwd root) in
        if c = ''/'' \<or> c = dir c then (Inl (''unsafe workspace root '' @ quote root, False), fs)
        else (case SafeRoot cwd fs c of
                Inr existing \<Rightarrow> (Inr existing, fs)
              | Inl (e, notExist) \<Rightarrow>
                  if \<not> notExist then (Inl (e, notExist), fs)
                  else (case nearestExistingSafeDir fs c of
                          Inl err \<Rightarrow> (Inl err, fs)
                        | Inr ancestor \<Rightarrow>
                            (case mkdir_all fs c of
                               Inl m \<Rightarrow> (Inl (''create workspace root '' @ c @ '' under existing ancestor '' @ ancestor
                                               @ '': '' @ m, False), fs)
                             | Inr fs' \<Rightarrow> (SafeRoot cwd fs' c, fs')))))"

section \<open>Isolation and changes\<close>

text \<open>\<open>shell.Quote\<close>.\<close>

definition single_quote :: char where "single_quote = char_of (39::nat)"
definition double_quote :: char where "double_quote = char_of (34::nat)"

definition shell_quote :: "string \<Rightarrow> string" where
  "shell_quote value =
     [single_quote]
     @ concat (map (\<lambda>c. if c = single_quote
                        then [single_quote, double_quote, single_quote, double_quote, single_quote] else [c]) value)
     @ [single_quote]"

record 'w git_shell =
  gs_capture :: "'w \<Rightarrow> string \<Rightarrow> string \<Rightarrow> string + string"
  gs_run :: "string \<Rightarrow> string \<Rightarrow> 'w \<Rightarrow> err_list \<times> 'w"
  gs_ctx_err :: "'w \<Rightarrow> err_list"

definition CurrentGitBranchContext :: "'w git_shell \<Rightarrow> 'w \<Rightarrow> string \<Rightarrow> string + string" where
  "CurrentGitBranchContext sh w workspace =
     (case gs_capture sh w ''git branch --show-current'' workspace of Inl e \<Rightarrow> Inl e | Inr out \<Rightarrow> Inr (trim_space out))"

definition EnsureIsolatedContext ::
    "'w git_shell \<Rightarrow> string \<Rightarrow> fs \<Rightarrow> string \<Rightarrow> string \<Rightarrow> string \<Rightarrow> 'w \<Rightarrow> err_list \<times> 'w" where
  "EnsureIsolatedContext sh cwd fs root workspace expectedBranch w =
     (if gs_ctx_err sh w \<noteq> [] then (gs_ctx_err sh w, w)
      else (case AssertSafeDeletePath cwd fs root workspace of
        Inl (e, b) \<Rightarrow> ([e], w)
      | Inr u \<Rightarrow>
      (case gs_capture sh w ''git rev-parse --show-toplevel'' workspace of
        Inl e \<Rightarrow> ([''workspace '' @ workspace @ '' is not a git checkout: '' @ e], w)
      | Inr topLevel \<Rightarrow>
          if clean (abs_path cwd (trim_space topLevel)) \<noteq> clean (abs_path cwd workspace)
          then ([''refusing shared git checkout: top-level '' @ trim_space topLevel @ '' does not match workspace '' @ workspace], w)
          else (case CurrentGitBranchContext sh w workspace of
            Inl e \<Rightarrow> ([e], w)
          | Inr current \<Rightarrow>
              if current = expectedBranch then ([], w)
              else if current \<noteq> [] \<and> has_prefix current ''am/''
              then ([''workspace '' @ workspace @ '' is on unexpected Agent Machine branch '' @ quote current
                      @ ''; expected '' @ quote expectedBranch], w)
              else gs_run sh (''git switch -C '' @ shell_quote expectedBranch) workspace w))))"

definition isSubagentFalseScratch :: "fs \<Rightarrow> string \<Rightarrow> bool" where
  "isSubagentFalseScratch fs path =
     (case fs path of
        Some (RegularFile data) \<Rightarrow>
          if data = [] then True
          else if 16 * 1024 < length data then False
          else (let content = trim_space data in
                if \<not> (has_prefix content ''PASS'' \<or> has_prefix content ''BLOCK'') then False
                else contains content ''Did not write '' \<and> contains content ''/false'')
      | _ \<Rightarrow> False)"

definition IsIgnoredEvidencePath :: "fs \<Rightarrow> string \<Rightarrow> string \<Rightarrow> bool" where
  "IsIgnoredEvidencePath fs workspace path0 =
     (let path = trim_space path0 in
      if path = [] then False
      else if has_prefix path ''.am-debug/'' \<or> path = ''.am-debug'' then True
      else if path \<in> {''.am-run.json'', ''.am-evaluation.json'', ''.am-prompt.md'', ''.am-review-prompt.md''} then True
      else if path = ''false'' then isSubagentFalseScratch fs (join2 workspace path)
      else False)"

fun dirty_line :: "fs \<Rightarrow> string \<Rightarrow> string list \<Rightarrow> bool" where
  "dirty_line fs workspace [] = False"
| "dirty_line fs workspace (l # ls) =
     (let line = trim_space l in
      if line = [] then dirty_line fs workspace ls
      else if IsIgnoredEvidencePath fs workspace (trim_space (trim_prefix ''??'' line)) then dirty_line fs workspace ls
      else True)"

definition HasChanges :: "'w git_shell \<Rightarrow> fs \<Rightarrow> 'w \<Rightarrow> string \<Rightarrow> string + bool" where
  "HasChanges sh fs w workspace =
     (case gs_capture sh w ''git status --porcelain'' workspace of
        Inl e \<Rightarrow> Inl e
      | Inr out \<Rightarrow> Inr (dirty_line fs workspace (split_on newline out)))"

section \<open>Workspace paths are immediate children of the root\<close>

definition good_elem :: "string \<Rightarrow> bool" where
  "good_elem e \<longleftrightarrow> e \<noteq> [] \<and> e \<noteq> ''.'' \<and> e \<noteq> ''..'' \<and> slash \<notin> set e"

definition canon_path :: "string list \<Rightarrow> string" where
  "canon_path es = slash # join [slash] es"

lemma clean_loop_rooted:
  "list_all good_elem stack \<Longrightarrow> list_all (\<lambda>e. slash \<notin> set e) es \<Longrightarrow> list_all good_elem (clean_loop True stack es)"
proof (induction es arbitrary: stack)
  case (Cons e es)
  have "list_all good_elem (tl stack)" using Cons.prems(1) by (cases stack) simp_all
  then show ?case
    using Cons.IH [of stack] Cons.IH [of "tl stack"] Cons.IH [of "e # stack"] Cons.prems good_elem_def [of e]
    by auto
qed simp

lemma clean_rooted: "rooted p \<Longrightarrow> \<exists>es. clean p = canon_path es \<and> list_all good_elem es"
proof -
  assume p: "rooted p"
  let ?es = "rev (clean_loop True [] (split_on slash p))"
  have "list_all good_elem ?es"
    using clean_loop_rooted [of "[]" "split_on slash p"] split_on_no_sep [of slash p]
    by (simp add: list_all_iff)
  moreover have "clean p = canon_path ?es" using p by (simp add: clean_def canon_path_def Let_def)
  ultimately show ?thesis by blast
qed

lemma split_join: "es \<noteq> [] \<Longrightarrow> list_all (\<lambda>e. sep \<notin> set e) es \<Longrightarrow> split_on sep (join [sep] es) = es"
proof (induction "[sep]" es rule: join.induct)
  case (2 x)
  then show ?case by (induction x) auto
next
  case (3 x y ys)
  have "split_on sep (x @ sep # z) = x # split_on sep z" for z
    using 3(3) by (induction x) auto
  then show ?case using 3 by simp
qed simp

lemma clean_loop_good: "list_all good_elem es \<Longrightarrow> clean_loop r stack es = rev es @ stack"
  by (induction es arbitrary: stack) (auto simp: good_elem_def)

lemma clean_canon: "list_all good_elem es \<Longrightarrow> clean (canon_path es) = canon_path es"
proof (cases "es = []")
  case True
  then show ?thesis by (simp add: canon_path_def clean_def rooted_def)
next
  case False
  assume es: "list_all good_elem es"
  then have "list_all (\<lambda>e. slash \<notin> set e) es" by (auto simp: list_all_iff good_elem_def)
  with False es show ?thesis
    by (simp add: canon_path_def clean_def rooted_def split_join clean_loop_good)
qed

lemma join_snoc: "es \<noteq> [] \<Longrightarrow> join sep (es @ [e]) = join sep es @ sep @ e"
  by (induction sep es rule: join.induct) simp_all

lemma dir_canon:
  assumes "list_all good_elem (es @ [e])"
  shows "dir (canon_path (es @ [e])) = canon_path es"
proof -
  have e: "slash \<notin> set e" and es: "list_all good_elem es" using assms by (simp_all add: good_elem_def)
  have tw: "dropWhile (\<lambda>c. c \<noteq> slash) (rev e @ slash # x) = slash # x" for x
    using dropWhile_append2 [of "rev e" "\<lambda>c. c \<noteq> slash" "slash # x"] e by fastforce
  show ?thesis
  proof (cases "es = []")
    case True
    then show ?thesis
      using tw [of "[]"] by (simp add: dir_def canon_path_def clean_def rooted_def)
  next
    case False
    have "rev (dropWhile (\<lambda>c. c \<noteq> slash) (rev (canon_path (es @ [e])))) = canon_path es @ [slash]"
      using tw [of "rev (join [slash] es) @ [slash]"] by (simp add: canon_path_def join_snoc False)
    then show ?thesis
      unfolding dir_def using clean_snoc_slash [of "canon_path es"] clean_canon [OF es] by (simp add: canon_path_def)
  qed
qed

lemma join2_canon:
  assumes "list_all good_elem (es @ [e])"
  shows "join2 (canon_path es) e = canon_path (es @ [e])"
proof -
  have ne: "canon_path es \<noteq> []" "e \<noteq> []" using assms by (simp_all add: canon_path_def good_elem_def)
  have "clean (canon_path es @ [slash] @ e) = canon_path (es @ [e])"
  proof (cases "es = []")
    case True
    have "split_on slash e = [e]" using assms split_join [of "[e]" slash] by (simp add: good_elem_def)
    then show ?thesis using assms True by (simp add: canon_path_def clean_def rooted_def good_elem_def)
  next
    case False
    have "canon_path es @ [slash] @ e = canon_path (es @ [e])" by (simp add: canon_path_def join_snoc False)
    then show ?thesis using clean_canon [OF assms] by simp
  qed
  then show ?thesis using ne by (simp add: join2_def)
qed

lemma rooted_clean: "rooted p \<Longrightarrow> rooted (clean p)"
  by (auto simp: clean_def rooted_def Let_def)

lemma rooted_abs: "rooted cwd \<Longrightarrow> rooted (abs_path cwd p)"
  using rooted_clean [of p] rooted_clean [of "cwd @ [slash] @ p"] rooted_clean [of cwd]
  by (auto simp: abs_path_def join2_def rooted_def)

lemma base_name: "slash \<notin> set name \<Longrightarrow> name \<noteq> [] \<Longrightarrow> base name = name"
proof -
  assume n: "slash \<notin> set name" "name \<noteq> []"
  then have "dropWhile (\<lambda>c. c = slash) (rev name) = rev name"
    by (cases name rule: rev_cases) auto
  moreover have "split_on slash name = [name]" using split_join [of "[name]" slash] n by simp
  ultimately show ?thesis using n by (simp add: base_def strip_slashes_def)
qed

definition safe_name :: "string \<Rightarrow> bool" where
  "safe_name name \<longleftrightarrow> trim_space name \<noteq> [] \<and> slash \<notin> set name \<and> \<not> has_prefix name ''.''"

lemma safe_name_good: "safe_name name \<Longrightarrow> good_elem name"
  by (auto simp: safe_name_def good_elem_def has_prefix_def)

lemma SafeRoot_canon:
  assumes "rooted cwd" "SafeRoot cwd fs root = Inr r"
  shows "\<exists>es. r = canon_path es \<and> es \<noteq> [] \<and> list_all good_elem es \<and> SafeRoot cwd fs r = Inr r"
proof -
  let ?c = "clean (abs_path cwd root)"
  have r: "r = ?c" "r \<noteq> ''/''" "r \<noteq> dir r" "\<not> is_symlink (fs r)" "stat fs r = Some Directory"
    using assms(2) by (auto simp: SafeRoot_def Let_def split: if_splits option.splits node.splits)
  obtain es where es: "r = canon_path es" "list_all good_elem es"
    using clean_rooted [OF rooted_abs [OF assms(1), of root]] r(1) by auto
  have ne: "es \<noteq> []" using es(1) r(2) by (auto simp: canon_path_def slash_def)
  have rt: "rooted r" using es(1) by (simp add: canon_path_def rooted_def)
  have "trim_space r \<noteq> []"
  proof -
    have "slash \<in> set r" using es(1) by (simp add: canon_path_def)
    moreover have "\<not> is_space slash" by (simp add: slash_def is_space_def)
    ultimately have "\<not> list_all is_space r" by (auto simp: list_all_iff)
    then show ?thesis by (simp add: trim_space_empty_iff)
  qed
  moreover have "clean (abs_path cwd r) = r"
    using rt clean_canon [OF es(2)] by (simp add: abs_path_def es(1))
  ultimately have "SafeRoot cwd fs r = Inr r" using r by (simp add: SafeRoot_def Let_def)
  then show ?thesis using es ne by blast
qed

lemma SafePath_eq:
  assumes "rooted cwd" "SafeRoot cwd fs root = Inr r" "safe_name name"
  shows "SafePath cwd fs root name =
     (if is_symlink (fs (r @ [slash] @ name))
      then Inl (''refusing symlink workspace path '' @ quote (r @ [slash] @ name), False) else Inr (r @ [slash] @ name))
   \<and> dir (r @ [slash] @ name) = r"
proof -
  obtain es where es: "r = canon_path es" "es \<noteq> []" "list_all good_elem es" "SafeRoot cwd fs r = Inr r"
    using SafeRoot_canon [OF assms(1,2)] by blast
  have good: "list_all good_elem (es @ [name])" using es(3) safe_name_good [OF assms(3)] by simp
  have w: "canon_path (es @ [name]) = r @ [slash] @ name" using es(1,2) by (simp add: canon_path_def join_snoc)
  have cl: "clean (r @ [slash] @ name) = r @ [slash] @ name" using clean_canon [OF good] w by simp
  have j: "clean (join2 r name) = r @ [slash] @ name"
    using join2_canon [OF good] clean_canon [OF good] w es(1) by simp
  have d: "dir (r @ [slash] @ name) = r" using dir_canon [OF good] w es(1) by simp
  have "rooted (r @ [slash] @ name)" using es(1) by (simp add: canon_path_def rooted_def)
  then have a: "clean (abs_path cwd (r @ [slash] @ name)) = r @ [slash] @ name" using cl by (simp add: abs_path_def)
  have n: "trim_space name \<noteq> []" "slash \<notin> set name" "\<not> has_prefix name ''.''" "name = base name"
    using assms(3) base_name [of name] by (cases "name = []"; auto simp: safe_name_def)+
  have "AssertSafeDeletePath cwd fs r (r @ [slash] @ name) =
     (if is_symlink (fs (r @ [slash] @ name))
      then Inl (''refusing symlink workspace path '' @ quote (r @ [slash] @ name), False) else Inr ())"
    unfolding AssertSafeDeletePath_def es(4) sum.case Let_def a d by simp
  then show ?thesis
    unfolding SafePath_def assms(2) sum.case Let_def j using n d by (simp split: if_split)
qed

text \<open>
  C19: a workspace path never leaves the workspace root.  \<open>SafePath\<close> accepts exactly the names that
  are not blank, not hidden and without a slash, under a root that is an existing directory and not
  a link, when nothing there is a link; the path it then returns is the root, a slash and the name,
  an immediate child of the root.
\<close>

theorem safe_path_exact:
  assumes "rooted cwd"
  shows "SafePath cwd fs root name = Inr w \<longleftrightarrow>
     (\<exists>r. SafeRoot cwd fs root = Inr r \<and> safe_name name \<and> w = r @ [slash] @ name \<and> dir w = r \<and> \<not> is_symlink (fs w))"
proof (cases "SafeRoot cwd fs root")
  case (Inl e)
  then show ?thesis by (auto simp: SafePath_def)
next
  case (Inr r)
  show ?thesis
  proof (cases "safe_name name")
    case True
    show ?thesis using SafePath_eq [OF assms Inr True] Inr True by auto
  next
    case False
    then have "\<exists>e. SafePath cwd fs root name = Inl e" by (auto simp: SafePath_def safe_name_def)
    then show ?thesis using False by auto
  qed
qed

definition sample_fs :: fs where
  "sample_fs p = (if p = ''/srv/ws'' then Some Directory else if p = ''/srv/ws/CAG-9'' then Some (Symlink None) else None)"

theorem safe_path_exact_witness:
  "SafePath ''/home'' sample_fs ''/srv/ws/'' ''CAG-1'' = Inr ''/srv/ws/CAG-1''"
proof -
  have root: "SafeRoot ''/home'' sample_fs ''/srv/ws/'' = Inr ''/srv/ws''" by code_simp
  have "safe_name ''CAG-1'' \<and> dir ''/srv/ws/CAG-1'' = ''/srv/ws'' \<and> \<not> is_symlink (sample_fs ''/srv/ws/CAG-1'')" by code_simp
  with root safe_path_exact [of "''/home''" sample_fs "''/srv/ws/''" "''CAG-1''" "''/srv/ws/CAG-1''"]
  show ?thesis by (simp add: rooted_def slash_def)
qed

section \<open>Creating the root\<close>

lemma mkdir_all_grows:
  "mkdir_all fs c = Inr fs' \<Longrightarrow>
     (\<forall>p. fs' p = fs p \<or> fs p = None \<and> fs' p = Some Directory)"
proof (induction fs c arbitrary: fs' rule: mkdir_all.induct)
  case (1 fs c)
  show ?case
  proof (cases "stat fs c = None \<and> \<not> (c = ''/'' \<or> c = dir c)")
    case True
    then obtain fs1 where fs1: "mkdir_all fs (dir c) = Inr fs1" "fs1 c = None" "fs' = fs1(c \<mapsto> Directory)"
      using 1(2) mkdir_all.simps [of fs c] by (auto split: sum.splits if_splits)
    have ih: "\<forall>p. fs1 p = fs p \<or> fs p = None \<and> fs1 p = Some Directory"
      using 1(1) True fs1(1) by blast
    have "fs c = None" using ih fs1(2) by metis
    then show ?thesis using ih fs1(3) by auto
  next
    case False
    then have "fs' = fs" using 1(2) mkdir_all.simps [of fs c] by (auto split: option.splits node.splits)
    then show ?thesis by simp
  qed
qed

lemma mkdir_all_new: "mkdir_all fs c = Inr fs' \<Longrightarrow> fs' p \<noteq> fs p \<Longrightarrow> fs p = None \<and> fs' p = Some Directory"
  using mkdir_all_grows by metis

text \<open>\<open>EnsureRoot\<close> only adds directories, and the root it returns is a safe root.\<close>

lemma EnsureRoot_adds:
  assumes "EnsureRoot cwd fs root = (res, fs')"
  shows "fs' p = fs p \<or> fs p = None \<and> fs' p = Some Directory"
proof (cases "fs' p = fs p")
  case False
  then have "mkdir_all fs (clean (abs_path cwd root)) = Inr fs'"
    using assms by (auto simp: EnsureRoot_def Let_def split: if_splits sum.splits prod.splits)
  then show ?thesis using mkdir_all_new False by metis
qed simp

lemma EnsureRoot_safe:
  "EnsureRoot cwd fs root = (Inr r, fs') \<Longrightarrow> SafeRoot cwd fs' (clean (abs_path cwd root)) = Inr r"
  by (auto simp: EnsureRoot_def Let_def split: if_splits sum.splits prod.splits)

end
