(* ===== verification/Artifacts.thy ===== *)
theory Artifacts
  imports Domain JsonParse GoPath AttemptStore RunClassification CleanupPolicy MergeGate
begin

text \<open>
  internal/artifacts/artifacts.go: the run record, evaluation and feedback files of a workspace and
  how they are read, and internal/evaluation/evaluation.go, which fills an evaluation in.  Decoding
  is encoding/json's: every field of a struct by its name, a pointer field \<open>None\<close> for \<open>null\<close> and for a
  missing member, the members of a repeated object merged.  A decoded \<open>float64\<close> is the rational its
  text denotes.  The files of a workspace are a partial map from paths to contents; a read fails
  only because the file does not exist.
\<close>

type_synonym files = "string \<Rightarrow> string option"

definition RunRecordName :: string where "RunRecordName = ''.am-run.json''"
definition EvaluationName :: string where "EvaluationName = ''.am-evaluation.json''"
definition FeedbackName :: string where "FeedbackName = ''.am-feedback.md''"

definition CurrentArtifactSchemaVersion :: int where "CurrentArtifactSchemaVersion = 1"
definition ArtifactSchemaSourceCurrent :: string where "ArtifactSchemaSourceCurrent = ''current''"
definition ArtifactSchemaSourceLegacy :: string where "ArtifactSchemaSourceLegacy = ''legacy''"

definition RunRecordPath :: "string \<Rightarrow> string" where "RunRecordPath workspace = join2 workspace RunRecordName"
definition EvaluationPath :: "string \<Rightarrow> string" where "EvaluationPath workspace = join2 workspace EvaluationName"
definition FeedbackPath :: "string \<Rightarrow> string" where "FeedbackPath workspace = join2 workspace FeedbackName"

section \<open>Decoding fields\<close>

text \<open>The value of a number's text, and its range as a \<open>float64\<close>.\<close>

definition split_mark :: "(char \<Rightarrow> bool) \<Rightarrow> string \<Rightarrow> string \<times> string" where
  "split_mark P s = (takeWhile (\<lambda>c. \<not> P c) s, tl (dropWhile (\<lambda>c. \<not> P c) s))"

definition signed_digits :: "string \<Rightarrow> int" where
  "signed_digits s =
     (if has_prefix s ''-'' then - int (digits_val (tl s))
      else if has_prefix s ''+'' then int (digits_val (tl s)) else int (digits_val s))"

definition scale10 :: "rat \<Rightarrow> int \<Rightarrow> rat" where
  "scale10 r e = (if 0 \<le> e then r * 10 ^ nat e else r / 10 ^ nat (- e))"

definition number_value :: "string \<Rightarrow> rat" where
  "number_value s =
     (let (mantissa, expo) = split_mark (\<lambda>c. c = CHR ''e'' \<or> c = CHR ''E'') s;
          neg = has_prefix mantissa ''-'';
          (whole, frac) = split_mark (\<lambda>c. c = CHR ''.'') (if neg then tl mantissa else mantissa);
          m = scale10 (of_nat (digits_val (whole @ frac))) (signed_digits expo - int (length frac))
      in if neg then - m else m)"

definition float_range :: "rat \<Rightarrow> rat option" where
  "float_range r = (if \<bar>r\<bar> < 2 ^ 1024 - 2 ^ 970 then Some r else None)"

definition read_float :: "json \<Rightarrow> rat option" where
  "read_float j = (case j of JInt i \<Rightarrow> float_range (of_int i) | JFloat s \<Rightarrow> float_range (number_value s) | _ \<Rightarrow> None)"

definition float_field :: "string \<Rightarrow> (string \<times> json) list \<Rightarrow> rat option" where
  "float_field = field_of read_float 0"

definition read_time :: "json \<Rightarrow> time option" where
  "read_time j = (case j of JStr s \<Rightarrow> parse_rfc3339 s | _ \<Rightarrow> None)"

definition time_field :: "string \<Rightarrow> (string \<times> json) list \<Rightarrow> time option" where
  "time_field = field_of read_time 0"

fun read_strings :: "json list \<Rightarrow> string list option" where
  "read_strings [] = Some []"
| "read_strings (j # js) =
     (case (j, read_strings js) of
        (JStr s, Some ss) \<Rightarrow> Some (s # ss) | (JNull, Some ss) \<Rightarrow> Some ([] # ss) | _ \<Rightarrow> None)"

text \<open>The values of a member, \<open>null\<close> included, for the fields that \<open>null\<close> clears.\<close>

definition member_values :: "string \<Rightarrow> (string \<times> json) list \<Rightarrow> json list" where
  "member_values name ms = map snd (filter (\<lambda>(k, v). equal_fold k name) ms)"

fun strings_loop :: "string list \<Rightarrow> json list \<Rightarrow> string list option" where
  "strings_loop cur [] = Some cur"
| "strings_loop cur (j # js) =
     (case j of JNull \<Rightarrow> strings_loop [] js
      | JArr xs \<Rightarrow> (case read_strings xs of None \<Rightarrow> None | Some ss \<Rightarrow> strings_loop ss js)
      | _ \<Rightarrow> None)"

definition strings_field :: "string \<Rightarrow> (string \<times> json) list \<Rightarrow> string list option" where
  "strings_field name ms = strings_loop [] (member_values name ms)"

fun object_loop :: "(string \<times> json) list option \<Rightarrow> json list \<Rightarrow> (string \<times> json) list option option" where
  "object_loop cur [] = Some cur"
| "object_loop cur (j # js) =
     (case j of JNull \<Rightarrow> object_loop None js
      | JObj ms \<Rightarrow> object_loop (Some (case cur of None \<Rightarrow> ms | Some prev \<Rightarrow> prev @ ms)) js
      | _ \<Rightarrow> None)"

definition pointer_field ::
    "((string \<times> json) list \<Rightarrow> 'a option) \<Rightarrow> string \<Rightarrow> (string \<times> json) list \<Rightarrow> 'a option option" where
  "pointer_field read name ms =
     (case object_loop None (member_values name ms) of
        None \<Rightarrow> None
      | Some None \<Rightarrow> Some None
      | Some (Some inner) \<Rightarrow> map_option Some (read inner))"

fun int_pointer_loop :: "int option \<Rightarrow> json list \<Rightarrow> int option option" where
  "int_pointer_loop cur [] = Some cur"
| "int_pointer_loop cur (j # js) =
     (if j = JNull then int_pointer_loop None js
      else (case read_int j of None \<Rightarrow> None | Some i \<Rightarrow> int_pointer_loop (Some i) js))"

section \<open>Run records\<close>

definition read_cost :: "(string \<times> json) list \<Rightarrow> UsageCost option" where
  "read_cost ms =
     (case (float_field ''input'' ms, float_field ''output'' ms, float_field ''cacheRead'' ms,
            float_field ''cacheWrite'' ms, float_field ''total'' ms) of
        (Some i, Some o', Some r, Some w, Some t) \<Rightarrow>
          Some \<lparr>uc_Input = i, uc_Output = o', uc_CacheRead = r, uc_CacheWrite = w, uc_Total = t\<rparr>
      | _ \<Rightarrow> None)"

definition read_usage :: "(string \<times> json) list \<Rightarrow> Usage option" where
  "read_usage ms =
     (case (float_field ''input'' ms, float_field ''output'' ms, float_field ''cacheRead'' ms,
            float_field ''cacheWrite'' ms, float_field ''totalTokens'' ms, pointer_field read_cost ''cost'' ms) of
        (Some i, Some o', Some r, Some w, Some t, Some c) \<Rightarrow>
          Some \<lparr>us_Input = i, us_Output = o', us_CacheRead = r, us_CacheWrite = w, us_TotalTokens = t, us_Cost = c\<rparr>
      | _ \<Rightarrow> None)"

text \<open>\<open>Budget.UnmarshalJSON\<close>: only the texts and the two numbers; the durations stay zero.\<close>

definition read_budget :: "(string \<times> json) list \<Rightarrow> Budget option" where
  "read_budget ms =
     (case (string_field ''wall_clock'' ms, float_field ''max_tokens'' ms, float_field ''max_cost'' ms,
            string_field ''command_timeout'' ms, string_field ''runtime_timeout'' ms, string_field ''pi_timeout'' ms,
            string_field ''review_timeout'' ms, string_field ''merge_timeout'' ms, string_field ''github_timeout'' ms) of
        (Some w, Some t, Some c, Some cmd, Some rt, Some pi', Some rv, Some mg, Some gh) \<Rightarrow>
          let runtime = (if rt = [] then pi' else rt) in
          Some \<lparr>bu_WallClock = 0, bu_WallClockText = w, bu_MaxTokens = t, bu_MaxCost = c, bu_CommandTimeout = 0,
                bu_CommandText = cmd, bu_RuntimeTimeout = 0, bu_RuntimeText = runtime, bu_PiTimeout = 0,
                bu_PiText = runtime, bu_ReviewTimeout = 0, bu_ReviewText = rv, bu_MergeTimeout = 0, bu_MergeText = mg,
                bu_GitHubTimeout = 0, bu_GitHubText = gh\<rparr>
      | _ \<Rightarrow> None)"

text \<open>A pointer to a type that decodes itself: each value replaces the one before.\<close>

fun budget_loop :: "Budget option \<Rightarrow> json list \<Rightarrow> Budget option option" where
  "budget_loop cur [] = Some cur"
| "budget_loop cur (j # js) =
     (case j of JNull \<Rightarrow> budget_loop None js
      | JObj ms \<Rightarrow> (case read_budget ms of None \<Rightarrow> None | Some b \<Rightarrow> budget_loop (Some b) js)
      | _ \<Rightarrow> None)"

definition budget_field :: "string \<Rightarrow> (string \<times> json) list \<Rightarrow> Budget option option" where
  "budget_field name ms = budget_loop None (member_values name ms)"

fun all_options :: "'a option list \<Rightarrow> 'a list option" where
  "all_options [] = Some []"
| "all_options (x # xs) = (case (x, all_options xs) of (Some a, Some as) \<Rightarrow> Some (a # as) | _ \<Rightarrow> None)"

definition run_record_texts :: "string list" where
  "run_record_texts =
     [''issue_identifier'', ''issue_id'', ''issue_title'', ''issue_url'', ''workspace'', ''workspace_root'', ''branch'',
      ''expected_branch'', ''runtime_command'', ''pi_command'', ''github_auth'', ''review_status'',
      ''review_classification'', ''review_findings'', ''pr_url'', ''feedback_hash'', ''status'', ''original_status'',
      ''manual_repair'', ''error'', ''budget_exceeded'']"

definition run_record_of ::
    "string list \<Rightarrow> time \<Rightarrow> time \<Rightarrow> int \<Rightarrow> Usage option \<Rightarrow> Usage option \<Rightarrow> Usage option \<Rightarrow> Budget option \<Rightarrow> string list
       \<Rightarrow> RunRecord" where
  "run_record_of ts started ended ms runtime pi' review budget evidence =
     \<lparr>rr_IssueIdentifier = ts ! 0, rr_IssueID = ts ! 1, rr_IssueTitle = ts ! 2, rr_IssueURL = ts ! 3, rr_Workspace = ts ! 4,
      rr_WorkspaceRoot = ts ! 5, rr_Branch = ts ! 6, rr_ExpectedBranch = ts ! 7, rr_RuntimeCommand = ts ! 8,
      rr_PiCommand = ts ! 9, rr_GitHubAuth = ts ! 10, rr_StartedAt = started, rr_EndedAt = ended, rr_DurationMS = ms,
      rr_RuntimeUsage = runtime, rr_PiUsage = pi', rr_ReviewStatus = ts ! 11, rr_ReviewClassification = ts ! 12,
      rr_ReviewFindings = ts ! 13, rr_ReviewUsage = review, rr_PRURL = ts ! 14, rr_FeedbackHash = ts ! 15,
      rr_Status = ts ! 16, rr_OriginalStatus = ts ! 17, rr_ManualRepair = ts ! 18, rr_Error = ts ! 19,
      rr_Budget = budget, rr_BudgetExceeded = ts ! 20, rr_BehaviorContractEvidence = evidence\<rparr>"

text \<open>\<open>RunRecord.UnmarshalJSON\<close>.\<close>

definition decode_run_record :: "string \<Rightarrow> RunRecord option" where
  "decode_run_record data =
     (case object_members data of
        None \<Rightarrow> None
      | Some ms \<Rightarrow>
          (case (all_options (map (\<lambda>name. string_field name ms) run_record_texts), time_field ''started_at'' ms,
                 time_field ''ended_at'' ms, int_field ''duration_ms'' ms, pointer_field read_usage ''runtime_usage'' ms,
                 pointer_field read_usage ''pi_usage'' ms, pointer_field read_usage ''review_usage'' ms,
                 budget_field ''budget'' ms, strings_field ''behavior_contract_evidence'' ms) of
             (Some ts, Some started, Some ended, Some d, Some ru, Some pu, Some vu, Some b, Some ev) \<Rightarrow>
               Some (decode_defaults (run_record_of ts started ended d ru pu vu b ev))
           | _ \<Rightarrow> None))"

section \<open>Evaluations\<close>

record EvaluationArtifact =
  ea_SchemaVersion :: int
  ea_SchemaSource :: string
  ea_IssueIdentifier :: string
  ea_IssueID :: string
  ea_PRURL :: string
  ea_FinalStatus :: string
  ea_DurationMS :: int
  ea_ImplementationTotalTokens :: rat
  ea_ImplementationTotalCost :: rat
  ea_ReviewTotalTokens :: rat
  ea_ReviewTotalCost :: rat
  ea_TotalTokens :: rat
  ea_TotalCost :: rat
  ea_ChecksStatus :: string
  ea_ReviewStatus :: string
  ea_ReviewClassification :: string
  ea_ReviewPassed :: "bool option"
  ea_Outcome :: string
  ea_MergeEligible :: bool
  ea_BlockedBy :: "string list"
  ea_RootCause :: string
  ea_NextAction :: string
  ea_ShouldRetry :: bool
  ea_OperatorAttentionRequired :: bool
  ea_FeedbackRetryCount :: int
  ea_NeedsInfoUsed :: bool
  ea_MergeBlockReason :: string
  ea_MergeBlockerCodes :: "string list"
  ea_WorkspaceCleanupEligible :: bool
  ea_FrictionSignals :: "string list"
  ea_CandidateHarnessImprovements :: "string list"
  ea_BehaviorContractEvidence :: "string list"
  ea_TicketContractEvidence :: "string list"

text \<open>Decoding into a value: a member that is missing leaves its field as it was.\<close>

definition zero_Evaluation :: EvaluationArtifact where
  "zero_Evaluation =
     \<lparr>ea_SchemaVersion = 0, ea_SchemaSource = [], ea_IssueIdentifier = [], ea_IssueID = [], ea_PRURL = [],
      ea_FinalStatus = [], ea_DurationMS = 0, ea_ImplementationTotalTokens = 0, ea_ImplementationTotalCost = 0,
      ea_ReviewTotalTokens = 0, ea_ReviewTotalCost = 0, ea_TotalTokens = 0, ea_TotalCost = 0,
      ea_ChecksStatus = [], ea_ReviewStatus = [], ea_ReviewClassification = [], ea_ReviewPassed = None,
      ea_Outcome = [], ea_MergeEligible = False, ea_BlockedBy = [], ea_RootCause = [], ea_NextAction = [],
      ea_ShouldRetry = False, ea_OperatorAttentionRequired = False, ea_FeedbackRetryCount = 0,
      ea_NeedsInfoUsed = False, ea_MergeBlockReason = [], ea_MergeBlockerCodes = [],
      ea_WorkspaceCleanupEligible = False, ea_FrictionSignals = [], ea_CandidateHarnessImprovements = [],
      ea_BehaviorContractEvidence = [], ea_TicketContractEvidence = []\<rparr>"

definition evaluation_texts :: "EvaluationArtifact \<Rightarrow> (string \<times> json) list \<Rightarrow> string option list" where
  "evaluation_texts e ms =
     [field_of read_string (ea_SchemaSource e) ''schema_source'' ms,
      field_of read_string (ea_IssueIdentifier e) ''issue_identifier'' ms,
      field_of read_string (ea_IssueID e) ''issue_id'' ms, field_of read_string (ea_PRURL e) ''pr_url'' ms,
      field_of read_string (ea_FinalStatus e) ''final_status'' ms,
      field_of read_string (ea_ChecksStatus e) ''checks_status'' ms,
      field_of read_string (ea_ReviewStatus e) ''review_status'' ms,
      field_of read_string (ea_ReviewClassification e) ''review_classification'' ms,
      field_of read_string (ea_Outcome e) ''outcome'' ms, field_of read_string (ea_RootCause e) ''root_cause'' ms,
      field_of read_string (ea_NextAction e) ''next_action'' ms,
      field_of read_string (ea_MergeBlockReason e) ''merge_block_reason'' ms]"

definition evaluation_ints :: "EvaluationArtifact \<Rightarrow> (string \<times> json) list \<Rightarrow> int option list" where
  "evaluation_ints e ms =
     [field_of read_int (ea_SchemaVersion e) ''schema_version'' ms,
      field_of read_int (ea_DurationMS e) ''duration_ms'' ms,
      field_of read_int (ea_FeedbackRetryCount e) ''feedback_retry_count'' ms]"

definition evaluation_floats :: "EvaluationArtifact \<Rightarrow> (string \<times> json) list \<Rightarrow> rat option list" where
  "evaluation_floats e ms =
     [field_of read_float (ea_ImplementationTotalTokens e) ''implementation_total_tokens'' ms,
      field_of read_float (ea_ImplementationTotalCost e) ''implementation_total_cost'' ms,
      field_of read_float (ea_ReviewTotalTokens e) ''review_total_tokens'' ms,
      field_of read_float (ea_ReviewTotalCost e) ''review_total_cost'' ms,
      field_of read_float (ea_TotalTokens e) ''total_tokens'' ms,
      field_of read_float (ea_TotalCost e) ''total_cost'' ms]"

definition evaluation_bools :: "EvaluationArtifact \<Rightarrow> (string \<times> json) list \<Rightarrow> bool option list" where
  "evaluation_bools e ms =
     [field_of read_bool (ea_MergeEligible e) ''merge_eligible'' ms,
      field_of read_bool (ea_ShouldRetry e) ''should_retry'' ms,
      field_of read_bool (ea_OperatorAttentionRequired e) ''operator_attention_required'' ms,
      field_of read_bool (ea_NeedsInfoUsed e) ''needs_info_used'' ms,
      field_of read_bool (ea_WorkspaceCleanupEligible e) ''workspace_cleanup_eligible'' ms]"

definition evaluation_lists :: "EvaluationArtifact \<Rightarrow> (string \<times> json) list \<Rightarrow> string list option list" where
  "evaluation_lists e ms =
     [strings_loop (ea_BlockedBy e) (member_values ''blocked_by'' ms),
      strings_loop (ea_MergeBlockerCodes e) (member_values ''merge_blocker_codes'' ms),
      strings_loop (ea_FrictionSignals e) (member_values ''friction_signals'' ms),
      strings_loop (ea_CandidateHarnessImprovements e) (member_values ''candidate_harness_improvements'' ms),
      strings_loop (ea_BehaviorContractEvidence e) (member_values ''behavior_contract_evidence'' ms),
      strings_loop (ea_TicketContractEvidence e) (member_values ''ticket_contract_evidence'' ms)]"

definition evaluation_of ::
    "string list \<Rightarrow> int list \<Rightarrow> rat list \<Rightarrow> bool list \<Rightarrow> string list list \<Rightarrow> bool option \<Rightarrow> EvaluationArtifact" where
  "evaluation_of ts ints fs bs ls passed =
     \<lparr>ea_SchemaVersion = ints ! 0, ea_SchemaSource = ts ! 0, ea_IssueIdentifier = ts ! 1, ea_IssueID = ts ! 2,
      ea_PRURL = ts ! 3, ea_FinalStatus = ts ! 4, ea_DurationMS = ints ! 1, ea_ImplementationTotalTokens = fs ! 0,
      ea_ImplementationTotalCost = fs ! 1, ea_ReviewTotalTokens = fs ! 2, ea_ReviewTotalCost = fs ! 3,
      ea_TotalTokens = fs ! 4, ea_TotalCost = fs ! 5, ea_ChecksStatus = ts ! 5, ea_ReviewStatus = ts ! 6,
      ea_ReviewClassification = ts ! 7, ea_ReviewPassed = passed, ea_Outcome = ts ! 8, ea_MergeEligible = bs ! 0,
      ea_BlockedBy = ls ! 0, ea_RootCause = ts ! 9, ea_NextAction = ts ! 10, ea_ShouldRetry = bs ! 1,
      ea_OperatorAttentionRequired = bs ! 2, ea_FeedbackRetryCount = ints ! 2, ea_NeedsInfoUsed = bs ! 3,
      ea_MergeBlockReason = ts ! 11, ea_MergeBlockerCodes = ls ! 1, ea_WorkspaceCleanupEligible = bs ! 4,
      ea_FrictionSignals = ls ! 2, ea_CandidateHarnessImprovements = ls ! 3, ea_BehaviorContractEvidence = ls ! 4,
      ea_TicketContractEvidence = ls ! 5\<rparr>"

fun bool_pointer_loop :: "bool option \<Rightarrow> json list \<Rightarrow> bool option option" where
  "bool_pointer_loop cur [] = Some cur"
| "bool_pointer_loop cur (j # js) =
     (if j = JNull then bool_pointer_loop None js
      else (case read_bool j of None \<Rightarrow> None | Some b \<Rightarrow> bool_pointer_loop (Some b) js))"

definition decode_evaluation :: "EvaluationArtifact \<Rightarrow> string \<Rightarrow> EvaluationArtifact option" where
  "decode_evaluation e data =
     (case object_members data of
        None \<Rightarrow> None
      | Some ms \<Rightarrow>
          (case (all_options (evaluation_texts e ms), all_options (evaluation_ints e ms),
                 all_options (evaluation_floats e ms), all_options (evaluation_bools e ms),
                 all_options (evaluation_lists e ms),
                 bool_pointer_loop (ea_ReviewPassed e) (member_values ''review_passed'' ms)) of
             (Some ts, Some ints, Some fs, Some bs, Some ls, Some passed) \<Rightarrow>
               Some (evaluation_of ts ints fs bs ls passed)
           | _ \<Rightarrow> None))"

definition markCurrentEvaluation :: "EvaluationArtifact \<Rightarrow> EvaluationArtifact" where
  "markCurrentEvaluation e =
     e\<lparr>ea_SchemaVersion := (if ea_SchemaVersion e = 0 then CurrentArtifactSchemaVersion else ea_SchemaVersion e),
       ea_SchemaSource := (if ea_SchemaSource e = [] then ArtifactSchemaSourceCurrent else ea_SchemaSource e)\<rparr>"

section \<open>The files of a workspace\<close>

definition inferArtifactSchema :: "string \<Rightarrow> string \<Rightarrow> string + int \<times> string" where
  "inferArtifactSchema data artifactName =
     (case object_members data of
        None \<Rightarrow> Inl (''malformed '' @ artifactName @ '' schema metadata'')
      | Some ms \<Rightarrow>
          (case (int_pointer_loop None (member_values ''schema_version'' ms), string_field ''schema_source'' ms) of
             (Some version, Some source) \<Rightarrow>
               (if version = None \<or> version = Some 0
                then Inr (CurrentArtifactSchemaVersion, ArtifactSchemaSourceLegacy)
                else if the version \<noteq> CurrentArtifactSchemaVersion
                then Inl (''unsupported '' @ artifactName @ '' schema_version '' @ itoa (the version))
                else Inr (the version, if trim_space source = [] then ArtifactSchemaSourceCurrent else trim_space source))
           | _ \<Rightarrow> Inl (''malformed '' @ artifactName @ '' schema metadata'')))"

definition ValidateArtifactSchema :: "string \<Rightarrow> string \<Rightarrow> string + int \<times> string" where
  "ValidateArtifactSchema data artifactName = inferArtifactSchema data artifactName"

definition readRunArtifact :: "files \<Rightarrow> string \<Rightarrow> RunRecord option" where
  "readRunArtifact files workspace =
     (case files (join2 workspace RunRecordName) of
        None \<Rightarrow> None
      | Some data \<Rightarrow>
          (case ValidateArtifactSchema data RunRecordName of Inl e \<Rightarrow> None | Inr s \<Rightarrow> decode_run_record data))"

definition readEvaluationArtifact :: "files \<Rightarrow> string \<Rightarrow> EvaluationArtifact option" where
  "readEvaluationArtifact files workspace =
     (case files (join2 workspace EvaluationName) of
        None \<Rightarrow> None
      | Some data \<Rightarrow>
          (case ValidateArtifactSchema data EvaluationName of
             Inl e \<Rightarrow> None | Inr s \<Rightarrow> decode_evaluation zero_Evaluation data))"

definition hasUnresolvedReviewFailure :: "files \<Rightarrow> string \<Rightarrow> string \<Rightarrow> bool" where
  "hasUnresolvedReviewFailure files workspaceRoot issueKey =
     (case files (join2 (join2 workspaceRoot issueKey) ''.am-run.json'') of
        None \<Rightarrow> False
      | Some data \<Rightarrow>
          (case decode_run_record data of
             None \<Rightarrow> False
           | Some record \<Rightarrow> rr_Status record = ''review_failed'' \<and> rr_PRURL record \<noteq> []))"

definition ReadPRFeedback :: "files \<Rightarrow> string \<Rightarrow> string" where
  "ReadPRFeedback files workspace = (case files (FeedbackPath workspace) of None \<Rightarrow> [] | Some data \<Rightarrow> data)"

definition WritePRFeedback :: "string \<Rightarrow> int \<Rightarrow> string \<Rightarrow> files \<Rightarrow> files" where
  "WritePRFeedback workspace prNumber feedback files =
     files(FeedbackPath workspace \<mapsto>
       (if trim_space feedback = []
        then ''# PR #'' @ itoa prNumber @ '' feedback'' @ [newline, newline]
               @ ''No review feedback returned by GitHub.'' @ [newline]
        else feedback))"

definition FeedbackHash :: "store_env \<Rightarrow> string \<Rightarrow> string" where
  "FeedbackHash env feedback =
     (if trim_space feedback = [] then [] else env_sha256 env (trim_space feedback))"

definition feedbackRetryCount :: "files \<Rightarrow> string \<Rightarrow> int" where
  "feedbackRetryCount files workspace = (if trim_space (ReadPRFeedback files workspace) = [] then 0 else 1)"

section \<open>Filling an evaluation in\<close>

record EvalMergeGate =
  eg_ReasonText :: string
  eg_CodeValues :: "string list"

text \<open>\<open>Builder\<close>: a nil function is \<open>None\<close>.\<close>

record Builder =
  eb_MergeGate :: "(RunRecord \<Rightarrow> EvalMergeGate) option"
  eb_FeedbackRetryCount :: "(string \<Rightarrow> int) option"
  eb_TerminalStatus :: "(string \<Rightarrow> bool) option"
  eb_RuntimeUsage :: "(RunRecord \<Rightarrow> Usage option) option"

definition builder_mergeGate :: "Builder \<Rightarrow> RunRecord \<Rightarrow> EvalMergeGate" where
  "builder_mergeGate b record =
     (case eb_MergeGate b of None \<Rightarrow> \<lparr>eg_ReasonText = [], eg_CodeValues = []\<rparr> | Some f \<Rightarrow> f record)"

definition builder_feedbackRetryCount :: "Builder \<Rightarrow> string \<Rightarrow> int" where
  "builder_feedbackRetryCount b workspace = (case eb_FeedbackRetryCount b of None \<Rightarrow> 0 | Some f \<Rightarrow> f workspace)"

definition builder_terminalStatus :: "Builder \<Rightarrow> string \<Rightarrow> bool" where
  "builder_terminalStatus b status = (case eb_TerminalStatus b of None \<Rightarrow> False | Some f \<Rightarrow> f status)"

definition builder_runtimeUsage :: "Builder \<Rightarrow> RunRecord \<Rightarrow> Usage option" where
  "builder_runtimeUsage b record = (case eb_RuntimeUsage b of None \<Rightarrow> None | Some f \<Rightarrow> f record)"

definition usage_tokens :: "Usage option \<Rightarrow> rat" where
  "usage_tokens u = (case u of None \<Rightarrow> 0 | Some x \<Rightarrow> us_TotalTokens x)"

definition usage_cost :: "Usage option \<Rightarrow> rat" where
  "usage_cost u = (case u of None \<Rightarrow> 0 | Some x \<Rightarrow> TotalCost x)"

definition builder_totalTokens :: "Builder \<Rightarrow> RunRecord \<Rightarrow> rat" where
  "builder_totalTokens b record = usage_tokens (builder_runtimeUsage b record) + usage_tokens (rr_ReviewUsage record)"

definition checksStatusForRun :: "RunRecord \<Rightarrow> string" where
  "checksStatusForRun record = (if rr_PRURL record = [] then ''not_applicable'' else ''unknown_post_run'')"

definition BuilderClassify :: "Builder \<Rightarrow> string \<Rightarrow> RunRecord \<Rightarrow> Classification" where
  "BuilderClassify b workspace record =
     Classify \<lparr>ci_Record = record, ci_FeedbackRetryCount = builder_feedbackRetryCount b workspace,
       ci_NeedsInfoUsed = has_prefix (rr_Status record) ''needs_info'',
       ci_MergeBlockReason = eg_ReasonText (builder_mergeGate b record), ci_TotalTokens = builder_totalTokens b record\<rparr>"

definition ForRun :: "Builder \<Rightarrow> string \<Rightarrow> RunRecord \<Rightarrow> EvaluationArtifact" where
  "ForRun b workspace record =
     (let gate = builder_mergeGate b record; ru = builder_runtimeUsage b record; vu = rr_ReviewUsage record;
          c = BuilderClassify b workspace record in
      zero_Evaluation
       \<lparr>ea_IssueIdentifier := rr_IssueIdentifier record, ea_IssueID := rr_IssueID record, ea_PRURL := rr_PRURL record,
        ea_FinalStatus := rr_Status record, ea_DurationMS := rr_DurationMS record,
        ea_ChecksStatus := checksStatusForRun record, ea_ReviewStatus := rr_ReviewStatus record,
        ea_ReviewClassification := rr_ReviewClassification record,
        ea_FeedbackRetryCount := builder_feedbackRetryCount b workspace,
        ea_NeedsInfoUsed := has_prefix (rr_Status record) ''needs_info'',
        ea_MergeBlockReason := eg_ReasonText gate, ea_MergeBlockerCodes := eg_CodeValues gate,
        ea_WorkspaceCleanupEligible := builder_terminalStatus b (rr_Status record),
        ea_ImplementationTotalTokens := usage_tokens ru, ea_ImplementationTotalCost := usage_cost ru,
        ea_ReviewTotalTokens := usage_tokens vu, ea_ReviewTotalCost := usage_cost vu,
        ea_TotalTokens := usage_tokens ru + usage_tokens vu, ea_TotalCost := usage_cost ru + usage_cost vu,
        ea_ReviewPassed := (if rr_ReviewStatus record \<noteq> [] then Some (rr_ReviewStatus record = ''passed'') else None),
        ea_BehaviorContractEvidence := cl_BehaviorContractEvidence c,
        ea_TicketContractEvidence := cl_TicketContractEvidence c, ea_FrictionSignals := cl_FrictionSignals c,
        ea_CandidateHarnessImprovements := cl_CandidateHarnessImprovements c, ea_Outcome := cl_Outcome c,
        ea_MergeEligible := cl_MergeEligible c, ea_BlockedBy := cl_BlockedBy c, ea_RootCause := cl_RootCause c,
        ea_NextAction := cl_NextAction c, ea_ShouldRetry := cl_ShouldRetry c,
        ea_OperatorAttentionRequired := cl_OperatorAttentionRequired c\<rparr>)"

text \<open>The builder the runner uses.\<close>

definition RecordRuntimeUsage :: "RunRecord \<Rightarrow> Usage option" where
  "RecordRuntimeUsage record = (if rr_RuntimeUsage record \<noteq> None then rr_RuntimeUsage record else rr_PiUsage record)"

definition evaluateRunRecordMergeGate :: "RunRecord \<Rightarrow> Decision" where
  "evaluateRunRecordMergeGate record =
     EvaluateRunRecord \<lparr>mr_Subject = first_non_empty [rr_PRURL record, rr_IssueIdentifier record],
       mr_Status = rr_Status record, mr_Error = rr_Error record\<rparr>"

definition evaluationBuilder :: "files \<Rightarrow> Builder" where
  "evaluationBuilder files =
     \<lparr>eb_MergeGate = Some (\<lambda>record. let gate = evaluateRunRecordMergeGate record in
        \<lparr>eg_ReasonText = Reason (md_Result gate), eg_CodeValues = Codes (md_Result gate)\<rparr>),
      eb_FeedbackRetryCount = Some (feedbackRetryCount files),
      eb_TerminalStatus = Some TerminalRunStatus,
      eb_RuntimeUsage = Some RecordRuntimeUsage\<rparr>"

definition evaluationForRun :: "files \<Rightarrow> string \<Rightarrow> RunRecord \<Rightarrow> EvaluationArtifact" where
  "evaluationForRun files workspace record = ForRun (evaluationBuilder files) workspace record"

section \<open>Repair notes\<close>

definition AppendRepairNote :: "string \<Rightarrow> string \<Rightarrow> string" where
  "AppendRepairNote existing note =
     (if existing = [] then note
      else if list_ex (\<lambda>part. part = note) (split_on (CHR '','') existing) then existing
      else existing @ '','' @ note)"

definition MarkManualRepairStatus :: "RunRecord \<Rightarrow> string \<Rightarrow> string \<Rightarrow> RunRecord" where
  "MarkManualRepairStatus record status note =
     record\<lparr>rr_OriginalStatus := (if rr_OriginalStatus record = [] then rr_Status record else rr_OriginalStatus record),
            rr_Status := status, rr_ManualRepair := AppendRepairNote (rr_ManualRepair record) note\<rparr>"

end
