(* ===== verification/GoUrl.thy ===== *)
theory GoUrl
  imports Prelude GoTime
begin

text \<open>
  \<open>net/url.Parse\<close> as far as the program uses it: the scheme, the host and the path of a URL, and
  whether it parses at all.  Query and fragment are split off and dropped (a malformed escape in the
  fragment is an error, as in Go).
\<close>

definition is_alpha :: "char \<Rightarrow> bool" where
  "is_alpha c \<longleftrightarrow> (let n = (of_char c :: nat) in (65 \<le> n \<and> n \<le> 90) \<or> (97 \<le> n \<and> n \<le> 122))"

definition is_alnum :: "char \<Rightarrow> bool" where
  "is_alnum c \<longleftrightarrow> is_alpha c \<or> is_digit c"

definition url_hex_val :: "char \<Rightarrow> nat option" where
  "url_hex_val c = (let n = (of_char c :: nat) in
     if 48 \<le> n \<and> n \<le> 57 then Some (n - 48)
     else if 97 \<le> n \<and> n \<le> 102 then Some (n - 87)
     else if 65 \<le> n \<and> n \<le> 70 then Some (n - 55) else None)"

text \<open>\<open>strings.Cut\<close> at a character, and the cut at its last occurrence.\<close>

definition cut_at :: "char \<Rightarrow> string \<Rightarrow> string \<times> string" where
  "cut_at c s = (takeWhile (\<lambda>x. x \<noteq> c) s, tl (dropWhile (\<lambda>x. x \<noteq> c) s))"

definition cut_last :: "char \<Rightarrow> string \<Rightarrow> (string \<times> string) option" where
  "cut_last c s =
     (if c \<in> set s
      then Some (rev (tl (dropWhile (\<lambda>x. x \<noteq> c) (rev s))), rev (takeWhile (\<lambda>x. x \<noteq> c) (rev s)))
      else None)"

section \<open>Escapes\<close>

datatype encoding = EncodePath | EncodeHost | EncodeZone | EncodeOther

definition host_char :: "char \<Rightarrow> bool" where
  "host_char c \<longleftrightarrow> is_alnum c \<or> c \<in> set ''!$&()*+,;=:[]<>-_.~'' \<or> c = CHR 0x27 \<or> c = CHR 0x22"

definition escape_allowed :: "encoding \<Rightarrow> nat \<Rightarrow> nat \<Rightarrow> bool" where
  "escape_allowed mode hi lo =
     (let v = 16 * hi + lo in
      case mode of
        EncodeHost \<Rightarrow> 8 \<le> hi \<or> v = 37
      | EncodeZone \<Rightarrow> v = 37 \<or> v = 32 \<or> host_char (char_of v)
      | _ \<Rightarrow> True)"

definition char_allowed :: "encoding \<Rightarrow> char \<Rightarrow> bool" where
  "char_allowed mode c \<longleftrightarrow> (mode \<noteq> EncodeHost \<and> mode \<noteq> EncodeZone) \<or> 128 \<le> (of_char c :: nat) \<or> host_char c"

fun unescape :: "encoding \<Rightarrow> string \<Rightarrow> string option" where
  "unescape mode [] = Some []"
| "unescape mode (c # s) =
     (if c = CHR ''%'' then
        (case s of
           a # b # r \<Rightarrow>
             (case (url_hex_val a, url_hex_val b) of
                (Some hi, Some lo) \<Rightarrow>
                  if escape_allowed mode hi lo
                  then map_option ((#) (char_of (16 * hi + lo))) (unescape mode r) else None
              | _ \<Rightarrow> None)
         | _ \<Rightarrow> None)
      else if char_allowed mode c then map_option ((#) c) (unescape mode s) else None)"

section \<open>Scheme, authority, path\<close>

record URL =
  ur_Scheme :: string
  ur_Host :: string
  ur_Path :: string

definition scheme_char :: "char \<Rightarrow> bool" where
  "scheme_char c \<longleftrightarrow> is_alnum c \<or> c \<in> set ''+-.''"

text \<open>\<open>getScheme\<close>: a leading colon is an error; without a well-formed scheme there is none.\<close>

definition get_scheme :: "string \<Rightarrow> (string \<times> string) option" where
  "get_scheme s =
     (let pre = takeWhile scheme_char s; rest = dropWhile scheme_char s in
      if rest \<noteq> [] \<and> hd rest = CHR '':'' then
        (if pre = [] then None
         else if is_alpha (hd pre) then Some (to_lower pre, tl rest) else Some ([], s))
      else Some ([], s))"

definition optional_port :: "string \<Rightarrow> bool" where
  "optional_port s \<longleftrightarrow> s = [] \<or> (hd s = CHR '':'' \<and> list_all is_digit (tl s))"

definition userinfo_char :: "char \<Rightarrow> bool" where
  "userinfo_char c \<longleftrightarrow> is_alnum c \<or> c \<in> set ''-._:~!$&()*+,;=%@'' \<or> c = CHR 0x27"

text \<open>The text before and from the first \<open>%25\<close> of a bracketed host: its zone.\<close>

fun zone_split :: "string \<Rightarrow> (string \<times> string) option" where
  "zone_split [] = None"
| "zone_split (c # s) =
     (if has_prefix (c # s) ''%25'' then Some ([], c # s)
      else map_option (\<lambda>(p, z). (c # p, z)) (zone_split s))"

definition append_options :: "string option \<Rightarrow> string option \<Rightarrow> string option" where
  "append_options a b = (case (a, b) of (Some x, Some y) \<Rightarrow> Some (x @ y) | _ \<Rightarrow> None)"

definition parse_host :: "string \<Rightarrow> string option" where
  "parse_host host =
     (if has_prefix host ''['' then
        (case cut_last (CHR '']'') host of
           None \<Rightarrow> None
         | Some (inner, port) \<Rightarrow>
             if \<not> optional_port port then None
             else (case zone_split inner of
                     Some (h, z) \<Rightarrow>
                       append_options (unescape EncodeHost h)
                         (append_options (unescape EncodeZone z) (unescape EncodeHost ('']'' @ port)))
                   | None \<Rightarrow> unescape EncodeHost host))
      else (case cut_last (CHR '':'') host of
              Some (h, port) \<Rightarrow> if list_all is_digit port then unescape EncodeHost host else None
            | None \<Rightarrow> unescape EncodeHost host))"

definition parse_authority :: "string \<Rightarrow> string option" where
  "parse_authority authority =
     (case cut_last (CHR ''@'') authority of
        None \<Rightarrow> parse_host authority
      | Some (userinfo, host) \<Rightarrow>
          (case parse_host host of
             None \<Rightarrow> None
           | Some h \<Rightarrow>
               if list_all userinfo_char userinfo \<and> unescape EncodeOther userinfo \<noteq> None then Some h else None))"

definition control_char :: "char \<Rightarrow> bool" where
  "control_char c \<longleftrightarrow> (let n = (of_char c :: nat) in n < 32 \<or> n = 127)"

definition url_parse :: "string \<Rightarrow> URL option" where
  "url_parse raw =
     (let u = fst (cut_at (CHR ''#'') raw); fragment = snd (cut_at (CHR ''#'') raw) in
      if list_ex control_char u \<or> unescape EncodeOther fragment = None then None
      else if u = ''*'' then Some \<lparr>ur_Scheme = [], ur_Host = [], ur_Path = ''*''\<rparr>
      else (case get_scheme u of
              None \<Rightarrow> None
            | Some (scheme, rest0) \<Rightarrow>
                let rest = fst (cut_at (CHR ''?'') rest0) in
                if \<not> has_prefix rest ''/'' \<and> scheme \<noteq> [] then Some \<lparr>ur_Scheme = scheme, ur_Host = [], ur_Path = []\<rparr>
                else if \<not> has_prefix rest ''/'' \<and> CHR '':'' \<in> set (fst (cut_at (CHR ''/'') rest)) then None
                else if (scheme \<noteq> [] \<or> \<not> has_prefix rest ''///'') \<and> has_prefix rest ''//'' then
                  (let authority = takeWhile (\<lambda>c. c \<noteq> CHR ''/'') (drop 2 rest);
                       path = dropWhile (\<lambda>c. c \<noteq> CHR ''/'') (drop 2 rest) in
                   case (parse_authority authority, unescape EncodePath path) of
                     (Some host, Some p) \<Rightarrow> Some \<lparr>ur_Scheme = scheme, ur_Host = host, ur_Path = p\<rparr>
                   | _ \<Rightarrow> None)
                else (case unescape EncodePath rest of
                        None \<Rightarrow> None
                      | Some p \<Rightarrow> Some \<lparr>ur_Scheme = scheme, ur_Host = [], ur_Path = p\<rparr>)))"

end
