(* ===== verification/CodeHost.thy ===== *)
theory CodeHost
  imports GoUrl JsonParse MergeGate CodeOwnership Domain "HOL-Library.Word"
begin

text \<open>
  internal/codehost: pull request summaries and the parsing of repository names and pull request
  URLs; the App identity of internal/ghapi/app.go; and the helpers of the main package on top of
  them (github_api.go, and the branch naming of merge.go, status.go and handoff.go).
  \<open>getenv\<close> is the environment of the process.
\<close>

section \<open>Types\<close>

definition ProviderGitHub :: string where "ProviderGitHub = ''github''"

record PRCommit =
  pc_OID :: string
  pc_Name :: string
  pc_Email :: string
  pc_Login :: string

record PullRequestSummary =
  ps_Number :: int
  ps_URL :: string
  ps_BaseRefName :: string
  ps_HeadRefName :: string
  ps_Author :: string
  ps_Commits :: "PRCommit list"
  ps_Mergeable :: string
  ps_MergeStateStatus :: string
  ps_ReviewDecision :: string
  ps_StatusCheckRollup :: "StatusCheck list"

definition AuthorLogin :: "PullRequestSummary \<Rightarrow> string" where
  "AuthorLogin pr = trim_space (ps_Author pr)"

record Repository =
  rp_Provider :: string
  rp_Host :: string
  rp_Owner :: string
  rp_Name :: string
  rp_Path :: string

record PullRequestURL =
  pu_Provider :: string
  pu_Host :: string
  pu_Project :: string
  pu_Owner :: string
  pu_Repo :: string
  pu_Number :: int

definition FullName :: "Repository \<Rightarrow> string" where
  "FullName r =
     (if trim_space (rp_Path r) \<noteq> [] then rp_Path r
      else if rp_Owner r = [] then rp_Name r
      else rp_Owner r @ ''/'' @ rp_Name r)"

section \<open>Repositories\<close>

definition repositoryFromPath :: "string \<Rightarrow> string \<Rightarrow> Repository" where
  "repositoryFromPath host path =
     (let parts = split_on (CHR ''/'') (trim_chars ''/'' path);
          name = trim_suffix ''.git'' (last parts);
          parts' = butlast parts @ [name]
      in \<lparr>rp_Provider = [], rp_Host = host,
          rp_Owner = (if 1 < length parts' then join ''/'' (butlast parts') else []),
          rp_Name = name, rp_Path = join ''/'' parts'\<rparr>)"

definition repositoryFromHostPath :: "string \<Rightarrow> string \<Rightarrow> Repository" where
  "repositoryFromHostPath host path =
     (let repo = repositoryFromPath host path in
      if to_lower host = ''github.com'' then repo\<lparr>rp_Provider := ProviderGitHub\<rparr>
      else if to_lower host = ''gitlab.com'' then repo\<lparr>rp_Provider := ProviderGitLab\<rparr>
      else repo)"

text \<open>
  The two regular expressions: \<open>^git@([^:]+):(.+)$\<close> and \<open>^ssh://git@([^/]+)/(.+)$\<close>, a prefix, a
  non-empty host up to a separator, and a non-empty rest without a line break.
\<close>

definition host_and_rest :: "string \<Rightarrow> char \<Rightarrow> string \<Rightarrow> (string \<times> string) option" where
  "host_and_rest pre sep value =
     (if has_prefix value pre then
        (let s = drop (length pre) value; host = takeWhile (\<lambda>c. c \<noteq> sep) s; rest = tl (dropWhile (\<lambda>c. c \<noteq> sep) s) in
         if host \<noteq> [] \<and> sep \<in> set s \<and> rest \<noteq> [] \<and> newline \<notin> set rest then Some (host, rest) else None)
      else None)"

definition remote_path :: "string \<Rightarrow> string" where
  "remote_path p = trim_chars ''/'' (trim_suffix ''.git'' p)"

definition ParseRepository :: "string \<Rightarrow> Repository option" where
  "ParseRepository value0 =
     (let value = trim_space value0; parts = split_on (CHR ''/'') value;
          url = (case url_parse value of
                   Some u \<Rightarrow> if ur_Host u \<noteq> [] \<and> remote_path (ur_Path u) \<noteq> []
                             then Some (repositoryFromHostPath (ur_Host u) (remote_path (ur_Path u))) else None
                 | None \<Rightarrow> None);
          scp = (case host_and_rest ''git@'' (CHR '':'') value of
                   Some (host, p) \<Rightarrow> if remote_path p \<noteq> [] then Some (repositoryFromHostPath host (remote_path p)) else None
                 | None \<Rightarrow> None);
          ssh = (case host_and_rest ''ssh://git@'' (CHR ''/'') value of
                   Some (host, p) \<Rightarrow> if remote_path p \<noteq> [] then Some (repositoryFromHostPath host (remote_path p)) else None
                 | None \<Rightarrow> None)
      in
      if value = [] then None
      else if 2 \<le> length parts \<and> hd parts \<noteq> [] \<and> last parts \<noteq> [] \<and> CHR '':'' \<notin> set (hd parts) then
        Some (repositoryFromPath [] (join ''/'' (butlast parts @ [trim_suffix ''.git'' (last parts)])))
      else if url \<noteq> None then url
      else if scp \<noteq> None then scp
      else ssh)"

section \<open>Pull request URLs\<close>

text \<open>The accumulator is Go's 64-bit \<open>int\<close>: it wraps.\<close>

fun digits_loop :: "64 word \<Rightarrow> string \<Rightarrow> 64 word option" where
  "digits_loop number [] = Some number"
| "digits_loop number (r # s) =
     (if is_digit r then digits_loop (number * 10 + of_nat (digit_val r)) s else None)"

definition parsePositiveInt :: "string \<Rightarrow> int option" where
  "parsePositiveInt value =
     (if value = [] then None
      else (case digits_loop 0 value of
              None \<Rightarrow> None
            | Some number \<Rightarrow> if 0 <s number then Some (sint number) else None))"

text \<open>The loop over the path elements: what is before the index, reversed, and what is left.\<close>

fun scan_parts :: "string \<Rightarrow> string list \<Rightarrow> string list \<Rightarrow> PullRequestURL option" where
  "scan_parts host prev [] = None"
| "scan_parts host prev (p # rest) =
     (if p = ''pull'' \<and> host = ''github.com'' \<and> 2 \<le> length prev \<and> rest \<noteq> [] then
        (case parsePositiveInt (hd rest) of
           None \<Rightarrow> None
         | Some n \<Rightarrow>
             Some \<lparr>pu_Provider = ProviderGitHub, pu_Host = host, pu_Project = join ''/'' (rev prev),
                   pu_Owner = prev ! 1, pu_Repo = prev ! 0, pu_Number = n\<rparr>)
      else if p = ''-'' \<and> 2 \<le> length rest \<and> hd rest = ''merge_requests'' then
        (case parsePositiveInt (rest ! 1) of
           None \<Rightarrow> None
         | Some n \<Rightarrow>
             if prev = [] then None
             else (let repoParts = split_on (CHR ''/'') (join ''/'' (rev prev)) in
                   Some \<lparr>pu_Provider = ProviderGitLab, pu_Host = host, pu_Project = join ''/'' (rev prev),
                         pu_Owner = join ''/'' (butlast repoParts), pu_Repo = last repoParts, pu_Number = n\<rparr>))
      else scan_parts host (p # prev) rest)"

definition ParsePullRequestURL :: "string \<Rightarrow> PullRequestURL option" where
  "ParsePullRequestURL value =
     (case url_parse (trim_space value) of
        None \<Rightarrow> None
      | Some u \<Rightarrow>
          if ur_Scheme u \<noteq> ''https'' \<or> ur_Host u = [] then None
          else scan_parts (ur_Host u) [] (split_on (CHR ''/'') (trim_chars ''/'' (ur_Path u))))"

section \<open>The App identity\<close>

record AppIdentity =
  ai_Slug :: string
  ai_Source :: string

definition NewAppIdentity :: "string \<Rightarrow> string \<Rightarrow> AppIdentity \<times> bool" where
  "NewAppIdentity slug source =
     (let trimmed = trim_space slug in
      if trimmed = [] then (\<lparr>ai_Slug = [], ai_Source = trim_space source\<rparr>, False)
      else (\<lparr>ai_Slug = trimmed, ai_Source = trim_space source\<rparr>, True))"

definition AppIdentityFromEnvironment :: "(string \<Rightarrow> string) \<Rightarrow> AppIdentity \<times> bool" where
  "AppIdentityFromEnvironment getenv = NewAppIdentity (getenv ''GITHUB_APP_SLUG'') ''GITHUB_APP_SLUG''"

definition AppIdentityFromConfigSlug :: "(string \<Rightarrow> string) \<Rightarrow> string \<Rightarrow> AppIdentity" where
  "AppIdentityFromConfigSlug getenv slug =
     (let (configured, ok) = NewAppIdentity slug ''config github.app_slug'';
          (environment, ok') = AppIdentityFromEnvironment getenv in
      if ok then configured else if ok' then environment
      else \<lparr>ai_Slug = [], ai_Source = ''config github.app_slug or GITHUB_APP_SLUG''\<rparr>)"

definition AppPRAuthorLogin :: "AppIdentity \<Rightarrow> string" where
  "AppPRAuthorLogin i = (if trim_space (ai_Slug i) = [] then [] else ''app/'' @ trim_space (ai_Slug i))"

definition AppRESTPRAuthorLogin :: "AppIdentity \<Rightarrow> string" where
  "AppRESTPRAuthorLogin i = (if trim_space (ai_Slug i) = [] then [] else trim_space (ai_Slug i) @ ''[bot]'')"

definition BotName :: "AppIdentity \<Rightarrow> string" where
  "BotName i = AppRESTPRAuthorLogin i"

definition BotEmail :: "AppIdentity \<Rightarrow> string" where
  "BotEmail i = (if BotName i = [] then [] else BotName i @ ''@users.noreply.github.com'')"

definition ExpectedPRAuthorLogins :: "AppIdentity \<Rightarrow> string list" where
  "ExpectedPRAuthorLogins i =
     (if trim_space (ai_Slug i) = [] then [] else [AppPRAuthorLogin i, AppRESTPRAuthorLogin i])"

definition AppExpectedPRAuthorSource :: "AppIdentity \<Rightarrow> string" where
  "AppExpectedPRAuthorSource i =
     (let logins = ExpectedPRAuthorLogins i; s = trim_space (ai_Source i);
          source = (if s = [] then ''GitHub App slug'' else s) in
      if logins = [] then ''no expected GitHub App author could be derived from '' @ source
      else logins ! 0 @ '' or '' @ logins ! 1 @ '' (from '' @ source @ '')'')"

definition IsExpectedCommitAuthor :: "AppIdentity \<Rightarrow> PRCommit \<Rightarrow> bool" where
  "IsExpectedCommitAuthor i a \<longleftrightarrow> trim_space (pc_Name a) = BotName i \<and> trim_space (pc_Email a) = BotEmail i"

fun commits_block_reason :: "AppIdentity \<Rightarrow> PRCommit list \<Rightarrow> string" where
  "commits_block_reason identity [] = []"
| "commits_block_reason identity (commit # commits) =
     (if trim_space (ai_Slug identity) = [] then AppExpectedPRAuthorSource identity
      else if IsExpectedCommitAuthor identity commit then commits_block_reason identity commits
      else (let name = empty_as_unknown (trim_space (pc_Name commit));
                email = empty_as_unknown (trim_space (pc_Email commit));
                oid = trim_space (pc_OID commit);
                who = name @ '' <'' @ email @ ''>; expected '' @ BotName identity @ '' <'' @ BotEmail identity @ ''>'' in
            if oid \<noteq> [] then ''commit author for '' @ oid @ '' is '' @ who else ''commit author is '' @ who))"

definition CommitAuthorInvariantBlockReason :: "AppIdentity \<Rightarrow> PullRequestSummary \<Rightarrow> string" where
  "CommitAuthorInvariantBlockReason identity pr = commits_block_reason identity (ps_Commits pr)"

section \<open>The runner's view\<close>

definition codeHostProvider :: "RunnerConfig \<Rightarrow> string" where
  "codeHostProvider config =
     (let provider = to_lower (trim_space (rc_RepositoryProvider config)) in
      if provider \<noteq> [] then provider
      else (case ParseRepository (rc_RepositoryRemote config) of
              Some repo \<Rightarrow> if rp_Provider repo \<noteq> [] then rp_Provider repo else ProviderGitHub
            | None \<Rightarrow> ProviderGitHub))"

definition gitLabProject :: "RunnerConfig \<Rightarrow> string" where
  "gitLabProject config =
     (if rc_GitLabProject config \<noteq> [] then rc_GitLabProject config
      else (case ParseRepository (rc_RepositoryRemote config) of
              Some repo \<Rightarrow> if rp_Provider repo = ProviderGitLab then FullName repo else []
            | None \<Rightarrow> []))"

definition githubAppIdentityFromConfig :: "(string \<Rightarrow> string) \<Rightarrow> RunnerConfig \<Rightarrow> AppIdentity" where
  "githubAppIdentityFromConfig getenv config = AppIdentityFromConfigSlug getenv (rc_GitHubAppSlug config)"

definition commitAuthorInvariantBlockReason :: "(string \<Rightarrow> string) \<Rightarrow> RunnerConfig \<Rightarrow> PullRequestSummary \<Rightarrow> string" where
  "commitAuthorInvariantBlockReason getenv config pr =
     CommitAuthorInvariantBlockReason (githubAppIdentityFromConfig getenv config) pr"

definition expectedWorkspaceBranch :: "string \<Rightarrow> string" where
  "expectedWorkspaceBranch identifier = ''am/'' @ trim_space identifier @ ''-workspace''"

text \<open>The first match of \<open>(?i)(CAG[-_][0-9]+)\<close>.\<close>

definition cag_match :: "string \<Rightarrow> string option" where
  "cag_match s =
     (if to_upper (take 3 s) = ''CAG'' \<and> 4 \<le> length s \<and> (s ! 3 = CHR ''-'' \<or> s ! 3 = CHR ''_'')
        \<and> takeWhile is_digit (drop 4 s) \<noteq> []
      then Some (take 4 s @ takeWhile is_digit (drop 4 s)) else None)"

fun find_cag :: "string \<Rightarrow> string" where
  "find_cag [] = []"
| "find_cag (c # s) = (case cag_match (c # s) of Some m \<Rightarrow> m | None \<Rightarrow> find_cag s)"

definition issueIdentifierFromBranch :: "string \<Rightarrow> string" where
  "issueIdentifierFromBranch branch = to_upper (replace_char (CHR ''_'') (CHR ''-'') (find_cag branch))"

definition amPRs :: "PullRequestSummary list \<Rightarrow> PullRequestSummary list" where
  "amPRs prs = filter (\<lambda>pr. issueIdentifierFromBranch (ps_HeadRefName pr) \<noteq> []) prs"

text \<open>The map from issues to their pull requests: of several, the last one listed.\<close>

fun indexPRsByIssue :: "PullRequestSummary list \<Rightarrow> string \<Rightarrow> PullRequestSummary option" where
  "indexPRsByIssue [] identifier = None"
| "indexPRsByIssue (pr # prs) identifier =
     (case indexPRsByIssue prs identifier of
        Some later \<Rightarrow> Some later
      | None \<Rightarrow> if issueIdentifierFromBranch (ps_HeadRefName pr) \<noteq> []
                  \<and> issueIdentifierFromBranch (ps_HeadRefName pr) = identifier then Some pr else None)"

section \<open>Reading a pull request number\<close>

lemma digits_loop_nat:
  "list_all is_digit ds \<Longrightarrow>
   digits_loop (of_nat n) ds = Some (of_nat (foldl (\<lambda>a c. 10 * a + digit_val c) n ds))"
proof (induction ds arbitrary: n)
  case Nil
  then show ?case by simp
next
  case (Cons d ds)
  have "(of_nat n * 10 + of_nat (digit_val d) :: 64 word) = of_nat (10 * n + digit_val d)" by simp
  with Cons show ?case by (simp del: of_nat_add of_nat_mult)
qed

lemma digits_loop_val: "list_all is_digit ds \<Longrightarrow> digits_loop 0 ds = Some (of_nat (digits_val ds))"
  using digits_loop_nat [of ds 0] by (simp add: digits_val_def)

lemma sint_of_nat_64: "sint (of_nat n :: 64 word) = (int n + 2 ^ 63) mod 2 ^ 64 - 2 ^ 63"
  by (simp add: signed_of_nat signed_take_bit_eq_take_bit_shift take_bit_eq_mod)

lemma digits_loop_bad: "\<not> list_all is_digit ds \<Longrightarrow> digits_loop w ds = None"
  by (induction ds arbitrary: w) auto

text \<open>Go's \<open>int\<close> value of a decimal number: modulo \<open>2 ^ 64\<close>, in two's complement.\<close>

definition int64_of :: "nat \<Rightarrow> int" where
  "int64_of n = (int n + 2 ^ 63) mod 2 ^ 64 - 2 ^ 63"

lemma int64_small: "n < 2 ^ 63 \<Longrightarrow> int64_of n = int n"
  by (simp add: int64_of_def)

lemma pr_number_value:
  "parsePositiveInt value =
     (if value \<noteq> [] \<and> list_all is_digit value \<and> 0 < int64_of (digits_val value)
      then Some (int64_of (digits_val value)) else None)"
proof -
  have eq: "sint (of_nat (digits_val value) :: 64 word) = int64_of (digits_val value)"
    by (simp add: sint_of_nat_64 int64_of_def)
  show ?thesis
    unfolding parsePositiveInt_def
    by (cases "list_all is_digit value")
      (simp_all add: digits_loop_val digits_loop_bad word_sless_alt eq)
qed

text \<open>
  C18: a pull request number is read modulo two to the 64th.  The text of a number is its decimal
  digits; what \<open>parsePositiveInt\<close> returns is their value as a 64-bit signed integer, and it accepts
  a text exactly when that value is positive, so a number beyond the range is not refused but taken
  for another one.
\<close>

theorem pr_number_wraps:
  "parsePositiveInt value =
     (if value \<noteq> [] \<and> list_all is_digit value \<and> 0 < int64_of (digits_val value)
      then Some (int64_of (digits_val value)) else None)
   \<and> parsePositiveInt ''18446744073709551617'' = Some 1"
proof -
  have "parsePositiveInt ''18446744073709551617'' = Some 1" by code_simp
  with pr_number_value show ?thesis by blast
qed

section \<open>Reading a pull request URL\<close>

lemma cut_at_absent: "c \<notin> set s \<Longrightarrow> cut_at c s = (s, [])"
  unfolding cut_at_def by (induction s) auto

lemma split_on_piece: "sep \<notin> set x \<Longrightarrow> split_on sep (x @ sep # y) = x # split_on sep y"
  by (induction x) auto

lemma split_on_last: "sep \<notin> set x \<Longrightarrow> split_on sep x = [x]"
  by (induction x) auto

lemma unescape_plain: "CHR ''%'' \<notin> set s \<Longrightarrow> unescape EncodePath s = Some s"
  by (induction s) (auto simp: char_allowed_def)

text \<open>The characters of owner and repository names: letters, digits, dashes, underscores and dots.\<close>

definition name_char :: "char \<Rightarrow> bool" where
  "name_char c \<longleftrightarrow> is_alnum c \<or> c \<in> set ''-_.''"

definition repo_name :: "string \<Rightarrow> bool" where
  "repo_name s \<longleftrightarrow> s \<noteq> [] \<and> s \<noteq> ''-'' \<and> list_all name_char s"

lemma name_marks: "\<not> name_char CHR ''/''" "\<not> name_char CHR ''%''" "\<not> name_char CHR ''#''" "\<not> name_char CHR ''?''"
  by code_simp+

lemma name_char_of_char:
  assumes "name_char c"
  shows "32 \<le> (of_char c :: nat) \<and> (of_char c :: nat) \<noteq> 127"
proof (cases "is_alnum c")
  case True
  then show ?thesis by (auto simp: is_alnum_def is_alpha_def is_digit_def Let_def)
next
  case False
  with assms have "c = CHR ''-'' \<or> c = CHR ''_'' \<or> c = CHR ''.''" by (simp add: name_char_def)
  then show ?thesis by (elim disjE) simp_all
qed

lemma name_char_not:
  assumes "name_char c"
  shows "c \<noteq> CHR ''/''" "c \<noteq> CHR ''%''" "c \<noteq> CHR ''#''" "c \<noteq> CHR ''?''" "\<not> control_char c"
  using assms name_marks name_char_of_char [OF assms] by (auto simp: control_char_def)

lemma digit_name_char: "is_digit c \<Longrightarrow> name_char c"
  by (simp add: name_char_def is_alnum_def)

lemma list_all_excludes: "list_all P s \<Longrightarrow> \<not> P c \<Longrightarrow> c \<notin> set s"
  by (auto simp: list_all_iff)

lemma list_all_none: "list_all P s \<Longrightarrow> (\<And>c. P c \<Longrightarrow> \<not> Q c) \<Longrightarrow> \<not> list_ex Q s"
  by (auto simp: list_all_iff list_ex_iff)

lemma name_text:
  assumes "list_all name_char s"
  shows "CHR ''/'' \<notin> set s" "CHR ''%'' \<notin> set s" "CHR ''#'' \<notin> set s" "CHR ''?'' \<notin> set s"
    "\<not> list_ex control_char s"
  by (rule list_all_excludes [OF assms name_marks(1)] list_all_excludes [OF assms name_marks(2)]
      list_all_excludes [OF assms name_marks(3)] list_all_excludes [OF assms name_marks(4)]
      list_all_none [OF assms name_char_not(5)], assumption?)+

definition github_pr_url :: "string \<Rightarrow> string \<Rightarrow> int \<Rightarrow> string" where
  "github_pr_url owner repo n = ''https://github.com/'' @ owner @ ''/'' @ repo @ ''/pull/'' @ itoa n"

lemma url_parse_github:
  assumes "list_all name_char owner" "list_all name_char repo" "list_all name_char ds"
  shows "url_parse (''https://github.com/'' @ owner @ ''/'' @ repo @ ''/pull/'' @ ds) =
    Some \<lparr>ur_Scheme = ''https'', ur_Host = ''github.com'', ur_Path = ''/'' @ owner @ ''/'' @ repo @ ''/pull/'' @ ds\<rparr>"
proof -
  let ?p = "''/'' @ owner @ ''/'' @ repo @ ''/pull/'' @ ds"
  let ?s = "''https://github.com/'' @ owner @ ''/'' @ repo @ ''/pull/'' @ ds"
  note n = name_text [OF assms(1)] name_text [OF assms(2)] name_text [OF assms(3)]
  have h: "CHR ''#'' \<notin> set ?s" using n by simp
  have q: "CHR ''?'' \<notin> set (''//github.com'' @ ?p)" using n by simp
  have c: "\<not> list_ex control_char ?s" using n by (simp add: control_char_def)
  have sch: "get_scheme ?s = Some (''https'', ''//github.com'' @ ?p)"
    by (simp add: get_scheme_def scheme_char_def is_alnum_def is_alpha_def is_digit_def Let_def to_lower_def lower_char_def)
  have a: "takeWhile (\<lambda>c. c \<noteq> CHR ''/'') (drop 2 (''//github.com'' @ ?p)) = ''github.com''"
    "dropWhile (\<lambda>c. c \<noteq> CHR ''/'') (drop 2 (''//github.com'' @ ?p)) = ?p" by simp_all
  have host: "parse_authority ''github.com'' = Some ''github.com''" by code_simp
  have path: "unescape EncodePath ?p = Some ?p" by (rule unescape_plain) (use n in simp)
  have pre: "has_prefix (''//github.com'' @ ?p) ''/''" "has_prefix (''//github.com'' @ ?p) ''//''"
    by (simp_all add: has_prefix_def)
  show ?thesis
    unfolding url_parse_def cut_at_absent [OF h] fst_conv snd_conv Let_def sch option.case prod.case cut_at_absent [OF q] a host path
    using c pre by simp
qed

lemma trim_slashes:
  assumes "x \<noteq> []" "hd x \<noteq> CHR ''/''" "y \<noteq> []" "last y \<noteq> CHR ''/''"
  shows "trim_chars ''/'' (''/'' @ x @ y) = x @ y"
proof -
  have "dropWhile (\<lambda>c. c \<in> set ''/'') (''/'' @ x @ y) = x @ y" using assms(1,2) by (cases x) auto
  moreover have "dropWhile (\<lambda>c. c \<in> set ''/'') (rev (x @ y)) = rev (x @ y)"
    using assms(3,4) by (cases y rule: rev_cases) auto
  ultimately show ?thesis by (simp add: trim_chars_def trim_chars_left_def)
qed

lemma itoa_pos: "0 < n \<Longrightarrow> itoa n = nat_digits (nat n)"
  by (simp add: itoa_def)

lemma parsePositiveInt_itoa: "0 < n \<Longrightarrow> n < 2 ^ 63 \<Longrightarrow> parsePositiveInt (itoa n) = Some n"
  using pr_number_value [of "nat_digits (nat n)"]
  by (simp add: itoa_pos nat_digits_digits nat_digits_val int64_small)

lemma pr_path_parts:
  assumes "repo_name owner" "repo_name repo" "0 < n"
  shows "split_on (CHR ''/'') (trim_chars ''/'' (''/'' @ owner @ ''/'' @ repo @ ''/pull/'' @ itoa n))
    = [owner, repo, ''pull'', itoa n]"
proof -
  let ?d = "itoa n"
  have o: "CHR ''/'' \<notin> set owner" and r: "CHR ''/'' \<notin> set repo"
    using assms(1,2) name_text(1) by (auto simp: repo_name_def)
  have digits: "list_all name_char ?d"
    using nat_digits_digits [of "nat n"] digit_name_char by (auto simp: itoa_pos assms(3) list_all_iff)
  have d: "CHR ''/'' \<notin> set ?d" by (rule name_text(1) [OF digits])
  have "last ?d \<in> set ?d" by (rule last_in_set) simp
  then have "last ?d \<noteq> CHR ''/''" using d by metis
  then have l: "last (''/'' @ repo @ ''/pull/'' @ ?d) \<noteq> CHR ''/''" by simp
  have ne: "owner \<noteq> []" using assms(1) by (simp add: repo_name_def)
  then have "hd owner \<in> set owner" by (rule hd_in_set)
  with o have hd: "hd owner \<noteq> CHR ''/''" by metis
  have trim: "trim_chars ''/'' (''/'' @ owner @ ''/'' @ repo @ ''/pull/'' @ ?d) = owner @ ''/'' @ repo @ ''/pull/'' @ ?d"
    by (rule trim_slashes [OF ne hd]) (use l in simp_all)
  show ?thesis
    unfolding trim
    using split_on_piece [OF o, of "repo @ ''/pull/'' @ ?d"] split_on_piece [OF r, of "''pull/'' @ ?d"]
      split_on_piece [of "CHR ''/''" "''pull''" ?d] split_on_last [OF d]
    by simp
qed

text \<open>
  The URL the machine records for a pull request names that pull request.  For every owner,
  repository and number in the range of Go's \<open>int\<close>, \<open>ParsePullRequestURL\<close> of its GitHub URL gives
  the provider, host, project, owner, repository and number back.
\<close>

theorem github_pr_url_roundtrip:
  assumes "repo_name owner" "repo_name repo" "0 < n" "n < 2 ^ 63"
  shows "ParsePullRequestURL (github_pr_url owner repo n) =
    Some \<lparr>pu_Provider = ProviderGitHub, pu_Host = ''github.com'', pu_Project = owner @ ''/'' @ repo,
          pu_Owner = owner, pu_Repo = repo, pu_Number = n\<rparr>"
proof -
  let ?s = "github_pr_url owner repo n"
  have digits: "list_all name_char (itoa n)"
    using nat_digits_digits [of "nat n"] digit_name_char by (auto simp: itoa_pos assms(3) list_all_iff)
  have names: "list_all name_char owner" "list_all name_char repo" using assms(1,2) by (simp_all add: repo_name_def)
  have "last (itoa n) \<in> set (itoa n)" by (rule last_in_set) simp
  then have "is_digit (last (itoa n))"
    using nat_digits_digits [of "nat n"] by (simp add: itoa_pos assms(3) list_all_iff)
  then have "\<not> is_space (last ?s)" by (auto simp: github_pr_url_def is_digit_def is_space_def Let_def)
  then have trim: "trim_space ?s = ?s"
    by (intro trim_space_no_space) (simp_all add: github_pr_url_def is_space_def)
  have parse: "url_parse ?s =
    Some \<lparr>ur_Scheme = ''https'', ur_Host = ''github.com'', ur_Path = ''/'' @ owner @ ''/'' @ repo @ ''/pull/'' @ itoa n\<rparr>"
    unfolding github_pr_url_def by (rule url_parse_github [OF names digits])
  have parts: "scan_parts ''github.com'' [] [owner, repo, ''pull'', itoa n] =
    Some \<lparr>pu_Provider = ProviderGitHub, pu_Host = ''github.com'', pu_Project = owner @ ''/'' @ repo,
          pu_Owner = owner, pu_Repo = repo, pu_Number = n\<rparr>"
    using assms(1,2) parsePositiveInt_itoa [OF assms(3,4)] by (simp add: repo_name_def)
  show ?thesis
    unfolding ParsePullRequestURL_def trim parse option.case URL.select_convs pr_path_parts [OF assms(1-3)] parts by simp
qed

theorem github_pr_url_roundtrip_witness:
  "map_option pu_Number (ParsePullRequestURL (github_pr_url ''weskor'' ''agent-machine'' 42)) = Some 42"
  using github_pr_url_roundtrip [of "''weskor''" "''agent-machine''" 42]
  by (simp add: repo_name_def name_char_def is_alnum_def is_alpha_def)

section \<open>Branches and issues\<close>

lemma to_upper_append: "to_upper (s @ t) = to_upper s @ to_upper t"
  by (simp add: to_upper_def)

lemma find_cag_contains: "find_cag s \<noteq> [] \<Longrightarrow> sublist ''CAG'' (to_upper s)"
proof (induction s)
  case Nil
  then show ?case by simp
next
  case (Cons c s)
  show ?case
  proof (cases "cag_match (c # s)")
    case None
    then have "sublist ''CAG'' (to_upper s)" using Cons by simp
    then show ?thesis by (auto simp: to_upper_def sublist_Cons_right)
  next
    case (Some m)
    then have "to_upper (take 3 (c # s)) = ''CAG''" unfolding cag_match_def by (simp split: if_splits)
    moreover have "to_upper (c # s) = to_upper (take 3 (c # s)) @ to_upper (drop 3 (c # s))"
      by (simp only: to_upper_append [symmetric] append_take_drop_id)
    ultimately show ?thesis by (metis prefixI prefix_imp_sublist)
  qed
qed

lemma cag_prefixes: "prefix xs ''CAG'' \<Longrightarrow> xs = [] \<or> hd xs = CHR ''C''"
  by (cases xs) (auto simp: prefix_Cons)

lemma cag_in_branch:
  assumes "sublist ''CAG'' (''AM/'' @ k @ ''-WORKSPACE'')"
  shows "sublist ''CAG'' k"
proof -
  have no: "\<not> sublist ''CAG'' ''AM/''" "\<not> sublist ''CAG'' ''-WORKSPACE''"
    unfolding contains_iff [symmetric] by code_simp+
  have "sublist ''CAG'' (k @ ''-WORKSPACE'')"
  proof -
    have "xs1 = []" if "''CAG'' = xs1 @ xs2" "suffix xs1 ''AM/''" for xs1 xs2
    proof (rule ccontr)
      assume "xs1 \<noteq> []"
      with that(2) have "last xs1 = CHR ''/''" by (auto simp: suffix_def dest: arg_cong [where f = last])
      moreover have "last xs1 \<in> set ''CAG''" using that(1) \<open>xs1 \<noteq> []\<close> by (metis last_in_set Un_iff set_append)
      ultimately show False by simp
    qed
    then show ?thesis using assms no(1) unfolding sublist_append [of _ "''AM/''"] by (metis append_Nil prefix_imp_sublist)
  qed
  moreover have "xs2 = []" if "''CAG'' = xs1 @ xs2" "prefix xs2 ''-WORKSPACE''" for xs1 xs2
  proof (rule ccontr)
    assume "xs2 \<noteq> []"
    with that(2) have "hd xs2 = CHR ''-''" by (cases xs2) (auto simp: prefix_Cons)
    moreover have "hd xs2 \<in> set ''CAG''" using that(1) \<open>xs2 \<noteq> []\<close> by (metis hd_in_set Un_iff set_append)
    ultimately show False by simp
  qed
  ultimately show ?thesis using no(2) unfolding sublist_append [of _ k] by (metis append_Nil2 suffix_imp_sublist)
qed

lemma find_cag_skip: "to_upper [c] \<noteq> ''C'' \<Longrightarrow> find_cag (c # s) = find_cag s"
  by (cases s) (auto simp: cag_match_def to_upper_def take_Cons')

lemma find_cag_here:
  assumes "ds \<noteq> []" "list_all is_digit ds" "\<not> is_digit (hd rest)" "rest \<noteq> []"
  shows "find_cag (''CAG-'' @ ds @ rest) = ''CAG-'' @ ds"
proof -
  have "takeWhile is_digit (ds @ rest) = ds"
    using assms by (cases rest) (simp_all add: takeWhile_append2 list_all_iff)
  then have "cag_match (''CAG-'' @ ds @ rest) = Some (''CAG-'' @ ds)"
    using assms(1) by (simp add: cag_match_def to_upper_def upper_char_def)
  then show ?thesis by simp
qed

lemma trim_space_inside: "\<exists>p q. s = p @ trim_space s @ q"
proof -
  let ?t = "dropWhile is_space s"
  have "s = takeWhile is_space s @ ?t" by simp
  moreover have "?t = trim_space s @ rev (takeWhile is_space (rev ?t))"
    unfolding trim_space_def by (metis rev_append rev_rev_ident takeWhile_dropWhile_id)
  ultimately show ?thesis by metis
qed

lemma to_upper_digits: "list_all is_digit ds \<Longrightarrow> to_upper (replace_char (CHR ''_'') (CHR ''-'') ds) = ds"
  by (induction ds) (auto simp: to_upper_def upper_char_def replace_char_def is_digit_def Let_def)

text \<open>
  Which issue a branch belongs to.  The branch the machine makes for an issue \<open>CAG-\<close>n names
  that issue; the branch it makes for an issue of any other team names none, so \<open>amPRs\<close> drops the
  pull request of such an issue and neither merging nor reconciliation ever sees it.
\<close>

theorem branch_names_issue:
  "issueIdentifierFromBranch (expectedWorkspaceBranch (''CAG-'' @ nat_digits n)) = ''CAG-'' @ nat_digits n
   \<and> (if contains (to_upper identifier) ''CAG'' then True
      else issueIdentifierFromBranch (expectedWorkspaceBranch identifier) = []
           \<and> amPRs (filter (\<lambda>pr. ps_HeadRefName pr = expectedWorkspaceBranch identifier) prs) = [])"
proof -
  let ?ds = "nat_digits n"
  have d: "list_all is_digit ?ds" by (rule nat_digits_digits)
  have "is_digit (last ?ds)" using d last_in_set [OF nat_digits_nonempty] by (simp add: list_all_iff)
  then have sp: "\<not> is_space (last (''CAG-'' @ ?ds))" by (auto simp: is_digit_def is_space_def Let_def)
  have trim: "trim_space (''CAG-'' @ ?ds) = ''CAG-'' @ ?ds"
    by (rule trim_space_no_space) (use sp in \<open>simp_all add: is_space_def\<close>)
  have upper: "to_upper ''am/'' = ''AM/''" "to_upper ''-workspace'' = ''-WORKSPACE''" by code_simp+
  have not_c: "to_upper ''a'' \<noteq> ''C''" "to_upper ''m'' \<noteq> ''C''" "to_upper ''/'' \<noteq> ''C''" by code_simp+
  have "find_cag (''am/'' @ (''CAG-'' @ ?ds) @ ''-workspace'') = find_cag (''CAG-'' @ ?ds @ ''-workspace'')"
    by (simp only: append_Cons append_Nil find_cag_skip [OF not_c(1)] find_cag_skip [OF not_c(2)] find_cag_skip [OF not_c(3)])
  also have "\<dots> = ''CAG-'' @ ?ds" by (rule find_cag_here) (use d in \<open>simp_all add: is_digit_def\<close>)
  finally have found: "find_cag (expectedWorkspaceBranch (''CAG-'' @ ?ds)) = ''CAG-'' @ ?ds"
    unfolding expectedWorkspaceBranch_def trim .
  have own: "issueIdentifierFromBranch (expectedWorkspaceBranch (''CAG-'' @ ?ds)) = ''CAG-'' @ ?ds"
    unfolding issueIdentifierFromBranch_def found
    using to_upper_digits [OF d] by (simp add: to_upper_def replace_char_def upper_char_def)
  have "find_cag (expectedWorkspaceBranch identifier) = []" if "\<not> contains (to_upper identifier) ''CAG''"
  proof (rule ccontr)
    assume "find_cag (expectedWorkspaceBranch identifier) \<noteq> []"
    then have "sublist ''CAG'' (to_upper (expectedWorkspaceBranch identifier))" by (rule find_cag_contains)
    moreover have "to_upper (expectedWorkspaceBranch identifier) = ''AM/'' @ to_upper (trim_space identifier) @ ''-WORKSPACE''"
      unfolding expectedWorkspaceBranch_def to_upper_append upper by (rule refl)
    ultimately have "sublist ''CAG'' (to_upper (trim_space identifier))" by (simp only: cag_in_branch)
    moreover have "sublist (to_upper (trim_space identifier)) (to_upper identifier)"
      using trim_space_inside [of "identifier"] by (metis to_upper_append sublist_appendI)
    ultimately show False using that by (metis contains_iff sublist_order.order_trans)
  qed
  then show ?thesis using own
    by (auto simp: issueIdentifierFromBranch_def amPRs_def to_upper_def replace_char_def)
qed

end
