(* ===== verification/StateProjection.thy ===== *)
theory StateProjection
  imports Artifacts CodeHost TaskStore AttemptFacts
begin

text \<open>
  internal/stateprojection/projection.go and \<open>artifacts.RunArtifactSnapshot\<close>: what a finished run
  writes into the state store.  The properties here follow a retry decision on its way from the run
  record through the store to the facts that reconciliation reads.
\<close>

section \<open>Snapshots of a run\<close>

record SnapshotOptions =
  so_BranchName :: string
  so_BaseBranch :: string
  so_Repository :: string
  so_PRNumber :: int
  so_ReviewOutputHash :: string
  so_TerminalStatus :: bool

definition artifact_snapshot ::
    "string \<Rightarrow> RunRecord \<Rightarrow> EvaluationArtifact \<Rightarrow> SnapshotOptions \<Rightarrow> RunArtifactSnapshot" where
  "artifact_snapshot workspace record evaluation0 options =
     (let evaluation = markCurrentEvaluation evaluation0 in
      \<lparr>sn_SchemaVersion = CurrentSchemaVersion, sn_ArtifactSchemaVersion = ea_SchemaVersion evaluation,
       sn_ArtifactSchemaSource = ea_SchemaSource evaluation, sn_IssueKey = rr_IssueIdentifier record,
       sn_IssueID = rr_IssueID record, sn_Attempt = 1, sn_WorkspacePath = rr_Workspace record,
       sn_BranchName = so_BranchName options, sn_BaseBranch = so_BaseBranch options, sn_Status = rr_Status record,
       sn_StartedAt = rr_StartedAt record, sn_UpdatedAt = rr_EndedAt record, sn_Repository = so_Repository options,
       sn_PRNumber = so_PRNumber options, sn_PRURL = rr_PRURL record, sn_ReviewStatus = rr_ReviewStatus record,
       sn_ReviewPassed = (rr_ReviewStatus record = ''passed''),
       sn_ReviewClassification = rr_ReviewClassification record, sn_ReviewOutputRef = EvaluationPath workspace,
       sn_ReviewOutputHash = so_ReviewOutputHash options, sn_MergeEligible = ea_MergeEligible evaluation,
       sn_FeedbackHash = rr_FeedbackHash record, sn_FeedbackNextAction = ea_NextAction evaluation,
       sn_RetryCount = ea_FeedbackRetryCount evaluation, sn_RetryBudgetState = rr_BudgetExceeded record,
       sn_RetryReason =
         (if ea_ShouldRetry evaluation
          then (if ea_RootCause evaluation = [] then ea_Outcome evaluation else ea_RootCause evaluation) else []),
       sn_RetryInputHash = rr_FeedbackHash record,
       sn_RetryNextState = (if ea_ShouldRetry evaluation then ea_NextAction evaluation else []),
       sn_TerminalOutcome = (if so_TerminalStatus options then ea_Outcome evaluation else []),
       sn_TerminalReason = ea_RootCause evaluation, sn_RunArtifactRef = RunRecordPath workspace,
       sn_EvaluationRef = EvaluationPath workspace\<rparr>)"

section \<open>The projection\<close>

record Projection =
  pj_BaseBranch :: "(string \<Rightarrow> string) option"
  pj_TerminalStatus :: "(string \<Rightarrow> bool) option"
  pj_RunLockStaleAfter :: duration

definition projection_baseBranch :: "Projection \<Rightarrow> string \<Rightarrow> string" where
  "projection_baseBranch p workspace = (case pj_BaseBranch p of None \<Rightarrow> [] | Some f \<Rightarrow> f workspace)"

definition projection_terminalStatus :: "Projection \<Rightarrow> string \<Rightarrow> bool" where
  "projection_terminalStatus p status = (case pj_TerminalStatus p of None \<Rightarrow> False | Some f \<Rightarrow> f status)"

definition runLockStaleAfter :: "Projection \<Rightarrow> duration" where
  "runLockStaleAfter p = (if 0 < pj_RunLockStaleAfter p then pj_RunLockStaleAfter p else hour)"

definition evaluationArtifactSchemaVersion :: "EvaluationArtifact \<Rightarrow> int" where
  "evaluationArtifactSchemaVersion e =
     (if ea_SchemaVersion e \<noteq> 0 then ea_SchemaVersion e else CurrentArtifactSchemaVersion)"

definition evaluationArtifactSchemaSource :: "EvaluationArtifact \<Rightarrow> string" where
  "evaluationArtifactSchemaSource e =
     (if ea_SchemaSource e \<noteq> [] then ea_SchemaSource e else ArtifactSchemaSourceCurrent)"

definition RetryableRunStatus :: "string \<Rightarrow> bool" where
  "RetryableRunStatus status \<longleftrightarrow>
     to_lower (trim_space status) \<in> {''failed'', ''failure'', ''blocked'', ''timeout'', ''budget_exceeded''}"

definition ParseGitHubPR :: "string \<Rightarrow> string \<times> int" where
  "ParseGitHubPR prURL =
     (case ParsePullRequestURL (trim_space prURL) of
        None \<Rightarrow> ([], 0)
      | Some parsed \<Rightarrow>
          if pu_Provider parsed \<noteq> ProviderGitHub then ([], 0)
          else (pu_Owner parsed @ ''/'' @ pu_Repo parsed, pu_Number parsed))"

definition run_snapshot ::
    "store_env \<Rightarrow> Projection \<Rightarrow> string \<Rightarrow> RunRecord \<Rightarrow> EvaluationArtifact \<Rightarrow> RunArtifactSnapshot" where
  "run_snapshot env p workspace record evaluation =
     (let (repo, prNumber) = ParseGitHubPR (rr_PRURL record);
          snapshot = artifact_snapshot workspace record evaluation
            \<lparr>so_BranchName = first_non_empty [rr_Branch record, rr_ExpectedBranch record],
             so_BaseBranch = projection_baseBranch p workspace, so_Repository = repo, so_PRNumber = prNumber,
             so_ReviewOutputHash =
               (if trim_space (rr_ReviewFindings record) \<noteq> [] then env_sha256 env (rr_ReviewFindings record) else []),
             so_TerminalStatus = projection_terminalStatus p (rr_Status record)\<rparr>
      in if RetryableRunStatus (rr_Status record)
         then snapshot\<lparr>sn_RetryBudgetState := ''available'',
                sn_RetryReason := first_non_empty [rr_Error record, rr_BudgetExceeded record, rr_Status record],
                sn_RetryNextState := ''retry_after_backoff''\<rparr>
         else snapshot)"

definition AttemptResultOf ::
    "store_env \<Rightarrow> Projection \<Rightarrow> string \<Rightarrow> RunRecord \<Rightarrow> EvaluationArtifact \<Rightarrow> AttemptResult" where
  "AttemptResultOf env p workspace record evaluation =
     attemptResultFromRunArtifactSnapshot (run_snapshot env p workspace record evaluation)"

definition RunArtifact ::
    "store_env \<Rightarrow> Projection \<Rightarrow> string \<Rightarrow> RunRecord \<Rightarrow> EvaluationArtifact \<Rightarrow> RunArtifactSnapshot" where
  "RunArtifact env p workspace record evaluation =
     (let r = AttemptResultOf env p workspace record evaluation in
      \<lparr>sn_SchemaVersion = CurrentSchemaVersion,
       sn_ArtifactSchemaVersion = evaluationArtifactSchemaVersion evaluation,
       sn_ArtifactSchemaSource = evaluationArtifactSchemaSource evaluation, sn_IssueKey = at_IssueKey r,
       sn_IssueID = at_IssueID r, sn_Attempt = at_Attempt r, sn_WorkspacePath = at_WorkspacePath r,
       sn_BranchName = at_BranchName r, sn_BaseBranch = at_BaseBranch r, sn_Status = at_Status r,
       sn_StartedAt = at_StartedAt r, sn_UpdatedAt = at_UpdatedAt r, sn_Repository = at_Repository r,
       sn_PRNumber = at_PRNumber r, sn_PRURL = at_PRURL r, sn_ReviewStatus = at_ReviewStatus r,
       sn_ReviewPassed = at_ReviewPassed r, sn_ReviewClassification = at_ReviewClassification r,
       sn_ReviewOutputRef = at_ReviewOutputRef r, sn_ReviewOutputHash = at_ReviewOutputHash r,
       sn_MergeEligible = at_MergeEligible r, sn_FeedbackHash = at_FeedbackHash r,
       sn_FeedbackNextAction = at_FeedbackNextAction r, sn_RetryCount = at_RetryCount r,
       sn_RetryBudgetState = at_RetryBudgetState r, sn_RetryReason = at_RetryReason r,
       sn_RetryInputHash = at_RetryInputHash r, sn_RetryNextState = at_RetryNextState r,
       sn_TerminalOutcome = at_TerminalOutcome r, sn_TerminalReason = at_TerminalReason r,
       sn_RunArtifactRef = join2 workspace RunRecordName, sn_EvaluationRef = join2 workspace EvaluationName\<rparr>)"

record ProjectionCleanup =
  pl_Reason :: string
  pl_Category :: string
  pl_IssueIdentifier :: string
  pl_ArtifactRef :: string

definition ProjectCleanup :: "ProjectionCleanup \<Rightarrow> bool \<Rightarrow> string \<Rightarrow> bool \<Rightarrow> time \<Rightarrow> CleanupState" where
  "ProjectCleanup decision eligible deletionResult workspaceExists updatedAt =
     \<lparr>cu_IssueKey = pl_IssueIdentifier decision, cu_Attempt = 1, cu_WorkspaceExists = workspaceExists,
      cu_Eligible = eligible, cu_Decision = pl_Category decision, cu_DeletionResult = deletionResult,
      cu_ArtifactRef = pl_ArtifactRef decision,
      cu_BlockedReason = (if \<not> eligible \<or> deletionResult = ''failed'' then pl_Reason decision else []),
      cu_UpdatedAt = updatedAt\<rparr>"

section \<open>Run locks as leases\<close>

record RunLock =
  rk_Owner :: string
  rk_PID :: int
  rk_Host :: string
  rk_IssueIdentifier :: string
  rk_IssueID :: string
  rk_Branch :: string
  rk_Workspace :: string
  rk_StartedAt :: time
  rk_HeartbeatAt :: time

definition RunLockLeaseName :: "RunLock \<Rightarrow> string" where
  "RunLockLeaseName lock =
     (let name = trim_space (rk_IssueIdentifier lock) in
      ''run:'' @ (if name = [] then base (rk_Workspace lock) else name))"

definition RunLockLeaseScope :: "RunLock \<Rightarrow> string" where
  "RunLockLeaseScope lock = dir (rk_Workspace lock)"

definition first_time :: "time list \<Rightarrow> time" where
  "first_time ts = (case filter (\<lambda>t. \<not> is_zero t) ts of [] \<Rightarrow> 0 | t # rest \<Rightarrow> t)"

definition lease_of_lock :: "string \<Rightarrow> duration \<Rightarrow> RunLock \<Rightarrow> time \<Rightarrow> Lease" where
  "lease_of_lock owner staleAfter lock observedAt =
     (let acquiredAt = first_time [rk_StartedAt lock, rk_HeartbeatAt lock, observedAt];
          renewedAt = (if is_zero (rk_HeartbeatAt lock) then acquiredAt else rk_HeartbeatAt lock) in
      \<lparr>ls_Name = RunLockLeaseName lock, ls_Scope = RunLockLeaseScope lock, ls_Owner = owner,
       ls_AcquiredAt = acquiredAt, ls_ExpiresAt = (if is_zero renewedAt then 0 else renewedAt + staleAfter),
       ls_RenewedAt = renewedAt, ls_ReleasedAt = 0, ls_ReleaseReason = []\<rparr>)"

definition ProjectRunLockLease :: "Projection \<Rightarrow> RunLock \<Rightarrow> time \<Rightarrow> Lease" where
  "ProjectRunLockLease p lock observedAt =
     lease_of_lock (if trim_space (rk_Owner lock) = [] then ''unknown'' else trim_space (rk_Owner lock))
       (runLockStaleAfter p) lock observedAt"

section \<open>Heartbeats\<close>

record DaemonHeartbeatInput =
  di_LaneName :: string
  di_CycleNumber :: int
  di_Success :: bool
  di_Err :: "string option"
  di_ActiveTaskKey :: string
  di_ActiveTaskRole :: string
  di_ActiveLeaseName :: string
  di_ActiveTaskStartedAt :: time
  di_At :: time

definition ProjectDaemonHeartbeat :: "string \<Rightarrow> RunnerConfig \<Rightarrow> DaemonHeartbeatInput \<Rightarrow> DaemonHeartbeat" where
  "ProjectDaemonHeartbeat processID config h =
     \<lparr>hb_ProcessID = processID, hb_LaneName = di_LaneName h, hb_WorkflowPath = rc_ConfigPath config,
      hb_CycleNumber = di_CycleNumber h, hb_LastSuccessAt = (if di_Success h then di_At h else 0),
      hb_LastError = (case di_Err h of None \<Rightarrow> [] | Some e \<Rightarrow> e), hb_RecoveryRequired = (di_Err h \<noteq> None),
      hb_ActiveTaskKey = di_ActiveTaskKey h, hb_ActiveTaskRole = di_ActiveTaskRole h,
      hb_ActiveLeaseName = di_ActiveLeaseName h, hb_ActiveTaskStartedAt = di_ActiveTaskStartedAt h,
      hb_UpdatedAt = di_At h\<rparr>"

text \<open>The projection the runner uses; the base branch is read from the project's configuration.\<close>

definition stateProjectionCore :: "(string \<Rightarrow> string) \<Rightarrow> Projection" where
  "stateProjectionCore baseBranchForWorkspace =
     \<lparr>pj_BaseBranch = Some baseBranchForWorkspace, pj_TerminalStatus = Some TerminalRunStatus,
      pj_RunLockStaleAfter = 4 * hour\<rparr>"

end
