(* ===== verification/RunLock.thy ===== *)
theory RunLock
  imports Workspace StateProjection
begin

text \<open>
  internal/workspace/locks.go: the lock of a run, as a lease in the state store with an exported lock
  file, or without a store as a lock file alone that is mirrored into the store of its workspace.
  The world holds the files and the databases by their paths; a manager has a store by the path of
  its database.  The identity of the process and the processes that are alive are in the environment,
  and so are the paths no file can be written to.
\<close>

definition RunLockFile :: string where "RunLockFile = ''.am-lock.json''"
definition RunLockDir :: string where "RunLockDir = ''.am-locks''"
definition RunLockStaleAfter :: duration where "RunLockStaleAfter = 4 * hour"

record lock_env =
  le_store :: store_env
  le_user :: string
  le_hostname :: string
  le_pid :: int
  le_alive :: "int \<Rightarrow> bool"
  le_fault :: "string \<Rightarrow> bool"

record lock_world =
  lw_fs :: fs
  lw_dbs :: "string \<Rightarrow> db option"

text \<open>An acquisition fails because the run is locked, or for another reason.\<close>

datatype lock_error = RunLocked string | LockError string

section \<open>Owners\<close>

definition lock_Owner :: "lock_env \<Rightarrow> string" where
  "lock_Owner env = (if trim_space (le_user env) \<noteq> [] then trim_space (le_user env) else ''unknown'')"

definition Hostname :: "lock_env \<Rightarrow> string" where
  "Hostname env = (if trim_space (le_hostname env) = [] then ''unknown'' else le_hostname env)"

definition SameHost :: "lock_env \<Rightarrow> string \<Rightarrow> bool" where
  "SameHost env host \<longleftrightarrow> trim_space host \<noteq> [] \<and> equal_fold (trim_space host) (Hostname env)"

definition ProcessAlive :: "lock_env \<Rightarrow> int \<Rightarrow> bool" where
  "ProcessAlive env pid \<longleftrightarrow> 0 < pid \<and> le_alive env pid"

text \<open>\<open>strconv.Atoi\<close> on 64 bits.\<close>

definition atoi :: "string \<Rightarrow> int option" where
  "atoi s =
     (let neg = has_prefix s ''-''; ds = (if neg \<or> has_prefix s ''+'' then tl s else s);
          i = (if neg then - int (digits_val ds) else int (digits_val ds)) in
      if ds \<noteq> [] \<and> list_all is_digit ds \<and> - (2 ^ 63) \<le> i \<and> i < 2 ^ 63 then Some i else None)"

definition leaseOwnerHostPID :: "string \<Rightarrow> (string \<times> int) option" where
  "leaseOwnerHostPID owner0 =
     (case cut_last (CHR ''#'') (trim_space owner0) of
        None \<Rightarrow> None
      | Some (hostOwner, pidText) \<Rightarrow>
          if pidText = [] then None
          else (case atoi pidText of
                  None \<Rightarrow> None
                | Some pid \<Rightarrow>
                    if pid \<le> 0 then None
                    else (case cut_last (CHR ''@'') hostOwner of
                            None \<Rightarrow> None
                          | Some (user, host) \<Rightarrow>
                              if host = [] \<or> trim_space host = [] then None else Some (trim_space host, pid))))"

definition lock_owner_text :: "RunLock \<Rightarrow> string" where
  "lock_owner_text lock =
     (let owner = (if trim_space (rk_Owner lock) = [] then ''unknown'' else trim_space (rk_Owner lock));
          host = trim_space (rk_Host lock);
          named = (if host \<noteq> [] \<and> host \<noteq> ''unknown'' then owner @ ''@'' @ host else owner) in
      if 0 < rk_PID lock then named @ ''#'' @ itoa (rk_PID lock) else named)"

definition RunLockLease :: "RunLock \<Rightarrow> time \<Rightarrow> Lease" where
  "RunLockLease lock observedAt = lease_of_lock (lock_owner_text lock) RunLockStaleAfter lock observedAt"

section \<open>Lock files\<close>

definition LockPath :: "string \<Rightarrow> string" where
  "LockPath workspace = join2 (join2 (dir workspace) RunLockDir) (base workspace @ ''.json'')"

definition HasLock :: "fs \<Rightarrow> string \<Rightarrow> bool" where
  "HasLock fs workspace \<longleftrightarrow> stat fs (LockPath workspace) \<noteq> None"

text \<open>\<open>json.MarshalIndent\<close> of a struct of plain values.\<close>

definition indented_struct :: "(string \<times> json) list \<Rightarrow> string" where
  "indented_struct ms =
     ''{'' @ [newline] @ ''  ''
     @ join ('','' @ [newline] @ ''  '') (map (\<lambda>(k, v). json_string k @ '': '' @ json_render v) ms)
     @ [newline] @ ''}''"

definition lock_members :: "RunLock \<Rightarrow> (string \<times> json) list" where
  "lock_members lock =
     [(''owner'', JStr (rk_Owner lock)), (''pid'', JInt (rk_PID lock)), (''host'', JStr (rk_Host lock)),
      (''issue_identifier'', JStr (rk_IssueIdentifier lock)), (''issue_id'', JStr (rk_IssueID lock))]
     @ (if rk_Branch lock = [] then [] else [(''branch'', JStr (rk_Branch lock))])
     @ [(''workspace'', JStr (rk_Workspace lock)), (''started_at'', JStr (rfc3339_nano (rk_StartedAt lock))),
        (''heartbeat_at'', JStr (rfc3339_nano (rk_HeartbeatAt lock)))]"

definition lock_text :: "RunLock \<Rightarrow> string" where
  "lock_text lock = indented_struct (lock_members lock) @ [newline]"

text \<open>Decoding into a lock: a member that is missing leaves its field as it was.\<close>

definition decode_lock_into :: "RunLock \<Rightarrow> string \<Rightarrow> RunLock option" where
  "decode_lock_into cur data =
     (case object_members data of
        None \<Rightarrow> None
      | Some ms \<Rightarrow>
          (case (field_of read_string (rk_Owner cur) ''owner'' ms, field_of read_int (rk_PID cur) ''pid'' ms,
                 field_of read_string (rk_Host cur) ''host'' ms,
                 field_of read_string (rk_IssueIdentifier cur) ''issue_identifier'' ms,
                 field_of read_string (rk_IssueID cur) ''issue_id'' ms, field_of read_string (rk_Branch cur) ''branch'' ms,
                 field_of read_string (rk_Workspace cur) ''workspace'' ms,
                 field_of read_time (rk_StartedAt cur) ''started_at'' ms,
                 field_of read_time (rk_HeartbeatAt cur) ''heartbeat_at'' ms) of
             (Some ow, Some pid, Some host, Some ii, Some iid, Some br, Some ws, Some st, Some hb) \<Rightarrow>
               Some \<lparr>rk_Owner = ow, rk_PID = pid, rk_Host = host, rk_IssueIdentifier = ii, rk_IssueID = iid,
                     rk_Branch = br, rk_Workspace = ws, rk_StartedAt = st, rk_HeartbeatAt = hb\<rparr>
           | _ \<Rightarrow> None))"

definition zero_lock :: RunLock where
  "zero_lock = \<lparr>rk_Owner = [], rk_PID = 0, rk_Host = [], rk_IssueIdentifier = [], rk_IssueID = [], rk_Branch = [],
                rk_Workspace = [], rk_StartedAt = 0, rk_HeartbeatAt = 0\<rparr>"

definition decode_lock :: "string \<Rightarrow> RunLock option" where
  "decode_lock data = decode_lock_into zero_lock data"

definition ReadLock :: "fs \<Rightarrow> string \<Rightarrow> RunLock option" where
  "ReadLock fs path = (case read_file fs path of None \<Rightarrow> None | Some data \<Rightarrow> decode_lock data)"

definition write_file :: "lock_env \<Rightarrow> string \<Rightarrow> string \<Rightarrow> lock_world \<Rightarrow> err_list \<times> lock_world" where
  "write_file env path data w =
     (if le_fault env path \<or> stat (lw_fs w) path = Some Directory then ([''write '' @ path], w)
      else ([], w\<lparr>lw_fs := (lw_fs w)(path \<mapsto> RegularFile data)\<rparr>))"

definition mkdirs :: "lock_env \<Rightarrow> string \<Rightarrow> lock_world \<Rightarrow> err_list \<times> lock_world" where
  "mkdirs env path w =
     (if le_fault env path then ([''mkdir '' @ path], w)
      else (case mkdir_all (lw_fs w) (clean path) of Inl e \<Rightarrow> ([e], w) | Inr fs \<Rightarrow> ([], w\<lparr>lw_fs := fs\<rparr>)))"

definition remove_file :: "string \<Rightarrow> lock_world \<Rightarrow> lock_world" where
  "remove_file path w = w\<lparr>lw_fs := (lw_fs w)(path := None)\<rparr>"

definition writeExportedLock :: "lock_env \<Rightarrow> string \<Rightarrow> RunLock \<Rightarrow> lock_world \<Rightarrow> err_list \<times> lock_world" where
  "writeExportedLock env path lock w =
     (case mkdirs env (dir path) w of
        (e, w') \<Rightarrow> if e \<noteq> [] then (e, w') else write_file env path (lock_text lock) w')"

text \<open>A duration of at least a second, rounded to seconds, as \<open>Duration.String\<close> prints it.\<close>

definition round_seconds :: "duration \<Rightarrow> int" where
  "round_seconds d = (d + second div 2) div second"

definition seconds_string :: "int \<Rightarrow> string" where
  "seconds_string s =
     (let h = s div 3600; m = s div 60 mod 60; r = s mod 60 in
      if 0 < h then itoa h @ ''h'' @ itoa m @ ''m'' @ itoa r @ ''s''
      else if 0 < m then itoa m @ ''m'' @ itoa r @ ''s'' else itoa r @ ''s'')"

definition DescribeExisting :: "fs \<Rightarrow> string \<Rightarrow> time \<Rightarrow> lock_error" where
  "DescribeExisting fs path now =
     (case ReadLock fs path of
        None \<Rightarrow> RunLocked (''unreadable lock at '' @ path @ ''; inspect and remove only if no run is active'')
      | Some lock \<Rightarrow>
          let age = max 0 (now - rk_HeartbeatAt lock);
              staleNote = (if RunLockStaleAfter < age
                then ''; heartbeat is stale ('' @ seconds_string (round_seconds age)
                     @ '' old). Run `go run . repair-artifacts --config <path>` after confirming no owner process is active''
                else []) in
          RunLocked (path @ '' is owned by '' @ rk_Owner lock @ '' pid='' @ itoa (rk_PID lock) @ '' host='' @ rk_Host lock
            @ '' issue='' @ rk_IssueIdentifier lock @ '' branch='' @ rk_Branch lock @ '' heartbeat=''
            @ rfc3339_nano (rk_HeartbeatAt lock div second * second) @ staleNote))"

section \<open>Mirroring into the store\<close>

definition the_db :: "lock_world \<Rightarrow> string \<Rightarrow> db" where
  "the_db w path = (case lw_dbs w path of None \<Rightarrow> empty_db | Some d \<Rightarrow> d)"

definition put_db :: "string \<Rightarrow> db \<Rightarrow> lock_world \<Rightarrow> lock_world" where
  "put_db path d w = w\<lparr>lw_dbs := (lw_dbs w)(path \<mapsto> d)\<rparr>"

definition withStateStoreContext ::
    "string option \<Rightarrow> string \<Rightarrow> (db \<Rightarrow> unit result \<times> db) \<Rightarrow> bool \<Rightarrow> lock_world \<Rightarrow> lock_world" where
  "withStateStoreContext store workspace f canceled w =
     (if canceled then w
      else (case store of
              Some path \<Rightarrow> put_db path (snd (f (the_db w path))) w
            | None \<Rightarrow>
                if trim_space workspace = [] \<or> DefaultDBPath (dir workspace) = [] then w
                else put_db (DefaultDBPath (dir workspace)) (snd (f (the_db w (DefaultDBPath (dir workspace))))) w))"

definition then_if_ok :: "unit result \<times> db \<Rightarrow> (db \<Rightarrow> unit result \<times> db) \<Rightarrow> unit result \<times> db" where
  "then_if_ok r f = (case r of (Inl e, d) \<Rightarrow> (Inl e, d) | (Inr u, d) \<Rightarrow> f d)"

definition MirrorAcquireContext :: "lock_env \<Rightarrow> string option \<Rightarrow> RunLock \<Rightarrow> bool \<Rightarrow> lock_world \<Rightarrow> lock_world" where
  "MirrorAcquireContext env store lock canceled =
     withStateStoreContext store (rk_Workspace lock)
       (UpsertLease (le_store env) (RunLockLease lock (rk_StartedAt lock))) canceled"

definition MirrorRenewContext :: "lock_env \<Rightarrow> string option \<Rightarrow> RunLock \<Rightarrow> bool \<Rightarrow> lock_world \<Rightarrow> lock_world" where
  "MirrorRenewContext env store lock canceled =
     withStateStoreContext store (rk_Workspace lock)
       (\<lambda>d. then_if_ok (UpsertLease (le_store env) (RunLockLease lock (rk_HeartbeatAt lock)) d)
              (RenewLease (le_store env) (RunLockLeaseName lock) (rk_HeartbeatAt lock)
                 (rk_HeartbeatAt lock + RunLockStaleAfter))) canceled"

definition MirrorReleaseContext ::
    "lock_env \<Rightarrow> string option \<Rightarrow> RunLock \<Rightarrow> time \<Rightarrow> string \<Rightarrow> bool \<Rightarrow> lock_world \<Rightarrow> lock_world" where
  "MirrorReleaseContext env store lock when_at reason canceled =
     withStateStoreContext store (rk_Workspace lock)
       (\<lambda>d. then_if_ok (UpsertLease (le_store env) (RunLockLease lock when_at) d)
              (ReleaseLease (le_store env) (RunLockLeaseName lock) when_at reason)) canceled"

section \<open>Acquiring and releasing\<close>

definition reclaimDeadOwnerSQLiteLease :: "lock_env \<Rightarrow> Lease \<Rightarrow> time \<Rightarrow> db \<Rightarrow> bool result \<times> db" where
  "reclaimDeadOwnerSQLiteLease env lease now db =
     (case ReadLease (ls_Name lease) db of
        Inl e \<Rightarrow> (Inl e, db)
      | Inr None \<Rightarrow> (Inr False, db)
      | Inr (Some existing) \<Rightarrow>
          if \<not> is_zero (ls_ReleasedAt existing) then (Inr False, db)
          else (case leaseOwnerHostPID (ls_Owner existing) of
                  None \<Rightarrow> (Inr False, db)
                | Some (host, pid) \<Rightarrow>
                    if \<not> SameHost env host \<or> ProcessAlive env pid then (Inr False, db)
                    else ReclaimLease (le_store env) lease now ''dead_owner'' db))"

text \<open>The database part of \<open>acquireSQLiteLease\<close>: whether the lease is now this process's.\<close>

definition take_lease :: "lock_env \<Rightarrow> Lease \<Rightarrow> time \<Rightarrow> db \<Rightarrow> bool result \<times> db" where
  "take_lease env lease now db =
     (case AcquireLease (le_store env) lease now db of
        (Inl e, db') \<Rightarrow> (Inl e, db')
      | (Inr True, db') \<Rightarrow> (Inr True, db')
      | (Inr False, db') \<Rightarrow> reclaimDeadOwnerSQLiteLease env lease now db')"

definition acquireSQLiteLease ::
    "lock_env \<Rightarrow> string \<Rightarrow> string \<Rightarrow> RunLock \<Rightarrow> time \<Rightarrow> lock_world \<Rightarrow> (lock_error + RunLock) \<times> lock_world" where
  "acquireSQLiteLease env store workspace lock now w =
     (case take_lease env (RunLockLease lock now) now (the_db w store) of
        (Inl e, d) \<Rightarrow> (Inl (LockError (store_error_text e)), put_db store d w)
      | (Inr taken, d) \<Rightarrow>
          let w1 = put_db store d w in
          if \<not> taken then (Inl (RunLocked (''active SQLite lease '' @ RunLockLeaseName lock)), w1)
          else (case writeExportedLock env (LockPath workspace) lock w1 of
                  (err, w2) \<Rightarrow>
                    if err \<noteq> [] then
                      (Inl (LockError (''write run lock export '' @ LockPath workspace)),
                       put_db store (snd (ReleaseLease (le_store env) (RunLockLeaseName lock) (env_clock (le_store env))
                                            ''export_failed'' (the_db w2 store))) w2)
                    else (Inr lock, w2)))"

definition new_lock :: "lock_env \<Rightarrow> string \<Rightarrow> Issue \<Rightarrow> string \<Rightarrow> time \<Rightarrow> RunLock" where
  "new_lock env workspace candidate branch now =
     \<lparr>rk_Owner = lock_Owner env, rk_PID = le_pid env, rk_Host = Hostname env,
      rk_IssueIdentifier = is_Identifier candidate, rk_IssueID = is_ID candidate, rk_Branch = branch,
      rk_Workspace = workspace, rk_StartedAt = now, rk_HeartbeatAt = now\<rparr>"

text \<open>The lock file alone: created with \<open>O_EXCL\<close>, so an existing one is never overwritten.\<close>

definition acquire_file ::
    "lock_env \<Rightarrow> string \<Rightarrow> RunLock \<Rightarrow> time \<Rightarrow> lock_world \<Rightarrow> (lock_error + RunLock) \<times> lock_world" where
  "acquire_file env workspace lock now w =
     (let path = LockPath workspace in
      case mkdirs env (dir path) w of
        (e, w1) \<Rightarrow>
          if e \<noteq> [] then (Inl (LockError (join ''; '' e)), w1)
          else if lw_fs w1 path \<noteq> None then (Inl (DescribeExisting (lw_fs w1) path now), w1)
          else if le_fault env path then (Inl (LockError (''write '' @ path)), w1)
          else (Inr lock,
                MirrorAcquireContext env None lock False
                  (w1\<lparr>lw_fs := (lw_fs w1)(path \<mapsto> RegularFile (lock_text lock))\<rparr>)))"

definition AcquireContext ::
    "lock_env \<Rightarrow> string option \<Rightarrow> string \<Rightarrow> Issue \<Rightarrow> string \<Rightarrow> time \<Rightarrow> err_list \<Rightarrow> lock_world
       \<Rightarrow> (lock_error + RunLock) \<times> lock_world" where
  "AcquireContext env store workspace candidate branch now ctxErr w =
     (if ctxErr \<noteq> [] then (Inl (LockError (join ''; '' ctxErr)), w)
      else (case mkdirs env workspace w of
        (e, w1) \<Rightarrow>
          if e \<noteq> [] then (Inl (LockError (join ''; '' e)), w1)
          else let lock = new_lock env workspace candidate branch now in
            (case store of
               Some path \<Rightarrow> acquireSQLiteLease env path workspace lock now w1
             | None \<Rightarrow> acquire_file env workspace lock now w1)))"

text \<open>The release function an acquisition returns, called at a later time of the clock.\<close>

definition release_lock :: "lock_env \<Rightarrow> string option \<Rightarrow> RunLock \<Rightarrow> lock_world \<Rightarrow> lock_world" where
  "release_lock env store lock w =
     (let w1 = remove_file (LockPath (rk_Workspace lock)) w; when_at = env_clock (le_store env) in
      case store of
        Some path \<Rightarrow>
          put_db path (snd (ReleaseLease (le_store env) (RunLockLeaseName lock) when_at ''released'' (the_db w1 path))) w1
      | None \<Rightarrow> MirrorReleaseContext env None lock when_at ''released'' False w1)"

section \<open>Heartbeats and stale locks\<close>

definition HeartbeatContext ::
    "lock_env \<Rightarrow> string option \<Rightarrow> string \<Rightarrow> time \<Rightarrow> err_list \<Rightarrow> lock_world \<Rightarrow> lock_world" where
  "HeartbeatContext env store workspace when_at ctxErr w =
     (let path = LockPath workspace in
      if ctxErr \<noteq> [] then w
      else (case read_file (lw_fs w) path of
        None \<Rightarrow> w
      | Some data \<Rightarrow>
          (case decode_lock data of
             None \<Rightarrow> w
           | Some decoded \<Rightarrow>
               (case store of
                  Some db_path \<Rightarrow>
                    if rk_Workspace decoded = [] then w
                    else let lock = decoded\<lparr>rk_HeartbeatAt := when_at\<rparr> in
                      (case RenewLease (le_store env) (RunLockLeaseName lock) when_at (when_at + RunLockStaleAfter) (the_db w db_path) of
                         (Inl e, d) \<Rightarrow> put_db db_path d w
                       | (Inr u, d) \<Rightarrow> snd (writeExportedLock env path lock (put_db db_path d w)))
                | None \<Rightarrow>
                    let fresh = \<lparr>rk_Owner = lock_Owner env, rk_PID = le_pid env, rk_Host = Hostname env,
                                 rk_IssueIdentifier = base workspace, rk_IssueID = [], rk_Branch = [],
                                 rk_Workspace = workspace, rk_StartedAt = when_at, rk_HeartbeatAt = 0\<rparr>;
                        lock = (if rk_Workspace decoded = [] then fresh else decoded) in
                    (case decode_lock_into lock data of
                       None \<Rightarrow> w
                     | Some again \<Rightarrow>
                         let beat = again\<lparr>rk_HeartbeatAt := when_at\<rparr> in
                         (case write_file env path (lock_text beat) w of
                            (e, w1) \<Rightarrow> if e \<noteq> [] then w1 else MirrorRenewContext env None beat False w1))))))"

text \<open>The lock files are those the directory listing gives, in its order.\<close>

definition dead_owner :: "lock_env \<Rightarrow> RunLock \<Rightarrow> bool" where
  "dead_owner env lock \<longleftrightarrow> SameHost env (rk_Host lock) \<and> 0 < rk_PID lock \<and> \<not> ProcessAlive env (rk_PID lock)"

definition lock_is_stale :: "lock_env \<Rightarrow> time \<Rightarrow> RunLock \<Rightarrow> bool" where
  "lock_is_stale env now lock \<longleftrightarrow> RunLockStaleAfter < now - rk_HeartbeatAt lock \<or> dead_owner env lock"

fun cleanup_paths ::
    "lock_env \<Rightarrow> string option \<Rightarrow> time \<Rightarrow> string list \<Rightarrow> nat \<Rightarrow> lock_world \<Rightarrow> (nat \<times> err_list) \<times> lock_world" where
  "cleanup_paths env store now [] removed w = ((removed, []), w)"
| "cleanup_paths env store now (path # paths) removed w =
     (case ReadLock (lw_fs w) path of
        None \<Rightarrow> cleanup_paths env store now paths removed w
      | Some lock \<Rightarrow>
          if \<not> lock_is_stale env now lock then cleanup_paths env store now paths removed w
          else if le_fault env path then ((removed, [''remove '' @ path]), w)
          else let w1 = remove_file path w in
            cleanup_paths env store now paths (removed + 1)
              (if store \<noteq> None then w1
               else MirrorReleaseContext env None lock now (if dead_owner env lock then ''dead_owner'' else ''stale'') False w1))"

definition CleanupStaleContext ::
    "lock_env \<Rightarrow> string option \<Rightarrow> string list \<Rightarrow> time \<Rightarrow> err_list \<Rightarrow> lock_world \<Rightarrow> (nat \<times> err_list) \<times> lock_world" where
  "CleanupStaleContext env store paths now ctxErr w =
     (if ctxErr \<noteq> [] then ((0, ctxErr), w) else cleanup_paths env store now paths 0 w)"

section \<open>Owners are recognised\<close>

lemma cut_last_piece: "c \<notin> set y \<Longrightarrow> cut_last c (x @ c # y) = Some (x, y)"
proof -
  assume y: "c \<notin> set y"
  have tw: "takeWhile (\<lambda>d. d \<noteq> c) (rev y @ c # rev x) = rev y"
    using takeWhile_append2 [of "rev y" "\<lambda>d. d \<noteq> c" "c # rev x"] y by fastforce
  have dw: "dropWhile (\<lambda>d. d \<noteq> c) (rev y @ c # rev x) = c # rev x"
    using dropWhile_append2 [of "rev y" "\<lambda>d. d \<noteq> c" "c # rev x"] y by fastforce
  show ?thesis by (simp add: cut_last_def tw dw)
qed

lemma atoi_itoa: "0 < n \<Longrightarrow> n < 2 ^ 63 \<Longrightarrow> atoi (itoa n) = Some n"
proof -
  assume n: "0 < n" "n < 2 ^ 63"
  let ?d = "nat_digits (nat n)"
  have d: "list_all is_digit ?d" "digits_val ?d = nat n" by (simp_all add: nat_digits_digits nat_digits_val)
  have ne: "?d \<noteq> []" by simp
  have hd: "is_digit (hd ?d)" using d(1) ne by (cases ?d) simp_all
  have "\<not> is_digit CHR ''-''" "\<not> is_digit CHR ''+''" by code_simp+
  then have "\<not> has_prefix ?d ''-''" "\<not> has_prefix ?d ''+''"
    using hd ne by (cases ?d; simp add: has_prefix_def; metis)+
  then show ?thesis using n d ne by (simp add: atoi_def itoa_pos Let_def)
qed

lemma digits_no_mark: "\<not> is_digit c \<Longrightarrow> 0 < n \<Longrightarrow> c \<notin> set (itoa n)"
  using nat_digits_digits [of "nat n"] by (auto simp: itoa_pos list_all_iff)


lemma trim_space_hd: "trim_space s \<noteq> [] \<Longrightarrow> \<not> is_space (hd (trim_space s))"
proof
  let ?t = "trim_space s"
  assume ne: "?t \<noteq> []" and sp: "is_space (hd ?t)"
  have "length (trim_space ?t) \<le> length (dropWhile is_space ?t)"
    by (metis trim_space_def length_dropWhile_le length_rev)
  also have "\<dots> < length ?t" using ne sp length_dropWhile_le [of is_space "tl ?t"] by (cases ?t) simp_all
  finally show False by simp
qed

text \<open>The text of an owner is \<open>owner@host#pid\<close> for a known host and a positive process id.\<close>

definition owner_name :: "RunLock \<Rightarrow> string" where
  "owner_name lock = (if trim_space (rk_Owner lock) = [] then ''unknown'' else trim_space (rk_Owner lock))"

lemma owner_name_start: "owner_name lock \<noteq> [] \<and> \<not> is_space (hd (owner_name lock))"
  using trim_space_hd [of "rk_Owner lock"] by (simp add: owner_name_def is_space_def Let_def)

lemma owner_text_parts:
  assumes "trim_space (rk_Host lock) \<noteq> []" "trim_space (rk_Host lock) \<noteq> ''unknown''" "0 < rk_PID lock"
  shows "lock_owner_text lock
    = (owner_name lock @ CHR ''@'' # trim_space (rk_Host lock)) @ CHR ''#'' # itoa (rk_PID lock)"
  using assms by (simp add: lock_owner_text_def owner_name_def Let_def)

text \<open>
  The owner text of a run lock names its host and process: for every lock with a known host name
  without \<open>@\<close> and a positive process id, what the reclaiming of dead owners reads back from
  \<open>owner@host#pid\<close> is exactly that host and that process, whatever the user name contains.
\<close>

theorem owner_text_roundtrip:
  assumes "trim_space (rk_Host lock) \<noteq> []" "trim_space (rk_Host lock) \<noteq> ''unknown''"
    and "CHR ''@'' \<notin> set (trim_space (rk_Host lock))" "0 < rk_PID lock" "rk_PID lock < 2 ^ 63"
  shows "leaseOwnerHostPID (lock_owner_text lock) = Some (trim_space (rk_Host lock), rk_PID lock)"
proof -
  let ?h = "trim_space (rk_Host lock)" and ?d = "itoa (rk_PID lock)"
  note parts = owner_text_parts [OF assms(1,2,4)]
  have d: "?d \<noteq> []" "list_all is_digit ?d"
    using nat_digits_digits [of "nat (rk_PID lock)"] by (simp_all add: itoa_pos assms(4))
  have "is_digit (last ?d)" using d last_in_set [OF d(1)] by (simp add: list_all_iff)
  then have "\<not> is_space (last ?d)" by (auto simp: is_digit_def is_space_def Let_def)
  then have trim: "trim_space (lock_owner_text lock) = lock_owner_text lock"
    using owner_name_start [of lock] d(1) by (intro trim_space_no_space) (simp_all add: parts)
  have no: "CHR ''#'' \<notin> set ?d" by (rule digits_no_mark [OF _ assms(4)]) code_simp
  have c1: "cut_last CHR ''#'' (lock_owner_text lock) = Some (owner_name lock @ CHR ''@'' # ?h, ?d)"
    unfolding parts by (rule cut_last_piece [OF no])
  have c2: "cut_last CHR ''@'' (owner_name lock @ CHR ''@'' # ?h) = Some (owner_name lock, ?h)"
    by (rule cut_last_piece [OF assms(3)])
  show ?thesis
    using assms d(1) by (simp add: leaseOwnerHostPID_def trim c1 c2 atoi_itoa)
qed

definition example_lock :: RunLock where
  "example_lock = zero_lock\<lparr>rk_Owner := ''ann'', rk_PID := 42, rk_Host := ''build-1'', rk_IssueIdentifier := ''A-1'',
     rk_Workspace := ''/w/A-1''\<rparr>"

theorem owner_text_roundtrip_witness:
  "leaseOwnerHostPID (lock_owner_text example_lock) = Some (''build-1'', 42)"
proof -
  have "trim_space (rk_Host example_lock) = ''build-1''" "rk_PID example_lock = 42" by code_simp+
  then show ?thesis using owner_text_roundtrip [of example_lock] by simp
qed

section \<open>Who loses a lease\<close>

lemma scan_live_lease:
  assumes "lease_row_ok r" "lr_released_at r = []"
  shows "\<exists>l. scan_lease r = Inr l \<and> ls_Owner l = lr_owner r \<and> is_zero (ls_ReleasedAt l)"
  using assms unfolding lease_row_ok_def
  by (auto simp: scan_lease_def parse_time_def is_zero_def elim!: time_text_obtain)

text \<open>
  C20: a run lock in the store is taken from a holder only if that holder is dead: when an unreleased,
  unexpired lease is replaced by an acquisition, its owner text names a positive process id on this
  host for which no process is alive.  A holder on another host, or one whose owner text cannot be
  read, keeps its lease.
\<close>

theorem live_lock_not_taken:
  assumes "take_lease env lease now db = (Inr True, db')" and "valid_lease lease" "\<not> is_zero now" "leases_ok db"
    and "holder db (ls_Name lease) now = Some owner"
  shows "\<exists>host pid. leaseOwnerHostPID owner = Some (host, pid) \<and> SameHost env host \<and> \<not> ProcessAlive env pid"
proof -
  obtain res db1 where a: "AcquireLease (le_store env) lease now db = (res, db1)" by fastforce
  from a assms(2-4) show ?thesis
  proof (cases rule: AcquireLease_cases)
    case (held r e)
    have mem: "r \<in> set (db_leases db)" and name: "lr_name r = ls_Name lease" using lookup_Some [OF held(1)] by simp_all
    have "lease_row_ok r" using assms(4) mem by (auto simp: leases_ok_def list_all_iff)
    from scan_live_lease [OF this held(3)] obtain l
      where l: "scan_lease r = Inr l" "ls_Owner l = lr_owner r" "is_zero (ls_ReleasedAt l)" by blast
    have owner: "owner = lr_owner r" using assms(5) held by (auto simp: holder_def split: if_splits)
    have named: "ls_Name lease \<noteq> []" using assms(2) by (simp add: valid_lease_def)
    have read: "ReadLease (ls_Name lease) db = Inr (Some l)" using held(1) l(1) named by (simp add: ReadLease_def)
    have "reclaimDeadOwnerSQLiteLease env lease now db = (Inr True, db')"
      using assms(1) a held(5,6) by (simp add: take_lease_def)
    then show ?thesis
      unfolding reclaimDeadOwnerSQLiteLease_def read using l owner by (auto split: option.splits if_splits)
  qed (use assms(1,5) a in \<open>auto simp: take_lease_def holder_def split: if_splits\<close>)
qed

text \<open>A dead holder's lease is replaced: the same name, a process of this host that is gone.\<close>

definition here :: lock_env where
  "here = \<lparr>le_store = test_env, le_user = ''cy'', le_hostname = ''build-1'', le_pid = 77,
           le_alive = (\<lambda>pid. pid = 77), le_fault = (\<lambda>p. False)\<rparr>"

definition dead_lease :: Lease where "dead_lease = lease_request ''run:A-1'' ''ann@build-1#42'' 1000000000 9000000000"
definition next_lease :: Lease where "next_lease = lease_request ''run:A-1'' ''cy@build-1#77'' 2000000000 9500000000"
definition dead_db :: db where "dead_db = empty_db\<lparr>db_leases := [lease_row dead_lease]\<rparr>"

lemma dead_leases_ok: "valid_lease dead_lease" "valid_lease next_lease"
  by code_simp+

lemma dead_lease_simps [simp]:
  "ls_Name dead_lease = ''run:A-1''" "ls_Name next_lease = ''run:A-1''" "ls_Owner dead_lease = ''ann@build-1#42''"
  "ls_ExpiresAt dead_lease = 9000000000" "ls_Owner next_lease = ''cy@build-1#77''"
  by (simp_all add: dead_lease_def next_lease_def lease_request_def zero_Lease_def)

lemma dead_db_facts: "leases_ok dead_db" "holder dead_db ''run:A-1'' 2000000000 = Some ''ann@build-1#42''"
  using fresh_lease_ok [of dead_lease empty_db] fresh_lease_holder [of dead_lease empty_db 2000000000] dead_leases_ok
  by (simp_all add: dead_db_def)

lemma dead_owner_read: "leaseOwnerHostPID ''ann@build-1#42'' = Some (''build-1'', 42)"
  by code_simp

lemma dead_owner_gone: "SameHost here ''build-1''" "\<not> ProcessAlive here 42"
  by code_simp+

lemma dead_lease_row: "lookup lr_name ''run:A-1'' (db_leases dead_db) = Some (lease_row dead_lease)"
  by (simp add: dead_db_def)

lemma dead_lease_rows:
  "rows_affected (\<lambda>r. lr_name r = ''run:A-1'' \<and> lr_owner r = ''ann@build-1#42'' \<and> lr_released_at r = [])
     [lease_row dead_lease] = 1"
  by (simp add: rows_affected_def)

lemma dead_lease_taken: "fst (take_lease here next_lease 2000000000 dead_db) = Inr True"
proof -
  have e: "parse_time (lr_expires_at (lease_row dead_lease)) = Some 9000000000"
    using dead_leases_ok(1) by (simp add: valid_lease_def parse_format_time)
  have a: "AcquireLease (le_store here) next_lease 2000000000 dead_db = (Inr False, dead_db)"
    using dead_leases_ok dead_lease_row e by (simp add: AcquireLease_def Let_def now_or_clock_def is_zero_def)
  from scan_live_lease [OF lease_row_ok_new [OF dead_leases_ok(1)]] obtain l
    where l: "scan_lease (lease_row dead_lease) = Inr l" "ls_Owner l = ''ann@build-1#42''" "is_zero (ls_ReleasedAt l)"
    by auto
  have read: "ReadLease ''run:A-1'' dead_db = Inr (Some l)"
    using dead_lease_row l by (simp add: ReadLease_def)
  have "fst (ReclaimLease (le_store here) next_lease 2000000000 ''dead_owner'' dead_db) = Inr True"
    using dead_leases_ok dead_lease_rows
    by (simp add: ReclaimLease_def Let_def dead_db_def recordLeaseReclaim_def sql_conflict_iff)
  then show ?thesis
    using a l dead_owner_read dead_owner_gone by (simp add: take_lease_def reclaimDeadOwnerSQLiteLease_def read)
qed

theorem live_lock_not_taken_witness:
  "\<exists>host pid. leaseOwnerHostPID ''ann@build-1#42'' = Some (host, pid) \<and> SameHost here host \<and> \<not> ProcessAlive here pid"
proof -
  have "take_lease here next_lease 2000000000 dead_db
      = (Inr True, snd (take_lease here next_lease 2000000000 dead_db))"
    using dead_lease_taken by (simp add: prod_eq_iff)
  from live_lock_not_taken [OF this dead_leases_ok(2) _ dead_db_facts(1)] dead_db_facts(2)
  show ?thesis by (simp add: is_zero_def)
qed

lemma mkdirs_keeps: "mkdirs env d v = (e, v1) \<Longrightarrow> lw_fs v p = Some x \<Longrightarrow> lw_fs v1 p = Some x"
  by (auto simp: mkdirs_def split: if_splits sum.splits dest!: mkdir_all_grows [THEN spec, of _ _ _ p])

lemma withStateStore_fs [simp]: "lw_fs (withStateStoreContext st ws f c w) = lw_fs w"
  by (simp add: withStateStoreContext_def put_db_def split: option.splits)

lemma mirror_fs [simp]:
  "lw_fs (MirrorAcquireContext env st lock c w) = lw_fs w" "lw_fs (MirrorRenewContext env st lock c w) = lw_fs w"
  "lw_fs (MirrorReleaseContext env st lock t r c w) = lw_fs w"
  by (simp_all add: MirrorAcquireContext_def MirrorRenewContext_def MirrorReleaseContext_def)

section \<open>Lock files\<close>


definition stale_file :: "lock_env \<Rightarrow> time \<Rightarrow> fs \<Rightarrow> string \<Rightarrow> bool" where
  "stale_file env now fs path \<longleftrightarrow> (case ReadLock fs path of None \<Rightarrow> False | Some lock \<Rightarrow> lock_is_stale env now lock)"

lemma ReadLock_other [simp]: "p \<noteq> q \<Longrightarrow> ReadLock (fs(p := x)) q = ReadLock fs q"
  by (simp add: ReadLock_def read_file_def stat_def)

lemma cleanup_paths_exact:
  "distinct paths \<Longrightarrow> list_all (\<lambda>p. \<not> le_fault env p) paths \<Longrightarrow>
     fst (cleanup_paths env store now paths n w) = (n + length (filter (stale_file env now (lw_fs w)) paths), [])
   \<and> lw_fs (snd (cleanup_paths env store now paths n w))
     = (\<lambda>p. if p \<in> set paths \<and> stale_file env now (lw_fs w) p then None else lw_fs w p)"
proof (induction paths arbitrary: n w)
  case Nil
  show ?case by simp
next
  case (Cons path paths)
  show ?case
  proof (cases "stale_file env now (lw_fs w) path")
    case False
    then have "cleanup_paths env store now (path # paths) n w = cleanup_paths env store now paths n w"
      by (cases "ReadLock (lw_fs w) path") (simp_all add: stale_file_def)
    with False Cons show ?thesis by (auto simp: fun_eq_iff)
  next
    case True
    then obtain lock where lock: "ReadLock (lw_fs w) path = Some lock" "lock_is_stale env now lock"
      by (auto simp: stale_file_def split: option.splits)
    define w1 where "w1 = (if store \<noteq> None then remove_file path w
      else MirrorReleaseContext env None lock now (if dead_owner env lock then ''dead_owner'' else ''stale'') False
             (remove_file path w))"
    have fs: "lw_fs w1 = (lw_fs w)(path := None)" by (simp add: w1_def remove_file_def)
    have step: "cleanup_paths env store now (path # paths) n w = cleanup_paths env store now paths (n + 1) w1"
      using lock Cons.prems by (simp add: w1_def Let_def)
    have same: "stale_file env now (lw_fs w1) p = stale_file env now (lw_fs w) p" if "p \<in> set paths" for p
      using that Cons.prems(1) by (simp add: stale_file_def fs ReadLock_other split: if_splits) (metis ReadLock_other)
    have "filter (stale_file env now (lw_fs w1)) paths = filter (stale_file env now (lw_fs w)) paths"
      using same by (rule filter_cong [OF refl])
    moreover have "(\<lambda>p. if p \<in> set paths \<and> stale_file env now (lw_fs w1) p then None else lw_fs w1 p)
      = (\<lambda>p. if p \<in> set (path # paths) \<and> stale_file env now (lw_fs w) p then None else lw_fs w p)"
      using same True by (auto simp: fun_eq_iff fs)
    ultimately show ?thesis using Cons.IH [of "n + 1" w1] Cons.prems True unfolding step by simp
  qed
qed

text \<open>A workspace whose lock file can be created.\<close>

definition first_world :: lock_world where
  "first_world = \<lparr>lw_fs = [''/'' \<mapsto> Directory, ''/w'' \<mapsto> Directory], lw_dbs = Map.empty\<rparr>"

definition first_issue :: Issue where
  "first_issue = \<lparr>is_ID = ''1'', is_Identifier = ''A-1'', is_Title = [], is_URL = [], is_Description = [],
     is_Priority = 0, is_CreatedAt = [], is_TeamID = [], is_TeamKey = [], is_TeamName = [], is_StateName = [],
     is_Labels = []\<rparr>"

lemma acquire_file_creates:
  "fst (mkdirs env (dir (LockPath workspace)) w) = [] \<Longrightarrow>
   lw_fs (snd (mkdirs env (dir (LockPath workspace)) w)) (LockPath workspace) = None \<Longrightarrow>
   \<not> le_fault env (LockPath workspace) \<Longrightarrow> fst (acquire_file env workspace lock now w) = Inr lock"
  by (cases "mkdirs env (dir (LockPath workspace)) w") (simp add: acquire_file_def Let_def)

lemma first_world_acquired:
  "fst (AcquireContext here None ''/w/A-1'' first_issue ''am/a-1'' 5 [] first_world)
     = Inr (new_lock here ''/w/A-1'' first_issue ''am/a-1'' 5)"
proof -
  define w1 where "w1 = snd (mkdirs here ''/w/A-1'' first_world)"
  have m: "fst (mkdirs here ''/w/A-1'' first_world) = []" by code_simp
  have "fst (acquire_file here ''/w/A-1'' lock 5 w1) = Inr lock" for lock
  proof (rule acquire_file_creates)
    show "fst (mkdirs here (dir (LockPath ''/w/A-1'')) w1) = []" unfolding w1_def by code_simp
    show "lw_fs (snd (mkdirs here (dir (LockPath ''/w/A-1'')) w1)) (LockPath ''/w/A-1'') = None"
      unfolding w1_def by code_simp
    show "\<not> le_fault here (LockPath ''/w/A-1'')" by (simp add: here_def)
  qed
  then show ?thesis using m by (cases "mkdirs here ''/w/A-1'' first_world") (simp add: AcquireContext_def Let_def w1_def)
qed


text \<open>
  Stale locks are cleared exactly: over the distinct lock files of a directory listing, with every
  removal succeeding, \<open>CleanupStaleContext\<close> removes the files whose lock is older than the stale
  limit or owned by a dead process of this host, counts exactly those, and leaves every other path,
  unreadable lock files included, as it is.
\<close>

theorem stale_locks_cleared:
  assumes "distinct paths" "list_all (\<lambda>p. \<not> le_fault env p) paths"
  shows "fst (CleanupStaleContext env store paths now [] w)
      = (length (filter (stale_file env now (lw_fs w)) paths), [])
    \<and> lw_fs (snd (CleanupStaleContext env store paths now [] w))
      = (\<lambda>p. if p \<in> set paths \<and> stale_file env now (lw_fs w) p then None else lw_fs w p)"
  using cleanup_paths_exact [OF assms, of store now 0 w] by (simp add: CleanupStaleContext_def)

theorem stale_locks_cleared_witness:
  "fst (CleanupStaleContext here None [''/w/.am-locks/A-1.json''] 5 [] first_world) = (0, [])"
proof -
  have "ReadLock (lw_fs first_world) ''/w/.am-locks/A-1.json'' = None" by code_simp
  then show ?thesis
    using stale_locks_cleared [of "[''/w/.am-locks/A-1.json'']" here None 5 first_world]
    by (simp add: here_def stale_file_def)
qed

end
