(* ===== verification/Reconciler.thy ===== *)
theory Reconciler
  imports RunLock AttemptLifecycle
begin

text \<open>
  src/reconciler.go with the helpers it uses from feedback.go, merge.go, candidate_selection.go and
  status.go: from the facts about an issue (its Linear state and labels, the open pull request, the
  run artifacts, the attempt state and lease in the store, the lock file and the git status of the
  workspace) to the decision what the runner may do with it.  A decision starts as Ready and the
  operations below move it; the properties say when a decision allows a run or a merge.
\<close>

section \<open>Decisions\<close>

datatype lifecycleState =
    lifecycleReady | lifecycleRunning | lifecycleNeedsInfo | lifecycleReviewFailed | lifecycleHandoffReady
  | lifecycleFeedbackRetry | lifecycleMergeReady | lifecycleDone | lifecycleBlocked | lifecycleQuarantined

fun lifecycle_text :: "lifecycleState \<Rightarrow> string" where
  "lifecycle_text lifecycleReady = ''Ready''"
| "lifecycle_text lifecycleRunning = ''Running''"
| "lifecycle_text lifecycleNeedsInfo = ''Needs Info''"
| "lifecycle_text lifecycleReviewFailed = ''Review Failed''"
| "lifecycle_text lifecycleHandoffReady = ''Handoff Ready''"
| "lifecycle_text lifecycleFeedbackRetry = ''Feedback Retry''"
| "lifecycle_text lifecycleMergeReady = ''Merge Ready''"
| "lifecycle_text lifecycleDone = ''Done''"
| "lifecycle_text lifecycleBlocked = ''Blocked''"
| "lifecycle_text lifecycleQuarantined = ''Quarantined''"

text \<open>The summary of the artifacts of a workspace, internal/statusreport.\<close>

record ArtifactSummary =
  as_Issue :: string
  as_Status :: string
  as_Review :: string
  as_PRURL :: string
  as_Outcome :: string
  as_RootCause :: string
  as_NextAction :: string
  as_ChecksStatus :: string
  as_MergeBlockReason :: string
  as_MergeBlockerCodes :: "string list"
  as_BlockedBy :: "string list"
  as_Frictions :: "string list"
  as_TotalTokens :: rat
  as_TotalCost :: rat
  as_HasArtifact :: bool
  as_HasEvaluation :: bool
  as_Cleanable :: bool
  as_Class :: string
  as_MergeEligible :: bool
  as_ShouldRetry :: bool
  as_OperatorAttention :: bool
  as_TicketContract :: "string list"

record ReconciliationDecision =
  de_IssueIdentifier :: string
  de_StateName :: string
  de_Lifecycle :: lifecycleState
  de_CanRun :: bool
  de_CanMerge :: bool
  de_ShouldRetry :: bool
  de_ShouldQuarantine :: bool
  de_NextAction :: string
  de_Blockers :: "string list"
  de_RunRecord :: "RunRecord option"
  de_PR :: "PullRequestSummary option"
  de_Artifact :: "ArtifactSummary option"
  de_DBFacts :: "ReconciliationFacts option"
  de_StateStoreError :: "string option"
  de_ReconciliationNeeded :: bool

definition new_decision :: "Issue \<Rightarrow> ReconciliationDecision" where
  "new_decision candidate =
     \<lparr>de_IssueIdentifier = is_Identifier candidate, de_StateName = is_StateName candidate,
      de_Lifecycle = lifecycleReady, de_CanRun = False, de_CanMerge = False, de_ShouldRetry = False,
      de_ShouldQuarantine = False, de_NextAction = ''run_agent'', de_Blockers = [], de_RunRecord = None,
      de_PR = None, de_Artifact = None, de_DBFacts = None, de_StateStoreError = None,
      de_ReconciliationNeeded = False\<rparr>"

text \<open>\<open>reconciliationStateReader\<close>, with the state store as its implementation.\<close>

record state_reader =
  sr_ReconciliationFacts :: "string \<Rightarrow> ReconciliationFacts option result"
  sr_Lease :: "string \<Rightarrow> Lease option result"

definition store_reader :: "db \<Rightarrow> state_reader" where
  "store_reader db =
     \<lparr>sr_ReconciliationFacts = (\<lambda>key. ReadReconciliationFacts key db), sr_Lease = (\<lambda>name. ReadLease name db)\<rparr>"

text \<open>
  What a reconciliation sees besides its arguments: the files, the environment, the output of
  \<open>git status --porcelain\<close> in a workspace, the error of the context and the clock.
\<close>

record rec_env =
  re_fs :: fs
  re_getenv :: "string \<Rightarrow> string"
  re_git_status :: "string \<Rightarrow> string + string"
  re_ctx_err :: "string option"
  re_now :: time

definition workspaceHasChanges :: "rec_env \<Rightarrow> string \<Rightarrow> string + bool" where
  "workspaceHasChanges env workspace =
     (case re_git_status env workspace of
        Inl e \<Rightarrow> Inl e | Inr out \<Rightarrow> Inr (dirty_line (re_fs env) workspace (split_on newline out)))"

definition block_decision :: "lifecycleState \<Rightarrow> string \<Rightarrow> string \<Rightarrow> ReconciliationDecision \<Rightarrow> ReconciliationDecision" where
  "block_decision state reason next_action d =
     d\<lparr>de_Lifecycle := state, de_CanRun := False, de_CanMerge := False, de_Blockers := de_Blockers d @ [reason],
       de_NextAction := next_action\<rparr>"

section \<open>Checks\<close>

definition label_names :: "Issue \<Rightarrow> string list" where
  "label_names candidate = map (\<lambda>l. to_lower (trim_space l)) (is_Labels candidate)"

definition isBlockedCandidate :: "Issue \<Rightarrow> bool" where
  "isBlockedCandidate candidate \<longleftrightarrow>
     ''blocked'' \<in> set (label_names candidate) \<or> ''needs-info'' \<in> set (label_names candidate)"

definition stateIsRunnable :: "string \<Rightarrow> RunnerConfig \<Rightarrow> bool" where
  "stateIsRunnable state config \<longleftrightarrow>
     state = [] \<or> state = rc_ReadyState config \<or> state = rc_RunningState config
     \<or> list_ex (\<lambda>active. state = active) (rc_ActiveStates config)"

definition prInvariantBlockReason :: "rec_env \<Rightarrow> RunnerConfig \<Rightarrow> Issue \<Rightarrow> PullRequestSummary \<Rightarrow> string" where
  "prInvariantBlockReason env config candidate pr =
     (let baseBranch = (if trim_space (rc_BaseBranch config) = [] then ''develop'' else trim_space (rc_BaseBranch config));
          appIdentity = githubAppIdentityFromConfig (re_getenv env) config;
          ownership = NewPolicy
            \<lparr>oi_Provider = codeHostProvider config, oi_GitHubPRAuthorOverride = rc_GitHubPRAuthorOverride config,
             oi_GitHubAppExpectedLogins = ExpectedPRAuthorLogins appIdentity, oi_GitHubAppSource = ai_Source appIdentity,
             oi_GitLabPRAuthorOverride = rc_GitLabPRAuthorOverride config,
             oi_GitLabEnvPRAuthorOverride = re_getenv env ''GITLAB_PR_AUTHOR_OVERRIDE''\<rparr>;
          commitReason = commitAuthorInvariantBlockReason (re_getenv env) config pr in
      join ''; ''
        ((if ps_BaseRefName pr \<noteq> [] \<and> \<not> equal_fold (ps_BaseRefName pr) baseBranch
          then [''PR base branch is '' @ quote (ps_BaseRefName pr) @ ''; expected '' @ quote baseBranch] else [])
         @ (if ps_HeadRefName pr \<noteq> expectedWorkspaceBranch (is_Identifier candidate)
            then [''PR head branch is '' @ quote (empty_as_unknown (ps_HeadRefName pr)) @ ''; expected ''
                  @ quote (expectedWorkspaceBranch (is_Identifier candidate))] else [])
         @ (if \<not> AllowsPRAuthor ownership (AuthorLogin pr)
            then [''PR author is '' @ quote (empty_as_unknown (AuthorLogin pr)) @ ''; expected ''
                  @ ExpectedPRAuthorSource ownership] else [])
         @ (if codeHostProvider config \<noteq> ''gitlab'' \<and> commitReason \<noteq> [] then [commitReason] else [])))"

definition evaluatePullRequestMergeGate :: "PullRequestSummary \<Rightarrow> Decision" where
  "evaluatePullRequestMergeGate pr =
     EvaluatePullRequest
       \<lparr>pr_Subject = first_non_empty [ps_URL pr, ps_HeadRefName pr], pr_HeadRefName = ps_HeadRefName pr,
        pr_Mergeable = ps_Mergeable pr, pr_MergeStateStatus = ps_MergeStateStatus pr,
        pr_StatusChecks = ps_StatusCheckRollup pr\<rparr>"

definition mergeGateBlockReason :: "PullRequestSummary \<Rightarrow> string" where
  "mergeGateBlockReason pr = Reason (md_Result (evaluatePullRequestMergeGate pr))"

definition canRetryReviewReadiness ::
    "RunnerConfig \<Rightarrow> Issue \<Rightarrow> PullRequestSummary \<Rightarrow> ReconciliationFacts option \<Rightarrow> bool" where
  "canRetryReviewReadiness config candidate pr facts \<longleftrightarrow>
     stateIsRunnable (is_StateName candidate) config
     \<and> fst (ChecksStatus (ps_StatusCheckRollup pr)) = ''success''
     \<and> (case facts of
          None \<Rightarrow> False
        | Some f \<Rightarrow> rf_Status f = StatusReviewNotReady \<and> (trim_space (rf_PRURL f) = [] \<or> rf_PRURL f = ps_URL pr))"

definition sqliteMergeBlockReason :: "ReconciliationFacts \<Rightarrow> string \<Rightarrow> string" where
  "sqliteMergeBlockReason facts prURL =
     (if trim_space (rf_PRURL facts) \<noteq> [] \<and> trim_space prURL \<noteq> [] \<and> trim_space (rf_PRURL facts) \<noteq> trim_space prURL
      then ''SQLite PR URL '' @ rf_PRURL facts @ '' does not match candidate PR '' @ prURL
      else if rf_Status facts \<noteq> StatusSuccess then ''run status is '' @ empty_as_unknown (rf_Status facts)
      else if rf_ReviewStatus facts = ''passed'' then []
      else if rf_ReviewStatus facts = ''failed'' \<and> rf_ReviewClassification facts = MissingEvidenceOnly then []
      else ''review status is '' @ empty_as_unknown (rf_ReviewStatus facts))"

definition runArtifactHasHumanApprovedMissingEvidence :: "RunRecord \<Rightarrow> bool" where
  "runArtifactHasHumanApprovedMissingEvidence r \<longleftrightarrow>
     rr_Status r = ''success'' \<and> rr_ReviewStatus r = ''failed'' \<and> rr_ReviewClassification r = MissingEvidenceOnly"

definition runArtifactMergeBlockReason :: "rec_env \<Rightarrow> string \<Rightarrow> string \<Rightarrow> string \<Rightarrow> string" where
  "runArtifactMergeBlockReason env workspaceRoot issueKey prURL =
     (case readRunArtifact (read_file (re_fs env)) (join2 workspaceRoot issueKey) of
        None \<Rightarrow> ''missing run artifact for approved Agent Machine PR''
      | Some record \<Rightarrow>
          if trim_space (rr_PRURL record) \<noteq> [] \<and> trim_space prURL \<noteq> [] \<and> trim_space (rr_PRURL record) \<noteq> trim_space prURL
          then ''run artifact PR URL '' @ rr_PRURL record @ '' does not match candidate PR '' @ prURL
          else if rr_Status record \<noteq> ''success'' then ''run status is '' @ empty_as_unknown (rr_Status record)
          else if runArtifactHasHumanApprovedMissingEvidence record then []
          else if rr_ReviewStatus record \<noteq> ''passed'' then ''review status is '' @ empty_as_unknown (rr_ReviewStatus record)
          else [])"

definition workspaceLockedOrModified :: "rec_env \<Rightarrow> string \<Rightarrow> string \<Rightarrow> bool \<times> string" where
  "workspaceLockedOrModified env workspaceRoot issueKey =
     (let workspace = join2 workspaceRoot issueKey in
      if stat (re_fs env) workspace = None then (False, [])
      else if list_ex (\<lambda>lockPath. stat (re_fs env) lockPath \<noteq> None)
                [join2 (join2 workspace ''.git'') ''index.lock'', join2 workspace ''.am.lock'']
      then (True, ''workspace '' @ workspace @ '' is locked'')
      else (case workspaceHasChanges env workspace of
              Inl e \<Rightarrow> (True, ''workspace '' @ workspace @ '' status could not be checked'')
            | Inr True \<Rightarrow> (True, ''workspace '' @ workspace @ '' has uncommitted changes'')
            | Inr False \<Rightarrow> (False, [])))"

definition mergeStateBlockReason ::
    "rec_env \<Rightarrow> RunnerConfig \<Rightarrow> Issue \<Rightarrow> PullRequestSummary \<Rightarrow> ReconciliationDecision \<Rightarrow> string" where
  "mergeStateBlockReason env config candidate pr d =
     (case de_DBFacts d of
        Some facts \<Rightarrow> sqliteMergeBlockReason facts (ps_URL pr)
      | None \<Rightarrow> runArtifactMergeBlockReason env (rc_WorkspaceRoot config) (is_Identifier candidate) (ps_URL pr))"

section \<open>Repairing a failed review\<close>

definition repairReviewFindingsNextAction :: string where
  "repairReviewFindingsNextAction = ''repair_review_findings_before_handoff''"

definition other_pr :: "string \<Rightarrow> string \<Rightarrow> bool" where
  "other_pr recorded url \<longleftrightarrow> trim_space recorded \<noteq> [] \<and> recorded \<noteq> url"

text \<open>The attempt state of the store says that the pull request's review findings can be repaired.\<close>

definition facts_repairable :: "ReconciliationFacts \<Rightarrow> string \<Rightarrow> bool" where
  "facts_repairable facts prURL \<longleftrightarrow>
     (if trim_space (rf_Status facts) \<noteq> [] \<and> rf_Status facts \<noteq> StatusReviewFailed then False
      else if other_pr (rf_PRURL facts) prURL then False
      else if rf_Status facts = StatusReviewFailed
      then rf_ReviewStatus facts \<noteq> ''passed'' \<and> rf_ReviewClassification facts = BehaviorSpecBlocker
      else False)"

definition artifacts_repairable :: "rec_env \<Rightarrow> string \<Rightarrow> string \<Rightarrow> bool" where
  "artifacts_repairable env workspace prURL \<longleftrightarrow>
     (case readRunArtifact (read_file (re_fs env)) workspace of
        None \<Rightarrow> False
      | Some record \<Rightarrow>
          if rr_Status record \<noteq> StatusReviewFailed \<or> rr_ReviewStatus record = ''passed''
             \<or> rr_ReviewClassification record \<noteq> BehaviorSpecBlocker then False
          else if other_pr (rr_PRURL record) prURL then False
          else (case readEvaluationArtifact (read_file (re_fs env)) workspace of
                  None \<Rightarrow> False
                | Some evaluation \<Rightarrow>
                    if ea_Outcome evaluation \<noteq> StatusReviewFailed \<or> \<not> ea_ShouldRetry evaluation
                       \<or> ea_NextAction evaluation \<noteq> repairReviewFindingsNextAction then False
                    else if ea_ReviewClassification evaluation \<noteq> []
                            \<and> ea_ReviewClassification evaluation \<noteq> BehaviorSpecBlocker then False
                    else \<not> other_pr (ea_PRURL evaluation) prURL))"

definition repairableReviewFailedPR ::
    "rec_env \<Rightarrow> RunnerConfig \<Rightarrow> Issue \<Rightarrow> PullRequestSummary option \<Rightarrow> ReconciliationDecision \<Rightarrow> bool" where
  "repairableReviewFailedPR env config candidate pr decision \<longleftrightarrow>
     (case pr of
        None \<Rightarrow> False
      | Some p \<Rightarrow>
          if \<not> stateIsRunnable (is_StateName candidate) config then False
          else if de_NextAction decision \<noteq> ''reconcile_linear_state''
                  \<and> de_NextAction decision \<noteq> repairReviewFindingsNextAction then False
          else if de_ReconciliationNeeded decision then False
          else if prInvariantBlockReason env config candidate p \<noteq> [] then False
          else (case de_DBFacts decision of
                  Some facts \<Rightarrow> facts_repairable facts (ps_URL p)
                | None \<Rightarrow> artifacts_repairable env (join2 (rc_WorkspaceRoot config) (is_Identifier candidate)) (ps_URL p)))"

definition decisionWithRepairableReviewFailedPR ::
    "rec_env \<Rightarrow> RunnerConfig \<Rightarrow> Issue \<Rightarrow> PullRequestSummary option \<Rightarrow> ReconciliationDecision \<Rightarrow> ReconciliationDecision" where
  "decisionWithRepairableReviewFailedPR env config candidate pr decision =
     (if \<not> repairableReviewFailedPR env config candidate pr decision then decision
      else decision\<lparr>de_Lifecycle := lifecycleReviewFailed, de_CanRun := True, de_CanMerge := False,
             de_ShouldRetry := True, de_Blockers := [], de_NextAction := repairReviewFindingsNextAction\<rparr>)"

text \<open>An unreadable feedback file has no feedback, as \<open>ReadPRFeedback\<close> fails for it.\<close>

definition feedbackRetryAvailable ::
    "rec_env \<Rightarrow> string \<Rightarrow> Issue \<Rightarrow> RunRecord \<Rightarrow> RunnerConfig \<Rightarrow> PullRequestSummary option \<Rightarrow> bool" where
  "feedbackRetryAvailable env workspace candidate record config pr \<longleftrightarrow>
     (if is_StateName candidate \<noteq> rc_ReadyState config \<or> rr_PRURL record = [] then False
      else if rr_Status record = StatusReviewFailed
      then repairableReviewFailedPR env config candidate pr
             ((new_decision candidate)\<lparr>de_NextAction := repairReviewFindingsNextAction\<rparr>)
      else if rr_Status record \<noteq> ''success'' then False
      else trim_space (ReadPRFeedback (read_file (re_fs env)) workspace) \<noteq> [])"

section \<open>What the facts imply\<close>

definition applyTerminalArtifact ::
    "rec_env \<Rightarrow> RunnerConfig \<Rightarrow> Issue \<Rightarrow> string \<Rightarrow> RunRecord \<Rightarrow> ReconciliationDecision \<Rightarrow> ReconciliationDecision" where
  "applyTerminalArtifact env config candidate workspace record d =
     (if rr_Status record = ''success'' \<and> rr_PRURL record \<noteq> [] then
        (if feedbackRetryAvailable env workspace candidate record config None
         then d\<lparr>de_Lifecycle := lifecycleFeedbackRetry, de_CanRun := True, de_ShouldRetry := True,
                de_NextAction := ''retry_with_unresolved_pr_feedback''\<rparr>
         else block_decision lifecycleHandoffReady ''terminal success artifact already has a PR''
                ''await_review_or_reconcile_artifact'' d)
      else if rr_Status record = ''needs_info'' \<or> rr_Status record = ''needs_info_failed''
      then block_decision lifecycleNeedsInfo ''terminal needs-info artifact exists'' ''answer_questions_then_retry'' d
      else if rr_Status record = ''review_failed''
      then block_decision lifecycleReviewFailed ''terminal review_failed artifact exists''
             ''repair_review_findings_before_handoff'' d
      else if rr_Status record = ''merged'' \<or> rr_Status record = ''superseded''
      then block_decision lifecycleDone (''terminal '' @ rr_Status record @ '' artifact exists'') ''cleanup_workspace'' d
      else block_decision lifecycleBlocked (''terminal '' @ empty_as_unknown (rr_Status record) @ '' artifact exists'')
             ''operator_repair_or_clear_artifact'' d)"

definition retry_feedback :: "ReconciliationDecision \<Rightarrow> bool" where
  "retry_feedback d \<longleftrightarrow> (case de_RunRecord d of None \<Rightarrow> False | Some r \<Rightarrow> rr_Status r = StatusSuccess)"

definition applyPRInvariants ::
    "rec_env \<Rightarrow> RunnerConfig \<Rightarrow> Issue \<Rightarrow> string \<Rightarrow> PullRequestSummary \<Rightarrow> ReconciliationDecision \<Rightarrow> ReconciliationDecision" where
  "applyPRInvariants env config candidate workspace pr d =
     (if prInvariantBlockReason env config candidate pr \<noteq> [] then
        (block_decision lifecycleQuarantined (prInvariantBlockReason env config candidate pr)
           ''close_or_repair_invalid_pr'' d)\<lparr>de_ShouldQuarantine := True\<rparr>
      else if ps_ReviewDecision pr = ''CHANGES_REQUESTED'' then
        d\<lparr>de_Lifecycle := lifecycleFeedbackRetry, de_CanRun := stateIsRunnable (is_StateName candidate) config,
          de_CanMerge := False, de_Blockers := de_Blockers d @ [''GitHub review requested changes''],
          de_NextAction := ''capture_feedback_and_retry'', de_ShouldRetry := True\<rparr>
      else if canRetryReviewReadiness config candidate pr (de_DBFacts d) then
        d\<lparr>de_Lifecycle := lifecycleRunning, de_CanRun := True, de_CanMerge := False,
          de_NextAction := ''run_semantic_review_after_checks_ready'', de_ShouldRetry := True\<rparr>
      else if (case de_RunRecord d of
                 None \<Rightarrow> False
               | Some r \<Rightarrow> rr_Status r = StatusSuccess
                   \<and> feedbackRetryAvailable env workspace candidate r config (Some pr)) then
        d\<lparr>de_Lifecycle := lifecycleFeedbackRetry, de_CanRun := True, de_CanMerge := False,
          de_NextAction := ''retry_with_unresolved_pr_feedback'', de_ShouldRetry := True\<rparr>
      else if is_StateName candidate \<noteq> rc_HandoffState config then
        block_decision lifecycleBlocked (''PR exists while Linear state is '' @ quote (is_StateName candidate))
          ''reconcile_linear_state'' d
      else if ps_ReviewDecision pr \<noteq> ''APPROVED'' then
        block_decision lifecycleHandoffReady
          (''waiting for approval; reviewDecision='' @ empty_as_unknown (ps_ReviewDecision pr)) ''await_human_approval'' d
      else if mergeGateBlockReason pr \<noteq> [] then
        block_decision lifecycleHandoffReady (mergeGateBlockReason pr) ''wait_for_green_mergeable_pr'' d
      else if mergeStateBlockReason env config candidate pr d \<noteq> [] then
        (block_decision lifecycleQuarantined (mergeStateBlockReason env config candidate pr d)
           ''repair_run_artifact_before_merge'' d)\<lparr>de_ShouldQuarantine := True\<rparr>
      else (case workspaceLockedOrModified env (rc_WorkspaceRoot config) (is_Identifier candidate) of
              (True, reason) \<Rightarrow> block_decision lifecycleBlocked reason ''clear_workspace_lock_or_changes'' d
            | (False, reason) \<Rightarrow>
                d\<lparr>de_Lifecycle := lifecycleMergeReady, de_CanMerge := True, de_NextAction := ''merge_approved_pr''\<rparr>))"

section \<open>Reconciling an issue\<close>

definition reconciliationFacts :: "state_reader option \<Rightarrow> string \<Rightarrow> ReconciliationFacts option result" where
  "reconciliationFacts reader issueKey =
     (case reader of None \<Rightarrow> Inr None | Some r \<Rightarrow> sr_ReconciliationFacts r issueKey)"

definition activeRunLease :: "state_reader option \<Rightarrow> string \<Rightarrow> time \<Rightarrow> bool result" where
  "activeRunLease reader issueKey now =
     (case reader of
        None \<Rightarrow> Inr False
      | Some r \<Rightarrow>
          (case sr_Lease r (''run:'' @ issueKey) of
             Inl e \<Rightarrow> Inl e
           | Inr None \<Rightarrow> Inr False
           | Inr (Some lease) \<Rightarrow> Inr (is_zero (ls_ReleasedAt lease) \<and> now < ls_ExpiresAt lease)))"

text \<open>The facts are gathered first: the decision they lead to, and the three findings the guards look at.\<close>

record gathered =
  ga_decision :: ReconciliationDecision
  ga_artifactOnlyEvidence :: bool
  ga_artifactConflict :: bool
  ga_missingPRFacts :: bool

definition with_artifact :: "bool \<Rightarrow> ArtifactSummary option \<Rightarrow> ReconciliationDecision \<Rightarrow> ReconciliationDecision" where
  "with_artifact stateBacked artifact d =
     (case artifact of
        None \<Rightarrow> d
      | Some a \<Rightarrow>
          let d' = d\<lparr>de_Artifact := Some a\<rparr> in
          if \<not> stateBacked \<and> as_HasArtifact a \<and> TerminalRunStatus (as_Status a)
          then d'\<lparr>de_RunRecord := Some (zero_RunRecord\<lparr>rr_Status := as_Status a, rr_PRURL := as_PRURL a,
                                                       rr_ReviewStatus := as_Review a\<rparr>)\<rparr>
          else d')"

definition with_facts ::
    "bool \<Rightarrow> ReconciliationFacts option result \<Rightarrow> PullRequestSummary option \<Rightarrow> ReconciliationDecision
       \<Rightarrow> ReconciliationDecision \<times> bool" where
  "with_facts stateBacked facts pr d =
     (case facts of
        Inl err \<Rightarrow> (d\<lparr>de_StateStoreError := Some (store_error_text err), de_ReconciliationNeeded := True\<rparr>, False)
      | Inr (Some f) \<Rightarrow>
          let d1 = d\<lparr>de_DBFacts := Some f\<rparr>;
              d2 = (if rf_Status f \<noteq> [] \<and> TerminalRunStatus (rf_Status f) \<and> de_RunRecord d1 = None
                    then d1\<lparr>de_RunRecord := Some (zero_RunRecord\<lparr>rr_Status := rf_Status f, rr_PRURL := rf_PRURL f\<rparr>)\<rparr>
                    else d1) in
          (if rf_PRURL f \<noteq> [] \<and> pr = None then d2\<lparr>de_ReconciliationNeeded := True\<rparr> else d2, False)
      | Inr None \<Rightarrow>
          if stateBacked \<and> pr \<noteq> None then (d\<lparr>de_ReconciliationNeeded := True\<rparr>, True) else (d, False))"

definition artifact_evidence :: "bool \<Rightarrow> ArtifactSummary option \<Rightarrow> ReconciliationDecision \<Rightarrow> bool \<times> bool" where
  "artifact_evidence stateBacked artifact d =
     (case artifact of
        None \<Rightarrow> (False, False)
      | Some a \<Rightarrow>
          if \<not> stateBacked \<or> \<not> as_HasArtifact a then (False, False)
          else (case de_DBFacts d of
                  None \<Rightarrow> (True, False)
                | Some f \<Rightarrow>
                    if rf_Status f = [] then (True, False)
                    else (False, as_Status a \<noteq> [] \<and> as_Status a \<noteq> rf_Status f)))"

definition gather_facts ::
    "rec_env \<Rightarrow> state_reader option \<Rightarrow> RunnerConfig \<Rightarrow> Issue \<Rightarrow> PullRequestSummary option \<Rightarrow> ArtifactSummary option
       \<Rightarrow> gathered" where
  "gather_facts env reader config candidate pr artifact =
     (let stateBacked = (reader \<noteq> None);
          d0 = (new_decision candidate)\<lparr>de_PR := pr\<rparr>;
          d1 = with_artifact stateBacked artifact d0;
          (d2, missing) = with_facts stateBacked (reconciliationFacts reader (is_Identifier candidate)) pr d1;
          (only, conflict) = artifact_evidence stateBacked artifact d2;
          d3 = (if only \<or> conflict then d2\<lparr>de_ReconciliationNeeded := True\<rparr> else d2);
          d4 = (if stateBacked then d3
                else (case readRunArtifact (read_file (re_fs env)) (join2 (rc_WorkspaceRoot config) (is_Identifier candidate)) of
                        None \<Rightarrow> d3 | Some record \<Rightarrow> d3\<lparr>de_RunRecord := Some record\<rparr>))
      in \<lparr>ga_decision = d4, ga_artifactOnlyEvidence = only, ga_artifactConflict = conflict, ga_missingPRFacts = missing\<rparr>)"

text \<open>With a pull request: the attempt state must be known before its invariants are looked at.\<close>

definition decide_with_pr ::
    "rec_env \<Rightarrow> RunnerConfig \<Rightarrow> Issue \<Rightarrow> string \<Rightarrow> PullRequestSummary \<Rightarrow> ReconciliationDecision \<Rightarrow> ReconciliationDecision" where
  "decide_with_pr env config candidate workspace pr d =
     (let d' = (case de_DBFacts d of
                  Some f \<Rightarrow> if rf_PRURL f \<noteq> [] \<and> rf_PRURL f \<noteq> ps_URL pr then d\<lparr>de_ReconciliationNeeded := True\<rparr> else d
                | None \<Rightarrow> d) in
      if (case de_DBFacts d of Some f \<Rightarrow> trim_space (rf_Status f) = [] | None \<Rightarrow> False)
      then block_decision lifecycleBlocked ''SQLite attempt status is missing for current PR''
             ''repair_sqlite_state_store'' (d'\<lparr>de_ReconciliationNeeded := True\<rparr>)
      else applyPRInvariants env config candidate workspace pr d')"

definition decide_without_pr ::
    "rec_env \<Rightarrow> bool \<Rightarrow> RunnerConfig \<Rightarrow> Issue \<Rightarrow> string \<Rightarrow> ReconciliationDecision \<Rightarrow> ReconciliationDecision" where
  "decide_without_pr env stateBacked config candidate workspace d =
     (if (case de_DBFacts d of Some f \<Rightarrow> rf_PRURL f \<noteq> [] | None \<Rightarrow> False)
      then block_decision lifecycleBlocked ''SQLite PR mapping has no current open PR''
             ''reconcile_missing_or_closed_pr_mapping'' d
      else if stateBacked \<and> (case de_DBFacts d of Some f \<Rightarrow> rf_Status f = StatusReviewFailed | None \<Rightarrow> False)
      then block_decision lifecycleReviewFailed ''SQLite review-failed attempt is unresolved''
             ''repair_review_findings_before_retry'' d
      else if \<not> stateBacked
              \<and> hasUnresolvedReviewFailure (read_file (re_fs env)) (rc_WorkspaceRoot config) (is_Identifier candidate)
      then block_decision lifecycleReviewFailed ''prior review-failure findings are unresolved''
             ''repair_review_findings_before_retry'' d
      else
        (let d' = (case de_RunRecord d of
                     Some record \<Rightarrow> if TerminalRunStatus (rr_Status record)
                                    then applyTerminalArtifact env config candidate workspace record d else d
                   | None \<Rightarrow> d) in
         if de_Blockers d' = [] \<and> stateIsRunnable (is_StateName candidate) config
         then d'\<lparr>de_CanRun := True\<rparr> else d'))"

definition ReconcileIssueWithArtifactContext ::
    "rec_env \<Rightarrow> state_reader option \<Rightarrow> RunnerConfig \<Rightarrow> Issue \<Rightarrow> PullRequestSummary option \<Rightarrow> ArtifactSummary option
       \<Rightarrow> ReconciliationDecision" where
  "ReconcileIssueWithArtifactContext env reader config candidate pr artifact =
     (let workspace = join2 (rc_WorkspaceRoot config) (is_Identifier candidate) in
      case re_ctx_err env of
        Some err \<Rightarrow>
          block_decision lifecycleBlocked (''reconciliation context canceled: '' @ err) ''retry_when_worker_context_active''
            ((new_decision candidate)\<lparr>de_StateStoreError := Some err, de_ReconciliationNeeded := True\<rparr>)
      | None \<Rightarrow>
          let g = gather_facts env reader config candidate pr artifact; d = ga_decision g in
          if isBlockedCandidate candidate
          then block_decision lifecycleBlocked ''issue has blocked label'' ''operator_unblock_issue'' d
          else if HasLock (re_fs env) workspace
          then block_decision lifecycleRunning ''active run lock exists'' ''wait_for_or_clear_run_lock'' d
          else (case de_StateStoreError d of
            Some err \<Rightarrow>
              block_decision lifecycleBlocked (''SQLite reconciliation state unavailable: '' @ err)
                ''repair_sqlite_state_store'' d
          | None \<Rightarrow>
              if ga_missingPRFacts g
              then block_decision lifecycleBlocked ''SQLite has no attempt state for current PR''
                     ''repair_sqlite_state_store'' d
              else (case activeRunLease reader (is_Identifier candidate) (re_now env) of
                Inl err \<Rightarrow>
                  block_decision lifecycleBlocked (''SQLite run lease unavailable: '' @ store_error_text err)
                    ''repair_sqlite_state_store''
                    (d\<lparr>de_StateStoreError := Some (store_error_text err), de_ReconciliationNeeded := True\<rparr>)
              | Inr True \<Rightarrow>
                  block_decision lifecycleRunning ''active SQLite run lease exists'' ''wait_for_or_release_run_lease'' d
              | Inr False \<Rightarrow>
                  if ga_artifactOnlyEvidence g
                  then block_decision lifecycleBlocked ''artifact exists without SQLite attempt state''
                         ''repair_sqlite_state_store'' d
                  else if ga_artifactConflict g
                  then block_decision lifecycleBlocked ''artifact state conflicts with SQLite attempt state''
                         ''repair_artifact_or_sqlite_state'' d
                  else if is_StateName candidate = rc_NeedsInfoState config
                  then block_decision lifecycleNeedsInfo ''Linear issue needs more information''
                         ''answer_questions_then_move_ready'' d
                  else if is_StateName candidate = rc_DoneState config
                  then block_decision lifecycleDone ''Linear issue is done'' ''cleanup_workspace'' d
                  else (case pr of
                          Some p \<Rightarrow> decide_with_pr env config candidate workspace p d
                        | None \<Rightarrow> decide_without_pr env (reader \<noteq> None) config candidate workspace d))))"

section \<open>Guards\<close>

text \<open>What holds once no guard has answered.\<close>

definition guards_open ::
    "rec_env \<Rightarrow> state_reader option \<Rightarrow> RunnerConfig \<Rightarrow> Issue \<Rightarrow> PullRequestSummary option \<Rightarrow> ArtifactSummary option \<Rightarrow> bool" where
  "guards_open env reader config candidate pr artifact \<longleftrightarrow>
     (let g = gather_facts env reader config candidate pr artifact in
      re_ctx_err env = None \<and> \<not> isBlockedCandidate candidate
      \<and> \<not> HasLock (re_fs env) (join2 (rc_WorkspaceRoot config) (is_Identifier candidate))
      \<and> de_StateStoreError (ga_decision g) = None \<and> \<not> ga_missingPRFacts g
      \<and> activeRunLease reader (is_Identifier candidate) (re_now env) = Inr False
      \<and> \<not> ga_artifactOnlyEvidence g \<and> \<not> ga_artifactConflict g
      \<and> is_StateName candidate \<noteq> rc_NeedsInfoState config \<and> is_StateName candidate \<noteq> rc_DoneState config)"

definition decide_open ::
    "rec_env \<Rightarrow> state_reader option \<Rightarrow> RunnerConfig \<Rightarrow> Issue \<Rightarrow> PullRequestSummary option \<Rightarrow> ReconciliationDecision
       \<Rightarrow> ReconciliationDecision" where
  "decide_open env reader config candidate pr d =
     (case pr of
        Some p \<Rightarrow> decide_with_pr env config candidate (join2 (rc_WorkspaceRoot config) (is_Identifier candidate)) p d
      | None \<Rightarrow> decide_without_pr env (reader \<noteq> None) config candidate
                  (join2 (rc_WorkspaceRoot config) (is_Identifier candidate)) d)"

lemma block_decision_simps [simp]:
  "de_CanRun (block_decision l r n d) = False" "de_CanMerge (block_decision l r n d) = False"
  "de_Lifecycle (block_decision l r n d) = l" "de_ShouldQuarantine (block_decision l r n d) = de_ShouldQuarantine d"
  "de_Blockers (block_decision l r n d) = de_Blockers d @ [r]" "de_DBFacts (block_decision l r n d) = de_DBFacts d"
  "de_NextAction (block_decision l r n d) = n" "de_StateStoreError (block_decision l r n d) = de_StateStoreError d"
  "de_ReconciliationNeeded (block_decision l r n d) = de_ReconciliationNeeded d"
  by (simp_all add: block_decision_def)

lemma new_decision_simps [simp]:
  "de_CanRun (new_decision c) = False" "de_CanMerge (new_decision c) = False" "de_Lifecycle (new_decision c) = lifecycleReady"
  "de_ShouldQuarantine (new_decision c) = False" "de_Blockers (new_decision c) = []" "de_DBFacts (new_decision c) = None"
  "de_StateStoreError (new_decision c) = None" "de_RunRecord (new_decision c) = None"
  by (simp_all add: new_decision_def)

text \<open>The gathered decision is still a fresh one.\<close>

definition fresh_decision :: "ReconciliationDecision \<Rightarrow> bool" where
  "fresh_decision d \<longleftrightarrow> \<not> de_CanRun d \<and> \<not> de_CanMerge d \<and> de_Lifecycle d = lifecycleReady
     \<and> \<not> de_ShouldQuarantine d \<and> de_Blockers d = []"

lemma fresh_updates [simp]:
  "fresh_decision (d\<lparr>de_Artifact := a\<rparr>) = fresh_decision d" "fresh_decision (d\<lparr>de_RunRecord := r\<rparr>) = fresh_decision d"
  "fresh_decision (d\<lparr>de_DBFacts := f\<rparr>) = fresh_decision d" "fresh_decision (d\<lparr>de_PR := p\<rparr>) = fresh_decision d"
  "fresh_decision (d\<lparr>de_ReconciliationNeeded := b\<rparr>) = fresh_decision d"
  "fresh_decision (d\<lparr>de_StateStoreError := e\<rparr>) = fresh_decision d"
  by (simp_all add: fresh_decision_def)

lemma fresh_with_artifact [simp]: "fresh_decision (with_artifact s a d) = fresh_decision d"
  by (simp add: with_artifact_def Let_def split: option.split)

lemma fresh_with_facts [simp]: "fresh_decision (fst (with_facts s f p d)) = fresh_decision d"
  by (simp add: with_facts_def Let_def split: sum.split option.split)

lemma gathered_fresh: "fresh_decision (ga_decision (gather_facts env reader config candidate pr artifact))"
  by (simp add: gather_facts_def Let_def case_prod_beta fresh_decision_def [of "new_decision c" for c] split: option.split)

definition early :: "ReconciliationDecision \<Rightarrow> bool" where
  "early x \<longleftrightarrow> (\<exists>l r n d. x = block_decision l r n d
     \<and> l \<in> {lifecycleBlocked, lifecycleRunning, lifecycleNeedsInfo, lifecycleDone} \<and> fresh_decision d)"

lemma early_block:
  "fresh_decision d \<Longrightarrow> l \<in> {lifecycleBlocked, lifecycleRunning, lifecycleNeedsInfo, lifecycleDone}
     \<Longrightarrow> early (block_decision l r n d)"
  unfolding early_def by blast

lemma reconcile_early:
  assumes "\<not> guards_open env reader config candidate pr artifact"
  shows "early (ReconcileIssueWithArtifactContext env reader config candidate pr artifact)"
proof -
  define g where "g = gather_facts env reader config candidate pr artifact"
  define lease where "lease = activeRunLease reader (is_Identifier candidate) (re_now env)"
  have f: "fresh_decision (ga_decision g)" unfolding g_def by (rule gathered_fresh)
  have n: "fresh_decision (new_decision candidate)" by (simp add: fresh_decision_def)
  note defs = ReconcileIssueWithArtifactContext_def guards_open_def Let_def g_def [symmetric] lease_def [symmetric]
  show ?thesis
  proof (cases "re_ctx_err env = None \<and> de_StateStoreError (ga_decision g) = None \<and> lease = Inr False")
    case True
    then show ?thesis using assms unfolding defs by (simp add: early_block f) blast
  next
    case False
    then show ?thesis unfolding defs
      by (cases "re_ctx_err env"; cases "de_StateStoreError (ga_decision g)"; cases lease)
        (simp_all add: early_block f n)
  qed
qed

lemma reconcile_cases:
  obtains (blocked) l r n d where "\<not> guards_open env reader config candidate pr artifact"
      "ReconcileIssueWithArtifactContext env reader config candidate pr artifact = block_decision l r n d"
      "l \<in> {lifecycleBlocked, lifecycleRunning, lifecycleNeedsInfo, lifecycleDone}" "fresh_decision d"
  | (opened) d where "guards_open env reader config candidate pr artifact" "fresh_decision d"
      "d = ga_decision (gather_facts env reader config candidate pr artifact)"
      "ReconcileIssueWithArtifactContext env reader config candidate pr artifact
       = decide_open env reader config candidate pr d"
proof (cases "guards_open env reader config candidate pr artifact")
  case True
  then show ?thesis
    by (intro opened [OF True gathered_fresh refl])
      (simp add: ReconcileIssueWithArtifactContext_def guards_open_def decide_open_def Let_def)
next
  case False
  from reconcile_early [OF False] show ?thesis unfolding early_def using False blocked by blast
qed

section \<open>When a pull request may be merged\<close>

lemma pr_invariants_merge:
  assumes "fresh_decision d"
  shows "de_CanMerge (applyPRInvariants env config candidate workspace pr d) \<longleftrightarrow>
     prInvariantBlockReason env config candidate pr = [] \<and> ps_ReviewDecision pr = ''APPROVED''
     \<and> \<not> canRetryReviewReadiness config candidate pr (de_DBFacts d)
     \<and> \<not> (case de_RunRecord d of None \<Rightarrow> False
            | Some r \<Rightarrow> rr_Status r = StatusSuccess \<and> feedbackRetryAvailable env workspace candidate r config (Some pr))
     \<and> is_StateName candidate = rc_HandoffState config
     \<and> mergeGateBlockReason pr = [] \<and> mergeStateBlockReason env config candidate pr d = []
     \<and> \<not> fst (workspaceLockedOrModified env (rc_WorkspaceRoot config) (is_Identifier candidate))"
proof -
  have nm: "\<not> de_CanMerge d" using assms by (simp add: fresh_decision_def)
  obtain b reason where w: "workspaceLockedOrModified env (rc_WorkspaceRoot config) (is_Identifier candidate) = (b, reason)"
    by fastforce
  define again where "again = (case de_RunRecord d of None \<Rightarrow> False
     | Some r \<Rightarrow> rr_Status r = StatusSuccess \<and> feedbackRetryAvailable env workspace candidate r config (Some pr))"
  note def = applyPRInvariants_def w prod.case again_def [symmetric] fst_conv
  show ?thesis
  proof (cases "ps_ReviewDecision pr = ''APPROVED''")
    case True
    then show ?thesis unfolding def if_distrib [of de_CanMerge] block_decision_simps using nm by (cases b) simp_all
  next
    case False
    then show ?thesis unfolding def if_distrib [of de_CanMerge] block_decision_simps using nm by simp
  qed
qed

lemma applyTerminalArtifact_merge [simp]:
  "de_CanMerge (applyTerminalArtifact env config candidate workspace r d) \<longrightarrow> de_CanMerge d"
  unfolding applyTerminalArtifact_def if_distrib [of de_CanMerge] block_decision_simps by simp

lemma without_pr_merge:
  assumes "fresh_decision d"
  shows "\<not> de_CanMerge (decide_without_pr env s config candidate workspace d)"
proof -
  define d' where "d' = (case de_RunRecord d of
       Some record \<Rightarrow> if TerminalRunStatus (rr_Status record)
                      then applyTerminalArtifact env config candidate workspace record d else d
     | None \<Rightarrow> d)"
  have "\<not> de_CanMerge d" using assms by (simp add: fresh_decision_def)
  then have "\<not> de_CanMerge d'"
    using applyTerminalArtifact_merge [of env config candidate workspace _ d]
    by (cases "de_RunRecord d") (auto simp: d'_def)
  then show ?thesis
    unfolding decide_without_pr_def Let_def d'_def [symmetric] if_distrib [of de_CanMerge] block_decision_simps by simp
qed

lemma merge_gate_reason: "mergeGateBlockReason pr = [] \<longleftrightarrow> md_Eligible (evaluatePullRequestMergeGate pr)"
  by (simp add: mergeGateBlockReason_def evaluatePullRequestMergeGate_def pr_gate.eligible_reason)


text \<open>The independent reading of the gates: nothing holds the run lease, and the run that made the pull request succeeded.\<close>

definition run_lease_free :: "state_reader option \<Rightarrow> string \<Rightarrow> time \<Rightarrow> bool" where
  "run_lease_free reader issueKey now \<longleftrightarrow>
     (case reader of
        None \<Rightarrow> True
      | Some r \<Rightarrow>
          (case sr_Lease r (''run:'' @ issueKey) of
             Inl e \<Rightarrow> False
           | Inr None \<Rightarrow> True
           | Inr (Some l) \<Rightarrow> \<not> is_zero (ls_ReleasedAt l) \<or> ls_ExpiresAt l \<le> now))"

lemma activeRunLease_free: "activeRunLease reader key now = Inr False \<longleftrightarrow> run_lease_free reader key now"
  by (auto simp: activeRunLease_def run_lease_free_def split: option.split sum.split)

definition attempt_succeeded :: "ReconciliationFacts \<Rightarrow> string \<Rightarrow> bool" where
  "attempt_succeeded f prURL \<longleftrightarrow>
     rf_Status f = ''success''
     \<and> (trim_space (rf_PRURL f) = [] \<or> trim_space prURL = [] \<or> trim_space (rf_PRURL f) = trim_space prURL)
     \<and> (rf_ReviewStatus f = ''passed'' \<or> rf_ReviewStatus f = ''failed'' \<and> rf_ReviewClassification f = MissingEvidenceOnly)"

lemma sqlite_reason: "sqliteMergeBlockReason f url = [] \<longleftrightarrow> attempt_succeeded f url"
  by (auto simp: sqliteMergeBlockReason_def attempt_succeeded_def StatusSuccess_def)

definition run_succeeded ::
    "rec_env \<Rightarrow> state_reader option \<Rightarrow> RunnerConfig \<Rightarrow> Issue \<Rightarrow> PullRequestSummary \<Rightarrow> bool" where
  "run_succeeded env reader config candidate pr \<longleftrightarrow>
     (case reader of
        None \<Rightarrow> runArtifactMergeBlockReason env (rc_WorkspaceRoot config) (is_Identifier candidate) (ps_URL pr) = []
      | Some r \<Rightarrow>
          (case sr_ReconciliationFacts r (is_Identifier candidate) of
             Inr (Some f) \<Rightarrow> attempt_succeeded f (ps_URL pr)
           | _ \<Rightarrow> False))"

text \<open>With a store, a run artifact beside it must not tell another status.\<close>

definition artifact_agrees :: "state_reader option \<Rightarrow> ArtifactSummary option \<Rightarrow> bool" where
  "artifact_agrees reader artifact \<longleftrightarrow>
     (case (reader, artifact) of
        (Some r, Some a) \<Rightarrow> as_HasArtifact a \<longrightarrow> as_Status a \<in> {[], ''success''}
      | _ \<Rightarrow> True)"

definition merge_ready ::
    "rec_env \<Rightarrow> state_reader option \<Rightarrow> RunnerConfig \<Rightarrow> Issue \<Rightarrow> PullRequestSummary option \<Rightarrow> ArtifactSummary option \<Rightarrow> bool" where
  "merge_ready env reader config candidate pr artifact \<longleftrightarrow>
     (case pr of
        None \<Rightarrow> False
      | Some p \<Rightarrow>
          re_ctx_err env = None
          \<and> is_StateName candidate = rc_HandoffState config \<and> \<not> isBlockedCandidate candidate
          \<and> \<not> HasLock (re_fs env) (join2 (rc_WorkspaceRoot config) (is_Identifier candidate))
          \<and> run_lease_free reader (is_Identifier candidate) (re_now env)
          \<and> prInvariantBlockReason env config candidate p = [] \<and> ps_ReviewDecision p = ''APPROVED''
          \<and> md_Eligible (evaluatePullRequestMergeGate p)
          \<and> run_succeeded env reader config candidate p \<and> artifact_agrees reader artifact
          \<and> \<not> fst (workspaceLockedOrModified env (rc_WorkspaceRoot config) (is_Identifier candidate)))"

lemma with_artifact_simps [simp]:
  "de_DBFacts (with_artifact s a d) = de_DBFacts d" "de_StateStoreError (with_artifact s a d) = de_StateStoreError d"
  by (simp_all add: with_artifact_def Let_def split: option.split)

lemma with_facts_simps:
  "de_DBFacts (fst (with_facts s f p d)) = (case f of Inr (Some x) \<Rightarrow> Some x | _ \<Rightarrow> de_DBFacts d)"
  "de_StateStoreError (fst (with_facts s f p d)) = (case f of Inl e \<Rightarrow> Some (store_error_text e) | _ \<Rightarrow> de_StateStoreError d)"
  "snd (with_facts s f p d) \<longleftrightarrow> s \<and> f = Inr None \<and> p \<noteq> None"
  by (auto simp: with_facts_def Let_def split: sum.split option.split)

definition facts_found :: "state_reader option \<Rightarrow> string \<Rightarrow> ReconciliationFacts option" where
  "facts_found reader key = (case reconciliationFacts reader key of Inr (Some f) \<Rightarrow> Some f | _ \<Rightarrow> None)"

lemma gather_simps:
  "de_DBFacts (ga_decision (gather_facts env reader config candidate pr artifact)) = facts_found reader (is_Identifier candidate)"
  "de_StateStoreError (ga_decision (gather_facts env reader config candidate pr artifact))
     = (case reconciliationFacts reader (is_Identifier candidate) of Inl e \<Rightarrow> Some (store_error_text e) | _ \<Rightarrow> None)"
  "ga_missingPRFacts (gather_facts env reader config candidate pr artifact)
     \<longleftrightarrow> reader \<noteq> None \<and> reconciliationFacts reader (is_Identifier candidate) = Inr None \<and> pr \<noteq> None"
  by (auto simp: gather_facts_def Let_def case_prod_beta with_facts_simps facts_found_def
      split: option.split sum.split)

lemma gather_evidence:
  "(ga_artifactOnlyEvidence (gather_facts env reader config candidate pr artifact),
    ga_artifactConflict (gather_facts env reader config candidate pr artifact))
   = (case (reader, artifact) of
        (Some r, Some a) \<Rightarrow>
          if \<not> as_HasArtifact a then (False, False)
          else (case facts_found reader (is_Identifier candidate) of
                  None \<Rightarrow> (True, False)
                | Some f \<Rightarrow> if rf_Status f = [] then (True, False)
                            else (False, as_Status a \<noteq> [] \<and> as_Status a \<noteq> rf_Status f))
      | _ \<Rightarrow> (False, False))"
  by (cases reader; cases artifact)
    (simp_all add: gather_facts_def Let_def case_prod_beta artifact_evidence_def with_facts_simps facts_found_def
      split: option.split sum.split)

lemma facts_of_reader: "facts_found (Some r) key = Some f \<longleftrightarrow> sr_ReconciliationFacts r key = Inr (Some f)"
  by (auto simp: facts_found_def reconciliationFacts_def split: sum.splits option.splits)

lemma no_reader [simp]: "facts_found None key = None" "reconciliationFacts None key = Inr None"
  by (simp_all add: facts_found_def reconciliationFacts_def)

lemma merge_ready_guards:
  assumes ready: "merge_ready env reader config candidate pr artifact"
    and states: "rc_HandoffState config \<notin> {rc_ReadyState config, rc_NeedsInfoState config, rc_DoneState config}"
  shows "guards_open env reader config candidate pr artifact"
proof -
  obtain p where p: "pr = Some p" using ready by (cases pr) (simp_all add: merge_ready_def)
  note r = ready [unfolded merge_ready_def p option.case]
  have e: "ga_artifactOnlyEvidence (gather_facts env reader config candidate pr artifact) = False"
      "ga_artifactConflict (gather_facts env reader config candidate pr artifact) = False"
      "reconciliationFacts reader (is_Identifier candidate) = Inr (facts_found reader (is_Identifier candidate))"
      "reader \<noteq> None \<Longrightarrow> facts_found reader (is_Identifier candidate) \<noteq> None"
    using r gather_evidence [of env reader config candidate pr artifact]
    by (auto simp: run_succeeded_def artifact_agrees_def attempt_succeeded_def facts_found_def reconciliationFacts_def
        split: option.splits sum.splits if_splits)
  show ?thesis
    unfolding guards_open_def Let_def gather_simps activeRunLease_free
    using r states e by (auto split: option.splits)
qed

definition needing :: "PullRequestSummary \<Rightarrow> ReconciliationDecision \<Rightarrow> ReconciliationDecision" where
  "needing p d =
     (case de_DBFacts d of
        Some f \<Rightarrow> if rf_PRURL f \<noteq> [] \<and> rf_PRURL f \<noteq> ps_URL p then d\<lparr>de_ReconciliationNeeded := True\<rparr> else d
      | None \<Rightarrow> d)"

lemma needing_simps [simp]:
  "de_DBFacts (needing p d) = de_DBFacts d" "fresh_decision (needing p d) = fresh_decision d"
  by (simp_all add: needing_def split: option.split)

lemma decide_with_pr_eq:
  "decide_with_pr env config candidate workspace p d =
     (if (case de_DBFacts d of Some f \<Rightarrow> trim_space (rf_Status f) = [] | None \<Rightarrow> False)
      then block_decision lifecycleBlocked ''SQLite attempt status is missing for current PR''
             ''repair_sqlite_state_store'' ((needing p d)\<lparr>de_ReconciliationNeeded := True\<rparr>)
      else applyPRInvariants env config candidate workspace p (needing p d))"
  by (simp only: decide_with_pr_def needing_def Let_def)

lemma decide_with_pr_missing:
  "de_DBFacts d = Some f \<Longrightarrow> trim_space (rf_Status f) = [] \<Longrightarrow>
     decide_with_pr env config candidate workspace p d =
     block_decision lifecycleBlocked ''SQLite attempt status is missing for current PR''
       ''repair_sqlite_state_store'' ((needing p d)\<lparr>de_ReconciliationNeeded := True\<rparr>)"
  by (simp only: decide_with_pr_eq option.case if_True simp_thms)

lemma decide_with_pr_known:
  "\<not> (\<exists>f. de_DBFacts d = Some f \<and> trim_space (rf_Status f) = []) \<Longrightarrow>
     decide_with_pr env config candidate workspace p d = applyPRInvariants env config candidate workspace p (needing p d)"
  by (cases "de_DBFacts d") (simp_all add: decide_with_pr_eq)

lemma merge_state_reason:
  assumes "de_DBFacts d = facts_found reader (is_Identifier candidate)"
    and "reader \<noteq> None \<Longrightarrow> facts_found reader (is_Identifier candidate) \<noteq> None"
  shows "mergeStateBlockReason env config candidate p d = [] \<longleftrightarrow> run_succeeded env reader config candidate p"
  using assms
  by (cases reader) (auto simp: mergeStateBlockReason_def run_succeeded_def sqlite_reason facts_found_def
      reconciliationFacts_def split: option.splits sum.splits)

lemma can_merge_iff_ready:
  assumes states: "rc_HandoffState config \<notin> {rc_ReadyState config, rc_NeedsInfoState config, rc_DoneState config}"
  shows "de_CanMerge (ReconcileIssueWithArtifactContext env reader config candidate pr artifact)
    \<longleftrightarrow> merge_ready env reader config candidate pr artifact"
proof (cases rule: reconcile_cases [of env reader config candidate pr artifact])
  case (blocked l r n d)
  then show ?thesis using merge_ready_guards [OF _ states, of env reader candidate pr artifact] by auto
next
  case (opened d)
  note facts = gather_simps(1) [of env reader config candidate pr artifact, folded opened(3)]
  note g = opened(1) [unfolded guards_open_def Let_def gather_simps activeRunLease_free]
  show ?thesis
  proof (cases pr)
    case None
    then show ?thesis using opened without_pr_merge [OF opened(2)] by (simp add: decide_open_def merge_ready_def)
  next
    case (Some p)
    have known: "reader \<noteq> None \<Longrightarrow> facts_found reader (is_Identifier candidate) \<noteq> None"
      using g Some by (auto simp: facts_found_def split: sum.splits option.splits)
    have ms: "mergeStateBlockReason env config candidate p (needing p d) = [] \<longleftrightarrow> run_succeeded env reader config candidate p"
      by (rule merge_state_reason) (use facts known in simp_all)
    have no_status: "\<not> run_succeeded env reader config candidate p"
      if "de_DBFacts d = Some f" "rf_Status f \<noteq> ''success''" for f
      using that facts by (cases reader) (auto simp: run_succeeded_def facts_of_reader attempt_succeeded_def)
    have agree: "artifact_agrees reader artifact" if "run_succeeded env reader config candidate p"
      using that g gather_evidence [of env reader config candidate pr artifact]
      by (auto simp: run_succeeded_def artifact_agrees_def attempt_succeeded_def facts_of_reader
          facts_found_def reconciliationFacts_def split: option.splits sum.splits if_splits)
    have retry: "\<not> canRetryReviewReadiness config candidate p (de_DBFacts d)" if "run_succeeded env reader config candidate p"
      using that no_status by (auto simp: canRetryReviewReadiness_def StatusReviewNotReady_def split: option.splits)
    have feedback: "\<not> feedbackRetryAvailable env ws candidate r config q" if "is_StateName candidate = rc_HandoffState config" for r q ws
      using that states by (simp add: feedbackRetryAvailable_def)
    show ?thesis
    proof (cases "\<exists>f. de_DBFacts d = Some f \<and> trim_space (rf_Status f) = []")
      case True
      then obtain f where f: "de_DBFacts d = Some f" "trim_space (rf_Status f) = []" by blast
      have "trim_space ''success'' \<noteq> []" by code_simp
      then have "\<not> run_succeeded env reader config candidate p" using no_status [OF f(1)] f(2) by metis
      then show ?thesis
        unfolding opened(4) unfolding decide_open_def Some option.case decide_with_pr_missing [OF f] block_decision_simps merge_ready_def
        by blast
    next
      case False
      have result: "ReconcileIssueWithArtifactContext env reader config candidate pr artifact
          = applyPRInvariants env config candidate (join2 (rc_WorkspaceRoot config) (is_Identifier candidate)) p (needing p d)"
        unfolding opened(4) unfolding decide_open_def Some option.case by (rule decide_with_pr_known [OF False])
      have fresh: "fresh_decision (needing p d)" using opened(2) by simp
      have again: "\<not> (case de_RunRecord (needing p d) of None \<Rightarrow> False
          | Some r \<Rightarrow> rr_Status r = StatusSuccess \<and> feedbackRetryAvailable env
              (join2 (rc_WorkspaceRoot config) (is_Identifier candidate)) candidate r config (Some p))"
        if "is_StateName candidate = rc_HandoffState config"
        using feedback [OF that] by (cases "de_RunRecord (needing p d)") simp_all
      have guards: "re_ctx_err env = None" "\<not> isBlockedCandidate candidate"
          "\<not> HasLock (re_fs env) (join2 (rc_WorkspaceRoot config) (is_Identifier candidate))"
          "run_lease_free reader (is_Identifier candidate) (re_now env)"
        using g by blast+
      show ?thesis
        unfolding result unfolding pr_invariants_merge [OF fresh] merge_ready_def Some option.case needing_simps ms merge_gate_reason
        using guards agree retry again by blast
    qed
  qed
qed

text \<open>
  C22: what may be merged: with a hand-off state that is none of the Ready, Needs-Info and Done states,
  a reconciled issue may be merged exactly when it is in the hand-off state without a blocking label
  or a run lock, no unexpired run lease is held, its pull request breaks no invariant (base, branch,
  author, commit authors), is approved and passes the merge gates, the recorded attempt for it
  succeeded with a passed review (or one that only missed evidence) and no run artifact contradicts
  it, and the workspace is neither locked nor modified.
\<close>

theorem merge_exactly_when_ready:
  assumes states: "rc_HandoffState config \<notin> {rc_ReadyState config, rc_NeedsInfoState config, rc_DoneState config}"
  shows "de_CanMerge (ReconcileIssueWithArtifactContext env reader config candidate pr artifact)
    \<longleftrightarrow> merge_ready env reader config candidate pr artifact"
  by (rule can_merge_iff_ready [OF states])

text \<open>A pull request that is ready, recorded in a store.\<close>

definition no_budget :: Budget where
  "no_budget = \<lparr>bu_WallClock = 0, bu_WallClockText = [], bu_MaxTokens = 0, bu_MaxCost = 0, bu_CommandTimeout = 0,
     bu_CommandText = [], bu_RuntimeTimeout = 0, bu_RuntimeText = [], bu_PiTimeout = 0, bu_PiText = [],
     bu_ReviewTimeout = 0, bu_ReviewText = [], bu_MergeTimeout = 0, bu_MergeText = [], bu_GitHubTimeout = 0,
     bu_GitHubText = []\<rparr>"

definition ready_config :: RunnerConfig where
  "ready_config = \<lparr>rc_ConfigPath = [], rc_RepositoryRemote = [], rc_RepositoryProvider = ''github'', rc_APIKey = [],
     rc_ProjectSlug = [], rc_WorkspaceRoot = ''/w'', rc_RunningState = ''In Progress'', rc_HandoffState = ''Human Review'',
     rc_DoneState = ''Done'', rc_NeedsInfoState = ''Needs Info'', rc_ReadyState = ''Ready'', rc_BaseBranch = ''main'',
     rc_ActiveStates = [''Ready'', ''In Progress''], rc_RuntimeProvider = [], rc_RuntimeCommand = [], rc_PiCommand = [],
     rc_ReviewCommand = [], rc_ReviewGuidance = [], rc_PromptPath = [], rc_AfterCreate = [], rc_BeforeRun = [],
     rc_AfterRun = [], rc_Budget = no_budget, rc_GitHubAppSlug = ''bot'', rc_GitHubPRAuthorOverride = [],
     rc_GitLabEndpoint = [], rc_GitLabProject = [], rc_GitLabPRAuthorOverride = []\<rparr>"

definition ready_issue :: Issue where
  "ready_issue = first_issue\<lparr>is_Identifier := ''CAG-1'', is_StateName := ''Human Review''\<rparr>"

definition ready_pr :: PullRequestSummary where
  "ready_pr = \<lparr>ps_Number = 7, ps_URL = ''https://github.com/o/r/pull/7'', ps_BaseRefName = ''main'',
     ps_HeadRefName = ''am/CAG-1-workspace'', ps_Author = ''bot[bot]'', ps_Commits = [], ps_Mergeable = ''MERGEABLE'',
     ps_MergeStateStatus = ''CLEAN'', ps_ReviewDecision = ''APPROVED'',
     ps_StatusCheckRollup = [\<lparr>sc_Typename = ''CheckRun'', sc_Status = ''COMPLETED'', sc_Conclusion = ''SUCCESS'',
       sc_State = [], sc_Name = ''test'', sc_Context = []\<rparr>]\<rparr>"

definition ready_facts :: ReconciliationFacts where
  "ready_facts = \<lparr>rf_IssueKey = ''CAG-1'', rf_Attempt = 1, rf_WorkspacePath = ''/w/CAG-1'', rf_BranchName = [],
     rf_Status = ''success'', rf_PRURL = ''https://github.com/o/r/pull/7'', rf_ReviewStatus = ''passed'',
     rf_ReviewClassification = [], rf_ReviewOutputRef = [], rf_ReviewOutputHash = [], rf_RetryNextState = [],
     rf_RetryReason = [], rf_RetryCount = 0, rf_RetryDecidedAt = 0, rf_FeedbackHash = [], rf_FeedbackNextAction = [],
     rf_TerminalOutcome = [], rf_TerminalReason = [], rf_CleanupDecision = [], rf_CleanupResult = [],
     rf_CleanupArtifactRef = [], rf_UpdatedAt = 0\<rparr>"

definition ready_reader :: state_reader where
  "ready_reader = \<lparr>sr_ReconciliationFacts = (\<lambda>key. Inr (Some ready_facts)), sr_Lease = (\<lambda>name. Inr None)\<rparr>"

definition ready_env :: rec_env where
  "ready_env = \<lparr>re_fs = [''/'' \<mapsto> Directory, ''/w'' \<mapsto> Directory], re_getenv = (\<lambda>name. []), re_git_status = (\<lambda>ws. Inr []),
     re_ctx_err = None, re_now = 5\<rparr>"

lemma ready_is_ready: "merge_ready ready_env (Some ready_reader) ready_config ready_issue (Some ready_pr) None"
  by code_simp

theorem merge_exactly_when_ready_witness:
  "de_CanMerge (ReconcileIssueWithArtifactContext ready_env (Some ready_reader) ready_config ready_issue (Some ready_pr) None)"
  using merge_exactly_when_ready [of ready_config ready_env "Some ready_reader" ready_issue "Some ready_pr" None] ready_is_ready
  by (simp add: ready_config_def)

section \<open>Decisions are consistent\<close>

definition decision_consistent :: "ReconciliationDecision \<Rightarrow> bool" where
  "decision_consistent d \<longleftrightarrow>
     (de_ShouldQuarantine d \<longleftrightarrow> de_Lifecycle d = lifecycleQuarantined)
     \<and> (de_CanMerge d \<longleftrightarrow> de_Lifecycle d = lifecycleMergeReady)
     \<and> \<not> (de_CanRun d \<and> (de_CanMerge d \<or> de_ShouldQuarantine d))
     \<and> (de_CanMerge d \<longrightarrow> de_Blockers d = [])
     \<and> (de_CanRun d \<longrightarrow> set (de_Blockers d) \<subseteq> {''GitHub review requested changes''})"

lemma consistent_if: "decision_consistent (if b then x else y) = (if b then decision_consistent x else decision_consistent y)"
  by simp

lemma consistent_block:
  "fresh_decision d \<Longrightarrow> l \<noteq> lifecycleQuarantined \<and> l \<noteq> lifecycleMergeReady \<Longrightarrow> decision_consistent (block_decision l r n d)"
  by (simp add: decision_consistent_def fresh_decision_def)

lemma consistent_quarantine:
  "fresh_decision d \<Longrightarrow> decision_consistent ((block_decision lifecycleQuarantined r n d)\<lparr>de_ShouldQuarantine := True\<rparr>)"
  by (simp add: decision_consistent_def fresh_decision_def block_decision_def)

lemma consistent_fresh:
  "fresh_decision d \<Longrightarrow> decision_consistent d" "fresh_decision d \<Longrightarrow> decision_consistent (d\<lparr>de_CanRun := True\<rparr>)"
  by (simp_all add: decision_consistent_def fresh_decision_def)

lemma consistent_retry:
  "fresh_decision d \<Longrightarrow> decision_consistent (d\<lparr>de_Lifecycle := lifecycleFeedbackRetry, de_CanRun := True,
       de_ShouldRetry := True, de_NextAction := n\<rparr>)"
  "fresh_decision d \<Longrightarrow> decision_consistent (d\<lparr>de_Lifecycle := lifecycleFeedbackRetry, de_CanRun := c,
       de_CanMerge := False, de_Blockers := de_Blockers d @ [''GitHub review requested changes''],
       de_NextAction := n, de_ShouldRetry := True\<rparr>)"
  "fresh_decision d \<Longrightarrow> l = lifecycleRunning \<or> l = lifecycleFeedbackRetry \<Longrightarrow> decision_consistent (d\<lparr>de_Lifecycle := l,
       de_CanRun := True, de_CanMerge := False, de_NextAction := n, de_ShouldRetry := True\<rparr>)"
  "fresh_decision d \<Longrightarrow> decision_consistent (d\<lparr>de_Lifecycle := lifecycleMergeReady, de_CanMerge := True, de_NextAction := n\<rparr>)"
  by (auto simp: decision_consistent_def fresh_decision_def)

lemmas consistent_rules = consistent_if consistent_block consistent_quarantine consistent_fresh consistent_retry
  lifecycleState.distinct simp_thms if_cancel

lemma consistent_pr:
  assumes "fresh_decision d"
  shows "decision_consistent (applyPRInvariants env config candidate workspace p d)"
proof -
  obtain b reason where w: "workspaceLockedOrModified env (rc_WorkspaceRoot config) (is_Identifier candidate) = (b, reason)"
    by fastforce
  show ?thesis unfolding applyPRInvariants_def w
    by (cases b) (simp_all only: consistent_rules assms prod.case bool.case if_True if_False)
qed

lemma consistent_terminal:
  "fresh_decision d \<Longrightarrow> decision_consistent (applyTerminalArtifact env config candidate workspace r d)"
  unfolding applyTerminalArtifact_def by (simp only: consistent_rules)

lemma consistent_can_run:
  "decision_consistent d \<Longrightarrow> \<not> de_CanMerge d \<Longrightarrow> \<not> de_ShouldQuarantine d \<Longrightarrow> de_Blockers d = []
     \<Longrightarrow> decision_consistent (d\<lparr>de_CanRun := True\<rparr>)"
  by (simp add: decision_consistent_def)

lemma terminal_quarantine [simp]:
  "de_ShouldQuarantine (applyTerminalArtifact env config candidate workspace r d) = de_ShouldQuarantine d"
  unfolding applyTerminalArtifact_def if_distrib [of de_ShouldQuarantine] block_decision_simps by simp

definition after_record ::
    "rec_env \<Rightarrow> RunnerConfig \<Rightarrow> Issue \<Rightarrow> string \<Rightarrow> ReconciliationDecision \<Rightarrow> ReconciliationDecision" where
  "after_record env config candidate workspace d =
     (case de_RunRecord d of
        Some record \<Rightarrow> if TerminalRunStatus (rr_Status record)
                       then applyTerminalArtifact env config candidate workspace record d else d
      | None \<Rightarrow> d)"

lemma after_record_facts:
  assumes "fresh_decision d"
  shows "decision_consistent (after_record env config candidate workspace d)"
    and "\<not> de_CanMerge (after_record env config candidate workspace d)"
    and "\<not> de_ShouldQuarantine (after_record env config candidate workspace d)"
proof -
  have d: "\<not> de_CanMerge d" "\<not> de_ShouldQuarantine d" using assms by (simp_all add: fresh_decision_def)
  show "decision_consistent (after_record env config candidate workspace d)"
    using consistent_terminal [OF assms] consistent_fresh(1) [OF assms]
    by (cases "de_RunRecord d") (simp_all add: after_record_def)
  show "\<not> de_CanMerge (after_record env config candidate workspace d)"
    using d applyTerminalArtifact_merge [of env config candidate workspace "the (de_RunRecord d)" d]
    by (cases "de_RunRecord d") (simp_all add: after_record_def)
  show "\<not> de_ShouldQuarantine (after_record env config candidate workspace d)"
    using d by (cases "de_RunRecord d") (simp_all add: after_record_def)
qed

lemma consistent_without_pr:
  assumes "fresh_decision d"
  shows "decision_consistent (decide_without_pr env s config candidate workspace d)"
proof -
  note a = after_record_facts [OF assms, of env config candidate workspace]
  show ?thesis
    unfolding decide_without_pr_def Let_def after_record_def [symmetric]
    by (simp only: consistent_if consistent_block [OF assms] lifecycleState.distinct simp_thms if_cancel)
      (use a consistent_can_run [OF a] in simp)
qed

text \<open>
  C24: every reconciliation decision is consistent: it quarantines exactly in the Quarantined state and
  allows a merge exactly in the Merge Ready state, a quarantined or mergeable issue is never runnable,
  a mergeable one has no blockers, and a runnable one has none but requested changes.
\<close>

theorem decisions_are_consistent:
  "decision_consistent (ReconcileIssueWithArtifactContext env reader config candidate pr artifact)"
proof (cases rule: reconcile_cases [of env reader config candidate pr artifact])
  case (blocked l r n d)
  then show ?thesis using consistent_block [OF blocked(4), of l] by auto
next
  case (opened d)
  show ?thesis
  proof (cases pr)
    case None
    show ?thesis unfolding opened(4) unfolding decide_open_def None option.case by (rule consistent_without_pr [OF opened(2)])
  next
    case (Some p)
    show ?thesis
    proof (cases "\<exists>f. de_DBFacts d = Some f \<and> trim_space (rf_Status f) = []")
      case True
      then obtain f where f: "de_DBFacts d = Some f" "trim_space (rf_Status f) = []" by blast
      show ?thesis
        unfolding opened(4) unfolding decide_open_def Some option.case decide_with_pr_missing [OF f]
        by (rule consistent_block) (simp_all add: opened(2))
    next
      case False
      show ?thesis
        unfolding opened(4) unfolding decide_open_def Some option.case decide_with_pr_known [OF False]
        by (rule consistent_pr) (simp add: opened(2))
    qed
  qed
qed

section \<open>When an issue may be run\<close>

lemma feedback_retry_ready: "feedbackRetryAvailable env ws candidate r config q \<Longrightarrow> stateIsRunnable (is_StateName candidate) config"
  by (simp add: feedbackRetryAvailable_def stateIsRunnable_def split: if_splits)

lemma review_retry_runnable: "canRetryReviewReadiness config candidate p f \<Longrightarrow> stateIsRunnable (is_StateName candidate) config"
  by (simp add: canRetryReviewReadiness_def)

lemma pr_invariants_run:
  assumes "fresh_decision d" "de_CanRun (applyPRInvariants env config candidate workspace p d)"
  shows "prInvariantBlockReason env config candidate p = [] \<and> stateIsRunnable (is_StateName candidate) config"
proof -
  have nm: "\<not> de_CanRun d" using assms by (simp add: fresh_decision_def)
  obtain b reason where w: "workspaceLockedOrModified env (rc_WorkspaceRoot config) (is_Identifier candidate) = (b, reason)"
    by fastforce
  define again where "again = (case de_RunRecord d of None \<Rightarrow> False
     | Some r \<Rightarrow> rr_Status r = StatusSuccess \<and> feedbackRetryAvailable env workspace candidate r config (Some p))"
  have again: "again \<Longrightarrow> stateIsRunnable (is_StateName candidate) config"
    using feedback_retry_ready by (auto simp: again_def split: option.splits)
  have readiness: "canRetryReviewReadiness config candidate p (de_DBFacts d) \<Longrightarrow> stateIsRunnable (is_StateName candidate) config"
    by (rule review_retry_runnable)
  note r = assms(2) [unfolded applyPRInvariants_def w prod.case again_def [symmetric] if_distrib [of de_CanRun] block_decision_simps]
  show ?thesis using r nm again readiness by (cases b) (auto split: if_splits)
qed

lemma after_record_run:
  assumes "fresh_decision d" "de_CanRun (after_record env config candidate workspace d)"
  shows "stateIsRunnable (is_StateName candidate) config"
proof (cases "de_RunRecord d")
  case (Some r)
  have "\<not> de_CanRun d" using assms(1) by (simp add: fresh_decision_def)
  then have "de_CanRun (applyTerminalArtifact env config candidate workspace r d)"
    using assms(2) Some by (simp add: after_record_def split: if_splits)
  note a = this [unfolded applyTerminalArtifact_def if_distrib [of de_CanRun] block_decision_simps]
  show ?thesis using a feedback_retry_ready [of env workspace candidate r config None] by (simp split: if_splits)
qed (use assms in \<open>simp add: after_record_def fresh_decision_def\<close>)

lemma without_pr_run:
  assumes "fresh_decision d" "de_CanRun (decide_without_pr env s config candidate workspace d)"
  shows "stateIsRunnable (is_StateName candidate) config
    \<and> (case de_DBFacts d of None \<Rightarrow> True | Some f \<Rightarrow> rf_PRURL f = [] \<and> (s \<longrightarrow> rf_Status f \<noteq> ''review_failed''))"
proof -
  note r = assms(2) [unfolded decide_without_pr_def Let_def after_record_def [symmetric] if_distrib [of de_CanRun]
      block_decision_simps]
  have "stateIsRunnable (is_StateName candidate) config"
    using r after_record_run [OF assms(1), of env config candidate workspace] by (simp split: if_splits)
  moreover have "\<not> (case de_DBFacts d of Some f \<Rightarrow> rf_PRURL f \<noteq> [] | None \<Rightarrow> False)"
      "\<not> (s \<and> (case de_DBFacts d of Some f \<Rightarrow> rf_Status f = StatusReviewFailed | None \<Rightarrow> False))"
    using r by (simp_all split: if_splits)
  ultimately show ?thesis by (cases "de_DBFacts d") (simp_all add: StatusReviewFailed_def)
qed

text \<open>What a decision to run requires: no operator, process or record stands against it.\<close>

definition run_permitted ::
    "rec_env \<Rightarrow> state_reader option \<Rightarrow> RunnerConfig \<Rightarrow> Issue \<Rightarrow> PullRequestSummary option \<Rightarrow> bool" where
  "run_permitted env reader config candidate pr \<longleftrightarrow>
     re_ctx_err env = None \<and> \<not> isBlockedCandidate candidate
     \<and> \<not> HasLock (re_fs env) (join2 (rc_WorkspaceRoot config) (is_Identifier candidate))
     \<and> run_lease_free reader (is_Identifier candidate) (re_now env)
     \<and> stateIsRunnable (is_StateName candidate) config
     \<and> is_StateName candidate \<noteq> rc_NeedsInfoState config \<and> is_StateName candidate \<noteq> rc_DoneState config
     \<and> (case pr of
          Some p \<Rightarrow> prInvariantBlockReason env config candidate p = []
              \<and> (reader \<noteq> None \<longrightarrow> facts_found reader (is_Identifier candidate) \<noteq> None)
        | None \<Rightarrow> (case facts_found reader (is_Identifier candidate) of
                    None \<Rightarrow> True
                  | Some f \<Rightarrow> rf_PRURL f = [] \<and> rf_Status f \<noteq> ''review_failed''))"


definition new_issue :: Issue where
  "new_issue = first_issue\<lparr>is_Identifier := ''CAG-2'', is_StateName := ''Ready''\<rparr>"

lemma new_issue_runs: "de_CanRun (ReconcileIssueWithArtifactContext ready_env None ready_config new_issue None None)"
  by code_simp


text \<open>
  C25: an unreadable state store fails closed: when the attempt state of the issue cannot be read, the
  decision allows neither a run nor a merge, reports the need of a reconciliation, and unless a label
  or a lock answers first carries the store's error and asks for the repair of the store.
\<close>

theorem unreadable_store_fails_closed:
  assumes "reconciliationFacts reader (is_Identifier candidate) = Inl err"
  shows "(let d = ReconcileIssueWithArtifactContext env reader config candidate pr artifact in
           \<not> de_CanRun d \<and> \<not> de_CanMerge d \<and> de_ReconciliationNeeded d \<and> de_StateStoreError d \<noteq> None
           \<and> (if re_ctx_err env = None \<and> \<not> isBlockedCandidate candidate
                 \<and> \<not> HasLock (re_fs env) (join2 (rc_WorkspaceRoot config) (is_Identifier candidate))
              then de_NextAction d = ''repair_sqlite_state_store'' \<and> de_StateStoreError d = Some (store_error_text err)
              else True))"
proof -
  let ?g = "gather_facts env reader config candidate pr artifact"
  have e: "de_StateStoreError (ga_decision ?g) = Some (store_error_text err)" by (simp add: gather_simps assms)
  have n: "de_ReconciliationNeeded (ga_decision ?g)"
    by (cases reader) (use assms in \<open>simp_all add: gather_facts_def Let_def case_prod_beta with_facts_def artifact_evidence_def
        with_artifact_def split: option.split\<close>)
  show ?thesis
  proof (cases "re_ctx_err env")
    case None
    have R: "ReconcileIssueWithArtifactContext env reader config candidate pr artifact =
        (if isBlockedCandidate candidate
         then block_decision lifecycleBlocked ''issue has blocked label'' ''operator_unblock_issue'' (ga_decision ?g)
         else if HasLock (re_fs env) (join2 (rc_WorkspaceRoot config) (is_Identifier candidate))
         then block_decision lifecycleRunning ''active run lock exists'' ''wait_for_or_clear_run_lock'' (ga_decision ?g)
         else block_decision lifecycleBlocked (''SQLite reconciliation state unavailable: '' @ store_error_text err)
                ''repair_sqlite_state_store'' (ga_decision ?g))"
      unfolding ReconcileIssueWithArtifactContext_def None option.case Let_def e ..
    consider "isBlockedCandidate candidate"
      | "\<not> isBlockedCandidate candidate" "HasLock (re_fs env) (join2 (rc_WorkspaceRoot config) (is_Identifier candidate))"
      | "\<not> isBlockedCandidate candidate" "\<not> HasLock (re_fs env) (join2 (rc_WorkspaceRoot config) (is_Identifier candidate))"
      by blast
    then show ?thesis
      by cases (simp_all only: Let_def R None block_decision_simps e n option.distinct if_True if_False simp_thms not_None_eq option.inject ex_simps if_cancel)
  next
    case (Some x)
    have "ReconcileIssueWithArtifactContext env reader config candidate pr artifact =
        block_decision lifecycleBlocked (''reconciliation context canceled: '' @ x) ''retry_when_worker_context_active''
          ((new_decision candidate)\<lparr>de_StateStoreError := Some x, de_ReconciliationNeeded := True\<rparr>)"
      unfolding ReconcileIssueWithArtifactContext_def Some option.case Let_def ..
    then show ?thesis using Some by (simp add: Let_def)
  qed
qed

theorem unreadable_store_fails_closed_witness:
  "de_NextAction (ReconcileIssueWithArtifactContext ready_env
     (Some (ready_reader\<lparr>sr_ReconciliationFacts := (\<lambda>key. Inl (StoreError ''disk''))\<rparr>)) ready_config new_issue None None)
   = ''repair_sqlite_state_store''"
proof -
  let ?r = "Some (ready_reader\<lparr>sr_ReconciliationFacts := (\<lambda>key. Inl (StoreError ''disk''))\<rparr>)"
  have "reconciliationFacts ?r (is_Identifier new_issue) = Inl (StoreError ''disk'')"
    by (simp add: reconciliationFacts_def)
  moreover have "re_ctx_err ready_env = None" "\<not> isBlockedCandidate new_issue"
      "\<not> HasLock (re_fs ready_env) (join2 (rc_WorkspaceRoot ready_config) (is_Identifier new_issue))"
    by code_simp+
  ultimately show ?thesis
    using unreadable_store_fails_closed [of ?r new_issue "StoreError ''disk''" ready_env ready_config None None]
    by (simp add: Let_def)
qed

end
