(* ===== verification/ReconcileScan.thy ===== *)
theory ReconcileScan
  imports Reconciler
begin

text \<open>
  The scan of src/reconciler.go over all issues (\<open>ReconcileIssuesContext\<close>,
  \<open>runReconciliationScanContext\<close> and the event it records), with the artifact index and the
  reconciliation summaries of src/status.go.  A map keyed by issues is a function to options.
\<close>

section \<open>The artifacts of the workspaces\<close>

text \<open>
  The entries of the workspace root as \<open>os.ReadDir\<close> lists them: a name and whether it is a directory.
  A file that cannot be decoded fails the whole listing.
\<close>

definition record_summary :: "RunRecord \<Rightarrow> ArtifactSummary \<Rightarrow> ArtifactSummary" where
  "record_summary record s =
     s\<lparr>as_HasArtifact := True, as_Status := rr_Status record, as_Class := CategoryForTerminalStatus (rr_Status record),
       as_Review := rr_ReviewStatus record, as_PRURL := rr_PRURL record,
       as_TotalTokens := as_TotalTokens s + usage_tokens (RecordRuntimeUsage record) + usage_tokens (rr_ReviewUsage record),
       as_TotalCost := as_TotalCost s + usage_cost (RecordRuntimeUsage record) + usage_cost (rr_ReviewUsage record),
       as_Cleanable := TerminalRunStatus (rr_Status record)\<rparr>"

definition evaluation_summary :: "EvaluationArtifact \<Rightarrow> ArtifactSummary \<Rightarrow> ArtifactSummary" where
  "evaluation_summary e s =
     s\<lparr>as_HasEvaluation := True,
       as_Issue := (if ea_IssueIdentifier e \<noteq> [] then ea_IssueIdentifier e else as_Issue s),
       as_PRURL := (if ea_PRURL e \<noteq> [] then ea_PRURL e else as_PRURL s),
       as_Outcome := ea_Outcome e, as_MergeEligible := ea_MergeEligible e, as_BlockedBy := ea_BlockedBy e,
       as_RootCause := ea_RootCause e, as_NextAction := ea_NextAction e, as_ShouldRetry := ea_ShouldRetry e,
       as_OperatorAttention := ea_OperatorAttentionRequired e, as_ChecksStatus := ea_ChecksStatus e,
       as_MergeBlockReason := ea_MergeBlockReason e, as_MergeBlockerCodes := ea_MergeBlockerCodes e,
       as_Frictions := ea_FrictionSignals e, as_TicketContract := ea_TicketContractEvidence e\<rparr>"

definition zero_summary :: ArtifactSummary where
  "zero_summary =
     \<lparr>as_Issue = [], as_Status = [], as_Review = [], as_PRURL = [], as_Outcome = [], as_RootCause = [],
      as_NextAction = [], as_ChecksStatus = [], as_MergeBlockReason = [], as_MergeBlockerCodes = [], as_BlockedBy = [],
      as_Frictions = [], as_TotalTokens = 0, as_TotalCost = 0, as_HasArtifact = False, as_HasEvaluation = False,
      as_Cleanable = False, as_Class = [], as_MergeEligible = False, as_ShouldRetry = False,
      as_OperatorAttention = False, as_TicketContract = []\<rparr>"

definition entry_summary :: "files \<Rightarrow> string \<Rightarrow> string \<Rightarrow> string + ArtifactSummary" where
  "entry_summary files workspaceRoot name =
     (let workspace = join2 workspaceRoot name; s0 = zero_summary\<lparr>as_Issue := name\<rparr> in
      case (case files (join2 workspace ''.am-run.json'') of
              None \<Rightarrow> Inr s0
            | Some data \<Rightarrow>
                (case decode_run_record data of
                   None \<Rightarrow> Inl ''malformed run record'' | Some record \<Rightarrow> Inr (record_summary record s0))) of
        Inl e \<Rightarrow> Inl e
      | Inr s1 \<Rightarrow>
          (case files (join2 workspace EvaluationName) of
             None \<Rightarrow> Inr s1
           | Some data \<Rightarrow>
               (case decode_evaluation zero_Evaluation data of
                  None \<Rightarrow> Inl ''malformed evaluation'' | Some e \<Rightarrow> Inr (evaluation_summary e s1))))"

definition workspace_entry :: "string \<times> bool \<Rightarrow> bool" where
  "workspace_entry entry \<longleftrightarrow> snd entry \<and> \<not> has_prefix (fst entry) ''.'' \<and> fst entry \<noteq> ''state''"

fun summaries_loop :: "files \<Rightarrow> string \<Rightarrow> (string \<times> bool) list \<Rightarrow> string + ArtifactSummary list" where
  "summaries_loop files workspaceRoot [] = Inr []"
| "summaries_loop files workspaceRoot (entry # entries) =
     (if \<not> workspace_entry entry then summaries_loop files workspaceRoot entries
      else (case entry_summary files workspaceRoot (fst entry) of
              Inl e \<Rightarrow> Inl e
            | Inr s \<Rightarrow>
                (case summaries_loop files workspaceRoot entries of Inl e \<Rightarrow> Inl e | Inr ss \<Rightarrow> Inr (s # ss))))"

definition workspaceArtifactSummaries :: "files \<Rightarrow> (string \<times> bool) list \<Rightarrow> string \<Rightarrow> string + ArtifactSummary list" where
  "workspaceArtifactSummaries files entries workspaceRoot =
     (case summaries_loop files workspaceRoot entries of
        Inl e \<Rightarrow> Inl e | Inr ss \<Rightarrow> Inr (sort_key as_Issue ss))"

record artifactIndex =
  ix_byIssue :: "string \<Rightarrow> ArtifactSummary option"
  ix_byPRURL :: "string \<Rightarrow> ArtifactSummary option"

definition index_artifact :: "ArtifactSummary \<Rightarrow> artifactIndex \<Rightarrow> artifactIndex" where
  "index_artifact a ix =
     \<lparr>ix_byIssue = (if as_Issue a \<noteq> [] then (ix_byIssue ix)(as_Issue a \<mapsto> a) else ix_byIssue ix),
      ix_byPRURL = (if as_PRURL a \<noteq> [] then (ix_byPRURL ix)(as_PRURL a \<mapsto> a) else ix_byPRURL ix)\<rparr>"

definition indexArtifacts :: "ArtifactSummary list \<Rightarrow> artifactIndex" where
  "indexArtifacts artifacts = fold index_artifact artifacts \<lparr>ix_byIssue = Map.empty, ix_byPRURL = Map.empty\<rparr>"

section \<open>Decisions for all issues\<close>

definition ReconcileIssuesContext ::
    "rec_env \<Rightarrow> state_reader option \<Rightarrow> RunnerConfig \<Rightarrow> Issue list \<Rightarrow> (string \<Rightarrow> PullRequestSummary option)
       \<Rightarrow> (string \<Rightarrow> ArtifactSummary option) \<Rightarrow> ReconciliationDecision list" where
  "ReconcileIssuesContext env reader config issues prsByIssue artifactsByIssue =
     map (\<lambda>i. ReconcileIssueWithArtifactContext env reader config i (prsByIssue (is_Identifier i))
                (artifactsByIssue (is_Identifier i))) issues"

text \<open>The last issue of an identifier is the one the index keeps.\<close>

definition issue_by_identifier :: "Issue list \<Rightarrow> string \<Rightarrow> Issue option" where
  "issue_by_identifier issues key = find (\<lambda>i. is_Identifier i = key) (rev issues)"

definition repairableReviewFailedReconciliationDecisions ::
    "rec_env \<Rightarrow> RunnerConfig \<Rightarrow> Issue list \<Rightarrow> (string \<Rightarrow> PullRequestSummary option) \<Rightarrow> ReconciliationDecision list
       \<Rightarrow> ReconciliationDecision list" where
  "repairableReviewFailedReconciliationDecisions env config issues prsByIssue decisions =
     map (\<lambda>d. case issue_by_identifier issues (de_IssueIdentifier d) of
                None \<Rightarrow> d
              | Some i \<Rightarrow> decisionWithRepairableReviewFailedPR env config i (prsByIssue (is_Identifier i)) d) decisions"

section \<open>The event of a finding\<close>

definition reconciliation_payload :: "ReconciliationDecision \<Rightarrow> (string \<times> json) list" where
  "reconciliation_payload d =
     [(''state'', JStr (de_StateName d)), (''lifecycle'', JStr (lifecycle_text (de_Lifecycle d))),
      (''next_action'', JStr (de_NextAction d)),
      (''blockers'', if de_Blockers d = [] then JNull else JArr (map JStr (de_Blockers d))),
      (''reconciliation_needed'', JBool (de_ReconciliationNeeded d)),
      (''should_quarantine'', JBool (de_ShouldQuarantine d))]
     @ (case de_DBFacts d of
          None \<Rightarrow> []
        | Some f \<Rightarrow> [(''sqlite_status'', JStr (rf_Status f)), (''sqlite_pr_url'', JStr (rf_PRURL f)),
                     (''sqlite_terminal_outcome'', JStr (rf_TerminalOutcome f))])
     @ (case de_PR d of
          None \<Rightarrow> []
        | Some p \<Rightarrow> [(''pr_url'', JStr (ps_URL p)), (''pr_number'', JInt (ps_Number p)), (''pr_head_ref'', JStr (ps_HeadRefName p))])
     @ (case de_Artifact d of
          None \<Rightarrow> []
        | Some a \<Rightarrow> [(''artifact_status'', JStr (as_Status a)), (''artifact_pr_url'', JStr (as_PRURL a)),
                     (''artifact_outcome'', JStr (as_Outcome a))])"

definition reconciliation_event :: "time \<Rightarrow> ReconciliationDecision \<Rightarrow> string \<Rightarrow> EventInput" where
  "reconciliation_event now d issueID =
     \<lparr>ei_OccurredAt = now, ei_IssueKey = de_IssueIdentifier d, ei_IssueID = issueID,
      ei_Attempt = (case de_DBFacts d of None \<Rightarrow> 0 | Some f \<Rightarrow> rf_Attempt f), ei_RunID = [],
      ei_Source = ''reconciliation'', ei_Type = ''reconciliation_needed'',
      ei_Payload = ValuePayload (JObj (reconciliation_payload d))\<rparr>"

definition recordReconciliationNeededEventContext ::
    "store_env \<Rightarrow> time \<Rightarrow> ReconciliationDecision \<Rightarrow> string \<Rightarrow> db \<Rightarrow> unit result \<times> db" where
  "recordReconciliationNeededEventContext env now d issueID db =
     (case appendEvent env (reconciliation_event now d issueID) db of
        (Inl e, db') \<Rightarrow> (Inl e, db') | (Inr ev, db') \<Rightarrow> (Inr (), db'))"

section \<open>The scan\<close>

definition scan_finding :: "ReconciliationDecision \<Rightarrow> bool" where
  "scan_finding d \<longleftrightarrow> de_ReconciliationNeeded d \<or> de_ShouldQuarantine d"

definition issue_id_of :: "Issue list \<Rightarrow> string \<Rightarrow> string" where
  "issue_id_of issues key = (case issue_by_identifier issues key of None \<Rightarrow> [] | Some i \<Rightarrow> is_ID i)"

fun record_findings ::
    "store_env \<Rightarrow> time \<Rightarrow> Issue list \<Rightarrow> ReconciliationDecision list \<Rightarrow> db \<Rightarrow> unit result \<times> db" where
  "record_findings env now issues [] db = (Inr (), db)"
| "record_findings env now issues (d # ds) db =
     (if \<not> scan_finding d then record_findings env now issues ds db
      else (case recordReconciliationNeededEventContext env now d (issue_id_of issues (de_IssueIdentifier d)) db of
              (Inl e, db') \<Rightarrow> (Inl e, db')
            | (Inr u, db') \<Rightarrow> record_findings env now issues ds db'))"

text \<open>
  The listings of the scan (issues, open pull requests, artifacts) are its inputs, each perhaps an
  error; the answer is whether the scan did its work, with an error.
\<close>

definition scan_decisions ::
    "rec_env \<Rightarrow> RunnerConfig \<Rightarrow> Issue list \<Rightarrow> PullRequestSummary list \<Rightarrow> ArtifactSummary list \<Rightarrow> db
       \<Rightarrow> ReconciliationDecision list" where
  "scan_decisions env config issues prs artifacts db =
     repairableReviewFailedReconciliationDecisions env config issues (indexPRsByIssue prs)
       (ReconcileIssuesContext env (Some (store_reader db)) config issues (indexPRsByIssue prs)
          (ix_byIssue (indexArtifacts artifacts)))"

definition runReconciliationScanContext ::
    "store_env \<Rightarrow> rec_env \<Rightarrow> RunnerConfig \<Rightarrow> (string + Issue list) \<Rightarrow> (string + PullRequestSummary list)
       \<Rightarrow> (string + ArtifactSummary list) \<Rightarrow> db option \<Rightarrow> (bool \<times> string option) \<times> db option" where
  "runReconciliationScanContext senv env config issues_or prs_or artifacts_or store =
     (case re_ctx_err env of
        Some err \<Rightarrow> ((False, Some err), store)
      | None \<Rightarrow>
        (case store of
           None \<Rightarrow> ((False, Some (''SQLite state store unavailable for reconciliation worker at ''
                                 @ DefaultDBPath (rc_WorkspaceRoot config))), None)
         | Some db \<Rightarrow>
           (case issues_or of
              Inl e \<Rightarrow> ((False, Some e), store)
            | Inr issues \<Rightarrow>
              (case prs_or of
                 Inl e \<Rightarrow> ((False, Some e), store)
               | Inr prs \<Rightarrow>
                 (case artifacts_or of
                    Inl e \<Rightarrow> ((False, Some e), store)
                  | Inr artifacts \<Rightarrow>
                    (case record_findings senv (re_now env) issues (scan_decisions env config issues prs artifacts db) db of
                       (Inl e, db') \<Rightarrow> ((True, Some (store_error_text e)), Some db')
                     | (Inr u, db') \<Rightarrow> ((True, None), Some db')))))))"

section \<open>Summaries\<close>

definition emptyAsNA :: "string \<Rightarrow> string" where
  "emptyAsNA value = (if trim_space value = [] then ''n/a'' else value)"

definition sqliteFactStatus :: "ReconciliationFacts option \<Rightarrow> string" where
  "sqliteFactStatus facts = (case facts of None \<Rightarrow> [] | Some f \<Rightarrow> rf_Status f)"

definition sqliteFactPRURL :: "ReconciliationFacts option \<Rightarrow> string" where
  "sqliteFactPRURL facts = (case facts of None \<Rightarrow> [] | Some f \<Rightarrow> rf_PRURL f)"

definition first_text :: "string list \<Rightarrow> string" where
  "first_text ts = (case filter (\<lambda>t. t \<noteq> []) ts of [] \<Rightarrow> [] | t # rest \<Rightarrow> t)"

definition bool_text :: "bool \<Rightarrow> string" where
  "bool_text b = (if b then ''true'' else ''false'')"

definition ready_line :: "string \<Rightarrow> ReconciliationDecision \<Rightarrow> string list" where
  "ready_line readyState d =
     (if de_StateName d \<noteq> readyState then []
      else (case de_Artifact d of
        None \<Rightarrow>
          if \<not> de_ReconciliationNeeded d then []
          else [''Reconcile Ready issue from durable state: '' @ de_IssueIdentifier d @ '' status=''
                @ emptyAsNA (sqliteFactStatus (de_DBFacts d)) @ '' pr='' @ emptyAsNA (sqliteFactPRURL (de_DBFacts d))
                @ '' next='' @ first_text [de_NextAction d, ''reconcile_sqlite_external_facts'']
                @ '' reconciliation_needed=true'']
      | Some a \<Rightarrow>
          if \<not> as_Cleanable a then []
          else [''Reconcile Ready issue with terminal artifact: '' @ de_IssueIdentifier d @ '' status='' @ as_Status a
                @ '' outcome='' @ emptyAsNA (as_Outcome a) @ '' next=''
                @ first_text [as_NextAction a, de_NextAction d, ''reconcile_linear_state_or_clear_terminal_artifact'']
                @ '' attention='' @ bool_text (as_OperatorAttention a)
                @ (if de_ReconciliationNeeded d then '' reconciliation_needed=true'' else [])]))"

definition with_title :: "string \<Rightarrow> string list \<Rightarrow> string list" where
  "with_title title lines = (if lines = [] then [] else title # sort lines)"

definition summarizeReadyReconciliationDecisions :: "ReconciliationDecision list \<Rightarrow> string \<Rightarrow> string list" where
  "summarizeReadyReconciliationDecisions decisions readyState =
     with_title ''Actionable reconciliation:'' (concat (map (ready_line readyState) decisions))"

definition running_line :: "RunnerConfig \<Rightarrow> ReconciliationDecision \<Rightarrow> string list" where
  "running_line config d =
     (if de_StateName d \<noteq> rc_RunningState config \<or> de_Lifecycle d = lifecycleRunning \<or> de_IssueIdentifier d = [] then []
      else if (case de_Artifact d of None \<Rightarrow> False | Some a \<Rightarrow> \<not> as_Cleanable a) then []
      else let artifact_next = (case de_Artifact d of None \<Rightarrow> [] | Some a \<Rightarrow> as_NextAction a);
               status = (case de_Artifact d of None \<Rightarrow> ''missing'' | Some a \<Rightarrow> emptyAsNA (as_Status a));
               outcome = (case de_Artifact d of None \<Rightarrow> ''n/a'' | Some a \<Rightarrow> emptyAsNA (as_Outcome a)) in
        [''Reconcile In Progress issue with no active run lock: '' @ de_IssueIdentifier d @ '' artifact_status='' @ status
         @ '' outcome='' @ outcome @ '' next='' @ first_text [artifact_next, ''restart_runner_or_move_issue_ready'']
         @ (if de_ReconciliationNeeded d then '' reconciliation_needed=true'' else [])])"

definition summarizeRunningReconciliationDecisions :: "ReconciliationDecision list \<Rightarrow> RunnerConfig \<Rightarrow> string list" where
  "summarizeRunningReconciliationDecisions decisions config =
     with_title ''Actionable In Progress reconciliation:'' (concat (map (running_line config) decisions))"

section \<open>Scans only append events\<close>

text \<open>One table grows: the database afterwards is the one before with more events of a kind.\<close>

definition appended_events :: "(EventRow \<Rightarrow> bool) \<Rightarrow> nat \<Rightarrow> db \<Rightarrow> db \<Rightarrow> bool" where
  "appended_events P k db db' \<longleftrightarrow>
     (\<exists>new n. db' = db\<lparr>db_events := db_events db @ new, db_event_seq := n\<rparr> \<and> list_all P new \<and> length new \<le> k)"

lemma appended_refl: "appended_events P k db db"
  unfolding appended_events_def by (rule exI [of _ "[]"], rule exI [of _ "db_event_seq db"]) simp

lemma appended_trans:
  assumes "appended_events P j db db1" "appended_events P k db1 db2"
  shows "appended_events P (j + k) db db2"
proof -
  obtain new n where 1: "db1 = db\<lparr>db_events := db_events db @ new, db_event_seq := n\<rparr>" "list_all P new" "length new \<le> j"
    using assms(1) unfolding appended_events_def by blast
  obtain new2 n2 where 2: "db2 = db1\<lparr>db_events := db_events db1 @ new2, db_event_seq := n2\<rparr>" "list_all P new2" "length new2 \<le> k"
    using assms(2) unfolding appended_events_def by blast
  show ?thesis unfolding appended_events_def
    by (rule exI [of _ "new @ new2"], rule exI [of _ n2]) (use 1 2 in simp)
qed

lemma appended_mono: "appended_events P j db db' \<Longrightarrow> j \<le> k \<Longrightarrow> appended_events P k db db'"
  unfolding appended_events_def by (blast intro: le_trans)

lemma appendEvent_appends:
  assumes "\<And>r. er_event_type r = ei_Type input \<Longrightarrow> er_source r = ei_Source input \<Longrightarrow> P r"
  shows "appended_events P 1 db (snd (appendEvent env input db))"
proof -
  have row: "appended_events P 1 db (insert_event e db)" if "ev_Type e = ei_Type input" "ev_Source e = ei_Source input" for e
  proof -
    have "P (event_row (db_event_seq db + 1) e)" using that assms by (simp add: event_row_def)
    then have "appended_events P 1 db (db\<lparr>db_events := db_events db @ [event_row (db_event_seq db + 1) e],
        db_event_seq := db_event_seq db + 1\<rparr>)"
      unfolding appended_events_def
      by (intro exI [of _ "[event_row (db_event_seq db + 1) e]"] exI [of _ "db_event_seq db + 1"]) simp
    then show ?thesis using appended_refl [of P 1 db] by (simp add: insert_event_def Let_def)
  qed
  show ?thesis
    using row appended_refl [of P 1 db]
    by (auto simp: appendEvent_def normalizeEvent_def Let_def split: sum.splits if_splits)
qed

definition finding_row :: "EventRow \<Rightarrow> bool" where
  "finding_row r \<longleftrightarrow> er_event_type r = ''reconciliation_needed'' \<and> er_source r = ''reconciliation''"

lemma record_findings_appends:
  "appended_events finding_row (length (filter scan_finding ds)) db (snd (record_findings env now issues ds db))"
proof (induction ds arbitrary: db)
  case Nil
  show ?case by (simp add: appended_refl)
next
  case (Cons d ds)
  let ?i = "reconciliation_event now d (issue_id_of issues (de_IssueIdentifier d))"
  have one: "appended_events finding_row 1 db (snd (appendEvent env ?i db))"
    by (rule appendEvent_appends) (simp add: finding_row_def reconciliation_event_def)
  obtain r db1 where a: "appendEvent env ?i db = (r, db1)" by fastforce
  show ?case
  proof (cases "scan_finding d")
    case False
    then show ?thesis using Cons by simp
  next
    case True
    show ?thesis
    proof (cases r)
      case (Inl e)
      then show ?thesis
        using True a one by (simp add: recordReconciliationNeededEventContext_def) (erule appended_mono, simp)
    next
      case (Inr ev)
      then show ?thesis
        using True a appended_trans [OF one [unfolded a snd_conv] Cons.IH]
        by (simp add: recordReconciliationNeededEventContext_def)
    qed
  qed
qed

lemma scan_decisions_length [simp]: "length (scan_decisions env config issues prs artifacts db) = length issues"
  by (simp add: scan_decisions_def repairableReviewFailedReconciliationDecisions_def ReconcileIssuesContext_def)

lemma scan_appends:
  "(case snd (runReconciliationScanContext senv env config issues prs artifacts (Some db)) of
      None \<Rightarrow> False
    | Some db' \<Rightarrow> appended_events finding_row (case issues of Inl e \<Rightarrow> 0 | Inr is \<Rightarrow> length is) db db')"
proof -
  have run: "appended_events finding_row (length is) db
      (snd (record_findings senv now is (scan_decisions env config is ps as db) db))" for now "is" ps as
    using appended_mono [OF record_findings_appends, of "scan_decisions env config is ps as db" "length is"]
      length_filter_le [of scan_finding "scan_decisions env config is ps as db"] by simp
  show ?thesis
  proof (cases "\<exists>is ps as. re_ctx_err env = None \<and> issues = Inr is \<and> prs = Inr ps \<and> artifacts = Inr as")
    case True
    then obtain "is" ps as where "re_ctx_err env = None" "issues = Inr is" "prs = Inr ps" "artifacts = Inr as" by blast
    then show ?thesis
      using run [where now = "re_now env" and ps = ps and as = as]
      by (cases "record_findings senv (re_now env) is (scan_decisions env config is ps as db) db")
        (simp add: runReconciliationScanContext_def split: sum.split, metis snd_conv)
  next
    case False
    then show ?thesis
      using appended_refl
      by (cases "re_ctx_err env"; cases issues; cases prs; cases artifacts) (simp_all add: runReconciliationScanContext_def)
  qed
qed


end
