(* ===== verification/CandidateSelection.thy ===== *)
theory CandidateSelection
  imports ReconcileScan TaskQueue "HOL-Library.Product_Lexorder"
begin

text \<open>
  src/candidate_selection.go: the order of the candidates, the backoff of retries and the choice of the
  next issue to run.  The listings of Linear and the code host are inputs, and so is the maximal backoff
  the project file configures; the clock of one selection is \<open>re_now\<close>.  Without a store no event is
  written and no retry decision exists.
\<close>

section \<open>The order of candidates\<close>

datatype candidateKey = candidateKey (stateRank: int) (safetyRankOf: int) (priorityRank: int) (createdAt: time)

definition key_tuple :: "candidateKey \<Rightarrow> int \<times> int \<times> int \<times> time" where
  "key_tuple k = (stateRank k, safetyRankOf k, priorityRank k, createdAt k)"

lemma key_tuple_inject: "key_tuple k = key_tuple l \<longleftrightarrow> k = l"
  by (auto simp: key_tuple_def intro: candidateKey.expand)

instantiation candidateKey :: linorder
begin

definition less_eq_candidateKey :: "candidateKey \<Rightarrow> candidateKey \<Rightarrow> bool" where
  "less_eq_candidateKey k l \<longleftrightarrow> key_tuple k \<le> key_tuple l"

definition less_candidateKey :: "candidateKey \<Rightarrow> candidateKey \<Rightarrow> bool" where
  "less_candidateKey k l \<longleftrightarrow> key_tuple k < key_tuple l"

instance
  by standard (auto simp: less_eq_candidateKey_def less_candidateKey_def key_tuple_inject [symmetric])

end

definition safetyRank :: "Issue \<Rightarrow> int" where
  "safetyRank candidate =
     (if ''runner-safety'' \<in> set (label_names candidate) \<or> ''harness'' \<in> set (label_names candidate) then 0
      else if ''docs-only'' \<in> set (label_names candidate) \<or> ''low-risk'' \<in> set (label_names candidate) then 1
      else 2)"

definition far_future :: time where "far_future = days_before_year 9999 * day"

definition candidateSortKey :: "Issue \<Rightarrow> string \<Rightarrow> candidateKey" where
  "candidateSortKey candidate readyState =
     candidateKey (if is_StateName candidate = readyState then 0 else 1) (safetyRank candidate)
       (if is_Priority candidate \<le> 0 then 99 else is_Priority candidate)
       (case parse_rfc3339 (is_CreatedAt candidate) of None \<Rightarrow> far_future | Some t \<Rightarrow> t)"

definition orderCandidates :: "Issue list \<Rightarrow> string \<Rightarrow> Issue list" where
  "orderCandidates candidates readyState =
     sort_key (\<lambda>c. (candidateSortKey c readyState, is_Identifier c)) candidates"

definition candidateOrderReason :: "Issue \<Rightarrow> string \<Rightarrow> string" where
  "candidateOrderReason candidate readyState =
     (let key = candidateSortKey candidate readyState in
      ''state_rank='' @ itoa (stateRank key) @ '' safety_rank='' @ itoa (safetyRankOf key) @ '' priority=''
      @ (if 0 < is_Priority candidate then ''P'' @ itoa (is_Priority candidate) else ''none'')
      @ '' created_at='' @ is_CreatedAt candidate @ '' labels=''
      @ join '','' (if is_Labels candidate = [] then [''none''] else is_Labels candidate))"

section \<open>Retry backoff\<close>

text \<open>Durations are 64-bit: doubling wraps around.\<close>

definition duration64 :: "int \<Rightarrow> duration" where
  "duration64 i = (i + 2 ^ 63) mod 2 ^ 64 - 2 ^ 63"

fun double_loop :: "nat \<Rightarrow> duration \<Rightarrow> duration \<Rightarrow> duration" where
  "double_loop 0 maximum d = (if maximum < d then maximum else d)"
| "double_loop (Suc n) maximum d =
     (let d' = duration64 (d * 2) in if maximum \<le> d' then maximum else double_loop n maximum d')"

definition retryBackoffDuration :: "int \<Rightarrow> duration \<Rightarrow> duration" where
  "retryBackoffDuration retryCount maximum =
     (if maximum \<le> 0 then 0
      else double_loop (nat ((if retryCount < 1 then 1 else retryCount) - 1)) maximum second)"

record candidateRetryDecision =
  cr_runnable :: bool
  cr_reason :: string
  cr_nextState :: string

definition retryBackoffDecision ::
    "db option \<Rightarrow> Issue \<Rightarrow> RunnerConfig \<Rightarrow> duration \<Rightarrow> time \<Rightarrow> candidateRetryDecision option" where
  "retryBackoffDecision store candidate config maxBackoff now =
     (case store of
        None \<Rightarrow> None
      | Some db \<Rightarrow>
          if is_StateName candidate = rc_NeedsInfoState config \<or> is_StateName candidate = rc_DoneState config
          then Some \<lparr>cr_runnable = False, cr_reason = ''terminal_or_needs_info_state'', cr_nextState = []\<rparr>
          else (case ReadReconciliationFacts (is_Identifier candidate) db of
            Inl e \<Rightarrow> None
          | Inr None \<Rightarrow> None
          | Inr (Some facts) \<Rightarrow>
              if rf_RetryNextState facts = [] then None
              else if rf_RetryNextState facts \<noteq> ''retry_after_backoff''
              then Some \<lparr>cr_runnable = False, cr_reason = ''terminal_or_no_retry'', cr_nextState = rf_RetryNextState facts\<rparr>
              else let backoff = retryBackoffDuration (rf_RetryCount facts) maxBackoff in
                if backoff \<le> 0 \<or> is_zero (rf_RetryDecidedAt facts) \<or> \<not> now < rf_RetryDecidedAt facts + backoff
                then Some \<lparr>cr_runnable = True, cr_reason = ''retry_backoff_elapsed'', cr_nextState = rf_RetryNextState facts\<rparr>
                else Some \<lparr>cr_runnable = False,
                           cr_reason = ''retry_backoff_until_''
                             @ rfc3339_nano ((rf_RetryDecidedAt facts + backoff) div second * second),
                           cr_nextState = rf_RetryNextState facts\<rparr>))"

definition retryGateAllowsRepairableReviewFailedPR :: "ReconciliationDecision \<Rightarrow> candidateRetryDecision \<Rightarrow> bool" where
  "retryGateAllowsRepairableReviewFailedPR d r \<longleftrightarrow>
     cr_nextState r = repairReviewFindingsNextAction \<and> de_CanRun d \<and> de_ShouldRetry d
     \<and> de_NextAction d = repairReviewFindingsNextAction \<and> \<not> de_ReconciliationNeeded d"

definition retryGateAllowsRepair :: "ReconciliationDecision \<Rightarrow> candidateRetryDecision \<Rightarrow> bool" where
  "retryGateAllowsRepair d r \<longleftrightarrow>
     (if retryGateAllowsRepairableReviewFailedPR d r then True
      else de_CanRun d \<and> de_ShouldRetry d \<and> de_Lifecycle d = lifecycleFeedbackRetry
           \<and> de_NextAction d = ''retry_with_unresolved_pr_feedback'' \<and> \<not> de_ReconciliationNeeded d)"

definition retryBackoffOverridesTerminalBlock :: "ReconciliationDecision \<Rightarrow> candidateRetryDecision option \<Rightarrow> bool" where
  "retryBackoffOverridesTerminalBlock d retry \<longleftrightarrow>
     (case (retry, de_RunRecord d) of
        (Some r, Some record) \<Rightarrow>
          if \<not> cr_runnable r \<or> de_PR d \<noteq> None then False
          else if de_Lifecycle d \<noteq> lifecycleBlocked \<or> de_NextAction d \<noteq> ''operator_repair_or_clear_artifact'' then False
          else RetryableRunStatus (rr_Status record)
      | _ \<Rightarrow> False)"

section \<open>Active tasks and events\<close>

definition hasActiveWorkerTask :: "db option \<Rightarrow> string \<Rightarrow> string \<Rightarrow> bool result" where
  "hasActiveWorkerTask store role issueKey =
     (case store of
        None \<Rightarrow> Inr False
      | Some db \<Rightarrow>
          if trim_space issueKey = [] then Inr False
          else (case WorkerTasks role db of
                  Inl e \<Rightarrow> Inl e
                | Inr tasks \<Rightarrow> Inr (list_ex (\<lambda>t. wt_IssueKey t = issueKey \<and> BlocksDispatch (wt_Status t)) tasks)))"

definition hasActiveImplementationWorkerTask :: "db option \<Rightarrow> string \<Rightarrow> bool result" where
  "hasActiveImplementationWorkerTask store issueKey = hasActiveWorkerTask store RoleImplementation issueKey"

text \<open>An event that cannot be appended is only logged.\<close>

definition emitCandidateEventContext ::
    "store_env \<Rightarrow> time \<Rightarrow> string \<Rightarrow> Issue \<Rightarrow> (string \<times> json) list \<Rightarrow> db option \<Rightarrow> db option" where
  "emitCandidateEventContext env now eventType candidate payload store =
     map_option (\<lambda>db. snd (appendEvent env
       \<lparr>ei_OccurredAt = now, ei_IssueKey = is_Identifier candidate, ei_IssueID = is_ID candidate, ei_Attempt = 1,
        ei_RunID = [], ei_Source = ''runner.candidate_selection'', ei_Type = eventType,
        ei_Payload = ValuePayload (JObj payload)\<rparr> db)) store"

definition blockers_json :: "string list \<Rightarrow> json" where
  "blockers_json bs = (if bs = [] then JNull else JArr (map JStr bs))"

section \<open>The choice\<close>

text \<open>What a selection looks at besides the candidates.\<close>

record selection =
  se_store_env :: store_env
  se_env :: rec_env
  se_config :: RunnerConfig
  se_maxBackoff :: duration
  se_skipReviewReady :: bool

definition reconcileCandidateForSelectionContext ::
    "selection \<Rightarrow> Issue \<Rightarrow> PullRequestSummary option \<Rightarrow> db option \<Rightarrow> ReconciliationDecision" where
  "reconcileCandidateForSelectionContext s candidate pr store =
     decisionWithRepairableReviewFailedPR (se_env s) (se_config s) candidate pr
       (ReconcileIssueWithArtifactContext (se_env s) (map_option store_reader store) (se_config s) candidate pr None)"

definition skip_review_ready :: "selection \<Rightarrow> Issue \<Rightarrow> PullRequestSummary option \<Rightarrow> db option \<Rightarrow> bool" where
  "skip_review_ready s candidate pr store \<longleftrightarrow>
     (if \<not> se_skipReviewReady s \<or> trim_space (rc_ReviewCommand (se_config s)) = [] \<or> pr = None then False
      else let d = reconcileCandidateForSelectionContext s candidate pr store in
        de_CanRun d \<and> de_NextAction d = ''run_semantic_review_after_checks_ready'')"

definition skipCandidateForSelectionOptionsContext ::
    "selection \<Rightarrow> Issue \<Rightarrow> PullRequestSummary option \<Rightarrow> db option \<Rightarrow> bool \<times> db option" where
  "skipCandidateForSelectionOptionsContext s candidate pr store =
     (if skip_review_ready s candidate pr store
      then (True, emitCandidateEventContext (se_store_env s) (re_now (se_env s)) ''candidate_skipped'' candidate
                    [(''reason'', JStr ''review_ready_resume''), (''next_action'', JStr ''run_review_worker'')] store)
      else (False, store))"

text \<open>The retry gate of a candidate is closed, and it is blocked by its label.\<close>

definition retry_closed :: "db option \<Rightarrow> ReconciliationDecision \<Rightarrow> candidateRetryDecision option \<Rightarrow> bool" where
  "retry_closed store d retry \<longleftrightarrow>
     (case (store, retry) of
        (Some db, Some r) \<Rightarrow> \<not> cr_runnable r \<and> \<not> retryGateAllowsRepair d r
      | _ \<Rightarrow> False)"

definition label_blocked :: "ReconciliationDecision \<Rightarrow> bool" where
  "label_blocked d \<longleftrightarrow> de_Lifecycle d = lifecycleBlocked \<and> contains (join '','' (de_Blockers d)) ''blocked label''"

definition emit_selected :: "selection \<Rightarrow> Issue \<Rightarrow> db option \<Rightarrow> db option" where
  "emit_selected s candidate =
     emitCandidateEventContext (se_store_env s) (re_now (se_env s)) ''candidate_selected'' candidate
       [(''state'', JStr (is_StateName candidate)),
        (''reason'', JStr (candidateOrderReason candidate (rc_ReadyState (se_config s))))]"

definition emit_skipped :: "selection \<Rightarrow> Issue \<Rightarrow> (string \<times> json) list \<Rightarrow> db option \<Rightarrow> db option" where
  "emit_skipped s candidate = emitCandidateEventContext (se_store_env s) (re_now (se_env s)) ''candidate_skipped'' candidate"

datatype choice = NoChoice | Chosen Issue "PullRequestSummary option" | ChoiceError string

definition selectable :: "ReconciliationDecision \<Rightarrow> candidateRetryDecision option \<Rightarrow> bool" where
  "selectable d retry \<longleftrightarrow> de_CanRun d \<or> retryBackoffOverridesTerminalBlock d retry"

text \<open>The first pass looks for a Ready candidate and says why it skips the others.\<close>

fun first_pass ::
    "selection \<Rightarrow> (string \<Rightarrow> PullRequestSummary option) \<Rightarrow> Issue list \<Rightarrow> nat \<Rightarrow> db option
       \<Rightarrow> choice \<times> nat \<times> db option" where
  "first_pass s prs [] blocked store = (NoChoice, blocked, store)"
| "first_pass s prs (c # cs) blocked store =
     (case skipCandidateForSelectionOptionsContext s c (prs (is_Identifier c)) store of
        (True, store1) \<Rightarrow> first_pass s prs cs blocked store1
      | (False, store1) \<Rightarrow>
          (case hasActiveImplementationWorkerTask store1 (is_Identifier c) of
             Inl e \<Rightarrow> (ChoiceError (store_error_text e), blocked, store1)
           | Inr True \<Rightarrow>
               first_pass s prs cs blocked (emit_skipped s c [(''reason'', JStr ''implementation_task_active'')] store1)
           | Inr False \<Rightarrow>
               let d = reconcileCandidateForSelectionContext s c (prs (is_Identifier c)) store1;
                   retry = retryBackoffDecision store1 c (se_config s) (se_maxBackoff s) (re_now (se_env s)) in
               if retry_closed store1 d retry
               then first_pass s prs cs blocked (emit_skipped s c [(''reason'', JStr (cr_reason (the retry)))] store1)
               else if label_blocked d
               then first_pass s prs cs (blocked + 1)
                      (emit_skipped s c
                         [(''reason'', JStr ''blocked_label''), (''lifecycle'', JStr (lifecycle_text (de_Lifecycle d))),
                          (''blockers'', blockers_json (de_Blockers d)), (''next_action'', JStr (de_NextAction d))] store1)
               else if is_StateName c = rc_ReadyState (se_config s) \<and> selectable d retry
               then (Chosen c (prs (is_Identifier c)), blocked, emit_selected s c store1)
               else first_pass s prs cs blocked
                      (if de_CanRun d then store1
                       else emit_skipped s c
                         [(''reason'', JStr ''not_runnable''), (''state'', JStr (is_StateName c)),
                          (''lifecycle'', JStr (lifecycle_text (de_Lifecycle d))),
                          (''blockers'', blockers_json (de_Blockers d)), (''next_action'', JStr (de_NextAction d))] store1)))"

fun second_pass ::
    "selection \<Rightarrow> (string \<Rightarrow> PullRequestSummary option) \<Rightarrow> Issue list \<Rightarrow> db option \<Rightarrow> choice \<times> db option" where
  "second_pass s prs [] store = (NoChoice, store)"
| "second_pass s prs (c # cs) store =
     (case skipCandidateForSelectionOptionsContext s c (prs (is_Identifier c)) store of
        (True, store1) \<Rightarrow> second_pass s prs cs store1
      | (False, store1) \<Rightarrow>
          (case hasActiveImplementationWorkerTask store1 (is_Identifier c) of
             Inl e \<Rightarrow> (ChoiceError (store_error_text e), store1)
           | Inr True \<Rightarrow> second_pass s prs cs store1
           | Inr False \<Rightarrow>
               let d = reconcileCandidateForSelectionContext s c (prs (is_Identifier c)) store1;
                   retry = retryBackoffDecision store1 c (se_config s) (se_maxBackoff s) (re_now (se_env s)) in
               if retry_closed store1 d retry \<or> label_blocked d then second_pass s prs cs store1
               else if selectable d retry then (Chosen c (prs (is_Identifier c)), emit_selected s c store1)
               else second_pass s prs cs store1))"

definition nextRunnableCandidateWithOptionsContext ::
    "selection \<Rightarrow> (string + Issue list) \<Rightarrow> (string + PullRequestSummary list) \<Rightarrow> db option \<Rightarrow> choice \<times> db option" where
  "nextRunnableCandidateWithOptionsContext s candidates_or prs_or store =
     (case candidates_or of
        Inl e \<Rightarrow> (ChoiceError e, store)
      | Inr [] \<Rightarrow> (NoChoice, store)
      | Inr cs \<Rightarrow>
          (case prs_or of
             Inl e \<Rightarrow> (ChoiceError e, store)
           | Inr prs \<Rightarrow>
               let ordered = orderCandidates cs (rc_ReadyState (se_config s)); byIssue = indexPRsByIssue (amPRs prs) in
               (case first_pass s byIssue ordered 0 store of
                  (NoChoice, blocked, store1) \<Rightarrow> second_pass s byIssue ordered store1
                | (c, blocked, store1) \<Rightarrow> (c, store1))))"

section \<open>The order\<close>

lemma orderCandidates_sorted:
  "sorted (map (\<lambda>c. (candidateSortKey c readyState, is_Identifier c)) (orderCandidates cs readyState))"
  unfolding orderCandidates_def by (rule sorted_sort_key)

lemma ready_first:
  "sorted_wrt (\<lambda>a b. if is_StateName b = readyState then is_StateName a = readyState else True) (orderCandidates cs readyState)"
proof -
  let ?f = "\<lambda>c. (candidateSortKey c readyState, is_Identifier c)"
  have "sorted_wrt (\<lambda>a b. ?f a \<le> ?f b) (orderCandidates cs readyState)"
    using orderCandidates_sorted by (simp only: sorted_map)
  then show ?thesis
  proof (rule sorted_wrt_mono_rel [rotated])
    fix a b assume "?f a \<le> ?f b"
    then have "candidateSortKey a readyState \<le> candidateSortKey b readyState" by (auto simp: less_eq_prod_def)
    then have "stateRank (candidateSortKey a readyState) \<le> stateRank (candidateSortKey b readyState)"
      by (auto simp: less_eq_candidateKey_def key_tuple_def)
    then show "if is_StateName b = readyState then is_StateName a = readyState else True"
      by (simp add: candidateSortKey_def split: if_splits)
  qed
qed

text \<open>
  Candidates are ordered, not changed: \<open>orderCandidates\<close> returns a permutation of the candidates,
  sorted by state rank, safety rank, priority, creation time and identifier in that order, keeps the
  given order of candidates that agree in all of them, and puts no other candidate before a Ready one.
\<close>

theorem candidates_are_ordered:
  "mset (orderCandidates cs readyState) = mset cs
   \<and> sorted (map (\<lambda>c. (candidateSortKey c readyState, is_Identifier c)) (orderCandidates cs readyState))
   \<and> filter (\<lambda>c. (candidateSortKey c readyState, is_Identifier c) = k) (orderCandidates cs readyState)
     = filter (\<lambda>c. (candidateSortKey c readyState, is_Identifier c) = k) cs
   \<and> sorted_wrt (\<lambda>a b. if is_StateName b = readyState then is_StateName a = readyState else True)
       (orderCandidates cs readyState)"
  using orderCandidates_sorted ready_first by (simp add: orderCandidates_def sort_key_stable)

section \<open>Backoff\<close>

lemma duration64_small: "0 \<le> i \<Longrightarrow> i < 2 ^ 63 \<Longrightarrow> duration64 i = i"
  by (simp add: duration64_def)

lemma double_loop_eq:
  "0 < d \<Longrightarrow> d < maximum \<Longrightarrow> maximum \<le> 2 ^ 62 \<Longrightarrow> double_loop n maximum d = min maximum (d * 2 ^ n)"
proof (induction n arbitrary: d)
  case 0
  then show ?case by simp
next
  case (Suc n)
  have d2: "duration64 (d * 2) = d * 2" using Suc.prems by (intro duration64_small) simp_all
  show ?case
  proof (cases "maximum \<le> d * 2")
    case True
    have "d * 2 * 1 \<le> d * 2 * 2 ^ n" using Suc.prems(1) by (intro mult_left_mono) simp_all
    then have "maximum \<le> d * 2 ^ Suc n" using True by (simp add: mult.assoc)
    then show ?thesis using True d2 by (simp add: Let_def)
  next
    case False
    then show ?thesis using Suc d2 by (simp add: Let_def mult.assoc)
  qed
qed

lemma double_loop_start: "maximum \<le> d \<Longrightarrow> 0 < d \<Longrightarrow> d < 2 ^ 62 \<Longrightarrow> double_loop n maximum d = maximum"
proof (cases n)
  case (Suc m)
  assume a: "maximum \<le> d" "0 < d" "d < 2 ^ 62"
  have d2: "duration64 (d * 2) = d * 2" using a by (intro duration64_small) simp_all
  have "maximum \<le> d * 2" using a by simp
  then show ?thesis using d2 Suc by (simp add: Let_def)
qed simp

definition backoff_spec :: "int \<Rightarrow> duration \<Rightarrow> duration" where
  "backoff_spec n maximum = min maximum (second * 2 ^ nat (max 1 n - 1))"

lemma backoff_spec_small: "maximum \<le> second \<Longrightarrow> backoff_spec n maximum = maximum"
proof -
  assume a: "maximum \<le> second"
  have "second * 1 \<le> second * 2 ^ nat (max 1 n - 1)" by (intro mult_left_mono) (simp_all add: duration_defs)
  with a show ?thesis unfolding backoff_spec_def by (intro min_absorb1) linarith
qed

lemma second_bounds: "0 < second" "second < 2 ^ 62" by (simp_all add: duration_defs)

lemma backoff_eq:
  assumes "0 < maximum" "maximum \<le> 2 ^ 62"
  shows "retryBackoffDuration n maximum = backoff_spec n maximum"
proof -
  have count: "(if n < 1 then 1 else n) = max 1 n" by simp
  have "retryBackoffDuration n maximum = double_loop (nat (max 1 n - 1)) maximum second"
    unfolding retryBackoffDuration_def count using assms(1) by (simp only: if_False not_le [symmetric] simp_thms)
  also have "\<dots> = backoff_spec n maximum"
  proof (cases "second < maximum")
    case True
    then show ?thesis unfolding backoff_spec_def by (rule double_loop_eq [OF second_bounds(1) _ assms(2)])
  next
    case False
    then have "maximum \<le> second" by simp
    then show ?thesis by (simp only: backoff_spec_small double_loop_start [OF _ second_bounds])
  qed
  finally show ?thesis .
qed

text \<open>
  C29: the retry delay is the capped exponential: for every configured maximum up to half the range of
  64-bit nanoseconds, the delay after the \<open>n\<close>-th retry is the smaller of the maximum and
  \<open>2 ^ (n - 1)\<close> seconds (one second for a count below one), so it stays positive, never exceeds the
  maximum, and the doubling never overflows.
\<close>

theorem backoff_is_capped_exponential:
  assumes "0 < maximum" "maximum \<le> 2 ^ 62"
  shows "retryBackoffDuration n maximum = min maximum (second * 2 ^ nat (max 1 n - 1))
    \<and> 0 < retryBackoffDuration n maximum \<and> retryBackoffDuration n maximum \<le> maximum"
proof -
  have "0 < second * 2 ^ nat (max 1 n - 1)" using second_bounds(1) by simp
  then show ?thesis unfolding backoff_eq [OF assms] backoff_spec_def using assms(1) by (simp only: min_less_iff_conj min.cobounded1 simp_thms)
qed

theorem backoff_is_capped_exponential_witness:
  "retryBackoffDuration 5 (300 * second) = 16 * second \<and> retryBackoffDuration 40 (300 * second) = 300 * second"
proof -
  have m: "0 < 300 * second" "300 * second \<le> 2 ^ 62" by (simp_all add: duration_defs)
  show ?thesis using backoff_is_capped_exponential [OF m, of 5] backoff_is_capped_exponential [OF m, of 40]
    by (simp add: duration_defs)
qed

section \<open>Selecting writes nothing but events\<close>

definition no_events :: "db \<Rightarrow> db" where
  "no_events db = db\<lparr>db_events := [], db_event_seq := 0\<rparr>"

definition same_view :: "db option \<Rightarrow> db option \<Rightarrow> bool" where
  "same_view store store' \<longleftrightarrow> map_option no_events store = map_option no_events store'"

lemma same_view_refl [simp]: "same_view store store" by (simp add: same_view_def)

lemma same_view_trans: "same_view a b \<Longrightarrow> same_view b c \<Longrightarrow> same_view a c" by (simp add: same_view_def)

lemma appendEvent_view: "no_events (snd (appendEvent env i db)) = no_events db"
  by (simp add: appendEvent_def insert_event_def no_events_def Let_def split: sum.split)

lemma emit_view: "same_view (emitCandidateEventContext env now t c p store) store"
  by (cases store) (simp_all add: emitCandidateEventContext_def same_view_def appendEvent_view)

lemma no_events_rows:
  "db_attempts (no_events db) = db_attempts db" "db_pr_mappings (no_events db) = db_pr_mappings db"
  "db_reviews (no_events db) = db_reviews db" "db_feedback (no_events db) = db_feedback db"
  "db_retries (no_events db) = db_retries db" "db_outcomes (no_events db) = db_outcomes db"
  "db_cleanups (no_events db) = db_cleanups db" "db_tasks (no_events db) = db_tasks db"
  "db_leases (no_events db) = db_leases db"
  by (simp_all add: no_events_def)

lemma no_events_facts: "ReadReconciliationFacts key (no_events db) = ReadReconciliationFacts key db"
  by (simp only: ReadReconciliationFacts_def latest_attempt_def no_events_rows)

lemma no_events_reads:
  "ReadReconciliationFacts key (no_events db) = ReadReconciliationFacts key db"
  "WorkerTasks role (no_events db) = WorkerTasks role db" "store_reader (no_events db) = store_reader db"
  by (simp_all only: no_events_facts WorkerTasks_def store_reader_def ReadLease_def no_events_rows)

definition eligible :: "selection \<Rightarrow> (string \<Rightarrow> PullRequestSummary option) \<Rightarrow> db option \<Rightarrow> Issue \<Rightarrow> bool" where
  "eligible s prs store c \<longleftrightarrow>
     (let d = reconcileCandidateForSelectionContext s c (prs (is_Identifier c)) store;
          retry = retryBackoffDecision store c (se_config s) (se_maxBackoff s) (re_now (se_env s)) in
      \<not> skip_review_ready s c (prs (is_Identifier c)) store
      \<and> hasActiveImplementationWorkerTask store (is_Identifier c) = Inr False
      \<and> \<not> retry_closed store d retry \<and> \<not> label_blocked d \<and> selectable d retry)"

lemma reads_no_events:
  "hasActiveImplementationWorkerTask (map_option no_events store) key = hasActiveImplementationWorkerTask store key"
  "reconcileCandidateForSelectionContext s c p (map_option no_events store) = reconcileCandidateForSelectionContext s c p store"
  "retryBackoffDecision (map_option no_events store) c config m now = retryBackoffDecision store c config m now"
  "retry_closed (map_option no_events store) d r = retry_closed store d r"
  "skip_review_ready s c p (map_option no_events store) = skip_review_ready s c p store"
proof -
  show r: "reconcileCandidateForSelectionContext s c p (map_option no_events store) = reconcileCandidateForSelectionContext s c p store"
    by (simp add: reconcileCandidateForSelectionContext_def option.map_comp comp_def no_events_reads)
  show "skip_review_ready s c p (map_option no_events store) = skip_review_ready s c p store"
    by (simp only: skip_review_ready_def r)
  show "hasActiveImplementationWorkerTask (map_option no_events store) key = hasActiveImplementationWorkerTask store key"
    "retryBackoffDecision (map_option no_events store) c config m now = retryBackoffDecision store c config m now"
    "retry_closed (map_option no_events store) d r = retry_closed store d r"
    by (cases store; simp only: hasActiveImplementationWorkerTask_def hasActiveWorkerTask_def retryBackoffDecision_def
        retry_closed_def option.map option.case prod.case no_events_reads)+
qed

lemma eligible_no_events: "eligible s prs (map_option no_events store) c = eligible s prs store c"
  by (simp only: eligible_def reads_no_events)

lemma same_view_reads:
  assumes "same_view store store'"
  shows "eligible s prs store c = eligible s prs store' c"
    "hasActiveImplementationWorkerTask store key = hasActiveImplementationWorkerTask store' key"
  using assms eligible_no_events [of s prs store c] eligible_no_events [of s prs store' c]
    reads_no_events(1) [of store key] reads_no_events(1) [of store' key]
  by (simp_all add: same_view_def)

definition ready_eligible :: "selection \<Rightarrow> (string \<Rightarrow> PullRequestSummary option) \<Rightarrow> db option \<Rightarrow> Issue \<Rightarrow> bool" where
  "ready_eligible s prs store c \<longleftrightarrow> is_StateName c = rc_ReadyState (se_config s) \<and> eligible s prs store c"

section \<open>One candidate\<close>

lemma skip_split:
  "skipCandidateForSelectionOptionsContext s c p store = (True, store1) \<Longrightarrow> skip_review_ready s c p store \<and> same_view store1 store"
  "skipCandidateForSelectionOptionsContext s c p store = (False, store1) \<Longrightarrow> \<not> skip_review_ready s c p store \<and> store1 = store"
  by (auto simp: skipCandidateForSelectionOptionsContext_def emit_view split: if_splits)

lemma emit_skipped_view: "same_view (emit_skipped s c p store) store"
  by (simp add: emit_skipped_def emit_view)

lemma emit_selected_view: "same_view (emit_selected s c store) store"
  by (simp add: emit_selected_def emit_view)

lemma first_pass_cases:
  obtains (failed) e where "hasActiveImplementationWorkerTask store (is_Identifier c) = Inl e"
      "first_pass s prs (c # cs) b store = (ChoiceError (store_error_text e), b, store)"
  | (selected) "ready_eligible s prs store c"
      "first_pass s prs (c # cs) b store = (Chosen c (prs (is_Identifier c)), b, emit_selected s c store)"
  | (passed) b' store' where "\<not> ready_eligible s prs store c" "same_view store' store"
      "first_pass s prs (c # cs) b store = first_pass s prs cs b' store'"
proof (cases "skipCandidateForSelectionOptionsContext s c (prs (is_Identifier c)) store")
  case (Pair skip store1)
  show ?thesis
  proof (cases skip)
    case True
    then show ?thesis using passed [of store1 b] skip_split(1) [of s c _ store store1] Pair
      by (simp add: ready_eligible_def eligible_def Let_def)
  next
    case False
    then have s: "\<not> skip_review_ready s c (prs (is_Identifier c)) store" "store1 = store"
      using skip_split(2) [of s c _ store store1] Pair by auto
    have skip: "skip = False" using False by simp
    define d where "d = reconcileCandidateForSelectionContext s c (prs (is_Identifier c)) store"
    define retry where "retry = retryBackoffDecision store c (se_config s) (se_maxBackoff s) (re_now (se_env s))"
    define active where "active = hasActiveImplementationWorkerTask store (is_Identifier c)"
    note eq = first_pass.simps(2) [of s prs c cs b store] Pair skip s(2) prod.case bool.case Let_def
        d_def [symmetric] retry_def [symmetric] active_def [symmetric]
    note el = ready_eligible_def eligible_def Let_def d_def [symmetric] retry_def [symmetric] active_def [symmetric]
    consider e where "active = Inl e" | "active = Inr True" | "active = Inr False"
      by (metis (full_types) sum.exhaust)
    then show ?thesis
    proof cases
      case 1
      show ?thesis by (rule failed [of e]) (simp_all only: eq 1 sum.case active_def [symmetric] bool.case)
    next
      case 2
      then show ?thesis using passed [OF _ emit_skipped_view] unfolding eq el by simp
    next
      case 3
      consider "retry_closed store d retry" | "\<not> retry_closed store d retry" "label_blocked d"
        | "\<not> retry_closed store d retry" "\<not> label_blocked d" "is_StateName c = rc_ReadyState (se_config s) \<and> selectable d retry"
        | "\<not> retry_closed store d retry" "\<not> label_blocked d" "\<not> (is_StateName c = rc_ReadyState (se_config s) \<and> selectable d retry)"
        by blast
      then show ?thesis
      proof cases
        case 1
        then show ?thesis using 3 passed [OF _ emit_skipped_view] unfolding eq el by simp
      next
        case 2
        then show ?thesis using 3 passed [OF _ emit_skipped_view] unfolding eq el by simp
      next
        case 3
        then show ?thesis using s(1) \<open>active = Inr False\<close> selected unfolding eq el by simp
      next
        case 4
        then show ?thesis using 3 passed [of store b] passed [OF _ emit_skipped_view] unfolding eq el
          by (cases "de_CanRun d"; cases "selectable d retry") simp_all
      qed
    qed
  qed
qed

lemma second_pass_cases:
  obtains (failed) e where "hasActiveImplementationWorkerTask store (is_Identifier c) = Inl e"
      "second_pass s prs (c # cs) store = (ChoiceError (store_error_text e), store)"
  | (selected) "eligible s prs store c"
      "second_pass s prs (c # cs) store = (Chosen c (prs (is_Identifier c)), emit_selected s c store)"
  | (passed) store' where "\<not> eligible s prs store c" "same_view store' store"
      "second_pass s prs (c # cs) store = second_pass s prs cs store'"
proof (cases "skipCandidateForSelectionOptionsContext s c (prs (is_Identifier c)) store")
  case (Pair skip store1)
  show ?thesis
  proof (cases skip)
    case True
    then show ?thesis using passed [of store1] skip_split(1) [of s c _ store store1] Pair
      by (simp add: eligible_def Let_def)
  next
    case False
    then have s: "\<not> skip_review_ready s c (prs (is_Identifier c)) store" "store1 = store"
      using skip_split(2) [of s c _ store store1] Pair by auto
    have skip: "skip = False" using False by simp
    define d where "d = reconcileCandidateForSelectionContext s c (prs (is_Identifier c)) store"
    define retry where "retry = retryBackoffDecision store c (se_config s) (se_maxBackoff s) (re_now (se_env s))"
    define active where "active = hasActiveImplementationWorkerTask store (is_Identifier c)"
    note eq = second_pass.simps(2) [of s prs c cs store] Pair skip s(2) prod.case bool.case Let_def
        d_def [symmetric] retry_def [symmetric] active_def [symmetric]
    note el = eligible_def Let_def d_def [symmetric] retry_def [symmetric] active_def [symmetric]
    consider e where "active = Inl e" | "active = Inr True" | "active = Inr False"
      by (metis (full_types) sum.exhaust)
    then show ?thesis
    proof cases
      case 1
      show ?thesis by (rule failed [of e]) (simp_all only: eq 1 sum.case active_def [symmetric] bool.case)
    next
      case 2
      then show ?thesis using passed [of store] unfolding eq el by simp
    next
      case 3
      then show ?thesis using s(1) selected passed [of store] unfolding eq el
        by (cases "retry_closed store d retry \<or> label_blocked d"; cases "selectable d retry") simp_all
    qed
  qed
qed

section \<open>The whole selection\<close>

definition tasks_readable :: "db option \<Rightarrow> bool" where
  "tasks_readable store \<longleftrightarrow> (case store of None \<Rightarrow> True | Some db \<Rightarrow> (case WorkerTasks RoleImplementation db of Inl e \<Rightarrow> False | Inr ts \<Rightarrow> True))"

lemma readable_active: "tasks_readable store \<Longrightarrow> hasActiveImplementationWorkerTask store key \<noteq> Inl e"
  by (auto simp: tasks_readable_def hasActiveImplementationWorkerTask_def hasActiveWorkerTask_def split: option.splits sum.splits)

lemma readable_view: "same_view store store' \<Longrightarrow> tasks_readable store = tasks_readable store'"
  using no_events_reads(2)
  by (cases store; cases store') (simp_all add: same_view_def tasks_readable_def, metis)

definition found :: "(string \<Rightarrow> PullRequestSummary option) \<Rightarrow> Issue option \<Rightarrow> choice" where
  "found prs c = (case c of None \<Rightarrow> NoChoice | Some c \<Rightarrow> Chosen c (prs (is_Identifier c)))"

lemma first_pass_find:
  "tasks_readable store \<Longrightarrow> fst (first_pass s prs cs b store) = found prs (find (ready_eligible s prs store) cs)"proof (induction cs arbitrary: b store)
  case (Cons c cs)
  show ?case
  proof (cases rule: first_pass_cases [where store = store and c = c and s = s and prs = prs and cs = cs and b = b])
    case (failed e)
    then show ?thesis using readable_active [OF Cons.prems] by simp
  next
    case selected
    then show ?thesis by (simp add: found_def emit_selected_view)
  next
    case (passed b' store')
    have "ready_eligible s prs store' = ready_eligible s prs store"
      by (simp add: fun_eq_iff ready_eligible_def same_view_reads(1) [OF passed(2)])
    with Cons.IH [of store' b'] Cons.prems readable_view [OF passed(2)] same_view_trans [OF _ passed(2)] passed(1,3)
    show ?thesis by simp
  qed
qed (simp add: found_def)

lemma second_pass_find:
  "tasks_readable store \<Longrightarrow> fst (second_pass s prs cs store) = found prs (find (eligible s prs store) cs)"
proof (induction cs arbitrary: store)
  case (Cons c cs)
  show ?case
  proof (cases rule: second_pass_cases [where store = store and c = c and s = s and prs = prs and cs = cs])
    case (failed e)
    then show ?thesis using readable_active [OF Cons.prems] by simp
  next
    case selected
    then show ?thesis by (simp add: found_def)
  next
    case (passed store')
    have "eligible s prs store' = eligible s prs store"
      by (simp add: fun_eq_iff same_view_reads(1) [OF passed(2)])
    with Cons.IH [of store'] Cons.prems readable_view [OF passed(2)] passed(1,3) show ?thesis by simp
  qed
qed (simp add: found_def)

text \<open>Ready candidates come first, so the first eligible one is Ready when one is.\<close>

lemma find_first_group:
  assumes "sorted_wrt (\<lambda>a b. if R b then R a else True) xs"
  shows "find (\<lambda>x. R x \<and> P x) xs = None \<or> find (\<lambda>x. R x \<and> P x) xs = find P xs"
  using assms
proof (induction xs)
  case (Cons x xs)
  show ?case
  proof (cases "P x")
    case True
    show ?thesis
    proof (cases "R x")
      case False
      then have "\<not> R y" if "y \<in> set xs" for y using Cons.prems that by (auto split: if_splits)
      then have "find (\<lambda>x. R x \<and> P x) xs = None" by (auto simp: find_None_iff)
      then show ?thesis using True False by simp
    qed (simp add: True)
  next
    case False
    then show ?thesis using Cons by simp
  qed
qed simp

lemma first_pass_view: "same_view (snd (snd (first_pass s prs cs b store))) store"
proof (induction cs arbitrary: b store)
  case (Cons c cs)
  show ?case
  proof (cases rule: first_pass_cases [where store = store and c = c and s = s and prs = prs and cs = cs and b = b])
    case (passed b' store')
    then show ?thesis using same_view_trans [OF Cons.IH passed(2)] by simp
  qed (simp_all add: emit_selected_view)
qed simp

definition chosen_from ::
    "selection \<Rightarrow> (string \<Rightarrow> PullRequestSummary option) \<Rightarrow> Issue list \<Rightarrow> db option \<Rightarrow> choice \<Rightarrow> bool" where
  "chosen_from s prs cs store x \<longleftrightarrow>
     (case x of Chosen c p \<Rightarrow> c \<in> set cs \<and> p = prs (is_Identifier c) \<and> eligible s prs store c | _ \<Rightarrow> True)"

lemma chosen_from_mono:
  "chosen_from s prs cs store' x \<Longrightarrow> same_view store' store \<Longrightarrow> chosen_from s prs (c # cs) store x"
  by (auto simp: chosen_from_def same_view_reads(1) split: choice.split)

lemma first_pass_chosen: "chosen_from s prs cs store (fst (first_pass s prs cs b store))"
proof (induction cs arbitrary: b store)
  case (Cons c cs)
  show ?case
  proof (cases rule: first_pass_cases [where store = store and c = c and s = s and prs = prs and cs = cs and b = b])
    case (passed b' store')
    then show ?thesis using chosen_from_mono [OF Cons.IH passed(2)] by simp
  qed (simp_all add: chosen_from_def ready_eligible_def)
qed (simp add: chosen_from_def)

lemma second_pass_chosen: "chosen_from s prs cs store (fst (second_pass s prs cs store))"
proof (induction cs arbitrary: store)
  case (Cons c cs)
  show ?case
  proof (cases rule: second_pass_cases [where store = store and c = c and s = s and prs = prs and cs = cs])
    case (passed store')
    then show ?thesis using chosen_from_mono [OF Cons.IH passed(2)] by simp
  qed (simp_all add: chosen_from_def)
qed (simp add: chosen_from_def)

text \<open>The two passes of a selection.\<close>

definition two_passes ::
    "selection \<Rightarrow> (string \<Rightarrow> PullRequestSummary option) \<Rightarrow> Issue list \<Rightarrow> db option \<Rightarrow> choice" where
  "two_passes s byIssue cs store =
     (case first_pass s byIssue cs 0 store of
        (NoChoice, blocked, store1) \<Rightarrow> fst (second_pass s byIssue cs store1)
      | (c, blocked, store1) \<Rightarrow> c)"

lemma nextRunnable_passes:
  "fst (nextRunnableCandidateWithOptionsContext s (Inr cs) (Inr prs) store) =
     two_passes s (indexPRsByIssue (amPRs prs)) (orderCandidates cs (rc_ReadyState (se_config s))) store"
  by (cases cs)
    (simp_all add: nextRunnableCandidateWithOptionsContext_def two_passes_def orderCandidates_def Let_def
      split: prod.split choice.split)

lemma two_passes_chosen: "chosen_from s prs cs store (two_passes s prs cs store)"
proof -
  obtain c b store1 where r: "first_pass s prs cs 0 store = (c, b, store1)" by (metis prod.exhaust)
  have "same_view store1 store" using first_pass_view [of s prs cs 0 store] r by simp
  moreover have "chosen_from s prs cs store c" using first_pass_chosen [of s prs cs store 0] r by simp
  ultimately show ?thesis
    using second_pass_chosen [of s prs cs store1]
    by (cases c) (auto simp: two_passes_def r chosen_from_def same_view_reads(1) split: choice.splits)
qed

lemma two_passes_find:
  assumes "tasks_readable store" "sorted_wrt (\<lambda>a b. if is_StateName b = rc_ReadyState (se_config s)
      then is_StateName a = rc_ReadyState (se_config s) else True) cs"
  shows "two_passes s prs cs store = found prs (find (eligible s prs store) cs)"
proof -
  obtain c b store1 where r: "first_pass s prs cs 0 store = (c, b, store1)" by (metis prod.exhaust)
  have v: "same_view store1 store" using first_pass_view [of s prs cs 0 store] r by simp
  have "eligible s prs store1 = eligible s prs store" by (simp add: fun_eq_iff same_view_reads(1) [OF v])
  then have two: "fst (second_pass s prs cs store1) = found prs (find (eligible s prs store) cs)"
    using second_pass_find [of store1 s prs cs] readable_view [OF v] assms(1) by simp
  have c: "c = found prs (find (ready_eligible s prs store) cs)"
    using first_pass_find [OF assms(1), of s prs cs 0] r by simp
  from find_first_group [OF assms(2), of "eligible s prs store"] show ?thesis
  proof
    assume "find (\<lambda>x. is_StateName x = rc_ReadyState (se_config s) \<and> eligible s prs store x) cs = None"
    then have "c = NoChoice" unfolding c ready_eligible_def [abs_def] by (simp add: found_def)
    then show ?thesis by (simp add: two_passes_def r two)
  next
    assume "find (\<lambda>x. is_StateName x = rc_ReadyState (se_config s) \<and> eligible s prs store x) cs = find (eligible s prs store) cs"
    then have "c = found prs (find (eligible s prs store) cs)" unfolding c ready_eligible_def [abs_def] by simp
    then show ?thesis by (auto simp: two_passes_def r two split: choice.split)
  qed
qed

text \<open>
  C27: the two passes of a selection find the best candidate.  While the task queue can be read, an
  issue is selected exactly as a single search over the ordered candidates would select it: the first
  one whose review is not left to the review worker, that has no active implementation task, that its
  retry gate lets through, that no label blocks, and that is runnable.  The events the first pass
  writes change nothing of it.
\<close>

theorem selection_is_first_eligible:
  assumes "tasks_readable store"
  shows "fst (nextRunnableCandidateWithOptionsContext s (Inr cs) (Inr prs) store) =
     (case find (eligible s (indexPRsByIssue (amPRs prs)) store) (orderCandidates cs (rc_ReadyState (se_config s))) of
        None \<Rightarrow> NoChoice
      | Some c \<Rightarrow> Chosen c (indexPRsByIssue (amPRs prs) (is_Identifier c)))"
  unfolding nextRunnable_passes two_passes_find [OF assms ready_first] found_def ..

definition sample_selection :: selection where
  "sample_selection = \<lparr>se_store_env = test_env, se_env = ready_env, se_config = ready_config, se_maxBackoff = 300 * second,
     se_skipReviewReady = False\<rparr>"

definition sample_issues :: "Issue list" where
  "sample_issues = [ready_issue\<lparr>is_StateName := ''In Progress''\<rparr>, new_issue]"

theorem selection_is_first_eligible_witness:
  "fst (nextRunnableCandidateWithOptionsContext sample_selection (Inr sample_issues) (Inr []) None) = Chosen new_issue None"
proof -
  have "find (eligible sample_selection (indexPRsByIssue (amPRs [])) None)
      (orderCandidates sample_issues (rc_ReadyState (se_config sample_selection))) = Some new_issue"
    "indexPRsByIssue (amPRs []) (is_Identifier new_issue) = None"
    by code_simp+
  then show ?thesis using selection_is_first_eligible [of None sample_selection sample_issues "[]"]
    by (simp add: tasks_readable_def)
qed

section \<open>What a selected issue may be\<close>

text \<open>The next action of every guard of a reconciliation.\<close>

definition guard_actions :: "string list" where
  "guard_actions = [''retry_when_worker_context_active'', ''operator_unblock_issue'', ''wait_for_or_clear_run_lock'',
     ''repair_sqlite_state_store'', ''wait_for_or_release_run_lease'', ''repair_artifact_or_sqlite_state'',
     ''answer_questions_then_move_ready'', ''cleanup_workspace'']"

definition guarded :: "ReconciliationDecision \<Rightarrow> bool" where
  "guarded d \<longleftrightarrow> \<not> de_CanRun d \<and> de_NextAction d \<in> set guard_actions"

lemma guarded_block: "n \<in> set guard_actions \<Longrightarrow> guarded (block_decision l r n d)"
  by (simp add: guarded_def)

lemma guard_action_mems:
  "''retry_when_worker_context_active'' \<in> set guard_actions" "''operator_unblock_issue'' \<in> set guard_actions"
  "''wait_for_or_clear_run_lock'' \<in> set guard_actions" "''repair_sqlite_state_store'' \<in> set guard_actions"
  "''wait_for_or_release_run_lease'' \<in> set guard_actions" "''repair_artifact_or_sqlite_state'' \<in> set guard_actions"
  "''answer_questions_then_move_ready'' \<in> set guard_actions" "''cleanup_workspace'' \<in> set guard_actions"
  unfolding guard_actions_def by simp_all

lemma not_guard_actions:
  "''reconcile_linear_state'' \<notin> set guard_actions" "''operator_repair_or_clear_artifact'' \<notin> set guard_actions"
  "repairReviewFindingsNextAction \<notin> set guard_actions"
  unfolding guard_actions_def repairReviewFindingsNextAction_def by simp_all

lemma reconcile_guarded:
  assumes "\<not> guards_open env reader config candidate pr artifact"
  shows "guarded (ReconcileIssueWithArtifactContext env reader config candidate pr artifact)"
proof -
  define g where "g = gather_facts env reader config candidate pr artifact"
  define lease where "lease = activeRunLease reader (is_Identifier candidate) (re_now env)"
  note defs = ReconcileIssueWithArtifactContext_def guards_open_def Let_def g_def [symmetric] lease_def [symmetric]
  note block = guarded_block [OF guard_action_mems(1)] guarded_block [OF guard_action_mems(2)]
    guarded_block [OF guard_action_mems(3)] guarded_block [OF guard_action_mems(4)] guarded_block [OF guard_action_mems(5)]
    guarded_block [OF guard_action_mems(6)] guarded_block [OF guard_action_mems(7)] guarded_block [OF guard_action_mems(8)]
  show ?thesis
  proof (cases "re_ctx_err env = None \<and> de_StateStoreError (ga_decision g) = None \<and> lease = Inr False")
    case True
    then show ?thesis using assms unfolding defs by (simp add: block) blast
  next
    case False
    then show ?thesis unfolding defs
      by (cases "re_ctx_err env"; cases "de_StateStoreError (ga_decision g)"; cases lease) (simp_all add: block)
  qed
qed

lemma guarded_not_selectable:
  assumes "guarded d"
  shows "\<not> selectable (decisionWithRepairableReviewFailedPR env config c p d) retry"
proof -
  have n: "de_NextAction d \<noteq> ''reconcile_linear_state''" "de_NextAction d \<noteq> repairReviewFindingsNextAction"
    "de_NextAction d \<noteq> ''operator_repair_or_clear_artifact''"
    using assms not_guard_actions by (metis guarded_def)+
  have "\<not> repairableReviewFailedPR env config c p d"
    unfolding repairableReviewFailedPR_def by (cases p) (simp_all only: n option.case simp_thms if_True if_cancel)
  moreover have "\<not> retryBackoffOverridesTerminalBlock d retry"
    unfolding retryBackoffOverridesTerminalBlock_def
    by (cases retry; cases "de_RunRecord d") (simp_all only: n option.case prod.case simp_thms if_True if_cancel)
  ultimately have "decisionWithRepairableReviewFailedPR env config c p d = d" "\<not> retryBackoffOverridesTerminalBlock d retry"
    unfolding decisionWithRepairableReviewFailedPR_def by (simp_all only: simp_thms if_True)
  then show ?thesis using assms by (simp add: selectable_def guarded_def)
qed

text \<open>
  C28: a selected issue is free to run.  It is one of the candidates, comes with the open pull request
  of its branch, carries no blocking label, is neither done nor waiting for information, holds no run
  lock and no run lease, and has no implementation task queued or claimed, and its retry is not being
  held back, unless it repairs a pull request.
\<close>

theorem selected_issue_is_free:
  assumes "fst (nextRunnableCandidateWithOptionsContext s (Inr cs) (Inr prs) store) = Chosen c p"
  shows "c \<in> set cs \<and> p = indexPRsByIssue (amPRs prs) (is_Identifier c) \<and> \<not> isBlockedCandidate c
    \<and> is_StateName c \<noteq> rc_DoneState (se_config s) \<and> is_StateName c \<noteq> rc_NeedsInfoState (se_config s)
    \<and> \<not> HasLock (re_fs (se_env s)) (join2 (rc_WorkspaceRoot (se_config s)) (is_Identifier c))
    \<and> run_lease_free (map_option store_reader store) (is_Identifier c) (re_now (se_env s))
    \<and> hasActiveImplementationWorkerTask store (is_Identifier c) = Inr False
    \<and> \<not> retry_closed store (reconcileCandidateForSelectionContext s c p store)
        (retryBackoffDecision store c (se_config s) (se_maxBackoff s) (re_now (se_env s)))"
proof -
  let ?prs = "indexPRsByIssue (amPRs prs)"
  have "chosen_from s ?prs (orderCandidates cs (rc_ReadyState (se_config s))) store (Chosen c p)"
    using two_passes_chosen [of s ?prs "orderCandidates cs (rc_ReadyState (se_config s))" store] assms
    by (simp add: nextRunnable_passes)
  then have c: "c \<in> set cs" "p = ?prs (is_Identifier c)" and e: "eligible s ?prs store c"
    by (simp_all add: chosen_from_def orderCandidates_def)
  have "guards_open (se_env s) (map_option store_reader store) (se_config s) c p None"
  proof (rule ccontr)
    assume "\<not> guards_open (se_env s) (map_option store_reader store) (se_config s) c p None"
    from guarded_not_selectable [OF reconcile_guarded [OF this]] e show False
      unfolding eligible_def reconcileCandidateForSelectionContext_def Let_def c(2) [symmetric] by blast
  qed
  with e show ?thesis
    unfolding guards_open_def activeRunLease_free [symmetric] eligible_def Let_def c(2) [symmetric] using c by simp
qed

lemma sample_chosen:
  "fst (nextRunnableCandidateWithOptionsContext sample_selection (Inr sample_issues) (Inr []) None) = Chosen new_issue None"
  by code_simp

theorem selected_issue_is_free_witness:
  "new_issue \<in> set sample_issues \<and> \<not> isBlockedCandidate new_issue \<and> run_lease_free None (is_Identifier new_issue) 5"
  using selected_issue_is_free [OF sample_chosen] by (simp add: sample_selection_def ready_env_def)

section \<open>What a recorded attempt means for the next selection\<close>

definition recorded_next_state :: "string \<Rightarrow> int \<Rightarrow> db \<Rightarrow> string" where
  "recorded_next_state key n db =
     (case lookup attempt_key (key, n) (db_attempts db) of
        None \<Rightarrow> []
      | Some a \<Rightarrow> col rd_next_state [] (lookup rd_attempt_id (ar_id a) (db_retries db)))"

text \<open>The retry row of an attempt is the one of its key: a new attempt has none.\<close>

lemma retry_row_before:
  assumes ok: "attempts_ok db"
    and a: "lookup attempt_key (at_IssueKey r, at_Attempt r) (db_attempts (upsert_attempt r now db)) = Some a"
  shows "col f z (lookup rd_attempt_id (ar_id a) (db_retries db)) =
    (case lookup attempt_key (at_IssueKey r, at_Attempt r) (db_attempts db) of
       None \<Rightarrow> z | Some b \<Rightarrow> col f z (lookup rd_attempt_id (ar_id b) (db_retries db)))"
proof -
  have rows: "attempt_rows_ok (db_attempts db)" using ok by (simp add: attempts_ok_def)
  show ?thesis
  proof (cases "lookup attempt_key (at_IssueKey r, at_Attempt r) (db_attempts db)")
    case None
    have "ar_id a = next_attempt_id (db_attempts db)"
      using a unfolding upsert_attempt_row [OF rows] None by (auto simp: attempt_row_def)
    then have "ar_id a \<notin> attempt_ids db"
      using next_attempt_id_fresh [of _ "db_attempts db"] by (fastforce simp: attempt_ids_def)
    then have "lookup rd_attempt_id (ar_id a) (db_retries db) = None"
      using ok by (auto simp: attempts_ok_def refs_ok_def lookup_None_iff)
    then show ?thesis by (simp add: None col_def)
  next
    case (Some old)
    have "ar_id a = ar_id old"
      using a unfolding upsert_attempt_row [OF rows] Some by (auto simp: merge_attempt_def)
    then show ?thesis by (simp add: Some)
  qed
qed

text \<open>A result of the newest attempt of an issue that reconciliation can read back.\<close>

definition newest_result :: "store_env \<Rightarrow> db \<Rightarrow> AttemptResult \<Rightarrow> bool" where
  "newest_result env db r \<longleftrightarrow> attempts_ok db \<and> retries_readable db \<and> rfc_time (now_or_clock env (at_UpdatedAt r))
     \<and> newest_attempt (at_IssueKey r) (at_Attempt (default_attempt r)) db \<and> at_IssueKey r \<noteq> []"

definition retries_after :: "AttemptResult \<Rightarrow> db \<Rightarrow> int" where
  "retries_after r db =
     (if 0 < at_RetryCount r then at_RetryCount r
      else recorded_retries (at_IssueKey r) (at_Attempt (default_attempt r)) db + 1)"

lemma result_facts:
  assumes "newest_result env db result"
  shows "\<exists>f. ReadReconciliationFacts (at_IssueKey result) (snd (UpsertAttemptResult env result db)) = Inr (Some f)
     \<and> (if retry_given result
        then rf_RetryNextState f = at_RetryNextState result \<and> rf_RetryCount f = retries_after result db
           \<and> rf_RetryDecidedAt f = now_or_clock env (at_UpdatedAt result)
        else rf_RetryNextState f = recorded_next_state (at_IssueKey result) (at_Attempt (default_attempt result)) db)"
proof -
  let ?r = "default_attempt result" and ?now = "now_or_clock env (at_UpdatedAt result)"
  note ok = assms [unfolded newest_result_def]
  from UpsertAttemptResult_eq [of db result env] ok obtain a :: AttemptRow and evs
    where a: "lookup attempt_key (at_IssueKey ?r, at_Attempt ?r) (db_attempts (upsert_attempt ?r ?now db)) = Some a"
      and eq: "UpsertAttemptResult env result db =
        (Inr (), append_best_effort env evs (write_all ?r ?now (ar_id a) (upsert_attempt ?r ?now db)))"
    by blast
  have fields_eq: "at_RetryCount ?r = at_RetryCount result" "retry_given ?r = retry_given result"
    "at_RetryNextState ?r = at_RetryNextState result"
    by (simp_all add: default_attempt_def retry_given_def)
  have count: "retry_count_of ?r (ar_id a) (db_retries db) = retries_after result db"
    using retries_before [of db ?r ?now a] ok a
    by (auto simp: retry_count_of_def col_def fields_eq retries_after_def split: option.splits)
  have next_state: "col rd_next_state [] (lookup rd_attempt_id (ar_id a) (db_retries db)) =
      recorded_next_state (at_IssueKey result) (at_Attempt ?r) db"
    using retry_row_before [of db ?r ?now a rd_next_state "[]"] ok a by (simp add: recorded_next_state_def)
  from read_after_write [of db ?now ?r a env evs] ok a obtain f
    where f: "ReadReconciliationFacts (at_IssueKey result) (snd (UpsertAttemptResult env result db)) = Inr (Some f)"
      "result_read_back ?r ?now f" "retry_read_back ?r (ar_id a) db f"
    unfolding eq snd_conv default_attempt_IssueKey by blast
  then show ?thesis
    unfolding retry_read_back_def result_read_back_def fields_eq count next_state by auto
qed

text \<open>After the result the next one of the same attempt is the newest one again.\<close>

lemma retries_readable_write_all:
  "retries_readable db \<Longrightarrow> rfc_time now \<Longrightarrow> retries_readable (write_all r now i db)"
  using parse_format_time [of now]
  by (auto simp: retries_readable_def write_all_def write_pr_def write_review_def write_feedback_def write_retry_def
      write_outcome_def sql_delete_def retry_row_def list_all_iff)

lemma result_written:
  assumes "newest_result env db r"
  defines "db' \<equiv> snd (UpsertAttemptResult env r db)"
  shows "attempts_ok db'" "retries_readable db'" "newest_attempt (at_IssueKey r) (at_Attempt (default_attempt r)) db'"
    "retry_given r \<Longrightarrow> recorded_next_state (at_IssueKey r) (at_Attempt (default_attempt r)) db' = at_RetryNextState r"
proof -
  let ?r = "default_attempt r" and ?now = "now_or_clock env (at_UpdatedAt r)"
  let ?D = "upsert_attempt ?r ?now db"
  note ok = assms(1) [unfolded newest_result_def]
  show "attempts_ok db'" unfolding db'_def using ok UpsertAttemptResult_ok by blast
  from UpsertAttemptResult_eq [of db r env] ok obtain a :: AttemptRow and evs
    where a: "lookup attempt_key (at_IssueKey ?r, at_Attempt ?r) (db_attempts ?D) = Some a"
      and eq: "UpsertAttemptResult env r db = (Inr (), append_best_effort env evs (write_all ?r ?now (ar_id a) ?D))"
    by blast
  have okD: "attempts_ok ?D" using ok upsert_attempt_ok by blast
  note row = write_all_rows [OF okD, where aid = "ar_id a" and r = ?r and now = ?now]
  have "retries_readable ?D" using ok by (simp add: retries_readable_def)
  with ok have "retries_readable (write_all ?r ?now (ar_id a) ?D)" by (blast intro: retries_readable_write_all)
  then show "retries_readable db'" unfolding db'_def eq by (simp add: retries_readable_def)
  have "attempt_key ` set (db_attempts ?D) \<subseteq> insert (at_IssueKey r, at_Attempt ?r) (attempt_key ` set (db_attempts db))"
    using attempts.keys_upsert [of "attempt_row ?r ?now (next_attempt_id (db_attempts db))" "db_attempts db"]
    by (auto simp: upsert_attempt_def)
  then have "ar_issue_key b = at_IssueKey r \<Longrightarrow> ar_attempt b \<le> at_Attempt ?r" if "b \<in> set (db_attempts ?D)" for b
    using that ok by (fastforce simp: newest_attempt_def list_all_iff attempt_key_def)
  then show "newest_attempt (at_IssueKey r) (at_Attempt ?r) db'"
    unfolding db'_def eq newest_attempt_def by (auto simp: list_all_iff row(5))
  assume given: "retry_given r"
  have fields_eq: "at_RetryNextState ?r = at_RetryNextState r" "at_RetryReason ?r = at_RetryReason r"
    by (simp_all add: default_attempt_def)
  show "recorded_next_state (at_IssueKey r) (at_Attempt ?r) db' = at_RetryNextState r"
    using given a unfolding db'_def eq recorded_next_state_def snd_conv append_best_effort_frame row(5) retry_given_def
    by (simp add: row(3) fields_eq col_def retry_row_def)
qed

definition may_be_retried :: "RunnerConfig \<Rightarrow> Issue \<Rightarrow> bool" where
  "may_be_retried config c \<longleftrightarrow> is_StateName c \<noteq> rc_NeedsInfoState config \<and> is_StateName c \<noteq> rc_DoneState config"


definition retry_result :: AttemptResult where
  "retry_result = sample_result\<lparr>at_RetryNextState := ''retry_after_backoff''\<rparr>"

definition retry_issue :: Issue where "retry_issue = new_issue\<lparr>is_Identifier := ''A-1''\<rparr>"

lemma newest_in_empty: "newest_result test_env empty_db retry_result"
  by (simp add: newest_result_def retry_result_def sample_result_def now_or_clock_def is_zero_def one_second_rfc)

lemma retry_issue_free: "may_be_retried ready_config retry_issue"
  by code_simp


text \<open>
  A retry decision outlives the success of its attempt.  A result without a retry decision leaves
  the recorded one, so after a success of an attempt whose review had once failed, the retry gate
  stays closed; it stays closed also for an issue whose pull request has requested changes, for which
  reconciliation asks to capture the feedback and retry.
\<close>

theorem retry_decision_outlives_success:
  assumes "newest_result env db result" "\<not> retry_given result"
    and "recorded_next_state (at_IssueKey result) (at_Attempt (default_attempt result)) db = repairReviewFindingsNextAction"
    and "is_Identifier c = at_IssueKey result" "may_be_retried config c"
    and "de_NextAction d = ''capture_feedback_and_retry''"
  shows "retryBackoffDecision (Some (snd (UpsertAttemptResult env result db))) c config maximum now =
      Some \<lparr>cr_runnable = False, cr_reason = ''terminal_or_no_retry'', cr_nextState = repairReviewFindingsNextAction\<rparr>
    \<and> retry_closed (Some (snd (UpsertAttemptResult env result db))) d
        (retryBackoffDecision (Some (snd (UpsertAttemptResult env result db))) c config maximum now)"
proof -
  from result_facts [OF assms(1)] obtain f
    where f: "ReadReconciliationFacts (at_IssueKey result) (snd (UpsertAttemptResult env result db)) = Inr (Some f)"
      and retry: "rf_RetryNextState f = repairReviewFindingsNextAction"
    by (auto simp: assms(2,3))
  have state: "(is_StateName c = rc_NeedsInfoState config \<or> is_StateName c = rc_DoneState config) = False"
    using assms(5) by (simp add: may_be_retried_def)
  have ne: "(repairReviewFindingsNextAction = []) = False" "(repairReviewFindingsNextAction = ''retry_after_backoff'') = False"
    "(''capture_feedback_and_retry'' = repairReviewFindingsNextAction) = False"
    "(''capture_feedback_and_retry'' = ''retry_with_unresolved_pr_feedback'') = False"
    by (simp_all add: repairReviewFindingsNextAction_def)
  have r: "retryBackoffDecision (Some (snd (UpsertAttemptResult env result db))) c config maximum now =
      Some \<lparr>cr_runnable = False, cr_reason = ''terminal_or_no_retry'', cr_nextState = repairReviewFindingsNextAction\<rparr>"
    unfolding retryBackoffDecision_def option.case assms(4) state if_False f sum.case retry ne simp_thms if_True ..
  show ?thesis
    unfolding r retry_closed_def prod.case option.case retryGateAllowsRepair_def retryGateAllowsRepairableReviewFailedPR_def
      assms(6) ne by simp
qed

definition review_failed_result :: AttemptResult where
  "review_failed_result = sample_result\<lparr>at_RetryNextState := repairReviewFindingsNextAction\<rparr>"

definition later_success :: AttemptResult where "later_success = sample_result\<lparr>at_RetryReason := []\<rparr>"

definition after_review_failure :: db where
  "after_review_failure = snd (UpsertAttemptResult test_env review_failed_result empty_db)"

definition changes_requested_decision :: ReconciliationDecision where
  "changes_requested_decision = (new_decision retry_issue)\<lparr>de_NextAction := ''capture_feedback_and_retry''\<rparr>"

theorem retry_decision_outlives_success_witness:
  "retry_closed (Some (snd (UpsertAttemptResult test_env later_success after_review_failure))) changes_requested_decision
     (retryBackoffDecision (Some (snd (UpsertAttemptResult test_env later_success after_review_failure))) retry_issue
        ready_config (300 * second) 0)"
proof -
  have now: "now_or_clock test_env (at_UpdatedAt later_success) = 5000000000"
    "now_or_clock test_env (at_UpdatedAt review_failed_result) = 5000000000"
    by code_simp+
  have "newest_result test_env empty_db review_failed_result"
    unfolding newest_result_def now using one_second_rfc by (simp add: review_failed_result_def sample_result_def)
  note w = result_written [OF this, folded after_review_failure_def]
  have same: "at_IssueKey later_success = at_IssueKey review_failed_result"
    "at_Attempt (default_attempt later_success) = at_Attempt (default_attempt review_failed_result)"
    "\<not> retry_given later_success" "retry_given review_failed_result" "at_IssueKey review_failed_result \<noteq> []"
    "at_RetryNextState review_failed_result = repairReviewFindingsNextAction"
    "is_Identifier retry_issue = at_IssueKey later_success"
    by code_simp+
  have n: "newest_result test_env after_review_failure later_success"
    unfolding newest_result_def same now using w same one_second_rfc by simp
  have f: "recorded_next_state (at_IssueKey later_success) (at_Attempt (default_attempt later_success)) after_review_failure
       = repairReviewFindingsNextAction"
    using w(4) [OF same(4)] by (simp only: same)
  have "de_NextAction changes_requested_decision = ''capture_feedback_and_retry''"
    by (simp add: changes_requested_decision_def)
  from retry_decision_outlives_success [OF n same(3) f same(7) retry_issue_free this] show ?thesis by blast
qed

end
