(* ===== verification/MergeWorker.thy ===== *)
theory MergeWorker
  imports CandidateSelection LinearStatus CodeOwnership
begin

text \<open>
  src/merge_worker.go and the tasks of src/merge.go: what the merge lane does with an open pull request.
  The tracker and the code host are parameters: each call takes the state of the outside world to its
  answer and the next state, and \<open>lc_ctx_err\<close> reads the context's error off the world, so a
  cancellation or a timeout can arrive with any call.  A statement of the store under a cancelled
  context changes nothing and fails.  The file system belongs to the world of the worker; \<open>me_fault\<close>
  tells the paths that cannot be written or removed.  The clock is \<open>re_now\<close> of one handling.
\<close>

section \<open>The world of the worker\<close>

record 'w merge_client =
  mc_linear :: "'w linear_client"
  mc_issue :: "string \<Rightarrow> 'w \<Rightarrow> (string + Issue option) \<times> 'w"
  mc_open_prs :: "'w \<Rightarrow> (string + PullRequestSummary list) \<times> 'w"
  mc_squash :: "int \<Rightarrow> 'w \<Rightarrow> err_list \<times> 'w"
  mc_delete_branch :: "string \<Rightarrow> 'w \<Rightarrow> err_list \<times> 'w"
  mc_feedback :: "string \<Rightarrow> int \<Rightarrow> 'w \<Rightarrow> (string + string) \<times> 'w"
  mc_pr_state :: "string \<Rightarrow> 'w \<Rightarrow> (string + string \<times> bool) \<times> 'w"

record 'w merge_env =
  me_store :: store_env
  me_rec :: rec_env
  me_cwd :: string
  me_fault :: "string \<Rightarrow> bool"
  me_client :: "'w merge_client"

record 'w merge_world =
  mw_db :: db
  mw_fs :: fs
  mw_w :: 'w

definition ctx_errs :: "'w merge_env \<Rightarrow> 'w merge_world \<Rightarrow> err_list" where
  "ctx_errs env w = lc_ctx_err (mc_linear (me_client env)) (mw_w w)"

definition merge_now :: "'w merge_env \<Rightarrow> time" where "merge_now env = re_now (me_rec env)"

definition errs_text :: "err_list \<Rightarrow> string" where "errs_text es = join [newline] es"

text \<open>A call of the outside world, and a statement of the store under the context.\<close>

definition call :: "('w \<Rightarrow> 'a \<times> 'w) \<Rightarrow> 'w merge_world \<Rightarrow> 'a \<times> 'w merge_world" where
  "call f w = (case f (mw_w w) of (a, x) \<Rightarrow> (a, w\<lparr>mw_w := x\<rparr>))"

definition statement :: "'w merge_env \<Rightarrow> (db \<Rightarrow> 'a result \<times> db) \<Rightarrow> 'w merge_world \<Rightarrow> 'a result \<times> 'w merge_world" where
  "statement env f w =
     (if ctx_errs env w \<noteq> [] then (Inl (StoreError (errs_text (ctx_errs env w))), w)
      else (case f (mw_db w) of (a, db) \<Rightarrow> (a, w\<lparr>mw_db := db\<rparr>)))"

text \<open>What runs after a step that returned an error is skipped.\<close>

definition and_then :: "err_list \<times> 'a \<Rightarrow> ('a \<Rightarrow> err_list \<times> 'a) \<Rightarrow> err_list \<times> 'a" where
  "and_then r f = (if fst r \<noteq> [] then r else f (snd r))"

section \<open>Events of the merge lane\<close>

definition recordMergeEventContext ::
    "'w merge_env \<Rightarrow> string \<Rightarrow> string \<Rightarrow> string \<Rightarrow> int \<Rightarrow> (string \<times> json) list \<Rightarrow> 'w merge_world \<Rightarrow> 'w merge_world" where
  "recordMergeEventContext env eventType issueKey issueID prNumber payload w =
     snd (statement env (appendEvent (me_store env)
       \<lparr>ei_OccurredAt = merge_now env, ei_IssueKey = issueKey, ei_IssueID = issueID, ei_Attempt = 0, ei_RunID = [],
        ei_Source = ''merge-lane'', ei_Type = eventType,
        ei_Payload = ValuePayload (JObj (put_if (0 < prNumber) ''pr_number'' (JInt prNumber) payload))\<rparr>) w)"

definition recordMergeErrorContext ::
    "'w merge_env \<Rightarrow> string \<Rightarrow> string \<Rightarrow> int \<Rightarrow> err_list \<Rightarrow> 'w merge_world \<Rightarrow> 'w merge_world" where
  "recordMergeErrorContext env issueKey issueID prNumber err w =
     (if err = [] then w
      else recordMergeEventContext env ''error_recorded'' issueKey issueID prNumber
             [(''error'', JStr (errs_text err)), (''lane'', JStr ''merge'')] w)"

definition merge_event ::
    "'w merge_env \<Rightarrow> Issue \<Rightarrow> PullRequestSummary \<Rightarrow> string \<Rightarrow> (string \<times> json) list \<Rightarrow> 'w merge_world \<Rightarrow> 'w merge_world" where
  "merge_event env candidate pr eventType payload =
     recordMergeEventContext env eventType (is_Identifier candidate) (is_ID candidate) (ps_Number pr)
       ((''pr_url'', JStr (ps_URL pr)) # payload)"

definition merge_error :: "'w merge_env \<Rightarrow> Issue \<Rightarrow> PullRequestSummary \<Rightarrow> err_list \<Rightarrow> 'w merge_world \<Rightarrow> 'w merge_world" where
  "merge_error env candidate pr = recordMergeErrorContext env (is_Identifier candidate) (is_ID candidate) (ps_Number pr)"

text \<open>The two records of a phase that failed.\<close>

definition phase_failed ::
    "'w merge_env \<Rightarrow> Issue \<Rightarrow> PullRequestSummary \<Rightarrow> string \<Rightarrow> err_list \<Rightarrow> 'w merge_world \<Rightarrow> 'w merge_world" where
  "phase_failed env candidate pr phase err w =
     merge_error env candidate pr err
       (merge_event env candidate pr ''merge_failed'' [(''phase'', JStr phase), (''error'', JStr (errs_text err))] w)"

section \<open>Files and the tracker\<close>

definition make_dirs :: "string \<Rightarrow> 'w merge_world \<Rightarrow> err_list \<times> 'w merge_world" where
  "make_dirs path w = (case mkdir_all (mw_fs w) path of Inl e \<Rightarrow> ([e], w) | Inr fs \<Rightarrow> ([], w\<lparr>mw_fs := fs\<rparr>))"

definition feedback_text :: "int \<Rightarrow> string \<Rightarrow> string" where
  "feedback_text prNumber feedback =
     (if trim_space feedback = []
      then ''# PR #'' @ itoa prNumber @ '' feedback'' @ [newline, newline]
             @ ''No review feedback returned by GitHub.'' @ [newline]
      else feedback)"

definition writePRFeedback :: "'w merge_env \<Rightarrow> string \<Rightarrow> int \<Rightarrow> string \<Rightarrow> 'w merge_world \<Rightarrow> err_list \<times> 'w merge_world" where
  "writePRFeedback env workspace prNumber feedback w =
     (let path = FeedbackPath workspace in
      if me_fault env path \<or> stat (mw_fs w) path = Some Directory then ([''write '' @ path], w)
      else ([], w\<lparr>mw_fs := (mw_fs w)(path \<mapsto> RegularFile (feedback_text prNumber feedback))\<rparr>))"

text \<open>\<open>os.RemoveAll\<close>: the path and everything below it.\<close>

definition remove_all :: "string \<Rightarrow> fs \<Rightarrow> fs" where
  "remove_all path fs = (\<lambda>p. if p = path \<or> has_prefix p (path @ ''/'') then None else fs p)"

definition removeDoneWorkspaceContext :: "'w merge_env \<Rightarrow> string \<Rightarrow> string \<Rightarrow> 'w merge_world \<Rightarrow> err_list \<times> 'w merge_world" where
  "removeDoneWorkspaceContext env workspaceRoot issueKey w =
     (if ctx_errs env w \<noteq> [] then (ctx_errs env w, w)
      else (case SafePath (me_cwd env) (mw_fs w) workspaceRoot issueKey of
              Inl e \<Rightarrow> ([fst e], w)
            | Inr workspace \<Rightarrow>
                if stat (mw_fs w) workspace = None then ([], w)
                else (case AssertSafeDeletePath (me_cwd env) (mw_fs w) workspaceRoot workspace of
                        Inl e \<Rightarrow> ([fst e], w)
                      | Inr u \<Rightarrow>
                          if me_fault env workspace then ([''remove '' @ workspace], w)
                          else ([], w\<lparr>mw_fs := remove_all workspace (mw_fs w)\<rparr>))))"

definition move_issue ::
    "'w merge_env \<Rightarrow> Issue \<Rightarrow> WorkflowState list \<Rightarrow> string \<Rightarrow> 'w merge_world \<Rightarrow> err_list \<times> 'w merge_world" where
  "move_issue env candidate states stateName =
     call (\<lambda>x. case MoveToContext (mc_linear (me_client env)) (Some candidate) states stateName x of
                 ((moved, err), c, x') \<Rightarrow> (err, x'))"

definition post_comment :: "'w merge_env \<Rightarrow> Issue \<Rightarrow> string \<Rightarrow> 'w merge_world \<Rightarrow> 'w merge_world" where
  "post_comment env candidate body w =
     snd (call (CommentContext (mc_linear (me_client env)) (Some candidate) body) w)"

text \<open>Moving back for pickup, where the workflow has the Ready state.\<close>

definition back_to_ready ::
    "'w merge_env \<Rightarrow> RunnerConfig \<Rightarrow> Issue \<Rightarrow> WorkflowState list \<Rightarrow> 'w merge_world \<Rightarrow> err_list \<times> 'w merge_world" where
  "back_to_ready env config candidate states w =
     (if StateID states (rc_ReadyState config) = [] then ([], w)
      else move_issue env candidate states (rc_ReadyState config) w)"

section \<open>Approved pull requests\<close>

text \<open>The phases of a merge; each records what it attempts and how it ended.\<close>

definition squash_phase ::
    "'w merge_env \<Rightarrow> Issue \<Rightarrow> PullRequestSummary \<Rightarrow> 'w merge_world \<Rightarrow> err_list \<times> 'w merge_world" where
  "squash_phase env candidate pr w =
     (case call (mc_squash (me_client env) (ps_Number pr))
             (merge_event env candidate pr ''merge_attempted''
                [(''head_ref'', JStr (ps_HeadRefName pr)), (''base_ref'', JStr (ps_BaseRefName pr))] w) of
        (err, w1) \<Rightarrow>
          if err \<noteq> []
          then ([''code-host squash merge failed for PR/MR #'' @ itoa (ps_Number pr) @ '': '' @ errs_text err],
                phase_failed env candidate pr ''squash_merge'' err w1)
          else (ctx_errs env w1, w1))"

definition delete_phase ::
    "'w merge_env \<Rightarrow> Issue \<Rightarrow> PullRequestSummary \<Rightarrow> 'w merge_world \<Rightarrow> err_list \<times> 'w merge_world" where
  "delete_phase env candidate pr w =
     (let head = (''head_ref'', JStr (ps_HeadRefName pr)) in
      case call (mc_delete_branch (me_client env) (ps_HeadRefName pr))
             (merge_event env candidate pr ''branch_deletion_attempted'' [head]
                (merge_event env candidate pr ''merge_succeeded'' [head] w)) of
        (err, w1) \<Rightarrow>
          if err \<noteq> []
          then ([''code-host branch deletion failed for '' @ ps_HeadRefName pr @ '' after merged PR/MR #''
                   @ itoa (ps_Number pr) @ '': '' @ errs_text err],
                phase_failed env candidate pr ''branch_deletion'' err
                  (merge_event env candidate pr ''branch_deletion_finished''
                     [head, (''result'', JStr ''failed''), (''error'', JStr (errs_text err))] w1))
          else if ctx_errs env w1 \<noteq> [] then (ctx_errs env w1, w1)
          else ([], merge_event env candidate pr ''branch_deletion_finished'' [head, (''result'', JStr ''success'')] w1))"

definition done_phase ::
    "'w merge_env \<Rightarrow> RunnerConfig \<Rightarrow> Issue \<Rightarrow> WorkflowState list \<Rightarrow> PullRequestSummary \<Rightarrow> 'w merge_world
       \<Rightarrow> err_list \<times> 'w merge_world" where
  "done_phase env config candidate states pr w =
     (if StateID states (rc_DoneState config) = [] then ([], w)
      else let state = (''done_state'', JStr (rc_DoneState config)) in
        (case move_issue env candidate states (rc_DoneState config)
                (merge_event env candidate pr ''linear_done_transition_attempted'' [state] w) of
           (err, w1) \<Rightarrow>
             if err \<noteq> []
             then (err, phase_failed env candidate pr ''linear_done_transition'' err
                          (merge_event env candidate pr ''linear_done_transition_finished''
                             [state, (''result'', JStr ''failed''), (''error'', JStr (errs_text err))] w1))
             else ([], merge_event env candidate pr ''linear_done_transition_finished''
                         [state, (''result'', JStr ''success'')] w1)))"

definition cleanup_phase ::
    "'w merge_env \<Rightarrow> RunnerConfig \<Rightarrow> Issue \<Rightarrow> PullRequestSummary \<Rightarrow> 'w merge_world \<Rightarrow> err_list \<times> 'w merge_world" where
  "cleanup_phase env config candidate pr w =
     (case removeDoneWorkspaceContext env (rc_WorkspaceRoot config) (is_Identifier candidate) w of
        (err, w1) \<Rightarrow>
          if err \<noteq> [] then (err, phase_failed env candidate pr ''workspace_cleanup'' err w1)
          else ([], post_comment env candidate (''Merged approved PR: '' @ ps_URL pr)
                      (merge_event env candidate pr ''merge_completed''
                         [(''head_ref'', JStr (ps_HeadRefName pr)), (''done_state'', JStr (rc_DoneState config))] w1)))"

definition blockers_text :: "ReconciliationDecision \<Rightarrow> string" where
  "blockers_text d = join ''; '' (de_Blockers d)"

definition handleApprovedPR ::
    "'w merge_env \<Rightarrow> RunnerConfig \<Rightarrow> Issue \<Rightarrow> WorkflowState list \<Rightarrow> PullRequestSummary \<Rightarrow> ReconciliationDecision
       \<Rightarrow> 'w merge_world \<Rightarrow> err_list \<times> 'w merge_world" where
  "handleApprovedPR env config candidate states pr decision w =
     (if ctx_errs env w \<noteq> [] then (ctx_errs env w, w)
      else if \<not> de_CanMerge decision
      then ([], merge_event env candidate pr ''merge_blocked''
                  [(''reason'', JStr (blockers_text decision)), (''lifecycle'', JStr (lifecycle_text (de_Lifecycle decision))),
                   (''next_action'', JStr (de_NextAction decision))] w)
      else and_then (squash_phase env candidate pr w)
             (\<lambda>w1. and_then (delete_phase env candidate pr w1)
               (\<lambda>w2. and_then (done_phase env config candidate states pr w2)
                 (cleanup_phase env config candidate pr))))"

section \<open>Requested changes and conflicts\<close>

definition feedbackAlreadyAddressedContext ::
    "'w merge_env \<Rightarrow> string \<Rightarrow> string \<Rightarrow> string \<Rightarrow> 'w merge_world \<Rightarrow> bool" where
  "feedbackAlreadyAddressedContext env issueKey prURL feedback w =
     (let currentHash = FeedbackHash (me_store env) feedback in
      if currentHash = [] then False
      else (case fst (statement env (\<lambda>db. (ReadReconciliationFacts issueKey db, db)) w) of
              Inr (Some facts) \<Rightarrow> rf_Status facts = StatusSuccess \<and> rf_ReviewStatus facts = ''passed''
                \<and> rf_PRURL facts = prURL \<and> rf_FeedbackHash facts = currentHash
            | _ \<Rightarrow> False))"

definition handleChangesRequestedPR ::
    "'w merge_env \<Rightarrow> RunnerConfig \<Rightarrow> Issue \<Rightarrow> WorkflowState list \<Rightarrow> PullRequestSummary \<Rightarrow> 'w merge_world
       \<Rightarrow> err_list \<times> 'w merge_world" where
  "handleChangesRequestedPR env config candidate states pr w =
     (case call (mc_feedback (me_client env) (ps_URL pr) (ps_Number pr)) w of
        (Inl err, w1) \<Rightarrow> ([err], w1)
      | (Inr feedback, w1) \<Rightarrow>
          let workspace = join2 (rc_WorkspaceRoot config) (is_Identifier candidate) in
          and_then (make_dirs workspace w1)
            (\<lambda>w2. if feedbackAlreadyAddressedContext env (is_Identifier candidate) (ps_URL pr) feedback w2 then ([], w2)
                  else and_then (writePRFeedback env workspace (ps_Number pr) feedback w2)
                    (\<lambda>w3. and_then (back_to_ready env config candidate states w3)
                      (\<lambda>w4. ([], post_comment env candidate
                               (''PR changes requested; captured GitHub review feedback and moved back to ''
                                @ rc_ReadyState config @ '' for pickup: '' @ ps_URL pr) w4)))))"

definition renderPRConflictFeedback :: "PullRequestSummary \<Rightarrow> string \<Rightarrow> string" where
  "renderPRConflictFeedback pr reason =
     join [newline]
       [''# PR #'' @ itoa (ps_Number pr) @ '' merge conflict feedback'', [], ''## Blocked merge reason'', [], reason, [],
        ''## Repair instructions'', [], ''- Update this PR branch from the configured base branch.'',
        ''- Resolve merge conflicts without starting unrelated work.'',
        ''- Rerun the validation expected by the Linear issue.'',
        ''- Push the same PR branch and stop for Human Review again.'', [], ''PR: '' @ ps_URL pr,
        ''Branch: '' @ ps_HeadRefName pr, []]"

definition handle_conflict ::
    "'w merge_env \<Rightarrow> RunnerConfig \<Rightarrow> Issue \<Rightarrow> WorkflowState list \<Rightarrow> PullRequestSummary \<Rightarrow> Result \<Rightarrow> 'w merge_world
       \<Rightarrow> err_list \<times> 'w merge_world" where
  "handle_conflict env config candidate states pr gate w =
     (let w1 = recordMergeEventContext env ''merge_blocked'' (is_Identifier candidate) (is_ID candidate) (ps_Number pr)
                 (put ''pr_url'' (JStr (ps_URL pr)) (Payload gate)) w;
          workspace = join2 (rc_WorkspaceRoot config) (is_Identifier candidate) in
      and_then (make_dirs workspace w1)
        (\<lambda>w2. and_then (writePRFeedback env workspace (ps_Number pr) (renderPRConflictFeedback pr (Reason gate)) w2)
          (\<lambda>w3. and_then (back_to_ready env config candidate states w3)
            (\<lambda>w4. ([], post_comment env candidate
                     (''PR merge blocked by conflicts; captured repair instructions and moved back to ''
                      @ rc_ReadyState config @ '' for pickup: '' @ ps_URL pr) w4)))))"

section \<open>One pull request\<close>

definition rec_at :: "'w merge_env \<Rightarrow> 'w merge_world \<Rightarrow> rec_env" where
  "rec_at env w = (me_rec env)\<lparr>re_fs := mw_fs w,
     re_ctx_err := (if ctx_errs env w = [] then None else Some (errs_text (ctx_errs env w)))\<rparr>"

definition merge_decision :: "'w merge_env \<Rightarrow> RunnerConfig \<Rightarrow> Issue \<Rightarrow> PullRequestSummary \<Rightarrow> 'w merge_world \<Rightarrow> ReconciliationDecision" where
  "merge_decision env config candidate pr w =
     ReconcileIssueWithArtifactContext (rec_at env w) (Some (store_reader (mw_db w))) config candidate (Some pr) None"

definition handle_open_pr ::
    "'w merge_env \<Rightarrow> RunnerConfig \<Rightarrow> Issue \<Rightarrow> WorkflowState list \<Rightarrow> PullRequestSummary \<Rightarrow> 'w merge_world
       \<Rightarrow> err_list \<times> 'w merge_world" where
  "handle_open_pr env config candidate states pr w =
     (let gate = md_Result (evaluatePullRequestMergeGate pr) in
      if ''merge_conflict'' \<in> set (Codes gate) then handle_conflict env config candidate states pr gate w
      else let decision = merge_decision env config candidate pr w in
        if de_ShouldQuarantine decision \<and> de_Blockers decision \<noteq> []
        then ([], post_comment env candidate
                    (''Agent Machine PR blocked by reconciliation invariant; next='' @ de_NextAction decision
                     @ ''; reason: '' @ blockers_text decision)
                    (merge_event env candidate pr ''merge_blocked''
                       [(''reason'', JStr (blockers_text decision)), (''next_action'', JStr (de_NextAction decision))] w))
        else if ps_ReviewDecision pr = ''APPROVED'' then handleApprovedPR env config candidate states pr decision w
        else if ps_ReviewDecision pr = ''CHANGES_REQUESTED'' then handleChangesRequestedPR env config candidate states pr w
        else ([], w))"

definition HandlePullRequest ::
    "'w merge_env \<Rightarrow> RunnerConfig \<Rightarrow> PullRequestSummary \<Rightarrow> 'w merge_world \<Rightarrow> err_list \<times> 'w merge_world" where
  "HandlePullRequest env config pr w =
     (if ctx_errs env w \<noteq> [] then (ctx_errs env w, w)
      else let issueKey = issueIdentifierFromBranch (ps_HeadRefName pr) in
        (case call (mc_issue (me_client env) issueKey) w of
           (Inl err, w1) \<Rightarrow> ([err], recordMergeErrorContext env issueKey [] (ps_Number pr) [err] w1)
         | (Inr None, w1) \<Rightarrow> ([], w1)
         | (Inr (Some candidate), w1) \<Rightarrow>
             if is_StateName candidate \<noteq> rc_HandoffState config then ([], w1)
             else let reason = prInvariantBlockReason (rec_at env w1) config candidate pr in
               if reason \<noteq> []
               then ([], merge_event env candidate pr ''merge_blocked''
                           [(''reason'', JStr reason), (''next_action'', JStr ''reconcile_pr_ownership'')] w1)
               else (case call (lc_states (mc_linear (me_client env)) (is_TeamID candidate)) w1 of
                       (Inl err, w2) \<Rightarrow> ([err], merge_error env candidate pr [err] w2)
                     | (Inr states, w2) \<Rightarrow> handle_open_pr env config candidate states pr w2)))"

text \<open>The worker of the merge-approved command: every pull request until one fails.\<close>

fun handle_all :: "'w merge_env \<Rightarrow> RunnerConfig \<Rightarrow> PullRequestSummary list \<Rightarrow> 'w merge_world \<Rightarrow> err_list \<times> 'w merge_world" where
  "handle_all env config [] w = ([], w)"
| "handle_all env config (pr # prs) w = and_then (HandlePullRequest env config pr w) (handle_all env config prs)"

definition mergeApprovedPRsWithStoreContext ::
    "'w merge_env \<Rightarrow> RunnerConfig \<Rightarrow> 'w merge_world \<Rightarrow> err_list \<times> 'w merge_world" where
  "mergeApprovedPRsWithStoreContext env config w =
     (if ctx_errs env w \<noteq> [] then (ctx_errs env w, w)
      else (case call (mc_open_prs (me_client env)) w of
              (Inl err, w1) \<Rightarrow> ([''code-host API open PR metadata lookup failed: '' @ err], recordMergeErrorContext env [] [] 0 [err] w1)
            | (Inr prs, w1) \<Rightarrow> handle_all env config (amPRs prs) w1))"

end
