(* ===== verification/MergeProtocol.thy ===== *)
theory MergeProtocol
  imports MergeWorker
begin

text \<open>
  What one handling of a pull request may do outside: the calls that change the tracker or the code host
  follow a protocol, as a step relation over stages, and a merge is asked for only when every gate of
  the merge is open.
\<close>


section \<open>What the worker asks of the outside\<close>

text \<open>
  A recording client: it answers as the given one and writes down every call that changes the tracker
  or the code host, and whether it succeeded.
\<close>

datatype host_call = SquashMerge int | DeleteBranch string | UpdateState string string | PostComment string string

definition logged :: "host_call \<Rightarrow> ('w \<Rightarrow> err_list \<times> 'w) \<Rightarrow> 'w \<times> (host_call \<times> bool) list \<Rightarrow> err_list \<times> 'w \<times> (host_call \<times> bool) list" where
  "logged c f w = (case f (fst w) of (err, x) \<Rightarrow> (err, x, snd w @ [(c, err = [])]))"

definition unlogged :: "('w \<Rightarrow> 'a \<times> 'w) \<Rightarrow> 'w \<times> 'l \<Rightarrow> 'a \<times> 'w \<times> 'l" where
  "unlogged f w = (case f (fst w) of (a, x) \<Rightarrow> (a, x, snd w))"

definition recording_linear :: "'w linear_client \<Rightarrow> ('w \<times> (host_call \<times> bool) list) linear_client" where
  "recording_linear c =
     \<lparr>lc_update_state = (\<lambda>i s. logged (UpdateState i s) (lc_update_state c i s)),
      lc_comment = (\<lambda>i b. logged (PostComment i b) (lc_comment c i b)),
      lc_states = (\<lambda>t. unlogged (lc_states c t)), lc_ctx_err = (\<lambda>w. lc_ctx_err c (fst w))\<rparr>"

definition recording :: "'w merge_client \<Rightarrow> ('w \<times> (host_call \<times> bool) list) merge_client" where
  "recording c =
     \<lparr>mc_linear = recording_linear (mc_linear c), mc_issue = (\<lambda>k. unlogged (mc_issue c k)),
      mc_open_prs = unlogged (mc_open_prs c), mc_squash = (\<lambda>n. logged (SquashMerge n) (mc_squash c n)),
      mc_delete_branch = (\<lambda>b. logged (DeleteBranch b) (mc_delete_branch c b)),
      mc_feedback = (\<lambda>u n. unlogged (mc_feedback c u n)), mc_pr_state = (\<lambda>u. unlogged (mc_pr_state c u))\<rparr>"

type_synonym 'w logged_world = "('w \<times> (host_call \<times> bool) list) merge_world"

definition calls :: "('w \<times> (host_call \<times> bool) list) merge_world \<Rightarrow> (host_call \<times> bool) list" where
  "calls w = snd (mw_w w)"

lemma statement_calls [simp]: "calls (snd (statement env f w)) = calls w" "mw_fs (snd (statement env f w)) = mw_fs w"
  "mw_w (snd (statement env f w)) = mw_w w"
  by (simp_all add: statement_def calls_def split: prod.split)

lemma event_calls [simp]:
  "calls (recordMergeEventContext env t k i n p w) = calls w" "mw_fs (recordMergeEventContext env t k i n p w) = mw_fs w"
  "calls (recordMergeErrorContext env k i n e w) = calls w" "mw_fs (recordMergeErrorContext env k i n e w) = mw_fs w"
  "calls (merge_event env c pr t p w) = calls w" "mw_fs (merge_event env c pr t p w) = mw_fs w"
  "calls (merge_error env c pr e w) = calls w" "mw_fs (merge_error env c pr e w) = mw_fs w"
  "calls (phase_failed env c pr ph e w) = calls w" "mw_fs (phase_failed env c pr ph e w) = mw_fs w"
  by (simp_all add: recordMergeEventContext_def recordMergeErrorContext_def merge_event_def merge_error_def phase_failed_def)

lemma call_calls:
  "calls (snd (call (logged c f) w)) = calls w @ [(c, fst (call (logged c f) w) = [])]"
  "calls (snd (call (unlogged g) w)) = calls w" "mw_fs (snd (call h w)) = mw_fs w" "mw_db (snd (call h w)) = mw_db w"
  by (simp_all add: call_def calls_def logged_def unlogged_def split: prod.split)

lemma recording_simps [simp]:
  "mc_squash (recording c) n = logged (SquashMerge n) (mc_squash c n)"
  "mc_delete_branch (recording c) b = logged (DeleteBranch b) (mc_delete_branch c b)"
  "mc_linear (recording c) = recording_linear (mc_linear c)" "mc_issue (recording c) k = unlogged (mc_issue c k)"
  "mc_feedback (recording c) u n = unlogged (mc_feedback c u n)" "lc_states (recording_linear l) t = unlogged (lc_states l t)"
  "mc_open_prs (recording c) = unlogged (mc_open_prs c)" "mc_pr_state (recording c) u = unlogged (mc_pr_state c u)"
  by (simp_all add: recording_def recording_linear_def)

lemma files_calls [simp]:
  "calls (snd (make_dirs p w)) = calls w" "calls (snd (writePRFeedback env ws n f w)) = calls w"
  "calls (snd (removeDoneWorkspaceContext env ws k w)) = calls w"
  by (simp_all add: make_dirs_def writePRFeedback_def removeDoneWorkspaceContext_def calls_def Let_def split: sum.split)

lemma move_calls:
  assumes "me_client env = recording c"
  shows "calls (snd (move_issue env i ss name w)) = calls w
    \<or> calls (snd (move_issue env i ss name w)) =
        calls w @ [(UpdateState (is_ID i) (StateID ss (trim_space name)), fst (move_issue env i ss name w) = [])]"
  by (auto simp: move_issue_def assms call_def MoveToContext_def recording_linear_def logged_def calls_def Let_def split: prod.split)

lemma comment_calls:
  assumes "me_client env = recording c"
  shows "calls (post_comment env i b w) = calls w \<or> (\<exists>ok. calls (post_comment env i b w) = calls w @ [(PostComment (is_ID i) b, ok)])"
  by (simp add: post_comment_def assms call_def CommentContext_def recording_linear_def logged_def calls_def split: prod.split)

section \<open>The merge protocol\<close>

text \<open>
  The order in which one handling may call the outside: a squash merge, the deletion of the merged
  branch, the move to Done and the comment; or the move back to Ready and its comment; or a comment
  alone.  A call that failed ends the handling.
\<close>

datatype merge_stage = AtStart | SquashMerged | BranchDeleted | MovedToDone | MovedBack | Ended

inductive merge_step :: "PullRequestSummary \<Rightarrow> Issue \<Rightarrow> string \<Rightarrow> string \<Rightarrow> merge_stage \<Rightarrow> host_call \<times> bool \<Rightarrow> merge_stage \<Rightarrow> bool"
  for pr c ready done_id where
  squash: "merge_step pr c ready done_id AtStart (SquashMerge (ps_Number pr), ok) (if ok then SquashMerged else Ended)"
| delete_branch: "merge_step pr c ready done_id SquashMerged (DeleteBranch (ps_HeadRefName pr), ok) (if ok then BranchDeleted else Ended)"
| move_done: "merge_step pr c ready done_id BranchDeleted (UpdateState (is_ID c) done_id, ok) (if ok then MovedToDone else Ended)"
| move_back: "merge_step pr c ready done_id AtStart (UpdateState (is_ID c) ready, ok) (if ok then MovedBack else Ended)"
| comment: "s \<noteq> SquashMerged \<Longrightarrow> s \<noteq> Ended \<Longrightarrow> merge_step pr c ready done_id s (PostComment (is_ID c) body, ok) Ended"

inductive merge_path :: "PullRequestSummary \<Rightarrow> Issue \<Rightarrow> string \<Rightarrow> string \<Rightarrow> (host_call \<times> bool) list \<Rightarrow> merge_stage \<Rightarrow> bool"
  for pr c ready done_id where
  path_start: "merge_path pr c ready done_id [] AtStart"
| path_step: "merge_path pr c ready done_id l s \<Longrightarrow> merge_step pr c ready done_id s x t \<Longrightarrow> merge_path pr c ready done_id (l @ [x]) t"

text \<open>Where a handling stands, and the triple of a phase: from a stage in \<open>A\<close> to one in \<open>B\<close> unless it fails.\<close>

definition stands :: "PullRequestSummary \<Rightarrow> Issue \<Rightarrow> string \<Rightarrow> string \<Rightarrow> merge_stage set \<Rightarrow> ('w \<times> (host_call \<times> bool) list) merge_world \<Rightarrow> bool" where
  "stands pr c ready done_id A w \<longleftrightarrow> (\<exists>s\<in>A. merge_path pr c ready done_id (calls w) s)"

definition phase_ok ::
    "PullRequestSummary \<Rightarrow> Issue \<Rightarrow> string \<Rightarrow> string \<Rightarrow> merge_stage set
       \<Rightarrow> (('w \<times> (host_call \<times> bool) list) merge_world \<Rightarrow> err_list \<times> ('w \<times> (host_call \<times> bool) list) merge_world)
       \<Rightarrow> merge_stage set \<Rightarrow> bool" where
  "phase_ok pr c ready done_id A f B \<longleftrightarrow>
     (\<forall>w. stands pr c ready done_id A w \<longrightarrow>
        stands pr c ready done_id UNIV (snd (f w)) \<and> (fst (f w) = [] \<longrightarrow> stands pr c ready done_id B (snd (f w))))"

lemma phase_then:
  "phase_ok pr c r d A f B \<Longrightarrow> phase_ok pr c r d B g C \<Longrightarrow> phase_ok pr c r d A (\<lambda>w. and_then (f w) g) C"
  by (auto simp: phase_ok_def and_then_def)

lemma stands_mono: "stands pr c r d A w \<Longrightarrow> A \<subseteq> B \<Longrightarrow> stands pr c r d B w"
  by (auto simp: stands_def)

lemma stands_same: "calls w' = calls w \<Longrightarrow> stands pr c r d A w' = stands pr c r d A w"
  by (simp add: stands_def)

lemma stands_step:
  "stands pr c r d {s} w \<Longrightarrow> calls w' = calls w @ [x] \<Longrightarrow> merge_step pr c r d s x t \<Longrightarrow> stands pr c r d {t} w'"
  by (auto simp: stands_def intro: path_step)

lemma stands_any: "stands pr c r d A w \<Longrightarrow> stands pr c r d UNIV w"
  by (auto simp: stands_def)

lemma phase_quiet:
  assumes "\<And>w. calls (snd (f w)) = calls w" "A \<subseteq> B"
  shows "phase_ok pr c r d A f B"
  unfolding phase_ok_def stands_same [OF assms(1)] using stands_mono [OF _ assms(2)] stands_any by blast

lemma phase_call:
  assumes "\<And>w. calls (snd (f w)) = calls w @ [(x, ok w)]" "\<And>w. fst (f w) = [] \<Longrightarrow> ok w"
    and "\<And>b. merge_step pr c r d s (x, b) (if b then t else Ended)"
  shows "phase_ok pr c r d {s} f {t}"
  unfolding phase_ok_def
proof (intro allI impI conjI)
  fix w :: "'a logged_world" assume s: "stands pr c r d {s} w"
  from stands_step [OF s assms(1) [of w] assms(3) [of "ok w"]] have e: "stands pr c r d {if ok w then t else Ended} (snd (f w))" .
  then show "stands pr c r d UNIV (snd (f w))" by (rule stands_mono) simp
  show "stands pr c r d {t} (snd (f w))" if "fst (f w) = []" using e assms(2) [OF that] by simp
qed

lemma squash_phase_ok:
  assumes "me_client env = recording cl"
  shows "phase_ok pr c r d {AtStart} (squash_phase env c' pr) {SquashMerged}"
proof (rule phase_call)
  let ?f = "\<lambda>w. call (mc_squash (me_client env) (ps_Number pr)) (merge_event env c' pr ''merge_attempted''
                [(''head_ref'', JStr (ps_HeadRefName pr)), (''base_ref'', JStr (ps_BaseRefName pr))] w)"
  show "calls (snd (squash_phase env c' pr w)) = calls w @ [(SquashMerge (ps_Number pr), fst (?f w) = [])]" for w
    using call_calls(1) [of "SquashMerge (ps_Number pr)" "mc_squash cl (ps_Number pr)" "merge_event env c' pr ''merge_attempted''
                [(''head_ref'', JStr (ps_HeadRefName pr)), (''base_ref'', JStr (ps_BaseRefName pr))] w"]
    by (auto simp: squash_phase_def assms split: prod.split)
  show "fst (squash_phase env c' pr w) = [] \<Longrightarrow> fst (?f w) = []" for w
    by (simp add: squash_phase_def split: prod.splits if_splits)
  show "merge_step pr c r d AtStart (SquashMerge (ps_Number pr), b) (if b then SquashMerged else Ended)" for b
    by (rule squash)
qed

lemma delete_phase_ok:
  assumes "me_client env = recording cl"
  shows "phase_ok pr c r d {SquashMerged} (delete_phase env c' pr) {BranchDeleted}"
proof (rule phase_call)
  let ?w = "\<lambda>w. merge_event env c' pr ''branch_deletion_attempted'' [(''head_ref'', JStr (ps_HeadRefName pr))]
                (merge_event env c' pr ''merge_succeeded'' [(''head_ref'', JStr (ps_HeadRefName pr))] w)"
  let ?f = "\<lambda>w. call (mc_delete_branch (me_client env) (ps_HeadRefName pr)) (?w w)"
  show "calls (snd (delete_phase env c' pr w)) = calls w @ [(DeleteBranch (ps_HeadRefName pr), fst (?f w) = [])]" for w
    using call_calls(1) [of "DeleteBranch (ps_HeadRefName pr)" "mc_delete_branch cl (ps_HeadRefName pr)" "?w w"]
    by (auto simp: delete_phase_def Let_def assms split: prod.split)
  show "fst (delete_phase env c' pr w) = [] \<Longrightarrow> fst (?f w) = []" for w
    by (simp add: delete_phase_def Let_def split: prod.splits if_splits)
  show "merge_step pr c r d SquashMerged (DeleteBranch (ps_HeadRefName pr), b) (if b then BranchDeleted else Ended)" for b
    by (rule delete_branch)
qed

lemma move_phase_ok:
  assumes "me_client env = recording cl"
    and "\<And>b. merge_step pr c r d s (UpdateState (is_ID c) (StateID ss (trim_space name)), b) (if b then t else Ended)"
  shows "phase_ok pr c r d {s} (move_issue env c ss name) {s, t}"
  unfolding phase_ok_def
proof (intro allI impI)
  fix w :: "'a logged_world" assume s: "stands pr c r d {s} w"
  let ?w = "snd (move_issue env c ss name w)"
  from move_calls [OF assms(1), of c ss name w] show "stands pr c r d UNIV ?w
     \<and> (fst (move_issue env c ss name w) = [] \<longrightarrow> stands pr c r d {s, t} ?w)"
  proof
    assume "calls ?w = calls w"
    from stands_same [OF this] s have "stands pr c r d {s} ?w" by blast
    then show ?thesis using stands_mono [of pr c r d "{s}" ?w] by blast
  next
    assume "calls ?w = calls w @ [(UpdateState (is_ID c) (StateID ss (trim_space name)), fst (move_issue env c ss name w) = [])]"
    from stands_step [OF s this assms(2)] show ?thesis by (auto intro: stands_mono)
  qed
qed

lemma phase_same:
  assumes "phase_ok pr c r d A f B"
    and "\<And>w :: 'a logged_world. calls (snd (g w)) = calls (snd (f (h w)))" "\<And>w. fst (g w) = [] \<Longrightarrow> fst (f (h w)) = []" "\<And>w. calls (h w) = calls w"
  shows "phase_ok pr c r d A g B"
  unfolding phase_ok_def
proof (intro allI impI)
  fix w :: "'a logged_world" assume "stands pr c r d A w"
  then have "stands pr c r d A (h w)" by (simp add: stands_same [OF assms(4)])
  with assms(1) have "stands pr c r d UNIV (snd (f (h w))) \<and> (fst (f (h w)) = [] \<longrightarrow> stands pr c r d B (snd (f (h w))))"
    by (simp add: phase_ok_def)
  then show "stands pr c r d UNIV (snd (g w)) \<and> (fst (g w) = [] \<longrightarrow> stands pr c r d B (snd (g w)))"
    using assms(3) by (simp add: stands_same [OF assms(2)])
qed

lemma phase_weaken: "phase_ok pr c r d A f B \<Longrightarrow> B \<subseteq> B' \<Longrightarrow> phase_ok pr c r d A f B'"
  by (auto simp: phase_ok_def intro: stands_mono)

lemma phase_if: "phase_ok pr c r d A f B \<Longrightarrow> phase_ok pr c r d A g B \<Longrightarrow> phase_ok pr c r d A (\<lambda>w. if b then f w else g w) B"
  by (cases b) simp_all

lemma done_phase_ok:
  assumes "me_client env = recording cl" "d = StateID states (trim_space (rc_DoneState config))"
  shows "phase_ok pr c r d {BranchDeleted} (done_phase env config c states pr) {BranchDeleted, MovedToDone}"
proof (cases "StateID states (rc_DoneState config) = []")
  case True
  then show ?thesis by (intro phase_quiet) (simp_all add: done_phase_def)
next
  case False
  have "phase_ok pr c r d {BranchDeleted} (move_issue env c states (rc_DoneState config)) {BranchDeleted, MovedToDone}"
    by (rule move_phase_ok [OF assms(1)]) (simp only: assms(2) [symmetric] merge_step.move_done)
  then show ?thesis
    by (rule phase_same [where h = "merge_event env c pr ''linear_done_transition_attempted'' [(''done_state'', JStr (rc_DoneState config))]"])
      (auto simp: done_phase_def False Let_def split: prod.splits if_splits)
qed

lemma comment_phase:
  assumes "me_client env = recording cl" "A \<inter> {SquashMerged, Ended} = {}"
    and "stands pr c r d A w" "calls w' = calls w"
  shows "stands pr c r d UNIV (post_comment env c b w')"
proof -
  from assms(3) obtain s where s: "s \<in> A" "stands pr c r d {s} w'" by (auto simp: stands_def assms(4))
  have ok: "s \<noteq> SquashMerged" "s \<noteq> Ended" using assms(2) s(1) by auto
  from comment_calls [OF assms(1), of c b w'] show ?thesis
  proof
    assume "calls (post_comment env c b w') = calls w'"
    from stands_same [OF this] s(2) show ?thesis by (simp add: stands_any)
  next
    assume "\<exists>k. calls (post_comment env c b w') = calls w' @ [(PostComment (is_ID c) b, k)]"
    then obtain k where "calls (post_comment env c b w') = calls w' @ [(PostComment (is_ID c) b, k)]" ..
    from stands_step [OF s(2) this merge_step.comment [OF ok]] show ?thesis by (rule stands_mono) simp
  qed
qed

text \<open>A last phase: it ends where it stands or with a comment.\<close>

definition last_phase ::
    "PullRequestSummary \<Rightarrow> Issue \<Rightarrow> string \<Rightarrow> string \<Rightarrow> merge_stage set
       \<Rightarrow> (('w \<times> (host_call \<times> bool) list) merge_world \<Rightarrow> err_list \<times> ('w \<times> (host_call \<times> bool) list) merge_world) \<Rightarrow> bool" where
  "last_phase pr c r d A f \<longleftrightarrow> (\<forall>w. stands pr c r d A w \<longrightarrow> stands pr c r d UNIV (snd (f w)))"

lemma last_phase_then: "phase_ok pr c r d A f B \<Longrightarrow> last_phase pr c r d B g \<Longrightarrow> last_phase pr c r d A (\<lambda>w. and_then (f w) g)"
  by (auto simp: phase_ok_def last_phase_def and_then_def)

lemma last_phase_quiet:
  assumes "\<And>w. calls (snd (f w)) = calls w"
  shows "last_phase pr c r d A f"
  unfolding last_phase_def stands_same [OF assms] using stands_any by blast

lemma cleanup_phase_ok:
  assumes "me_client env = recording cl"
  shows "last_phase pr c r d {BranchDeleted, MovedToDone} (cleanup_phase env config c pr)"
  unfolding last_phase_def
proof (intro allI impI)
  fix w :: "'a logged_world" assume s: "stands pr c r d {BranchDeleted, MovedToDone} w"
  obtain err w1 where r: "removeDoneWorkspaceContext env (rc_WorkspaceRoot config) (is_Identifier c) w = (err, w1)"
    by (metis prod.exhaust)
  have c1: "calls w1 = calls w" using files_calls(3) [of env "rc_WorkspaceRoot config" "is_Identifier c" w] by (simp add: r)
  show "stands pr c r d UNIV (snd (cleanup_phase env config c pr w))"
  proof (cases "err = []")
    case True
    show ?thesis
      using comment_phase [OF assms _ s, of "merge_event env c pr ''merge_completed''
          [(''head_ref'', JStr (ps_HeadRefName pr)), (''done_state'', JStr (rc_DoneState config))] w1"] c1
      by (simp add: cleanup_phase_def r True)
  next
    case False
    have "calls (snd (cleanup_phase env config c pr w)) = calls w" by (simp add: cleanup_phase_def r False c1)
    from stands_same [OF this] s show ?thesis by (simp add: stands_any)
  qed
qed

section \<open>One handling follows the protocol\<close>

lemma handleApproved_ok:
  assumes "me_client env = recording cl" "d = StateID states (trim_space (rc_DoneState config))"
    and "p = pr \<or> \<not> de_CanMerge decision"
  shows "last_phase p c r d {AtStart} (handleApprovedPR env config c states pr decision)"
proof (cases "de_CanMerge decision")
  case False
  then show ?thesis by (intro last_phase_quiet) (simp add: handleApprovedPR_def)
next
  case True
  have "last_phase pr c r d {AtStart} (\<lambda>w. and_then (squash_phase env c pr w)
             (\<lambda>w1. and_then (delete_phase env c pr w1)
               (\<lambda>w2. and_then (done_phase env config c states pr w2) (cleanup_phase env config c pr))))"
    by (intro last_phase_then [OF squash_phase_ok [OF assms(1)]] last_phase_then [OF delete_phase_ok [OF assms(1)]]
        last_phase_then [OF done_phase_ok [OF assms(1,2)]] cleanup_phase_ok [OF assms(1)])
  moreover have "p = pr" using assms(3) True by blast
  ultimately show ?thesis
    using True unfolding last_phase_def handleApprovedPR_def by (auto intro: stands_any)
qed

lemma back_to_ready_ok:
  assumes "me_client env = recording cl" "r = StateID states (trim_space (rc_ReadyState config))"
  shows "phase_ok pr c r d {AtStart} (back_to_ready env config c states) {AtStart, MovedBack}"
proof (cases "StateID states (rc_ReadyState config) = []")
  case True
  then show ?thesis by (intro phase_quiet) (simp_all add: back_to_ready_def)
next
  case False
  have "phase_ok pr c r d {AtStart} (move_issue env c states (rc_ReadyState config)) {AtStart, MovedBack}"
    by (rule move_phase_ok [OF assms(1)]) (simp only: assms(2) [symmetric] merge_step.move_back)
  then show ?thesis using False by (simp add: back_to_ready_def [abs_def])
qed

lemma comment_last:
  assumes "me_client env = recording cl" "A \<inter> {SquashMerged, Ended} = {}"
  shows "last_phase pr c r d A (\<lambda>w. ([], post_comment env c b w))"
  unfolding last_phase_def snd_conv using comment_phase [OF assms] by blast

text \<open>Feedback written, the issue moved back and a comment: the end of a conflict and of requested changes.\<close>

lemma write_back_ok:
  assumes "me_client env = recording cl" "r = StateID states (trim_space (rc_ReadyState config))"
  shows "last_phase pr c r d {AtStart} (\<lambda>w. and_then (writePRFeedback env ws n f w)
           (\<lambda>w3. and_then (back_to_ready env config c states w3) (\<lambda>w4. ([], post_comment env c b w4))))"
  by (rule last_phase_then [OF phase_quiet [OF files_calls(2) subset_refl]
        last_phase_then [OF back_to_ready_ok [OF assms] comment_last [OF assms(1)]]]) simp

lemma conflict_ok:
  assumes "me_client env = recording cl" "r = StateID states (trim_space (rc_ReadyState config))"
  shows "last_phase p c r d {AtStart} (handle_conflict env config c states pr gate)"
proof -
  have "last_phase p c r d {AtStart} (\<lambda>w. and_then (make_dirs ws w) (\<lambda>w2. and_then (writePRFeedback env ws n f w2)
          (\<lambda>w3. and_then (back_to_ready env config c states w3) (\<lambda>w4. ([], post_comment env c b w4)))))" for ws n f b
    by (rule last_phase_then [OF phase_quiet [OF files_calls(1) subset_refl] write_back_ok [OF assms]])
  then show ?thesis
    unfolding last_phase_def handle_conflict_def Let_def by (simp add: stands_def)
qed

lemma changes_requested_ok:
  assumes "me_client env = recording cl" "r = StateID states (trim_space (rc_ReadyState config))"
  shows "last_phase p c r d {AtStart} (handleChangesRequestedPR env config c states pr)"
  unfolding last_phase_def
proof (intro allI impI)
  fix w :: "'a logged_world" assume s: "stands p c r d {AtStart} w"
  obtain answer w1 where a: "call (mc_feedback (me_client env) (ps_URL pr) (ps_Number pr)) w = (answer, w1)"
    by (metis prod.exhaust)
  have c1: "calls w1 = calls w"
    using call_calls(2) [of "mc_feedback cl (ps_URL pr) (ps_Number pr)" w] a by (simp add: assms(1))
  show "stands p c r d UNIV (snd (handleChangesRequestedPR env config c states pr w))"
  proof (cases answer)
    case (Inl err)
    have "calls (snd (handleChangesRequestedPR env config c states pr w)) = calls w"
      by (simp add: handleChangesRequestedPR_def a Inl c1)
    from stands_same [OF this] s show ?thesis by (simp add: stands_any)
  next
    case (Inr feedback)
    have inner: "last_phase p c r d {AtStart} (\<lambda>w2. if P w2 then ([], w2) else and_then (writePRFeedback env ws n f w2)
          (\<lambda>w3. and_then (back_to_ready env config c states w3) (\<lambda>w4. ([], post_comment env c b w4))))" for P ws n f b
      using write_back_ok [OF assms, where pr = p and c = c and d = d and ws = ws and n = n and f = f and b = b]
      by (simp add: last_phase_def stands_any)
    have "stands p c r d {AtStart} w1" using s by (simp add: stands_def c1)
    moreover have "last_phase p c r d {AtStart} (\<lambda>w. and_then (make_dirs ws' w) (\<lambda>w2. if P w2 then ([], w2)
          else and_then (writePRFeedback env ws n f w2) (\<lambda>w3. and_then (back_to_ready env config c states w3)
                 (\<lambda>w4. ([], post_comment env c b w4)))))" for ws' P ws n f b
      by (rule last_phase_then [OF phase_quiet [OF files_calls(1) subset_refl] inner])
    ultimately show ?thesis
      unfolding handleChangesRequestedPR_def a Inr prod.case sum.case Let_def last_phase_def by blast
  qed
qed

lemma open_pr_ok:
  assumes "me_client env = recording cl" "calls w = []"
    and ids: "r = StateID states (trim_space (rc_ReadyState config))" "d = StateID states (trim_space (rc_DoneState config))"
    and p: "p = pr \<or> \<not> de_CanMerge (merge_decision env config c pr w)"
  shows "stands p c r d UNIV (snd (handle_open_pr env config c states pr w))"
proof -
  have s: "stands p c r d {AtStart} w" by (simp add: stands_def assms(2) path_start)
  define gate where "gate = md_Result (evaluatePullRequestMergeGate pr)"
  define decision where "decision = merge_decision env config c pr w"
  have "stands p c r d UNIV (snd (handle_conflict env config c states pr gate w))"
    "stands p c r d UNIV (snd (handleApprovedPR env config c states pr decision w))"
    "stands p c r d UNIV (snd (handleChangesRequestedPR env config c states pr w))"
    using s conflict_ok [OF assms(1) ids(1)] handleApproved_ok [OF assms(1) ids(2) p] changes_requested_ok [OF assms(1) ids(1)]
    unfolding last_phase_def decision_def by blast+
  moreover have "stands p c r d UNIV (post_comment env c b (merge_event env c pr t v w))" for b t v
    by (rule comment_phase [OF assms(1) _ s]) simp_all
  ultimately show ?thesis
    using s stands_any unfolding handle_open_pr_def Let_def gate_def [symmetric] decision_def [symmetric]
    by (simp only: if_distrib [of snd] snd_conv) (simp only: if_split, blast)
qed

text \<open>The candidate and the states of one handling, as the client answers them.\<close>

definition handled_issue ::
    "('w \<times> (host_call \<times> bool) list) merge_env \<Rightarrow> PullRequestSummary \<Rightarrow> 'w logged_world \<Rightarrow> Issue \<Rightarrow> WorkflowState list \<Rightarrow> 'w logged_world \<Rightarrow> bool" where
  "handled_issue env pr w c states w2 \<longleftrightarrow>
     (case call (mc_issue (me_client env) (issueIdentifierFromBranch (ps_HeadRefName pr))) w of
        (Inr (Some i), w1) \<Rightarrow> i = c \<and> call (lc_states (mc_linear (me_client env)) (is_TeamID c)) w1 = (Inr states, w2)
      | _ \<Rightarrow> False)"

lemma handle_cases:
  assumes "me_client env = recording cl"
  obtains (quiet) "calls (snd (HandlePullRequest env config pr w)) = calls w"
  | (acts) c states w2 where "handled_issue env pr w c states w2" "calls w2 = calls w"
      "is_StateName c = rc_HandoffState config" "prInvariantBlockReason (rec_at env w2) config c pr = []"
      "HandlePullRequest env config pr w = handle_open_pr env config c states pr w2"
proof (cases "ctx_errs env w = []")
  case False
  then show ?thesis using quiet by (simp add: HandlePullRequest_def)
next
  case True
  define key where "key = issueIdentifierFromBranch (ps_HeadRefName pr)"
  obtain answer w1 where a: "call (mc_issue (me_client env) key) w = (answer, w1)" by (metis prod.exhaust)
  have c1: "calls w1 = calls w"
    using call_calls(2) [of "mc_issue cl key" w] a by (simp add: assms)
  note h = HandlePullRequest_def [of env config pr w] key_def [symmetric] a prod.case
  show ?thesis
  proof (cases answer)
    case (Inl e)
    then show ?thesis using quiet c1 True unfolding h Let_def by simp
  next
    case (Inr found)
    show ?thesis
    proof (cases found)
      case None
      then show ?thesis using quiet c1 True Inr unfolding h Let_def by simp
    next
      case (Some c)
      obtain st w2 where b: "call (lc_states (mc_linear (me_client env)) (is_TeamID c)) w1 = (st, w2)" by (metis prod.exhaust)
      have c2: "calls w2 = calls w" "mw_fs w2 = mw_fs w1"
        using call_calls(2) [of "lc_states (mc_linear cl) (is_TeamID c)" w1]
          call_calls(3) [of "unlogged (lc_states (mc_linear cl) (is_TeamID c))" w1] b c1 by (simp_all add: assms)
      have inv: "prInvariantBlockReason (rec_at env w1) config c pr = prInvariantBlockReason (rec_at env w2) config c pr"
        by (simp add: rec_at_def prInvariantBlockReason_def c2)
      show ?thesis
      proof (cases "is_StateName c = rc_HandoffState config \<and> prInvariantBlockReason (rec_at env w1) config c pr = []")
        case False
        then show ?thesis using quiet c1 True unfolding h Inr Some Let_def by (auto split: if_splits)
      next
        case ours: True
        show ?thesis
        proof (cases st)
          case (Inl e)
          then show ?thesis using quiet c2 True ours unfolding h Inr Some Let_def by (simp add: b)
        next
          case states: (Inr states)
          have "handled_issue env pr w c states w2"
            by (simp add: handled_issue_def key_def [symmetric] a Inr Some b states)
          moreover have "HandlePullRequest env config pr w = handle_open_pr env config c states pr w2"
            using True ours unfolding h Inr Some Let_def by (simp add: b states)
          ultimately show ?thesis using acts c2 ours inv by simp
        qed
      qed
    qed
  qed
qed

text \<open>
  C32: The merge protocol.  Whatever the tracker and the code host answer, and whenever the context ends,
  one handling of a pull request changes nothing outside, or acts for the issue of its branch in the
  hand-off state and only in the order of the protocol: at most one squash merge, of this pull request;
  the branch is deleted only after that merge succeeded, the issue moves to Done only after the branch
  is gone; or the issue is moved back to Ready; and a comment comes last.
\<close>

theorem merge_calls_follow_protocol:
  assumes "me_client env = recording cl" "calls w = []"
  shows "calls (snd (HandlePullRequest env config pr w)) = []
    \<or> (\<exists>c states w2 s. handled_issue env pr w c states w2 \<and> is_StateName c = rc_HandoffState config
        \<and> prInvariantBlockReason (rec_at env w2) config c pr = []
        \<and> merge_path pr c (StateID states (trim_space (rc_ReadyState config))) (StateID states (trim_space (rc_DoneState config)))
            (calls (snd (HandlePullRequest env config pr w))) s)"
proof (cases rule: handle_cases [OF assms(1), where config = config and pr = pr and w = w, case_names quiet acts])
  case quiet
  then show ?thesis using assms(2) by simp
next
  case (acts c states w2)
  have "calls w2 = []" using acts(2) assms(2) by simp
  from open_pr_ok [OF assms(1) this refl refl, where p = pr and pr = pr and config = config and c = c and states = states] acts show ?thesis
    by (auto simp: stands_def)
qed

lemma path_squash: "merge_path p c r d l s \<Longrightarrow> (SquashMerge n, ok) \<in> set l \<Longrightarrow> n = ps_Number p"
  by (induction rule: merge_path.induct) (auto elim: merge_step.cases)

text \<open>
  C31: Nothing is merged that is not ready.  When a handling asks the code host to merge, with a
  hand-off state that is none of the Ready, Needs-Info and Done states, it asks for its own pull
  request, and at the moment it has looked up the issue and the states every gate of the merge is
  open: hand-off state, labels, run lock and lease, invariants, approval, checks, recorded success and
  a clean workspace.
\<close>

theorem merged_only_when_ready:
  assumes "me_client env = recording cl" "calls w = []"
    and "rc_HandoffState config \<notin> {rc_ReadyState config, rc_NeedsInfoState config, rc_DoneState config}"
    and "(SquashMerge n, ok) \<in> set (calls (snd (HandlePullRequest env config pr w)))"
  shows "n = ps_Number pr \<and> (\<exists>c states w2. handled_issue env pr w c states w2
    \<and> merge_ready (rec_at env w2) (Some (store_reader (mw_db w2))) config c (Some pr) None)"
proof (cases rule: handle_cases [OF assms(1), where config = config and pr = pr and w = w, case_names quiet acts])
  case quiet
  then show ?thesis using assms(2,4) by simp
next
  case (acts c states w2)
  have none: "calls w2 = []" using acts(2) assms(2) by simp
  let ?r = "StateID states (trim_space (rc_ReadyState config))" and ?d = "StateID states (trim_space (rc_DoneState config))"
  have n: "n = ps_Number p" if "p = pr \<or> \<not> de_CanMerge (merge_decision env config c pr w2)" for p
    using open_pr_ok [OF assms(1) none refl refl that] assms(4) acts(5) path_squash by (fastforce simp: stands_def)
  have "de_CanMerge (merge_decision env config c pr w2)"
    using n [of pr] n [of "pr\<lparr>ps_Number := ps_Number pr + 1\<rparr>"] by auto
  then have "merge_ready (rec_at env w2) (Some (store_reader (mw_db w2))) config c (Some pr) None"
    unfolding merge_decision_def can_merge_iff_ready [OF assms(3)] .
  then show ?thesis using n [of pr] acts(1) by blast
qed

text \<open>A code host that refuses the merge of an approved pull request.\<close>

definition refusing_client :: "unit merge_client" where
  "refusing_client =
     \<lparr>mc_linear = \<lparr>lc_update_state = (\<lambda>i s x. ([], x)), lc_comment = (\<lambda>i b x. ([], x)),
        lc_states = (\<lambda>t x. (Inr [\<lparr>ws_ID = ''d'', ws_Name = ''Done''\<rparr>], x)), lc_ctx_err = (\<lambda>x. [])\<rparr>,
      mc_issue = (\<lambda>k x. (Inr (Some ready_issue), x)), mc_open_prs = (\<lambda>x. (Inr [ready_pr], x)),
      mc_squash = (\<lambda>n x. ([''merge conflict''], x)), mc_delete_branch = (\<lambda>b x. ([], x)),
      mc_feedback = (\<lambda>u n x. (Inr [], x)), mc_pr_state = (\<lambda>u x. (Inr ([], False), x))\<rparr>"

definition refusing_env :: "(unit \<times> (host_call \<times> bool) list) merge_env" where
  "refusing_env = \<lparr>me_store = test_env, me_rec = ready_env, me_cwd = ''/'', me_fault = (\<lambda>p. False),
     me_client = recording refusing_client\<rparr>"

definition success_db :: db where
  "success_db = empty_db
     \<lparr>db_attempts := [\<lparr>ar_id = 1, ar_issue_key = ''CAG-1'', ar_issue_id = ''i'', ar_attempt = 1, ar_workspace_path = ''/w/CAG-1'',
        ar_branch_name = [], ar_base_branch = [], ar_status = ''success'', ar_created_at = ''2026-01-02T03:04:05Z'',
        ar_updated_at = ''2026-01-02T03:04:05Z''\<rparr>],
      db_reviews := [\<lparr>vr_attempt_id = 1, vr_command_status = ''passed'', vr_passed = 1, vr_classification = [],
        vr_output_ref = [], vr_output_hash = [], vr_merge_eligible = 1, vr_updated_at = ''2026-01-02T03:04:05Z''\<rparr>]\<rparr>"

definition merge_start :: "unit logged_world" where
  "merge_start = \<lparr>mw_db = success_db, mw_fs = re_fs ready_env, mw_w = ((), [])\<rparr>"

lemma merge_start_decision:
  "de_CanMerge (merge_decision refusing_env ready_config ready_issue ready_pr merge_start)"
  "\<not> de_ShouldQuarantine (merge_decision refusing_env ready_config ready_issue ready_pr merge_start)"
  "''merge_conflict'' \<notin> set (Codes (md_Result (evaluatePullRequestMergeGate ready_pr)))"
  "ps_ReviewDecision ready_pr = ''APPROVED''"
  "prInvariantBlockReason (rec_at refusing_env merge_start) ready_config ready_issue ready_pr = []"
  "is_StateName ready_issue = rc_HandoffState ready_config" "ps_Number ready_pr = 7"
  "rc_HandoffState ready_config \<notin> {rc_ReadyState ready_config, rc_NeedsInfoState ready_config, rc_DoneState ready_config}"
  by code_simp+

lemma squash_refused: "calls (snd (squash_phase refusing_env c ready_pr w)) = calls w @ [(SquashMerge 7, False)]"
  "fst (squash_phase refusing_env c ready_pr w) \<noteq> []"
  using call_calls(1) [of "SquashMerge 7" "mc_squash refusing_client 7"]
  by (simp_all add: squash_phase_def refusing_env_def refusing_client_def merge_start_decision(7) call_def logged_def
      calls_def [of "_\<lparr>mw_w := _\<rparr>"])

lemma merge_start_calls: "calls (snd (HandlePullRequest refusing_env ready_config ready_pr merge_start)) = [(SquashMerge 7, False)]"
proof -
  have ctx: "ctx_errs refusing_env merge_start = []"
    by (simp add: ctx_errs_def refusing_env_def recording_linear_def refusing_client_def)
  have issue: "call (mc_issue (me_client refusing_env) k) merge_start = (Inr (Some ready_issue), merge_start)" for k
    by (simp add: refusing_env_def refusing_client_def call_def unlogged_def merge_start_def)
  have states: "call (lc_states (mc_linear (me_client refusing_env)) k) merge_start = (Inr [\<lparr>ws_ID = ''d'', ws_Name = ''Done''\<rparr>], merge_start)" for k
    by (simp add: refusing_env_def refusing_client_def call_def unlogged_def merge_start_def)
  have "calls (snd (handleApprovedPR refusing_env ready_config ready_issue ss ready_pr
      (merge_decision refusing_env ready_config ready_issue ready_pr merge_start) merge_start)) = [(SquashMerge 7, False)]" for ss
    using squash_refused [of ready_issue merge_start]
    by (simp add: handleApprovedPR_def ctx merge_start_decision(1) and_then_def) (simp add: merge_start_def calls_def)
  then show ?thesis
    unfolding HandlePullRequest_def handle_open_pr_def Let_def issue prod.case sum.case option.case states
    by (simp add: ctx merge_start_decision)
qed

theorem merge_calls_follow_protocol_witness:
  "\<exists>c s. is_StateName c = rc_HandoffState ready_config \<and>
     merge_path ready_pr c [] ''d'' [(SquashMerge 7, False)] s"
proof -
  have "me_client refusing_env = recording refusing_client" "calls merge_start = []"
    by (simp_all add: refusing_env_def merge_start_def calls_def)
  from merge_calls_follow_protocol [OF this, of ready_config ready_pr]
  obtain c states w2 s where h: "handled_issue refusing_env ready_pr merge_start c states w2"
    "is_StateName c = rc_HandoffState ready_config"
    "merge_path ready_pr c (StateID states (trim_space (rc_ReadyState ready_config)))
       (StateID states (trim_space (rc_DoneState ready_config))) [(SquashMerge 7, False)] s"
    unfolding merge_start_calls by auto
  have "states = [\<lparr>ws_ID = ''d'', ws_Name = ''Done''\<rparr>]"
    using h(1) by (simp add: handled_issue_def refusing_env_def refusing_client_def call_def unlogged_def)
  moreover have "StateID [\<lparr>ws_ID = ''d'', ws_Name = ''Done''\<rparr>] (trim_space (rc_ReadyState ready_config)) = []"
    "StateID [\<lparr>ws_ID = ''d'', ws_Name = ''Done''\<rparr>] (trim_space (rc_DoneState ready_config)) = ''d''"
    by code_simp+
  ultimately show ?thesis using h(2,3) by auto
qed

theorem merged_only_when_ready_witness:
  "\<exists>c w2. merge_ready (rec_at refusing_env w2) (Some (store_reader (mw_db w2))) ready_config c (Some ready_pr) None"
proof -
  have "me_client refusing_env = recording refusing_client" "calls merge_start = []"
    by (simp_all add: refusing_env_def merge_start_def calls_def)
  from merged_only_when_ready [OF this merge_start_decision(8), of 7 False ready_pr] show ?thesis
    unfolding merge_start_calls by auto
qed

end
