(* ===== verification/TaskLane.thy ===== *)
theory TaskLane
  imports MergeWorker
begin

text \<open>
  What the lanes with durable tasks share: the events on a task (recordContinuousWorkerTaskEvent of
  src/continuous.go), the task queue of a world, and the contract by which a claimed task is settled.
\<close>

section \<open>Events on a task\<close>

definition worker_task_event ::
    "time \<Rightarrow> string \<Rightarrow> WorkerTask \<Rightarrow> (string \<times> json) list \<Rightarrow> EventInput" where
  "worker_task_event now eventType task payload =
     \<lparr>ei_OccurredAt = now, ei_IssueKey = wt_IssueKey task, ei_IssueID = wt_IssueID task, ei_Attempt = wt_Attempt task,
      ei_RunID = wt_TaskKey task, ei_Source = ''worker.'' @ wt_Role task, ei_Type = eventType,
      ei_Payload = ValuePayload (JObj (put ''status'' (JStr (wt_Status task)) (put ''role'' (JStr (wt_Role task))
        (put ''task_key'' (JStr (wt_TaskKey task)) payload))))\<rparr>"

definition recordContinuousWorkerTaskEvent ::
    "'w merge_env \<Rightarrow> string \<Rightarrow> WorkerTask \<Rightarrow> (string \<times> json) list \<Rightarrow> 'w merge_world \<Rightarrow> 'w merge_world" where
  "recordContinuousWorkerTaskEvent env eventType task payload w =
     snd (statement env (appendEvent (me_store env) (worker_task_event (merge_now env) eventType task payload)) w)"

section \<open>The queue of a world\<close>

definition queue_of :: "'w merge_world \<Rightarrow> TaskRow list" where "queue_of w = db_tasks (mw_db w)"

lemma appendEvent_queue [simp]: "db_tasks (snd (appendEvent env i db)) = db_tasks db"
  by (simp add: appendEvent_def insert_event_def Let_def split: sum.split)

lemma statement_queue: "(\<And>db. db_tasks (snd (f db)) = db_tasks db) \<Longrightarrow> queue_of (snd (statement env f w)) = queue_of w"
  by (auto simp: statement_def queue_of_def split: prod.split) (metis snd_conv)

lemma call_queue [simp]: "queue_of (snd (call f w)) = queue_of w"
  by (simp add: call_def queue_of_def split: prod.split)

lemma call_split: "call f w = (a, w') \<Longrightarrow> queue_of w' = queue_of w"
  using call_queue [of f w] by simp

lemma snd_queue: "r = (a, w') \<Longrightarrow> queue_of (snd r) = q \<Longrightarrow> queue_of w' = q"
  by simp

lemma task_event_queue [simp]: "queue_of (recordContinuousWorkerTaskEvent env t task p w) = queue_of w"
  by (simp add: recordContinuousWorkerTaskEvent_def statement_queue)

lemma claim_next_row:
  assumes "tasks_ok db" "ClaimNextWorkerTask env role now db = (Inr (Some task), db1)"
  obtains r where "tasks_ok db1" "lookup tr_task_key (wt_TaskKey task) (db_tasks db1) = Some r"
    "tr_status r = WorkerTaskStatusClaimed" "tr_task_key r \<in> tr_task_key ` set (db_tasks db)"
proof (cases rule: run_claim_cases [OF assms(1), where env = env and req = "NextOf role now", case_names none claimed])
  case none
  then show ?thesis using assms(2) by (simp add: claimed_key_def)
next
  case (claimed k now' r)
  then obtain P where P: "P r" "db1 = db\<lparr>db_tasks := sql_update P (set_status WorkerTaskStatusClaimed now') (db_tasks db)\<rparr>"
    using assms(2) by auto
  have l: "lookup tr_task_key k (db_tasks db1) = Some (set_status WorkerTaskStatusClaimed now' r)"
    unfolding P(2) by (rule lookup_claimed [OF assms(1) claimed(1), of P, OF P(1)])
  have "workerTask k db1 = Inr (Some task)" using claimed(6) assms(2) by simp
  then have "wt_TaskKey task = tr_task_key r"
    by (auto simp: workerTask_def l scan_task_def set_status_def split: option.splits sum.splits)
  then have key: "wt_TaskKey task = k" using lookup_Some [OF claimed(1)] by simp
  have "tasks_ok db1"
    using assms(1) unfolding P(2) tasks_ok_def by (simp add: sql_update_def comp_def set_status_def if_distrib [of tr_task_key] cong: if_cong)
  moreover have "r \<in> set (db_tasks db)" using lookup_Some [OF claimed(1)] by simp
  ultimately show ?thesis using that [of "set_status WorkerTaskStatusClaimed now' r"] l key by (simp add: set_status_def)
qed

lemma complete_claimed_row:
  assumes "tasks_ok db" "lookup tr_task_key k (db_tasks db) = Some r" "tr_status r = WorkerTaskStatusClaimed"
    and "k \<noteq> []" "status \<noteq> []"
  shows "\<exists>r'. lookup tr_task_key k (db_tasks (snd (CompleteWorkerTask env k status now db))) = Some r' \<and> tr_status r' = status"
proof -
  let ?sel = "\<lambda>r. tr_task_key r = k \<and> tr_status r = WorkerTaskStatusClaimed"
  have sel: "?sel r" using lookup_Some [OF assms(2)] assms(3) by simp
  have "rows_affected ?sel (db_tasks db) = 1"
    using rows_affected_key [OF assms(1) [unfolded tasks_ok_def], of k "\<lambda>r. tr_status r = WorkerTaskStatusClaimed"] assms(2,3)
    by simp
  then show ?thesis
    using lookup_claimed [OF assms(1,2), of ?sel status "now_or_clock env now", OF sel] assms(4,5)
    by (simp add: CompleteWorkerTask_def Let_def set_status_def)
qed

lemma result_tasks [simp]: "db_tasks (snd (UpsertWorkerResult env r db)) = db_tasks db"
  by (simp add: UpsertWorkerResult_def Let_def)

lemma statement_world [simp]: "mw_w (snd (statement env f w)) = mw_w w"
  by (simp add: statement_def split: prod.split)

lemma statement_ctx [simp]: "ctx_errs env (snd (statement env f w)) = ctx_errs env w"
  by (simp add: ctx_errs_def)

lemma task_event_ctx [simp]: "ctx_errs env (recordContinuousWorkerTaskEvent env t task p w) = ctx_errs env w"
  by (simp add: recordContinuousWorkerTaskEvent_def)

section \<open>The contract of a lane\<close>

text \<open>
  A lane claims the next task of its role, works on it without touching the queue, and finishes it
  with a statement under the context.
\<close>

locale task_lane =
  fixes env :: "'w merge_env" and role :: string
    and claim :: "'w merge_world \<Rightarrow> (err_list \<times> WorkerTask option) \<times> 'w merge_world"
    and work :: "WorkerTask \<Rightarrow> 'w merge_world \<Rightarrow> (string \<times> string \<times> err_list) \<times> 'w merge_world"
    and finish :: "WorkerTask \<Rightarrow> string \<Rightarrow> string \<Rightarrow> err_list \<Rightarrow> 'w merge_world \<Rightarrow> err_list \<times> 'w merge_world"
  assumes claim_takes: "claim w = ((err, Some task), w1) \<Longrightarrow> err = [] \<and> ctx_errs env w = []
      \<and> (\<exists>db1. ClaimNextWorkerTask (me_store env) role (merge_now env) (mw_db w) = (Inr (Some task), db1)
            \<and> queue_of w1 = db_tasks db1)"
    and work_queue: "queue_of (snd (work task w)) = queue_of w"
    and work_status: "fst (fst (work task w)) \<in> {''completed'', ''failed''}"
    and finish_ctx: "ctx_errs env (snd (finish task status reason failure w)) = ctx_errs env w"
    and finish_queue: "wt_TaskKey task \<noteq> [] \<Longrightarrow> status \<noteq> [] \<Longrightarrow>
      queue_of (snd (finish task status reason failure w)) =
        (if ctx_errs env w \<noteq> [] then queue_of w
         else db_tasks (snd (CompleteWorkerTask (me_store env) (wt_TaskKey task) status (merge_now env) (mw_db w))))"
begin

lemma settled:
  assumes "tasks_wf (mw_db w)" and c: "claim w = ((e, Some task), w1)"
    and work: "work task w1 = ((status, reason, failure), w2)" and w': "w' = snd (finish task status reason failure w2)"
  shows "\<exists>db1 r. ClaimNextWorkerTask (me_store env) role (merge_now env) (mw_db w) = (Inr (Some task), db1)
    \<and> lookup tr_task_key (wt_TaskKey task) (db_tasks (mw_db w')) = Some r
    \<and> (if ctx_errs env w' = [] then tr_status r \<in> {''completed'', ''failed''} else tr_status r = ''claimed'')"
proof -
  from claim_takes [OF c] obtain db1 where
    db1: "ClaimNextWorkerTask (me_store env) role (merge_now env) (mw_db w) = (Inr (Some task), db1)"
    "queue_of w1 = db_tasks db1" by blast
  have ok: "tasks_ok (mw_db w)" and keys: "list_all task_row_ok (db_tasks (mw_db w))"
    using assms(1) by (simp_all add: tasks_wf_def)
  from claim_next_row [OF ok db1(1)] obtain r where r: "tasks_ok db1"
    "lookup tr_task_key (wt_TaskKey task) (db_tasks db1) = Some r" "tr_status r = WorkerTaskStatusClaimed"
    "tr_task_key r \<in> tr_task_key ` set (db_tasks (mw_db w))" .
  have key: "wt_TaskKey task \<noteq> []"
    using r(4) lookup_Some [OF r(2)] keys by (auto simp: list_all_iff task_row_ok_def)
  have status: "status \<in> {''completed'', ''failed''}" using work_status [of task w1] by (simp add: work)
  then have ne: "status \<noteq> []" by auto
  have q2: "queue_of w2 = db_tasks db1" using work_queue [of task w1] by (simp add: work db1(2))
  note fin = finish_ctx [of task status reason failure w2, folded w'] finish_queue [OF key ne, of reason failure w2, folded w']
  show ?thesis
  proof (cases "ctx_errs env w2 = []")
    case True
    have "tasks_ok (mw_db w2)" "lookup tr_task_key (wt_TaskKey task) (db_tasks (mw_db w2)) = Some r"
      using r(1,2) q2 by (simp_all add: tasks_ok_def queue_of_def)
    from complete_claimed_row [OF this r(3) key ne, of "me_store env" "merge_now env"]
    show ?thesis using fin True db1(1) status by (auto simp: queue_of_def)
  next
    case False
    then show ?thesis using fin db1(1) r(2,3) q2 by (auto simp: queue_of_def WorkerTaskStatusClaimed_def)
  qed
qed

end

end
