(* ===== verification/MergeTasks.thy ===== *)
theory MergeTasks
  imports TaskLane
begin

text \<open>
  The durable tasks of the merge lane (src/merge.go): queueing one task for each pull request, claiming
  the next one, finding its pull request again and completing the task with a result.
\<close>

section \<open>The payload of a task\<close>

record mergeWorkerTaskPayload =
  mp_Phase :: string
  mp_IssueKey :: string
  mp_PRNumber :: int
  mp_PRURL :: string
  mp_HeadRefName :: string
  mp_BaseRefName :: string

definition merge_payload_text :: "mergeWorkerTaskPayload \<Rightarrow> string" where
  "merge_payload_text p =
     render_struct [(''phase'', JStr (mp_Phase p)), (''issue_key'', JStr (mp_IssueKey p)), (''pr_number'', JInt (mp_PRNumber p)),
       (''pr_url'', JStr (mp_PRURL p)), (''head_ref_name'', JStr (mp_HeadRefName p)), (''base_ref_name'', JStr (mp_BaseRefName p))]"

text \<open>The error of \<open>json.Unmarshal\<close> is ignored: a field of another kind keeps what it had.\<close>

definition keep_field :: "(json \<Rightarrow> 'a option) \<Rightarrow> 'a \<Rightarrow> string \<Rightarrow> (string \<times> json) list \<Rightarrow> 'a" where
  "keep_field read cur name ms = foldl (\<lambda>c j. case read j of None \<Rightarrow> c | Some v \<Rightarrow> v) cur (field_values name ms)"

definition decode_merge_payload :: "mergeWorkerTaskPayload \<Rightarrow> string \<Rightarrow> mergeWorkerTaskPayload" where
  "decode_merge_payload p data =
     (case object_members data of
        None \<Rightarrow> p
      | Some ms \<Rightarrow>
          \<lparr>mp_Phase = keep_field read_string (mp_Phase p) ''phase'' ms,
           mp_IssueKey = keep_field read_string (mp_IssueKey p) ''issue_key'' ms,
           mp_PRNumber = keep_field read_int (mp_PRNumber p) ''pr_number'' ms,
           mp_PRURL = keep_field read_string (mp_PRURL p) ''pr_url'' ms,
           mp_HeadRefName = keep_field read_string (mp_HeadRefName p) ''head_ref_name'' ms,
           mp_BaseRefName = keep_field read_string (mp_BaseRefName p) ''base_ref_name'' ms\<rparr>)"

definition task_payload :: "WorkerTask \<Rightarrow> mergeWorkerTaskPayload" where
  "task_payload task =
     (let p = \<lparr>mp_Phase = [], mp_IssueKey = wt_IssueKey task, mp_PRNumber = 0, mp_PRURL = [], mp_HeadRefName = [],
               mp_BaseRefName = []\<rparr> in
      if wt_Payload task = [] then p else decode_merge_payload p (wt_Payload task))"

definition mergeWorkerTaskKey :: "string \<Rightarrow> int \<Rightarrow> string" where
  "mergeWorkerTaskKey issueKey prNumber = RoleMerge @ '':'' @ issueKey @ '':'' @ itoa prNumber"

text \<open>\<open>strconv.Atoi\<close> without its error: 0 for no number, the nearest 64-bit number for one out of range.\<close>

definition atoi_value :: "string \<Rightarrow> int" where
  "atoi_value s =
     (let neg = has_prefix s ''-''; ds = (if neg \<or> has_prefix s ''+'' then tl s else s);
          i = (if neg then - int (digits_val ds) else int (digits_val ds)) in
      if ds = [] \<or> \<not> list_all is_digit ds then 0
      else if i < - (2 ^ 63) then - (2 ^ 63) else if 2 ^ 63 \<le> i then 2 ^ 63 - 1 else i)"

definition taskPRNumberFromKey :: "string \<Rightarrow> int" where
  "taskPRNumberFromKey taskKey = atoi_value (last (split_on (CHR '':'') taskKey))"

fun firstNonZero :: "int list \<Rightarrow> int" where
  "firstNonZero [] = 0"
| "firstNonZero (v # vs) = (if v \<noteq> 0 then v else firstNonZero vs)"

section \<open>Queueing\<close>

definition merge_task_for :: "Issue \<Rightarrow> PullRequestSummary \<Rightarrow> time \<Rightarrow> time \<Rightarrow> WorkerTask" where
  "merge_task_for candidate pr availableAt now =
     \<lparr>wt_TaskKey = mergeWorkerTaskKey (is_Identifier candidate) (ps_Number pr), wt_Role = RoleMerge,
      wt_IssueKey = is_Identifier candidate, wt_IssueID = is_ID candidate, wt_Attempt = 1, wt_Status = ''queued'',
      wt_Priority = is_Priority candidate, wt_AvailableAt = availableAt,
      wt_LeaseName = ''worker:merge:'' @ is_Identifier candidate,
      wt_Payload = merge_payload_text \<lparr>mp_Phase = ''merge'', mp_IssueKey = is_Identifier candidate,
        mp_PRNumber = ps_Number pr, mp_PRURL = ps_URL pr, mp_HeadRefName = ps_HeadRefName pr,
        mp_BaseRefName = ps_BaseRefName pr\<rparr>,
      wt_CreatedAt = now, wt_UpdatedAt = now\<rparr>"

text \<open>Whether a task was queued; the task of a pull request that is still under way blocks another one.\<close>

definition enqueueMergeWorkerTask ::
    "'w merge_env \<Rightarrow> Issue \<Rightarrow> PullRequestSummary \<Rightarrow> time \<Rightarrow> 'w merge_world \<Rightarrow> (err_list \<times> bool) \<times> 'w merge_world" where
  "enqueueMergeWorkerTask env candidate pr now0 w =
     (let now = (if is_zero now0 then merge_now env else now0);
          taskKey = mergeWorkerTaskKey (is_Identifier candidate) (ps_Number pr) in
      case fst (statement env (\<lambda>db. (WorkerTasks RoleMerge db, db)) w) of
        Inl e \<Rightarrow> (([store_error_text e], False), w)
      | Inr tasks \<Rightarrow>
          if (case find (\<lambda>t. wt_TaskKey t = taskKey) tasks of None \<Rightarrow> False | Some t \<Rightarrow> BlocksDispatch (wt_Status t))
          then (([], False), w)
          else (case fst (statement env (\<lambda>db. (AvailableAtAfterLatestFailure (Some db) taskKey RoleMerge now, db)) w) of
                  Inl e \<Rightarrow> (([store_error_text e], False), w)
                | Inr availableAt \<Rightarrow>
                    let task = merge_task_for candidate pr availableAt now in
                    (case statement env (UpsertWorkerTask (me_store env) task) w of
                       (Inl e, w1) \<Rightarrow> (([store_error_text e], False), w1)
                     | (Inr u, w1) \<Rightarrow>
                         (([], True), recordContinuousWorkerTaskEvent env ''worker_task_queued'' task
                            [(''lane'', JStr ''merge''), (''issue_key'', JStr (is_Identifier candidate)),
                             (''pr_url'', JStr (ps_URL pr)), (''pr_number'', JInt (ps_Number pr))] w1))))"

fun schedule_loop ::
    "'w merge_env \<Rightarrow> RunnerConfig \<Rightarrow> PullRequestSummary list \<Rightarrow> bool \<Rightarrow> 'w merge_world \<Rightarrow> (bool \<times> err_list) \<times> 'w merge_world" where
  "schedule_loop env config [] didWork w = ((didWork, []), w)"
| "schedule_loop env config (pr # prs) didWork w =
     (let issueKey = issueIdentifierFromBranch (ps_HeadRefName pr) in
      if issueKey = [] then schedule_loop env config prs didWork w
      else (case call (mc_issue (me_client env) issueKey) w of
              (Inl err, w1) \<Rightarrow> ((didWork, [err]), recordMergeErrorContext env issueKey [] (ps_Number pr) [err] w1)
            | (Inr None, w1) \<Rightarrow> schedule_loop env config prs didWork w1
            | (Inr (Some candidate), w1) \<Rightarrow>
                if is_StateName candidate \<noteq> rc_HandoffState config then schedule_loop env config prs didWork w1
                else (case enqueueMergeWorkerTask env candidate pr (merge_now env) w1 of
                        ((err, enqueued), w2) \<Rightarrow>
                          if err \<noteq> [] then ((didWork, err), w2)
                          else schedule_loop env config prs (didWork \<or> enqueued) w2)))"

definition scheduleMergeWorkerTasks ::
    "'w merge_env \<Rightarrow> RunnerConfig \<Rightarrow> 'w merge_world \<Rightarrow> (bool \<times> err_list) \<times> 'w merge_world" where
  "scheduleMergeWorkerTasks env config w =
     (case call (mc_open_prs (me_client env)) w of
        (Inl err, w1) \<Rightarrow>
          ((False, [''code-host API open PR metadata lookup failed: '' @ err]), recordMergeErrorContext env [] [] 0 [err] w1)
      | (Inr prs, w1) \<Rightarrow> schedule_loop env config (amPRs prs) False w1)"

section \<open>Claiming and completing\<close>

text \<open>Tasks of earlier daemons under the lane's own key are completed without work.\<close>

definition claimNextQueuedMergeWorkerTask ::
    "'w merge_env \<Rightarrow> time \<Rightarrow> 'w merge_world \<Rightarrow> (err_list \<times> WorkerTask option) \<times> 'w merge_world" where
  "claimNextQueuedMergeWorkerTask env now w =
     (case statement env (ClaimNextWorkerTask (me_store env) RoleMerge now) w of
        (Inl e, w1) \<Rightarrow> (([store_error_text e], None), w1)
      | (Inr None, w1) \<Rightarrow> (([], None), w1)
      | (Inr (Some claimed), w1) \<Rightarrow>
          if wt_TaskKey claimed = ''continuous:merge'' \<or> wt_TaskKey claimed = ''process:merge''
          then (case statement env (CompleteWorkerTask (me_store env) (wt_TaskKey claimed) ''completed'' now) w1 of
                  (r, w2) \<Rightarrow> ((err_of r, None), w2))
          else (([], Some claimed), recordContinuousWorkerTaskEvent env ''worker_task_claimed'' claimed
                  [(''lane'', JStr ''merge''), (''issue_key'', JStr (wt_IssueKey claimed))] w1))"

definition findMergeTaskPullRequest ::
    "PullRequestSummary list \<Rightarrow> WorkerTask \<Rightarrow> mergeWorkerTaskPayload \<Rightarrow> PullRequestSummary option" where
  "findMergeTaskPullRequest prs task payload =
     find (\<lambda>pr. 0 < mp_PRNumber payload \<and> ps_Number pr = mp_PRNumber payload
              \<or> mp_PRURL payload \<noteq> [] \<and> ps_URL pr = mp_PRURL payload
              \<or> wt_IssueKey task \<noteq> [] \<and> issueIdentifierFromBranch (ps_HeadRefName pr) = wt_IssueKey task) prs"

definition merge_result_payload :: "WorkerTask \<Rightarrow> string \<Rightarrow> bool \<Rightarrow> string \<Rightarrow> string \<Rightarrow> (string \<times> json) list" where
  "merge_result_payload task status didWork reason errorText =
     [(''lane'', JStr ''merge''), (''task_key'', JStr (wt_TaskKey task)), (''role'', JStr RoleMerge), (''status'', JStr status),
      (''reason'', JStr reason), (''did_work'', JBool didWork), (''issue_key'', JStr (wt_IssueKey task))]
     @ (if errorText \<noteq> [] then [(''error'', JStr errorText)] else [])"

definition completeClaimedMergeWorkerTask ::
    "'w merge_env \<Rightarrow> WorkerTask \<Rightarrow> string \<Rightarrow> bool \<Rightarrow> string \<Rightarrow> string \<Rightarrow> time \<Rightarrow> time \<Rightarrow> 'w merge_world
       \<Rightarrow> err_list \<times> 'w merge_world" where
  "completeClaimedMergeWorkerTask env task status0 didWork reason0 errorText startedAt0 finishedAt0 w =
     (if wt_TaskKey task = [] then ([], w)
      else let status = (if status0 = [] then ''completed'' else status0);
               reason = (if reason0 = [] then ''merge_task_completed'' else reason0);
               startedAt = (if is_zero startedAt0 then merge_now env else startedAt0);
               finishedAt = (if is_zero finishedAt0 then merge_now env else finishedAt0);
               payload = merge_result_payload task status didWork reason errorText in
        (case statement env (CompleteWorkerTask (me_store env) (wt_TaskKey task) status finishedAt) w of
           (finished, w1) \<Rightarrow>
             (case statement env (UpsertWorkerResult (me_store env)
                     \<lparr>re_TaskKey = wt_TaskKey task, re_Role = RoleMerge, re_LaneName = ''merge'', re_IssueKey = wt_IssueKey task,
                      re_IssueID = wt_IssueID task, re_Attempt = wt_Attempt task, re_Status = status, re_DidWork = didWork,
                      re_Reason = reason, re_Error = errorText, re_Payload = json_render (JObj payload),
                      re_StartedAt = startedAt, re_FinishedAt = finishedAt, re_UpdatedAt = finishedAt\<rparr>) w1 of
                (recorded, w2) \<Rightarrow>
                  (err_of finished @ err_of recorded,
                   recordContinuousWorkerTaskEvent env
                     (if status = ''failed'' then ''worker_task_failed'' else ''worker_task_completed'')
                     (task\<lparr>wt_Status := status, wt_UpdatedAt := finishedAt\<rparr>) payload w2))))"

section \<open>A pull request that is no longer open\<close>

definition merged_state ::
    "'w merge_env \<Rightarrow> string \<Rightarrow> 'w merge_world \<Rightarrow> (error_message + Facts option) \<times> 'w merge_world" where
  "merged_state env prURL w =
     (case call (mc_pr_state (me_client env) prURL) w of (r, w1) \<Rightarrow> (MergedFacts (Some (\<lambda>url. r)) prURL, w1))"

text \<open>The issue is moved to Done unless it is there, then its workspace is removed.\<close>

definition converge_done ::
    "'w merge_env \<Rightarrow> RunnerConfig \<Rightarrow> Issue \<Rightarrow> WorkflowState list \<Rightarrow> (string \<Rightarrow> (string \<times> json) list \<Rightarrow> 'w merge_world \<Rightarrow> 'w merge_world)
       \<Rightarrow> 'w merge_world \<Rightarrow> err_list \<times> 'w merge_world" where
  "converge_done env config candidate states event w =
     (let state = (''done_state'', JStr (rc_DoneState config)) in
      if is_StateName candidate = rc_DoneState config \<or> StateID states (rc_DoneState config) = [] then ([], w)
      else (case move_issue env candidate states (rc_DoneState config) (event ''linear_done_transition_attempted'' [state] w) of
              (err, w1) \<Rightarrow>
                if err \<noteq> []
                then (err, event ''linear_done_transition_finished''
                             [state, (''result'', JStr ''failed''), (''error'', JStr (errs_text err))] w1)
                else ([], event ''linear_done_transition_finished'' [state, (''result'', JStr ''success'')] w1)))"

definition converge_merged ::
    "'w merge_env \<Rightarrow> RunnerConfig \<Rightarrow> Issue \<Rightarrow> WorkflowState list \<Rightarrow> WorkerTask \<Rightarrow> mergeWorkerTaskPayload \<Rightarrow> Facts
       \<Rightarrow> 'w merge_world \<Rightarrow> err_list \<times> 'w merge_world" where
  "converge_merged env config candidate states task payload facts w =
     (let prNumber = firstNonZero [mp_PRNumber payload, taskPRNumberFromKey (wt_TaskKey task)];
          event = (\<lambda>eventType more. recordMergeEventContext env eventType (is_Identifier candidate) (is_ID candidate) prNumber
                     ((''pr_url'', JStr (fa_PRURL facts)) # more));
          head = (''head_ref'', JStr (mp_HeadRefName payload));
          w0 = event ''merge_succeeded'' [head, (''state'', JStr (fa_State facts)), (''result'', JStr ''already_merged'')] w in
      and_then (converge_done env config candidate states event w0)
        (\<lambda>w1. case removeDoneWorkspaceContext env (rc_WorkspaceRoot config) (is_Identifier candidate) w1 of
                (err, w2) \<Rightarrow>
                  if err \<noteq> []
                  then (err, event ''merge_failed'' [(''phase'', JStr ''workspace_cleanup''), (''error'', JStr (errs_text err))] w2)
                  else ([], post_comment env candidate
                              (''PR was already merged; converged Agent Machine state and cleaned workspace: '' @ fa_PRURL facts)
                              (event ''merge_completed''
                                 [head, (''done_state'', JStr (rc_DoneState config)), (''result'', JStr ''already_merged'')] w2))))"

text \<open>Whether the merged pull request was taken care of, and the error.\<close>

definition handleAlreadyMergedMissingMergeTaskPR ::
    "'w merge_env \<Rightarrow> RunnerConfig \<Rightarrow> WorkerTask \<Rightarrow> mergeWorkerTaskPayload \<Rightarrow> 'w merge_world \<Rightarrow> (bool \<times> err_list) \<times> 'w merge_world" where
  "handleAlreadyMergedMissingMergeTaskPR env config task payload w =
     (let prURL = trim_space (mp_PRURL payload) in
      if prURL = [] then ((False, []), w)
      else (case merged_state env prURL w of
              (Inl err, w1) \<Rightarrow> ((False, []), w1)
            | (Inr None, w1) \<Rightarrow> ((False, []), w1)
            | (Inr (Some facts), w1) \<Rightarrow>
                let issueKey = first_non_empty [mp_IssueKey payload, wt_IssueKey task, issueIdentifierFromBranch (mp_HeadRefName payload)] in
                if issueKey = []
                then ((True, [''queued merge task '' @ wt_TaskKey task @ '' has merged PR '' @ prURL @ '' but no issue key'']), w1)
                else (case call (mc_issue (me_client env) issueKey) w1 of
                        (Inl err, w2) \<Rightarrow> ((True, [err]), w2)
                      | (Inr None, w2) \<Rightarrow>
                          ((True, [''issue '' @ issueKey @ '' not found while converging already-merged PR '' @ prURL]), w2)
                      | (Inr (Some candidate), w2) \<Rightarrow>
                          (case call (lc_states (mc_linear (me_client env)) (is_TeamID candidate)) w2 of
                             (Inl err, w3) \<Rightarrow> ((True, [err]), w3)
                           | (Inr states, w3) \<Rightarrow>
                               (case converge_merged env config candidate states task payload facts w3 of
                                  (err, w4) \<Rightarrow> ((True, err), w4))))))"

section \<open>Running a task\<close>

text \<open>The work on a claimed task: the status, the reason and the error it is completed with.\<close>

definition merge_task_work ::
    "'w merge_env \<Rightarrow> RunnerConfig \<Rightarrow> WorkerTask \<Rightarrow> 'w merge_world \<Rightarrow> (string \<times> string \<times> err_list) \<times> 'w merge_world" where
  "merge_task_work env config task w =
     (let payload = task_payload task;
          record_error = recordMergeErrorContext env (wt_IssueKey task) (wt_IssueID task) (mp_PRNumber payload) in
      case call (mc_open_prs (me_client env)) w of
        (Inl err, w1) \<Rightarrow>
          ((''failed'', ''codehost_open_pr_lookup_failed'', [err]), record_error [err] w1)
      | (Inr prs, w1) \<Rightarrow>
          (case findMergeTaskPullRequest (amPRs prs) task payload of
             None \<Rightarrow>
               (case handleAlreadyMergedMissingMergeTaskPR env config task payload w1 of
                  ((handled, err), w2) \<Rightarrow>
                    if err \<noteq> [] then ((''failed'', ''already_merged_convergence_failed'', err), record_error err w2)
                    else if handled then ((''completed'', ReasonAlreadyMerged, []), w2)
                    else ((''completed'', ''pull_request_not_open'', []), w2))
           | Some pr \<Rightarrow>
               (case HandlePullRequest env config pr w1 of
                  (err, w2) \<Rightarrow>
                    if err \<noteq> [] then ((''failed'', ''merge_worker_error'', err), w2)
                    else ((''completed'', ''merge_task_processed'', []), w2))))"

definition returned_error :: "string \<Rightarrow> err_list \<Rightarrow> err_list" where
  "returned_error reason err =
     (if reason = ''codehost_open_pr_lookup_failed''
      then [''code-host API open PR metadata lookup failed: '' @ errs_text err] else err)"

definition runQueuedMergeWorkerTaskContext ::
    "'w merge_env \<Rightarrow> RunnerConfig \<Rightarrow> 'w merge_world \<Rightarrow> (bool \<times> err_list) \<times> 'w merge_world" where
  "runQueuedMergeWorkerTaskContext env config w =
     (if ctx_errs env w \<noteq> [] then ((False, ctx_errs env w), w)
      else let now = merge_now env in
        (case claimNextQueuedMergeWorkerTask env now w of
           ((err, None), w1) \<Rightarrow> ((False, err), w1)
         | ((err, Some task), w1) \<Rightarrow>
             if err \<noteq> [] then ((False, err), w1)
             else (case merge_task_work env config task w1 of
                     ((status, reason, failure), w2) \<Rightarrow>
                       (case completeClaimedMergeWorkerTask env task status True reason (errs_text failure) now now w2 of
                          (err, w3) \<Rightarrow> ((True, returned_error reason failure @ err), w3)))))"

section \<open>Working on a task leaves the queue alone\<close>

lemma event_queue [simp]:
  "queue_of (recordMergeEventContext env t k i n p w) = queue_of w" "queue_of (recordMergeErrorContext env k i n e w) = queue_of w"
  "queue_of (merge_event env c pr t p w) = queue_of w" "queue_of (merge_error env c pr e w) = queue_of w"
  "queue_of (phase_failed env c pr ph e w) = queue_of w"
  by (simp_all add: recordMergeEventContext_def recordMergeErrorContext_def merge_event_def merge_error_def phase_failed_def
      statement_queue)

lemma and_then_queue:
  "queue_of (snd r) = q \<Longrightarrow> (\<And>w. queue_of (snd (f w)) = queue_of w) \<Longrightarrow> queue_of (snd (and_then r f)) = q"
  by (simp add: and_then_def)

lemma step_queue [simp]:
  "queue_of (snd (make_dirs p w)) = queue_of w" "queue_of (snd (writePRFeedback env ws n f w)) = queue_of w"
  "queue_of (snd (removeDoneWorkspaceContext env ws k w)) = queue_of w" "queue_of (snd (move_issue env c ss name w)) = queue_of w"
  "queue_of (post_comment env c b w) = queue_of w" "queue_of (snd (back_to_ready env config c ss w)) = queue_of w"
  by (simp_all add: make_dirs_def writePRFeedback_def removeDoneWorkspaceContext_def move_issue_def post_comment_def
      back_to_ready_def queue_of_def [of "_\<lparr>mw_fs := _\<rparr>"] Let_def split: sum.split)
    (simp_all add: queue_of_def)

lemmas queue_splits = call_split snd_queue [OF _ step_queue(3)] snd_queue [OF _ step_queue(4)]

lemma phase_queue [simp]:
  "queue_of (snd (squash_phase env c pr w)) = queue_of w" "queue_of (snd (delete_phase env c pr w)) = queue_of w"
  "queue_of (snd (done_phase env config c ss pr w)) = queue_of w" "queue_of (snd (cleanup_phase env config c pr w)) = queue_of w"
  by (auto simp: squash_phase_def delete_phase_def done_phase_def cleanup_phase_def Let_def
      dest!: queue_splits split: prod.split)

lemma handler_queue [simp]:
  "queue_of (snd (handleApprovedPR env config c ss pr d w)) = queue_of w"
  "queue_of (snd (handle_conflict env config c ss pr g w)) = queue_of w"
  "queue_of (snd (handleChangesRequestedPR env config c ss pr w)) = queue_of w"
  unfolding handleApprovedPR_def handle_conflict_def handleChangesRequestedPR_def Let_def
  by (auto intro!: and_then_queue dest!: call_split split: prod.split sum.split)

lemma open_pr_queue [simp]: "queue_of (snd (handle_open_pr env config c ss pr w)) = queue_of w"
  unfolding handle_open_pr_def Let_def
  by (simp only: if_distrib [of snd] if_distrib [of queue_of] snd_conv handler_queue step_queue event_queue if_cancel)

lemma handle_queue [simp]: "queue_of (snd (HandlePullRequest env config pr w)) = queue_of w"
  unfolding HandlePullRequest_def Let_def by (auto dest!: call_split split: prod.split sum.split option.split)

lemma converge_done_queue:
  assumes "\<And>t p w. queue_of (event t p w) = queue_of w"
  shows "queue_of (snd (converge_done env config c ss event w)) = queue_of w"
proof -
  obtain err w1 where m: "move_issue env c ss (rc_DoneState config)
      (event ''linear_done_transition_attempted'' [(''done_state'', JStr (rc_DoneState config))] w) = (err, w1)"
    by (metis prod.exhaust)
  have "queue_of w1 = queue_of w" using snd_queue [OF m step_queue(4)] assms by simp
  then show ?thesis unfolding converge_done_def Let_def m prod.case by (simp add: assms)
qed

lemma converge_queue [simp]: "queue_of (snd (converge_merged env config c ss task p facts w)) = queue_of w"
proof -
  have tail: "queue_of (snd (case removeDoneWorkspaceContext env dir k w1 of
      (err, w2) \<Rightarrow> if err \<noteq> [] then (err, e1 err w2) else ([], post_comment env c b (e2 w2)))) = queue_of w1"
    if "\<And>err w. queue_of (e1 err w) = queue_of w" "\<And>w. queue_of (e2 w) = queue_of w" for e1 e2 dir k b w1
    using that snd_queue [OF _ step_queue(3)] by (auto split: prod.split)
  show ?thesis
    unfolding converge_merged_def Let_def
    by (rule and_then_queue) (simp add: converge_done_queue, rule tail, simp_all)
qed

lemma merged_queue [simp]: "queue_of (snd (handleAlreadyMergedMissingMergeTaskPR env config task p w)) = queue_of w"
  unfolding handleAlreadyMergedMissingMergeTaskPR_def merged_state_def Let_def
  by (auto dest!: call_split dest: snd_queue [OF _ converge_queue] split: prod.split sum.split option.split)

lemma work_queue: "queue_of (snd (merge_task_work env config task w)) = queue_of w"
  unfolding merge_task_work_def Let_def
  by (auto dest!: call_split dest: snd_queue [OF _ merged_queue] snd_queue [OF _ handle_queue]
      split: prod.split sum.split option.split)

section \<open>A claimed task is settled\<close>

text \<open>Completing writes one statement on the queue, and only under a live context.\<close>

lemma complete_ctx: "ctx_errs env (snd (completeClaimedMergeWorkerTask env task status d reason e s f w)) = ctx_errs env w"
  unfolding completeClaimedMergeWorkerTask_def Let_def by (simp add: case_prod_beta)

lemma complete_queue:
  assumes "wt_TaskKey task \<noteq> []" "status \<noteq> []"
  shows "queue_of (snd (completeClaimedMergeWorkerTask env task status d reason e (merge_now env) (merge_now env) w)) =
      (if ctx_errs env w \<noteq> [] then queue_of w
       else db_tasks (snd (CompleteWorkerTask (me_store env) (wt_TaskKey task) status (merge_now env) (mw_db w))))"
  using assms unfolding completeClaimedMergeWorkerTask_def Let_def
  by (simp_all add: case_prod_beta statement_queue) (simp_all add: statement_def queue_of_def case_prod_beta)

lemma claimed_step:
  assumes "claimNextQueuedMergeWorkerTask env now w = ((err, Some task), w1)"
  shows "err = [] \<and> ctx_errs env w = []
    \<and> (\<exists>db1. ClaimNextWorkerTask (me_store env) RoleMerge now (mw_db w) = (Inr (Some task), db1) \<and> queue_of w1 = db_tasks db1)"
  using assms unfolding claimNextQueuedMergeWorkerTask_def statement_def [of env "ClaimNextWorkerTask _ _ _"]
  by (auto split: if_splits prod.splits sum.splits option.splits) (simp_all add: queue_of_def [of "_\<lparr>mw_db := _\<rparr>"])

lemma work_status: "fst (fst (merge_task_work env config task w)) \<in> {''completed'', ''failed''}"
  by (simp add: merge_task_work_def Let_def split: prod.split sum.split option.split)

interpretation ml: task_lane env RoleMerge "claimNextQueuedMergeWorkerTask env (merge_now env)" "merge_task_work env config"
    "\<lambda>task status reason failure.
       completeClaimedMergeWorkerTask env task status True reason (errs_text failure) (merge_now env) (merge_now env)" for env config
  by unfold_locales (erule claimed_step, rule work_queue, rule work_status, rule complete_ctx, erule (1) complete_queue)

text \<open>
  C35: A claimed merge task is settled, unless the context ends.  A run of the merge lane that did work
  has claimed a task; when the context is still alive at the end, that task is completed or failed,
  whatever the tracker and the code host answered.  When the context ended during the work, the
  completion is a statement under the ended context, and the task stays claimed.
\<close>

theorem merge_task_settled_unless_cancelled:
  assumes "tasks_wf (mw_db w)" "runQueuedMergeWorkerTaskContext env config w = ((True, err), w')"
  shows "\<exists>task db1 r. ClaimNextWorkerTask (me_store env) RoleMerge (merge_now env) (mw_db w) = (Inr (Some task), db1)
    \<and> lookup tr_task_key (wt_TaskKey task) (db_tasks (mw_db w')) = Some r
    \<and> (if ctx_errs env w' = [] then tr_status r \<in> {''completed'', ''failed''} else tr_status r = ''claimed'')"
proof -
  obtain e task w1 where c: "claimNextQueuedMergeWorkerTask env (merge_now env) w = ((e, Some task), w1)"
    using assms(2) unfolding runQueuedMergeWorkerTaskContext_def Let_def
    by (cases "claimNextQueuedMergeWorkerTask env (merge_now env) w"; cases "fst (claimNextQueuedMergeWorkerTask env (merge_now env) w)")
      (auto split: if_splits option.splits)
  obtain status reason failure w2 where work: "merge_task_work env config task w1 = ((status, reason, failure), w2)"
    by (metis prod.exhaust)
  have "w' = snd (completeClaimedMergeWorkerTask env task status True reason (errs_text failure) (merge_now env) (merge_now env) w2)"
    using assms(2) claimed_step [OF c] unfolding runQueuedMergeWorkerTaskContext_def Let_def c prod.case option.case work
    by (auto split: prod.splits)
  from ml.settled [OF assms(1) c work this] show ?thesis by blast
qed

text \<open>A tracker without the issue of the task, and a code host without its pull request.\<close>

definition empty_client :: "unit merge_client" where
  "empty_client =
     \<lparr>mc_linear = \<lparr>lc_update_state = (\<lambda>i s x. ([], x)), lc_comment = (\<lambda>i b x. ([], x)), lc_states = (\<lambda>t x. (Inr [], x)),
        lc_ctx_err = (\<lambda>x. [])\<rparr>,
      mc_issue = (\<lambda>k x. (Inr None, x)), mc_open_prs = (\<lambda>x. (Inr [], x)), mc_squash = (\<lambda>n x. ([], x)),
      mc_delete_branch = (\<lambda>b x. ([], x)), mc_feedback = (\<lambda>u n x. (Inr [], x)), mc_pr_state = (\<lambda>u x. (Inr ([], False), x))\<rparr>"

definition empty_merge_env :: "unit merge_env" where
  "empty_merge_env = \<lparr>me_store = test_env, me_rec = ready_env\<lparr>re_now := 2000000000\<rparr>, me_cwd = ''/'', me_fault = (\<lambda>p. False),
     me_client = empty_client\<rparr>"

definition merge_sample :: WorkerTask where
  "merge_sample = (sample_task ''merge:CAG-1:7'' ''queued'' 1000000000)\<lparr>wt_Role := RoleMerge\<rparr>"

definition queued_world :: "unit merge_world" where
  "queued_world = \<lparr>mw_db = empty_db\<lparr>db_tasks := [task_row merge_sample]\<rparr>, mw_fs = re_fs ready_env, mw_w = ()\<rparr>"

lemma queued_world_wf: "tasks_wf (mw_db queued_world)"
  by code_simp

lemma run_did_work:
  assumes "ctx_errs env w = []" "ClaimNextWorkerTask (me_store env) RoleMerge (merge_now env) (mw_db w) = (Inr (Some task), db1)"
    and "wt_TaskKey task \<noteq> ''continuous:merge''" "wt_TaskKey task \<noteq> ''process:merge''"
  shows "fst (fst (runQueuedMergeWorkerTaskContext env config w))"
  using assms
  by (simp add: runQueuedMergeWorkerTaskContext_def claimNextQueuedMergeWorkerTask_def statement_def Let_def split: prod.split)

lemma queued_claim: "map_option wt_TaskKey (case fst (ClaimNextWorkerTask test_env RoleMerge 2000000000 (mw_db queued_world)) of
    Inr t \<Rightarrow> t | Inl e \<Rightarrow> None) = Some ''merge:CAG-1:7''"
  by code_simp

theorem merge_task_settled_unless_cancelled_witness:
  "\<exists>err w' (task :: WorkerTask) r. runQueuedMergeWorkerTaskContext empty_merge_env ready_config queued_world = ((True, err), w')
     \<and> lookup tr_task_key (wt_TaskKey task) (db_tasks (mw_db w')) = Some r \<and> tr_status r \<in> {''completed'', ''failed''}"
proof -
  obtain task db1 where c: "ClaimNextWorkerTask test_env RoleMerge 2000000000 (mw_db queued_world) = (Inr (Some task), db1)"
    "wt_TaskKey task = ''merge:CAG-1:7''"
    using queued_claim by (cases "ClaimNextWorkerTask test_env RoleMerge 2000000000 (mw_db queued_world)")
      (auto split: sum.splits option.splits)
  have env: "me_store empty_merge_env = test_env" "merge_now empty_merge_env = 2000000000" "ctx_errs empty_merge_env w = []" for w
    by (simp_all add: empty_merge_env_def merge_now_def ctx_errs_def empty_client_def)
  have "fst (fst (runQueuedMergeWorkerTaskContext empty_merge_env ready_config queued_world))"
    by (rule run_did_work [of _ _ task db1]) (simp_all add: env c)
  then obtain err w' where run: "runQueuedMergeWorkerTaskContext empty_merge_env ready_config queued_world = ((True, err), w')"
    by (metis prod.collapse)
  from merge_task_settled_unless_cancelled [OF queued_world_wf run] obtain t :: WorkerTask and r
    where "lookup tr_task_key (wt_TaskKey t) (db_tasks (mw_db w')) = Some r" "tr_status r \<in> {''completed'', ''failed''}"
    unfolding env by auto
  with run show ?thesis by blast
qed

section \<open>The payload\<close>

lemma merge_payload_fold:
  "list_all (\<lambda>a. list_all (\<lambda>b. equal_fold a b = (a = b))
      [''phase'', ''issue_key'', ''pr_number'', ''pr_url'', ''head_ref_name'', ''base_ref_name''])
   [''phase'', ''issue_key'', ''pr_number'', ''pr_url'', ''head_ref_name'', ''base_ref_name'']"
  by code_simp

lemma merge_payload_members:
  "object_members (merge_payload_text p) = Some [(''phase'', JStr (mp_Phase p)), (''issue_key'', JStr (mp_IssueKey p)),
     (''pr_number'', JInt (mp_PRNumber p)), (''pr_url'', JStr (mp_PRURL p)), (''head_ref_name'', JStr (mp_HeadRefName p)),
     (''base_ref_name'', JStr (mp_BaseRefName p))]"
  unfolding merge_payload_text_def by (subst object_members_struct) simp_all

lemma merge_payload_read_back:
  "- (2 ^ 63) \<le> mp_PRNumber p \<Longrightarrow> mp_PRNumber p < 2 ^ 63 \<Longrightarrow> decode_merge_payload q (merge_payload_text p) = p"
  using merge_payload_fold
  by (simp add: decode_merge_payload_def merge_payload_members keep_field_def field_values_def read_string_def read_int_def)

lemma atoi_value_itoa: "0 < n \<Longrightarrow> n < 2 ^ 63 \<Longrightarrow> atoi_value (itoa n) = n"
  using atoi_itoa [of n] by (auto simp: atoi_def atoi_value_def Let_def split: if_splits)

lemma split_on_append: "split_on sep (x @ sep # y) = split_on sep x @ split_on sep y"
  using split_on_nonempty [of sep] by (induction x) (auto split: list.split)

lemma split_on_append_last: "sep \<notin> set y \<Longrightarrow> last (split_on sep (x @ sep # y)) = y"
  by (simp add: split_on_append split_on_last)

text \<open>
  A merge task is found again.  The payload written into the task of a pull request is what the
  worker decodes, with every member, for any number of 64 bits; and the number is also read back from
  the key of the task, whatever the issue key is, so the pull request itself is found among the open
  ones whenever no earlier one has its number, its URL or its issue.
\<close>

theorem merge_task_roundtrip:
  assumes "0 < ps_Number pr" "ps_Number pr < 2 ^ 63"
  shows "task_payload (merge_task_for c pr available now) =
      \<lparr>mp_Phase = ''merge'', mp_IssueKey = is_Identifier c, mp_PRNumber = ps_Number pr, mp_PRURL = ps_URL pr,
       mp_HeadRefName = ps_HeadRefName pr, mp_BaseRefName = ps_BaseRefName pr\<rparr>
    \<and> taskPRNumberFromKey (wt_TaskKey (merge_task_for c pr available now)) = ps_Number pr
    \<and> findMergeTaskPullRequest [pr] (merge_task_for c pr available now) (task_payload (merge_task_for c pr available now)) = Some pr"
proof -
  let ?p = "\<lparr>mp_Phase = ''merge'', mp_IssueKey = is_Identifier c, mp_PRNumber = ps_Number pr, mp_PRURL = ps_URL pr,
       mp_HeadRefName = ps_HeadRefName pr, mp_BaseRefName = ps_BaseRefName pr\<rparr>"
  have ne: "merge_payload_text q \<noteq> []" for q by (simp add: merge_payload_text_def render_struct_def)
  have payload: "task_payload (merge_task_for c pr available now) = ?p"
    using merge_payload_read_back [of ?p] assms ne [of ?p] by (simp add: task_payload_def merge_task_for_def Let_def)
  have "\<not> is_digit CHR '':''" by code_simp
  then have "last (split_on CHR '':'' (mergeWorkerTaskKey (is_Identifier c) (ps_Number pr))) = itoa (ps_Number pr)"
    using split_on_append_last [of "CHR '':''" "itoa (ps_Number pr)" "RoleMerge @ '':'' @ is_Identifier c"]
      digits_no_mark [of "CHR '':''" "ps_Number pr"] assms(1) by (simp add: mergeWorkerTaskKey_def)
  then have "taskPRNumberFromKey (wt_TaskKey (merge_task_for c pr available now)) = ps_Number pr"
    by (simp add: taskPRNumberFromKey_def merge_task_for_def atoi_value_itoa [OF assms])
  then show ?thesis using payload assms(1) by (simp add: findMergeTaskPullRequest_def)
qed

theorem merge_task_roundtrip_witness:
  "task_payload (merge_task_for ready_issue ready_pr 1 2) =
     \<lparr>mp_Phase = ''merge'', mp_IssueKey = ''CAG-1'', mp_PRNumber = 7, mp_PRURL = ''https://github.com/o/r/pull/7'',
      mp_HeadRefName = ''am/CAG-1-workspace'', mp_BaseRefName = ''main''\<rparr>"
  using merge_task_roundtrip [of ready_pr ready_issue 1 2] by (simp add: ready_pr_def ready_issue_def)

end
