(* ===== verification/Cleanup.thy ===== *)
theory Cleanup
  imports MergeTasks CleanupPolicy
begin

text \<open>
  src/cleanup.go: which workspaces the clean-up deletes, and the clean-up of the whole workspace root.
  The world and its clock, context and files are those of the merge lane.  \<open>os.ReadDir\<close> is the
  parameter \<open>ce_read_dir\<close> (names, and whether each is a directory), the code host answers through
  \<open>ce_repo\<close>, \<open>ce_host_error\<close>, \<open>ce_handoff\<close> and the state lookup of the client, \<open>ce_done\<close> lists the issues in
  a state of Linear.  The database is there or its opening fails with \<open>ce_open_err\<close>.
\<close>

section \<open>The world of the clean-up\<close>

record 'w cleanup_env =
  ce_base :: "'w merge_env"
  ce_read_dir :: "fs \<Rightarrow> string \<Rightarrow> string + (string \<times> bool) list"
  ce_repo :: "string + string \<times> string"
  ce_host_error :: "string \<Rightarrow> string option"
  ce_handoff :: "string \<Rightarrow> 'w \<Rightarrow> (string + string \<times> string) \<times> 'w"
  ce_done :: "string \<Rightarrow> string \<Rightarrow> 'w \<Rightarrow> (string + (string \<Rightarrow> bool)) \<times> 'w"
  ce_open_err :: "'w merge_world \<Rightarrow> err_list"

definition clean_ctx :: "'w cleanup_env \<Rightarrow> 'w merge_world \<Rightarrow> err_list" where
  "clean_ctx env w = ctx_errs (ce_base env) w"

definition clean_cwd :: "'w cleanup_env \<Rightarrow> string" where "clean_cwd env = me_cwd (ce_base env)"

definition has_changes :: "'w cleanup_env \<Rightarrow> 'w merge_world \<Rightarrow> string \<Rightarrow> string + bool" where
  "has_changes env w workspace = workspaceHasChanges (rec_at (ce_base env) w) workspace"

record cleanupPRFacts =
  cp_State :: string
  cp_Merged :: bool
  cp_HeadRefName :: string
  cp_BaseRefName :: string

text \<open>An error, and the decision that comes with it.\<close>

type_synonym cleanup_answer = "err_list \<times> CleanupDecision"

definition decision_for :: "string \<Rightarrow> string \<Rightarrow> string \<Rightarrow> CleanupDecision" where
  "decision_for issueKey category reason =
     zero_CleanupDecision\<lparr>cd_IssueIdentifier := issueKey, cd_Category := category, cd_Reason := reason\<rparr>"

definition keep_as :: "CleanupDecision \<Rightarrow> string \<Rightarrow> string \<Rightarrow> CleanupDecision" where
  "keep_as d category reason = d\<lparr>cd_Category := category, cd_Reason := reason\<rparr>"

definition delete_as :: "CleanupDecision \<Rightarrow> string \<Rightarrow> string \<Rightarrow> CleanupDecision" where
  "delete_as d category reason = d\<lparr>cd_Delete := True, cd_Category := category, cd_Reason := reason\<rparr>"

section \<open>Whether a workspace may be deleted at all\<close>

definition cleanupSafetyDecisionForRootWithChanges ::
    "'w cleanup_env \<Rightarrow> string \<Rightarrow> string \<Rightarrow> 'w merge_world \<Rightarrow> cleanup_answer" where
  "cleanupSafetyDecisionForRootWithChanges env workspaceRoot workspace w =
     (case SafeRoot (clean_cwd env) (mw_fs w) workspaceRoot of
        Inl e \<Rightarrow> ([fst e], zero_CleanupDecision)
      | Inr r \<Rightarrow>
          (case AssertSafeDeletePath (clean_cwd env) (mw_fs w) workspaceRoot workspace of
             Inl e \<Rightarrow> ([], decision_for (base workspace) ''unsafe'' (fst e))
           | Inr u \<Rightarrow>
               (case has_changes env w workspace of
                  Inl e \<Rightarrow> ([e], zero_CleanupDecision)
                | Inr dirty \<Rightarrow>
                    ([], if dirty then decision_for (base workspace) ''dirty'' ''workspace has uncommitted or untracked files''
                         else decision_for (base workspace) [] []))))"

definition blocked_workspace :: "CleanupDecision \<Rightarrow> bool" where
  "blocked_workspace d \<longleftrightarrow> cd_Category d = ''dirty'' \<or> cd_Category d = ''unsafe''"

section \<open>The decision from the run artifact\<close>

definition insufficientArtifactReason :: "string \<Rightarrow> RunRecord \<Rightarrow> string \<Rightarrow> string" where
  "insufficientArtifactReason cwd record workspace =
     (if trim_space (rr_IssueIdentifier record) = [] \<or> trim_space (rr_IssueURL record) = [] \<or> trim_space (rr_Status record) = []
      then ''run artifact missing required issue/status fields''
      else if rr_Workspace record \<noteq> [] \<and> abs_path cwd (rr_Workspace record) \<noteq> abs_path cwd workspace
      then ''run artifact workspace mismatch '' @ quote (rr_Workspace record)
      else if rr_WorkspaceRoot record \<noteq> []
           \<and> clean (abs_path cwd (rr_WorkspaceRoot record)) \<noteq> clean (abs_path cwd (dir workspace))
      then ''run artifact workspace root mismatch '' @ quote (rr_WorkspaceRoot record)
      else if rr_ExpectedBranch record \<noteq> [] \<and> rr_Branch record \<noteq> [] \<and> rr_Branch record \<noteq> rr_ExpectedBranch record
      then ''run artifact branch mismatch '' @ quote (rr_Branch record) @ '' expected '' @ quote (rr_ExpectedBranch record)
      else if rr_Status record = ''review_failed''
           \<and> (rr_PRURL record = [] \<or> rr_ReviewStatus record = [] \<or> rr_ReviewFindings record = [])
      then ''review-failed artifact missing PR review evidence''
      else [])"

definition decision_from_record ::
    "string \<Rightarrow> (string \<Rightarrow> bool) \<Rightarrow> string \<Rightarrow> RunRecord \<Rightarrow> CleanupDecision" where
  "decision_from_record cwd doneIssues workspace record =
     (let decision0 = zero_CleanupDecision\<lparr>cd_IssueIdentifier := rr_IssueIdentifier record,
                                     cd_ArtifactRef := join2 workspace ''.am-run.json''\<rparr>;
          reason = insufficientArtifactReason cwd record workspace;
          status = rr_Status record in
      if reason \<noteq> [] then keep_as decision0 ''insufficient-artifact'' reason
      else if \<not> TerminalRunStatus status
      then keep_as decision0 ''non-terminal'' (''run artifact status '' @ status @ '' is not terminal'')
      else if doneIssues (base workspace) \<and> base workspace \<noteq> rr_IssueIdentifier record
      then delete_as decision0 (CategoryForTerminalStatus status)
             (''workspace directory '' @ base workspace @ '' is Done and artifact status is '' @ status)
      else if doneIssues (rr_IssueIdentifier record)
      then delete_as decision0 (CategoryForTerminalStatus status)
             (''Linear issue '' @ rr_IssueIdentifier record @ '' is Done and artifact status is '' @ status)
      else keep_as decision0 ''not-done'' (''Linear issue '' @ rr_IssueIdentifier record @ '' is not Done''))"

definition cleanupDecisionForRootWithChanges ::
    "'w cleanup_env \<Rightarrow> string \<Rightarrow> string \<Rightarrow> (string \<Rightarrow> bool) \<Rightarrow> 'w merge_world \<Rightarrow> cleanup_answer" where
  "cleanupDecisionForRootWithChanges env workspaceRoot workspace doneIssues w =
     (case cleanupSafetyDecisionForRootWithChanges env workspaceRoot workspace w of
        (err, decision) \<Rightarrow>
          if err \<noteq> [] then (err, zero_CleanupDecision)
          else if blocked_workspace decision then ([], decision\<lparr>cd_IssueIdentifier := []\<rparr>)
          else (case stat (mw_fs w) (join2 workspace ''.am-run.json'') of
                  None \<Rightarrow> ([], zero_CleanupDecision\<lparr>cd_Category := ''missing-artifact'', cd_Reason := ''missing run artifact''\<rparr>)
                | Some (RegularFile data) \<Rightarrow>
                    (case decode_run_record data of
                       None \<Rightarrow> ([''decode run artifact''], zero_CleanupDecision)
                     | Some record \<Rightarrow> ([], decision_from_record (clean_cwd env) doneIssues workspace record))
                | Some _ \<Rightarrow> ([''read '' @ join2 workspace ''.am-run.json''], zero_CleanupDecision)))"

section \<open>The decision from the state store\<close>

definition githubCleanupPRFactsForURL :: "'w cleanup_env \<Rightarrow> string \<Rightarrow> 'w merge_world \<Rightarrow> (string + cleanupPRFacts) \<times> 'w merge_world" where
  "githubCleanupPRFactsForURL env prURL w =
     (case ParsePullRequestURL prURL of
        None \<Rightarrow> (Inl (''invalid code-host PR URL '' @ quote prURL), w)
      | Some parsed \<Rightarrow>
          let refused =
                (if pu_Provider parsed = ProviderGitHub
                 then (case ce_repo env of
                         Inl e \<Rightarrow> Some e
                       | Inr (expectedOwner, expectedRepo) \<Rightarrow>
                           if \<not> equal_fold (pu_Owner parsed) expectedOwner \<or> \<not> equal_fold (pu_Repo parsed) expectedRepo
                           then Some (''PR repository is '' @ pu_Owner parsed @ ''/'' @ pu_Repo parsed @ ''; expected ''
                                        @ expectedOwner @ ''/'' @ expectedRepo)
                           else None)
                 else None) in
          (case (refused, ce_host_error env prURL) of
             (Some e, _) \<Rightarrow> (Inl e, w)
           | (None, Some e) \<Rightarrow> (Inl e, w)
           | (None, None) \<Rightarrow>
               (case call (ce_handoff env prURL) w of
                  (Inl e, w1) \<Rightarrow> (Inl e, w1)
                | (Inr (head, base_ref), w1) \<Rightarrow>
                    (case call (mc_pr_state (me_client (ce_base env)) prURL) w1 of
                       (Inl e, w2) \<Rightarrow> (Inl e, w2)
                     | (Inr (state, merged), w2) \<Rightarrow>
                         (Inr \<lparr>cp_State = state, cp_Merged = merged, cp_HeadRefName = head, cp_BaseRefName = base_ref\<rparr>, w2)))))"

text \<open>What the facts on a pull request say of the workspace of a Done issue.\<close>

definition decision_from_pr :: "CleanupFacts \<Rightarrow> CleanupDecision \<Rightarrow> string \<Rightarrow> string + cleanupPRFacts \<Rightarrow> CleanupDecision" where
  "decision_from_pr facts decision0 status looked_up =
     (let expectedBranch = ExpectedWorkspaceBranch (cf_IssueKey facts);
          baseBranch = trim_space (cf_BaseBranch facts);
          issue = ''SQLite issue '' @ cf_IssueKey facts;
          reconcile = keep_as decision0 ''reconciliation-needed'' in
      case looked_up of
        Inl err \<Rightarrow> reconcile (issue @ '' is Done but PR state lookup failed for '' @ cf_PRURL facts @ '': '' @ err)
      | Inr pr \<Rightarrow>
          if cp_HeadRefName pr \<noteq> expectedBranch
          then reconcile (issue @ '' is Done but PR '' @ cf_PRURL facts @ '' head branch '' @ emptyAsNA (cp_HeadRefName pr)
                            @ '' does not match expected branch '' @ expectedBranch)
          else if baseBranch \<noteq> [] \<and> cp_BaseRefName pr \<noteq> [] \<and> cp_BaseRefName pr \<noteq> baseBranch
          then reconcile (issue @ '' is Done but PR '' @ cf_PRURL facts @ '' base branch '' @ cp_BaseRefName pr
                            @ '' does not match expected base '' @ baseBranch)
          else if cp_Merged pr \<or> equal_fold (cp_State pr) ''MERGED''
          then delete_as decision0 ''merged-pr'' (issue @ '' is Done, PR '' @ cf_PRURL facts
                 @ '' is merged, and durable status is '' @ status)
          else reconcile (issue @ '' is Done but PR '' @ cf_PRURL facts @ '' is state '' @ empty_as_unknown (cp_State pr)
                            @ '' and durable status is '' @ status))"

definition cleanupDecisionFromMergedPR ::
    "'w cleanup_env \<Rightarrow> CleanupFacts \<Rightarrow> CleanupDecision \<Rightarrow> string \<Rightarrow> 'w merge_world \<Rightarrow> cleanup_answer \<times> 'w merge_world" where
  "cleanupDecisionFromMergedPR env facts decision0 status w =
     (let expectedBranch = ExpectedWorkspaceBranch (cf_IssueKey facts);
          branch = trim_space (cf_BranchName facts);
          issue = ''SQLite issue '' @ cf_IssueKey facts in
      if trim_space (cf_PRURL facts) = []
      then (([], keep_as decision0 ''reconciliation-needed''
                   (issue @ '' is Done but non-terminal status '' @ status @ '' has no PR mapping'')), w)
      else if branch = [] \<or> branch \<noteq> expectedBranch
      then (([], keep_as decision0 ''reconciliation-needed''
                   (issue @ '' is Done but PR mapping branch '' @ emptyAsNA (cf_BranchName facts)
                    @ '' does not match expected branch '' @ expectedBranch)), w)
      else (case githubCleanupPRFactsForURL env (cf_PRURL facts) w of
              (looked_up, w1) \<Rightarrow> (([], decision_from_pr facts decision0 status looked_up), w1)))"

definition facts_status :: "CleanupFacts \<Rightarrow> string" where
  "facts_status facts = (if cf_Status facts = [] then cf_TerminalOutcome facts else cf_Status facts)"

definition decision_from_facts ::
    "'w cleanup_env \<Rightarrow> string \<Rightarrow> (string \<Rightarrow> bool) \<Rightarrow> CleanupDecision \<Rightarrow> CleanupFacts \<Rightarrow> 'w merge_world
       \<Rightarrow> cleanup_answer \<times> 'w merge_world" where
  "decision_from_facts env workspace doneIssues artifactDecision facts w =
     (let decision0 = zero_CleanupDecision\<lparr>cd_IssueIdentifier := cf_IssueKey facts,
                        cd_ArtifactRef := first_non_empty [cf_ArtifactRef facts, cd_ArtifactRef artifactDecision]\<rparr>;
          status = facts_status facts;
          is_done = (doneIssues (cf_IssueKey facts) \<or> doneIssues (base workspace) \<and> base workspace \<noteq> cf_IssueKey facts) in
      if cf_WorkspacePath facts \<noteq> [] \<and> clean (cf_WorkspacePath facts) \<noteq> clean workspace
      then (([], keep_as decision0 ''reconciliation-needed''
                   (''SQLite workspace path '' @ cf_WorkspacePath facts @ '' conflicts with workspace '' @ workspace)), w)
      else if cd_IssueIdentifier artifactDecision \<noteq> [] \<and> cd_IssueIdentifier artifactDecision \<noteq> cf_IssueKey facts
      then (([], keep_as decision0 ''reconciliation-needed''
                   (''run artifact issue '' @ cd_IssueIdentifier artifactDecision @ '' conflicts with SQLite issue ''
                    @ cf_IssueKey facts)), w)
      else if blocked_workspace artifactDecision
      then (([], artifactDecision\<lparr>cd_IssueIdentifier := cf_IssueKey facts\<rparr>), w)
      else if \<not> TerminalRunStatus status
      then (if is_done then cleanupDecisionFromMergedPR env facts decision0 status w
            else (([], keep_as decision0 ''non-terminal'' (''SQLite status '' @ status @ '' is not terminal'')), w))
      else if is_done
      then (([], delete_as decision0 (CategoryForTerminalStatus status)
                   (''SQLite issue '' @ cf_IssueKey facts @ '' is Done and durable status is '' @ status)), w)
      else (([], keep_as decision0 ''not-done'' (''SQLite issue '' @ cf_IssueKey facts @ '' is not Done'')), w))"

definition cleanupDecisionFromSQLite ::
    "'w cleanup_env \<Rightarrow> string \<Rightarrow> (string \<Rightarrow> bool) \<Rightarrow> CleanupDecision \<Rightarrow> 'w merge_world \<Rightarrow> cleanup_answer \<times> 'w merge_world" where
  "cleanupDecisionFromSQLite env workspace doneIssues artifactDecision w =
     (case fst (statement (ce_base env) (\<lambda>db. (ReadCleanupFacts (base workspace) db, db)) w) of
        Inl e \<Rightarrow> (([store_error_text e], zero_CleanupDecision), w)
      | Inr None \<Rightarrow>
          (([], decision_for (base workspace) ''reconciliation-needed''
                  (''SQLite has no issue attempt row for workspace '' @ base workspace)), w)
      | Inr (Some facts) \<Rightarrow> decision_from_facts env workspace doneIssues artifactDecision facts w)"

definition placed :: "string \<Rightarrow> cleanup_answer \<Rightarrow> cleanup_answer" where
  "placed workspace answer =
     (if fst answer \<noteq> [] then answer else ([], (snd answer)\<lparr>cd_WorkspacePath := workspace\<rparr>))"

definition cleanupDecisionForWorkspace ::
    "'w cleanup_env \<Rightarrow> bool \<Rightarrow> string \<Rightarrow> string \<Rightarrow> (string \<Rightarrow> bool) \<Rightarrow> 'w merge_world \<Rightarrow> cleanup_answer \<times> 'w merge_world" where
  "cleanupDecisionForWorkspace env has_store workspaceRoot workspace doneIssues w =
     (if clean_ctx env w \<noteq> [] then ((clean_ctx env w, zero_CleanupDecision), w)
      else if \<not> has_store
      then (placed workspace (cleanupDecisionForRootWithChanges env workspaceRoot workspace doneIssues w), w)
      else (case cleanupSafetyDecisionForRootWithChanges env workspaceRoot workspace w of
              (err, decision) \<Rightarrow>
                if err \<noteq> [] then ((err, decision), w)
                else if blocked_workspace decision then (placed workspace ([], decision), w)
                else (case cleanupDecisionFromSQLite env workspace doneIssues decision w of
                        (answer, w1) \<Rightarrow> (placed workspace answer, w1))))"

section \<open>Events and the mirrored state\<close>

definition recordCleanupEventContext ::
    "'w cleanup_env \<Rightarrow> bool \<Rightarrow> string \<Rightarrow> CleanupDecision \<Rightarrow> (string \<times> json) list \<Rightarrow> 'w merge_world \<Rightarrow> 'w merge_world" where
  "recordCleanupEventContext env has_store eventType decision payload w =
     (if \<not> has_store then w
      else snd (statement (ce_base env) (appendEvent (me_store (ce_base env))
        \<lparr>ei_OccurredAt = merge_now (ce_base env), ei_IssueKey = cd_IssueIdentifier decision, ei_IssueID = [], ei_Attempt = 0,
         ei_RunID = [], ei_Source = ''cleanup'', ei_Type = eventType,
         ei_Payload = ValuePayload (JObj (put_if (cd_ArtifactRef decision \<noteq> []) ''artifact_ref''
                                            (JStr (cd_ArtifactRef decision)) payload))\<rparr>) w))"

definition recordCleanupErrorContext ::
    "'w cleanup_env \<Rightarrow> bool \<Rightarrow> CleanupDecision \<Rightarrow> err_list \<Rightarrow> 'w merge_world \<Rightarrow> 'w merge_world" where
  "recordCleanupErrorContext env has_store decision err w =
     (if err = [] then w
      else recordCleanupEventContext env has_store ''error_recorded'' decision
             [(''error'', JStr (errs_text err)), (''lane'', JStr ''cleanup'')] w)"

text \<open>The mirror does not run under the context; without a store it tries to open the database.\<close>

definition mirrorCleanupState ::
    "'w cleanup_env \<Rightarrow> bool \<Rightarrow> CleanupDecision \<Rightarrow> bool \<Rightarrow> string \<Rightarrow> bool \<Rightarrow> 'w merge_world \<Rightarrow> 'w merge_world" where
  "mirrorCleanupState env has_store decision may_delete deletionResult workspaceExists w =
     (if trim_space (cd_IssueIdentifier decision) = [] then w
      else if \<not> has_store \<and> ce_open_err env w \<noteq> [] then w
      else w\<lparr>mw_db := snd (UpsertCleanupState (me_store (ce_base env))
               (ProjectCleanup \<lparr>pl_Reason = cd_Reason decision, pl_Category = cd_Category decision,
                  pl_IssueIdentifier = cd_IssueIdentifier decision, pl_ArtifactRef = cd_ArtifactRef decision\<rparr>
                  may_delete deletionResult workspaceExists (merge_now (ce_base env))) (mw_db w))\<rparr>)"

definition reason_and_category :: "CleanupDecision \<Rightarrow> (string \<times> json) list" where
  "reason_and_category d = [(''reason'', JStr (cd_Reason d)), (''category'', JStr (cd_Category d))]"

section \<open>Cleaning up the root\<close>

record cleanupWorker =
  cl_workspaceRoot :: string
  cl_safeRoot :: string
  cl_Apply :: bool
  cl_DoneIssues :: "string \<Rightarrow> bool"
  cl_has_store :: bool

text \<open>What the summary line counts.\<close>

record cleanup_counts =
  ct_removed :: int
  ct_kept :: int
  ct_eligible :: int
  ct_categories :: "(string \<times> int) list"

definition count_category :: "string \<Rightarrow> (string \<times> int) list \<Rightarrow> (string \<times> int) list" where
  "count_category c cs = put c (case map_of cs c of None \<Rightarrow> 1 | Some n \<Rightarrow> n + 1) cs"

definition formatCleanupCategories :: "(string \<times> int) list \<Rightarrow> string" where
  "formatCleanupCategories categories =
     (if categories = [] then ''none''
      else join '','' (map (\<lambda>k. k @ ''='' @ itoa (case map_of categories k of None \<Rightarrow> 0 | Some n \<Rightarrow> n))
                        (sort (map (\<lambda>(k, n). if k = [] then ''unknown'' else k) categories))))"

definition cleanup_summary :: "bool \<Rightarrow> cleanup_counts \<Rightarrow> string" where
  "cleanup_summary apply counts =
     (if apply
      then ''cleanup summary: deleted='' @ itoa (ct_removed counts) @ '' eligible='' @ itoa (ct_eligible counts)
             @ '' kept='' @ itoa (ct_kept counts) @ '' categories='' @ formatCleanupCategories (ct_categories counts)
      else ''cleanup summary: eligible='' @ itoa (ct_eligible counts) @ '' kept='' @ itoa (ct_kept counts)
             @ '' categories='' @ formatCleanupCategories (ct_categories counts)
             @ ''; dry run only; pass --apply to delete workspaces for Done issues'')"

text \<open>Deleting one workspace: an error, or the mirrored deletion.\<close>

definition delete_workspace ::
    "'w cleanup_env \<Rightarrow> bool \<Rightarrow> string \<Rightarrow> string \<Rightarrow> CleanupDecision \<Rightarrow> 'w merge_world \<Rightarrow> (string \<times> err_list) \<times> 'w merge_world" where
  "delete_workspace env has_store safeRoot workspace decision w =
     (let w1 = recordCleanupEventContext env has_store ''cleanup_deletion_attempted'' decision (reason_and_category decision) w;
          fail = (\<lambda>err. recordCleanupErrorContext env has_store decision err
                           (mirrorCleanupState env has_store decision True ''failed'' True w1)) in
      case AssertSafeDeletePath (clean_cwd env) (mw_fs w1) safeRoot workspace of
        Inl e \<Rightarrow> ((''cleanup_delete_unsafe'', [fst e]), fail [fst e])
      | Inr u \<Rightarrow>
          if me_fault (ce_base env) workspace
          then ((''cleanup_delete_failed'', [''remove '' @ workspace]), fail [''remove '' @ workspace])
          else ((''cleanup_deleted'', []),
                recordCleanupEventContext env has_store ''cleanup_deletion_succeeded'' decision (reason_and_category decision)
                  (mirrorCleanupState env has_store decision True ''deleted'' False
                    (w1\<lparr>mw_fs := remove_all workspace (mw_fs w1)\<rparr>))))"

definition skipped_entry :: "string \<times> bool \<Rightarrow> bool" where
  "skipped_entry entry \<longleftrightarrow> \<not> snd entry \<or> has_prefix (fst entry) ''.'' \<or> fst entry = ''state''"

text \<open>One entry of the root: the error that ends the clean-up, and the counts.\<close>

definition clean_entry ::
    "'w cleanup_env \<Rightarrow> cleanupWorker \<Rightarrow> string \<times> bool \<Rightarrow> cleanup_counts \<Rightarrow> 'w merge_world
       \<Rightarrow> (err_list \<times> cleanup_counts) \<times> 'w merge_world" where
  "clean_entry env worker entry counts w =
     (if skipped_entry entry then (([], counts), w)
      else (case SafePath (clean_cwd env) (mw_fs w) (cl_safeRoot worker) (fst entry) of
        Inl e \<Rightarrow> (([fst e], counts), recordCleanupErrorContext env (cl_has_store worker)
                                      (zero_CleanupDecision\<lparr>cd_IssueIdentifier := fst entry\<rparr>) [fst e] w)
      | Inr workspace \<Rightarrow>
          (case cleanupDecisionForWorkspace env (cl_has_store worker) (cl_safeRoot worker) workspace (cl_DoneIssues worker) w of
             ((err, decision), w1) \<Rightarrow>
               if err \<noteq> [] then ((err, counts), recordCleanupErrorContext env (cl_has_store worker) decision err w1)
               else
                 let w2 = recordCleanupEventContext env (cl_has_store worker) ''cleanup_candidate_found'' decision
                            (reason_and_category decision @ [(''delete'', JBool (cd_Delete decision))]) w1;
                     counts1 = counts\<lparr>ct_categories := count_category (cd_Category decision) (ct_categories counts)\<rparr> in
                 if \<not> cd_Delete decision
                 then (([], counts1\<lparr>ct_kept := ct_kept counts + 1\<rparr>),
                       mirrorCleanupState env (cl_has_store worker) decision False (DeletionResult decision ''kept'') True w2)
                 else
                   let counts2 = counts1\<lparr>ct_eligible := ct_eligible counts + 1\<rparr> in
                   if \<not> cl_Apply worker
                   then (([], counts2), mirrorCleanupState env (cl_has_store worker) decision True ''dry_run'' True w2)
                   else (case delete_workspace env (cl_has_store worker) (cl_safeRoot worker) workspace decision w2 of
                           ((reason, err), w3) \<Rightarrow>
                             ((err, if err \<noteq> [] then counts2 else counts2\<lparr>ct_removed := ct_removed counts + 1\<rparr>), w3)))))"

fun clean_entries ::
    "'w cleanup_env \<Rightarrow> cleanupWorker \<Rightarrow> (string \<times> bool) list \<Rightarrow> cleanup_counts \<Rightarrow> 'w merge_world
       \<Rightarrow> (err_list \<times> cleanup_counts) \<times> 'w merge_world" where
  "clean_entries env worker [] counts w = (([], counts), w)"
| "clean_entries env worker (entry # entries) counts w =
     (case clean_entry env worker entry counts w of
        ((err, counts1), w1) \<Rightarrow>
          if err \<noteq> [] then ((err, counts1), w1) else clean_entries env worker entries counts1 w1)"

text \<open>The error, or the summary line.\<close>

definition Execute :: "'w cleanup_env \<Rightarrow> cleanupWorker \<Rightarrow> 'w merge_world \<Rightarrow> (err_list + string) \<times> 'w merge_world" where
  "Execute env worker w =
     (let w1 = recordCleanupEventContext env (cl_has_store worker) ''cleanup_started'' zero_CleanupDecision
                 [(''workspace_root'', JStr (cl_safeRoot worker)), (''apply'', JBool (cl_Apply worker))] w in
      case ce_read_dir env (mw_fs w1) (cl_safeRoot worker) of
        Inl e \<Rightarrow> (Inl [e], recordCleanupErrorContext env (cl_has_store worker) zero_CleanupDecision [e] w1)
      | Inr entries \<Rightarrow>
          (case clean_entries env worker entries \<lparr>ct_removed = 0, ct_kept = 0, ct_eligible = 0, ct_categories = []\<rparr> w1 of
             ((err, counts), w2) \<Rightarrow>
               (if err \<noteq> [] then Inl err else Inr (cleanup_summary (cl_Apply worker) counts), w2)))"

text \<open>Whether a store is given, and the issues that are Done.\<close>

definition cleanupWorkspacesContext ::
    "'w cleanup_env \<Rightarrow> bool \<Rightarrow> string \<Rightarrow> bool \<Rightarrow> (string \<Rightarrow> bool) \<Rightarrow> 'w merge_world \<Rightarrow> (err_list + string) \<times> 'w merge_world" where
  "cleanupWorkspacesContext env given workspaceRoot apply doneIssues w =
     (if clean_ctx env w \<noteq> [] then (Inl (clean_ctx env w), w)
      else (case SafeRoot (clean_cwd env) (mw_fs w) workspaceRoot of
              Inl e \<Rightarrow> (Inl [fst e], w)
            | Inr safeRoot \<Rightarrow>
                if \<not> given \<and> ce_open_err env w \<noteq> [] \<and> apply
                then (Inl [''cleanup requires SQLite for mutating apply: '' @ errs_text (ce_open_err env w)], w)
                else Execute env \<lparr>cl_workspaceRoot = workspaceRoot, cl_safeRoot = safeRoot, cl_Apply = apply,
                       cl_DoneIssues = doneIssues, cl_has_store = (given \<or> ce_open_err env w = [])\<rparr> w))"

text \<open>The decisions alone, for a report.\<close>

fun decide_entries ::
    "'w cleanup_env \<Rightarrow> bool \<Rightarrow> string \<Rightarrow> (string \<Rightarrow> bool) \<Rightarrow> (string \<times> bool) list \<Rightarrow> 'w merge_world
       \<Rightarrow> (err_list \<times> CleanupDecision list) \<times> 'w merge_world" where
  "decide_entries env has_store safeRoot doneIssues [] w = (([], []), w)"
| "decide_entries env has_store safeRoot doneIssues (entry # entries) w =
     (if skipped_entry entry then decide_entries env has_store safeRoot doneIssues entries w
      else (case SafePath (clean_cwd env) (mw_fs w) safeRoot (fst entry) of
        Inl e \<Rightarrow> (([fst e], []), w)
      | Inr workspace \<Rightarrow>
          (case cleanupDecisionForWorkspace env has_store safeRoot workspace doneIssues w of
             ((err, decision), w1) \<Rightarrow>
               if err \<noteq> [] then ((err, []), w1)
               else (case decide_entries env has_store safeRoot doneIssues entries w1 of
                       ((err, ds), w2) \<Rightarrow> ((err, if err \<noteq> [] then [] else decision # ds), w2)))))"

definition cleanupDecisions ::
    "'w cleanup_env \<Rightarrow> bool \<Rightarrow> string \<Rightarrow> (string \<Rightarrow> bool) \<Rightarrow> 'w merge_world
       \<Rightarrow> (err_list \<times> CleanupDecision list) \<times> 'w merge_world" where
  "cleanupDecisions env has_store workspaceRoot doneIssues w =
     (case SafeRoot (clean_cwd env) (mw_fs w) workspaceRoot of
        Inl e \<Rightarrow> (([fst e], []), w)
      | Inr safeRoot \<Rightarrow>
          (case ce_read_dir env (mw_fs w) safeRoot of
             Inl e \<Rightarrow> (([e], []), w)
           | Inr entries \<Rightarrow> decide_entries env has_store safeRoot doneIssues entries w))"

end
