(* ===== verification/CleanupSafety.thy ===== *)
theory CleanupSafety
  imports Cleanup
begin

text \<open>
  What a clean-up removes: only workspaces whose issue is finished, directly below the root, and only
  when it is told to apply.  The first sections say what one decision rests on and where workspaces
  are; the relation \<open>removes\<close> composes over the entries of the root.
\<close>

section \<open>Which workspaces are deleted\<close>

lemma statement_fs [simp]: "mw_fs (snd (statement env f w)) = mw_fs w"
  by (simp add: statement_def split: prod.split)

lemma call_fs: "call f w = (a, w') \<Longrightarrow> mw_fs w' = mw_fs w \<and> mw_db w' = mw_db w"
  by (auto simp: call_def split: prod.splits)

lemma recorded_fs [simp]:
  "mw_fs (recordCleanupEventContext env s t d p w) = mw_fs w" "mw_fs (recordCleanupErrorContext env s d e w) = mw_fs w"
  "mw_fs (mirrorCleanupState env s d m r x w) = mw_fs w"
  by (simp_all add: recordCleanupEventContext_def recordCleanupErrorContext_def mirrorCleanupState_def)

lemma recorded_none [simp]: "recordCleanupErrorContext env s d [] w = w"
  by (simp add: recordCleanupErrorContext_def)

text \<open>The attempts, outcomes and pull requests that a clean-up reads but does not write.\<close>

definition attempt_tables :: "db \<Rightarrow> AttemptRow list \<times> OutcomeRow list \<times> PRMappingRow list" where
  "attempt_tables db = (db_attempts db, db_outcomes db, db_pr_mappings db)"

lemma appendEvent_attempts [simp]: "attempt_tables (snd (appendEvent env i db)) = attempt_tables db"
  by (simp add: appendEvent_def insert_event_def attempt_tables_def Let_def split: sum.split)

lemma UpsertCleanupState_attempts [simp]: "attempt_tables (snd (UpsertCleanupState env c db)) = attempt_tables db"
proof -
  have event: "attempt_tables db1 = attempt_tables db"
    if "appendEvent env i (db\<lparr>db_cleanups := rows\<rparr>) = (a, db1)" for i rows a db1
    using appendEvent_attempts [of env i "db\<lparr>db_cleanups := rows\<rparr>"] that by (simp add: attempt_tables_def)
  show ?thesis by (auto simp: UpsertCleanupState_def Let_def dest: event split: option.split sum.split prod.split)
qed

lemma statement_attempts:
  "(\<And>db. attempt_tables (snd (f db)) = attempt_tables db) \<Longrightarrow> attempt_tables (mw_db (snd (statement env f w))) = attempt_tables (mw_db w)"
  by (auto simp: statement_def split: prod.split) (metis snd_conv)

lemma recorded_attempts [simp]:
  "attempt_tables (mw_db (recordCleanupEventContext env s t d p w)) = attempt_tables (mw_db w)"
  "attempt_tables (mw_db (recordCleanupErrorContext env s d e w)) = attempt_tables (mw_db w)"
  "attempt_tables (mw_db (mirrorCleanupState env s d m r x w)) = attempt_tables (mw_db w)"
  by (simp_all add: recordCleanupEventContext_def recordCleanupErrorContext_def mirrorCleanupState_def statement_attempts)

text \<open>A decision changes nothing but the outside world.\<close>

lemma pr_facts_fs: "githubCleanupPRFactsForURL env u w = (r, w') \<Longrightarrow> mw_fs w' = mw_fs w \<and> mw_db w' = mw_db w"
  unfolding githubCleanupPRFactsForURL_def
  by (auto simp: Let_def dest!: call_fs split: option.splits prod.splits sum.splits if_splits)

lemma merged_pr_fs: "cleanupDecisionFromMergedPR env facts d s w = (a, w') \<Longrightarrow> mw_fs w' = mw_fs w \<and> mw_db w' = mw_db w"
  unfolding cleanupDecisionFromMergedPR_def Let_def
  by (auto dest: pr_facts_fs split: if_splits prod.splits)

lemma decision_facts_fs: "decision_from_facts env ws done d facts w = (a, w') \<Longrightarrow> mw_fs w' = mw_fs w \<and> mw_db w' = mw_db w"
  unfolding decision_from_facts_def Let_def by (auto dest: merged_pr_fs split: if_splits)

lemma decision_fs: "cleanupDecisionForWorkspace env s wr ws done w = (a, w') \<Longrightarrow> mw_fs w' = mw_fs w \<and> mw_db w' = mw_db w"
  unfolding cleanupDecisionForWorkspace_def cleanupDecisionFromSQLite_def
  by (auto dest: decision_facts_fs split: if_splits prod.splits sum.splits option.splits)

lemma cleanup_facts_key: "ReadCleanupFacts key db = Inr (Some facts) \<Longrightarrow> cf_IssueKey facts = key"
proof -
  assume a: "ReadCleanupFacts key db = Inr (Some facts)"
  then obtain r where r: "latest_attempt key db = Some r" "cf_IssueKey facts = ar_issue_key r"
    by (auto simp: ReadCleanupFacts_def Let_def split: if_splits option.splits)
  obtain rs where rs: "sort_key (\<lambda>a. - ar_attempt a) (filter (\<lambda>a. ar_issue_key a = key) (db_attempts db)) = r # rs"
    using r(1) unfolding latest_attempt_def by (auto split: list.splits)
  have "set (r # rs) = set (filter (\<lambda>a. ar_issue_key a = key) (db_attempts db))" unfolding rs [symmetric] by simp
  then have "r \<in> set (filter (\<lambda>a. ar_issue_key a = key) (db_attempts db))" by auto
  with r(2) show ?thesis by simp
qed

lemma decision_cases:
  "\<not> cd_Delete (keep_as (zero_CleanupDecision\<lparr>cd_IssueIdentifier := k, cd_ArtifactRef := a\<rparr>) c r)"
  "\<not> cd_Delete (decision_for k c r)" "cd_Delete (delete_as d c r)"
  "cd_Delete (d\<lparr>cd_IssueIdentifier := k\<rparr>) = cd_Delete d" "cd_Delete (d\<lparr>cd_WorkspacePath := k\<rparr>) = cd_Delete d"
  "\<not> cd_Delete zero_CleanupDecision"
  by (simp_all add: keep_as_def zero_CleanupDecision_def decision_for_def delete_as_def)

lemma safety_passed:
  assumes "cleanupSafetyDecisionForRootWithChanges env wr ws w = ([], d)"
  shows "\<not> cd_Delete d"
    "\<not> blocked_workspace d \<Longrightarrow> AssertSafeDeletePath (clean_cwd env) (mw_fs w) wr ws = Inr () \<and> has_changes env w ws = Inr False
       \<and> cd_IssueIdentifier d = base ws"
  using assms unfolding cleanupSafetyDecisionForRootWithChanges_def
  by (auto simp: decision_cases blocked_workspace_def decision_for_def zero_CleanupDecision_def split: sum.splits if_splits)

text \<open>The pull request that lets a workspace of unfinished status go.\<close>

definition merged_evidence :: "'w cleanup_env \<Rightarrow> CleanupFacts \<Rightarrow> 'w merge_world \<Rightarrow> bool" where
  "merged_evidence env facts w \<longleftrightarrow>
     (case fst (githubCleanupPRFactsForURL env (cf_PRURL facts) w) of
        Inl e \<Rightarrow> False
      | Inr pr \<Rightarrow> cp_HeadRefName pr = ExpectedWorkspaceBranch (cf_IssueKey facts)
                  \<and> (cp_Merged pr \<or> equal_fold (cp_State pr) ''MERGED''))"

lemma merged_pr_delete:
  assumes "cleanupDecisionFromMergedPR env facts (zero_CleanupDecision\<lparr>cd_IssueIdentifier := k, cd_ArtifactRef := a\<rparr>) s w = ((err, d), w')"
    "cd_Delete d"
  shows "merged_evidence env facts w"
proof -
  note if_keep = if_distrib [of cd_Delete]
  obtain l w1 where g: "githubCleanupPRFactsForURL env (cf_PRURL facts) w = (l, w1)" by (metis prod.exhaust)
  have "d = decision_from_pr facts (zero_CleanupDecision\<lparr>cd_IssueIdentifier := k, cd_ArtifactRef := a\<rparr>) s l"
    using assms unfolding cleanupDecisionFromMergedPR_def Let_def g prod.case
    by (simp only: prod.inject split: if_splits) (auto simp only: decision_cases)
  then show ?thesis
    using assms(2) unfolding merged_evidence_def g fst_conv decision_from_pr_def Let_def
    by (simp only: if_keep decision_cases if_False split: sum.splits if_splits) simp_all
qed


text \<open>What a decision to delete rests on.\<close>

definition deletable :: "'w cleanup_env \<Rightarrow> string \<Rightarrow> string \<Rightarrow> (string \<Rightarrow> bool) \<Rightarrow> CleanupFacts \<Rightarrow> 'w merge_world \<Rightarrow> bool" where
  "deletable env wr ws doneIssues facts w \<longleftrightarrow>
     AssertSafeDeletePath (clean_cwd env) (mw_fs w) wr ws = Inr () \<and> has_changes env w ws = Inr False
     \<and> ReadCleanupFacts (base ws) (mw_db w) = Inr (Some facts) \<and> cf_IssueKey facts = base ws \<and> doneIssues (base ws)
     \<and> (cf_WorkspacePath facts = [] \<or> clean (cf_WorkspacePath facts) = clean ws)
     \<and> (TerminalRunStatus (facts_status facts) \<or> merged_evidence env facts w)"

lemma facts_delete:
  assumes "decision_from_facts env ws doneIssues d0 facts w = ((err, d), w')" "cd_Delete d"
    and "\<not> cd_Delete d0" "cf_IssueKey facts = base ws"
  shows "doneIssues (base ws) \<and> (cf_WorkspacePath facts = [] \<or> clean (cf_WorkspacePath facts) = clean ws)
     \<and> (TerminalRunStatus (facts_status facts) \<or> merged_evidence env facts w)"
proof -
  let ?d = "zero_CleanupDecision\<lparr>cd_IssueIdentifier := cf_IssueKey facts,
              cd_ArtifactRef := first_non_empty [cf_ArtifactRef facts, cd_ArtifactRef d0]\<rparr>"
  have merged: "merged_evidence env facts w" if "cleanupDecisionFromMergedPR env facts ?d s w = ((err, d), w')" for s
    using merged_pr_delete [OF that assms(2)] .
  show ?thesis
    using assms merged unfolding decision_from_facts_def Let_def
    by (auto simp only: decision_cases prod.inject not_not simp_thms split: if_split_asm)
qed


lemma decision_delete:
  assumes "cleanupDecisionForWorkspace env True wr ws doneIssues w = (([], d), w')" "cd_Delete d"
  shows "\<exists>facts. deletable env wr ws doneIssues facts w"
proof -
  obtain serr sd where s: "cleanupSafetyDecisionForRootWithChanges env wr ws w = (serr, sd)" by (metis prod.exhaust)
  have err: "serr = []" and live: "clean_ctx env w = []"
    using assms(1) unfolding cleanupDecisionForWorkspace_def s prod.case
    by (auto simp only: prod.inject simp_thms if_False if_True split: if_split_asm)
  note passed = safety_passed [OF s [unfolded err]]
  have ok: "\<not> blocked_workspace sd"
    using assms passed(1) unfolding cleanupDecisionForWorkspace_def s err placed_def
    by (auto simp only: prod.case prod.inject simp_thms if_False if_True decision_cases fst_conv snd_conv split: if_split_asm)
  note safe = passed(2) [OF ok]
  obtain answer w1 where q: "cleanupDecisionFromSQLite env ws doneIssues sd w = (answer, w1)" by (metis prod.exhaust)
  have answer: "placed ws answer = ([], d)"
    using assms(1) ok live unfolding cleanupDecisionForWorkspace_def s err by (simp add: q)
  then have fst: "fst answer = []" and del: "cd_Delete (snd answer)"
    using assms(2) by (auto simp: placed_def decision_cases split: if_splits)
  have live': "ctx_errs (ce_base env) w = []" using live by (simp add: clean_ctx_def)
  have read: "fst (statement (ce_base env) (\<lambda>db. (ReadCleanupFacts (base ws) db, db)) w) = ReadCleanupFacts (base ws) (mw_db w)"
    by (simp add: statement_def live')
  obtain facts where facts: "ReadCleanupFacts (base ws) (mw_db w) = Inr (Some facts)"
      "decision_from_facts env ws doneIssues sd facts w = (answer, w1)"
    using q fst del unfolding cleanupDecisionFromSQLite_def read
    by (auto simp: decision_cases split: sum.splits option.splits)
  have key: "cf_IssueKey facts = base ws" by (rule cleanup_facts_key [OF facts(1)])
  have eq: "decision_from_facts env ws doneIssues sd facts w = ((fst answer, snd answer), w1)" using facts(2) by simp
  show ?thesis
    using facts_delete [OF eq del passed(1) key] safe facts(1) key unfolding deletable_def by blast
qed

section \<open>Where they are\<close>

lemma base_child: "slash \<notin> set name \<Longrightarrow> name \<noteq> [] \<Longrightarrow> base (r @ [slash] @ name) = name"
proof -
  assume n: "slash \<notin> set name" "name \<noteq> []"
  have "dropWhile (\<lambda>c. c = slash) (rev name) = rev name"
    using n by (cases name rule: rev_cases) auto
  moreover have "rev name \<noteq> []" using n by simp
  ultimately have "strip_slashes (r @ [slash] @ name) = r @ [slash] @ name"
    using n by (cases "rev name") (auto simp: strip_slashes_def dropWhile_append)
  then show ?thesis using n by (simp add: base_def split_on_append_last)
qed

lemma root_fixed:
  assumes "rooted cwd" "SafeRoot cwd fs wr = Inr r" "SafeRoot cwd fs' r = Inr r'"
  shows "r' = r"
proof -
  obtain es where es: "r = canon_path es" "es \<noteq> []" "list_all good_elem es"
    using SafeRoot_canon [OF assms(1,2)] by blast
  have "rooted r" using es(1) by (simp add: canon_path_def rooted_def)
  then have "clean (abs_path cwd r) = r" using clean_canon [OF es(3)] by (simp add: abs_path_def es(1))
  then show ?thesis using assms(3) by (auto simp: SafeRoot_def Let_def split: if_splits option.splits node.splits)
qed

lemma workspace_child:
  assumes "rooted cwd" "SafeRoot cwd fs wr = Inr r" "SafePath cwd fs' r name = Inr ws"
  shows "ws = r @ [slash] @ name" "safe_name name" "base ws = name"
proof -
  have n: "safe_name name" using assms(3) by (auto simp: SafePath_def safe_name_def split: if_splits)
  obtain r' where r': "SafeRoot cwd fs' r = Inr r'" using assms(3) by (auto simp: SafePath_def split: if_splits sum.splits)
  have "ws = r' @ [slash] @ name" using SafePath_eq [OF assms(1) r' n] assms(3) by (simp split: if_splits)
  then show ws: "ws = r @ [slash] @ name" using root_fixed [OF assms(1,2) r'] by simp
  show "safe_name name" by (rule n)
  show "base ws = name" unfolding ws by (rule base_child) (use n in \<open>auto simp: safe_name_def\<close>)
qed


section \<open>What a clean-up removes\<close>

text \<open>A later world of a clean-up: nothing appeared, and the attempts are those of the beginning.\<close>

definition later :: "'w merge_world \<Rightarrow> 'w merge_world \<Rightarrow> bool" where
  "later w w' \<longleftrightarrow> attempt_tables (mw_db w') = attempt_tables (mw_db w) \<and> (\<forall>q. mw_fs w' q = mw_fs w q \<or> mw_fs w' q = None)"

lemma later_same: "attempt_tables (mw_db w') = attempt_tables (mw_db w) \<Longrightarrow> mw_fs w' = mw_fs w \<Longrightarrow> later w w'"
  by (simp add: later_def)

lemma later_trans: "later w w1 \<Longrightarrow> later w1 w2 \<Longrightarrow> later w w2"
  unfolding later_def by metis

lemma delete_workspace_later:
  "later w (snd (delete_workspace env s wr ws d w))"
  "mw_fs (snd (delete_workspace env s wr ws d w)) = mw_fs w \<or> mw_fs (snd (delete_workspace env s wr ws d w)) = remove_all ws (mw_fs w)"
  by (auto simp: delete_workspace_def Let_def later_def remove_all_def split: sum.split)

text \<open>Every path that is missing afterwards belonged to a workspace that was deletable when it was removed.\<close>

definition accounted :: "'w cleanup_env \<Rightarrow> string \<Rightarrow> (string \<Rightarrow> bool) \<Rightarrow> string \<Rightarrow> 'w merge_world \<Rightarrow> bool" where
  "accounted env r doneIssues p w \<longleftrightarrow>
     (\<exists>name w1 facts. safe_name name \<and> (p = r @ [slash] @ name \<or> has_prefix p (r @ [slash] @ name @ ''/''))
        \<and> base (r @ [slash] @ name) = name \<and> later w w1 \<and> deletable env r (r @ [slash] @ name) doneIssues facts w1)"

definition removes :: "'w cleanup_env \<Rightarrow> string \<Rightarrow> (string \<Rightarrow> bool) \<Rightarrow> 'w merge_world \<Rightarrow> 'w merge_world \<Rightarrow> bool" where
  "removes env r doneIssues w w' \<longleftrightarrow> later w w' \<and> (\<forall>p. mw_fs w' p \<noteq> mw_fs w p \<longrightarrow> accounted env r doneIssues p w)"

lemma accounted_later: "later w w1 \<Longrightarrow> accounted env r doneIssues p w1 \<Longrightarrow> accounted env r doneIssues p w"
proof -
  assume l: "later w w1" and "accounted env r doneIssues p w1"
  then obtain name w2 facts where a: "safe_name name" "p = r @ [slash] @ name \<or> has_prefix p (r @ [slash] @ name @ ''/'')"
      "base (r @ [slash] @ name) = name" "later w1 w2" "deletable env r (r @ [slash] @ name) doneIssues facts w2"
    unfolding accounted_def by blast
  show ?thesis
    unfolding accounted_def
    by (rule exI [of _ name], rule exI [of _ w2], rule exI [of _ facts]) (use a later_trans [OF l a(4)] in blast)
qed

lemma removes_same: "later w w' \<Longrightarrow> mw_fs w' = mw_fs w \<Longrightarrow> removes env r doneIssues w w'"
  by (simp add: removes_def)

lemma removes_trans:
  assumes "removes env r doneIssues w w1" "removes env r doneIssues w1 w2"
  shows "removes env r doneIssues w w2"
  unfolding removes_def
proof (intro conjI allI impI)
  show "later w w2" using assms later_trans unfolding removes_def by blast
  fix p assume p: "mw_fs w2 p \<noteq> mw_fs w p"
  show "accounted env r doneIssues p w"
  proof (cases "mw_fs w1 p = mw_fs w p")
    case True
    then have "accounted env r doneIssues p w1" using p assms(2) unfolding removes_def by metis
    then show ?thesis using assms(1) accounted_later unfolding removes_def by blast
  next
    case False
    then show ?thesis using assms(1) unfolding removes_def by blast
  qed
qed

lemma removes_workspace:
  assumes "safe_name name" "ws = r @ [slash] @ name" "base ws = name" "deletable env r ws doneIssues facts w1" "later w w1"
    and "later w w'" "mw_fs w' = mw_fs w \<or> mw_fs w' = remove_all ws (mw_fs w)"
  shows "removes env r doneIssues w w'"
  unfolding removes_def
proof (intro conjI allI impI)
  fix p assume p: "mw_fs w' p \<noteq> mw_fs w p"
  then have "mw_fs w' = remove_all ws (mw_fs w)" using assms(7) by auto
  with p have "p = ws \<or> has_prefix p (ws @ ''/'')" by (auto simp: remove_all_def split: if_splits)
  then show "accounted env r doneIssues p w" unfolding accounted_def using assms(1-5) by auto
qed (rule assms(6))

lemma clean_entry_removes:
  fixes entry :: "string \<times> bool" and counts :: cleanup_counts and w :: "'w merge_world"
  assumes root: "rooted (clean_cwd env)" "SafeRoot (clean_cwd env) fs wr = Inr (cl_safeRoot worker)"
    and store: "cl_Apply worker \<Longrightarrow> cl_has_store worker"
  defines "w' \<equiv> snd (clean_entry env worker entry counts w)"
  shows "removes env (cl_safeRoot worker) (cl_DoneIssues worker) w w'"
    and "\<not> cl_Apply worker \<Longrightarrow> mw_fs w' = mw_fs w"
proof -
  let ?r = "cl_safeRoot worker" and ?done = "cl_DoneIssues worker"
  have *: "later w w' \<and> mw_fs w' = mw_fs w \<or> cl_Apply worker \<and> removes env ?r ?done w w'"
  proof (cases "skipped_entry entry")
    case True
    then show ?thesis by (simp add: w'_def clean_entry_def later_same)
  next
    case live: False
    show ?thesis
    proof (cases "SafePath (clean_cwd env) (mw_fs w) ?r (fst entry)")
      case (Inl e)
      then show ?thesis using live by (simp add: w'_def clean_entry_def later_same)
    next
      case (Inr ws)
      note ws = workspace_child [OF root Inr]
      obtain err d w1 where dec: "cleanupDecisionForWorkspace env (cl_has_store worker) ?r ws ?done w = ((err, d), w1)"
        by (metis prod.exhaust)
      note same = decision_fs [OF dec]
      show ?thesis
      proof (cases "err = [] \<and> cd_Delete d \<and> cl_Apply worker")
        case False
        then have "attempt_tables (mw_db w') = attempt_tables (mw_db w1)" "mw_fs w' = mw_fs w1"
          using live Inr dec by (auto simp: w'_def clean_entry_def Let_def)
        then show ?thesis using same by (simp add: later_same)
      next
        case True
        let ?w2 = "recordCleanupEventContext env (cl_has_store worker) ''cleanup_candidate_found'' d
                     (reason_and_category d @ [(''delete'', JBool (cd_Delete d))]) w1"
        obtain reason e w3 where del: "delete_workspace env (cl_has_store worker) ?r ws d ?w2 = ((reason, e), w3)"
          by (metis prod.exhaust)
        have w2: "later w ?w2" "mw_fs ?w2 = mw_fs w" using same by (simp_all add: later_same)
        have "w' = w3" using True live Inr dec del by (simp add: w'_def clean_entry_def Let_def)
        then have "later w w'" "mw_fs w' = mw_fs w \<or> mw_fs w' = remove_all ws (mw_fs w)"
          using delete_workspace_later [where w = ?w2 and env = env and s = "cl_has_store worker" and wr = ?r and ws = ws and d = d] later_trans [OF w2(1)] w2(2) by (auto simp: del)
        moreover obtain facts where "deletable env ?r ws ?done facts w"
          using decision_delete [of env ?r ws ?done w d w1] dec True store by auto
        ultimately show ?thesis using removes_workspace [OF ws(2,1,3) _ later_same [OF refl refl]] True by blast
      qed
    qed
  qed
  then show "removes env ?r ?done w w'" using removes_same by blast
  show "mw_fs w' = mw_fs w" if "\<not> cl_Apply worker" using * that by blast
qed

lemma clean_entries_removes:
  assumes "rooted (clean_cwd env)" "SafeRoot (clean_cwd env) fs wr = Inr (cl_safeRoot worker)"
    and "cl_Apply worker \<Longrightarrow> cl_has_store worker"
  shows "removes env (cl_safeRoot worker) (cl_DoneIssues worker) w (snd (clean_entries env worker entries counts w))
     \<and> (\<not> cl_Apply worker \<longrightarrow> mw_fs (snd (clean_entries env worker entries counts w)) = mw_fs w)"
proof (induction entries arbitrary: counts w)
  case Nil
  show ?case by (simp add: removes_same later_same)
next
  case (Cons entry entries)
  obtain err counts1 w1 where e: "clean_entry env worker entry counts w = ((err, counts1), w1)" by (metis prod.exhaust)
  note step = clean_entry_removes [OF assms, where entry = entry and counts = counts and w = w, unfolded e snd_conv]
  show ?case using step Cons.IH [where w = w1 and counts = counts1] removes_trans [OF step(1)]
    by (auto simp: e)
qed

lemma Execute_removes:
  assumes "rooted (clean_cwd env)" "SafeRoot (clean_cwd env) fs wr = Inr (cl_safeRoot worker)"
    and "cl_Apply worker \<Longrightarrow> cl_has_store worker"
  shows "removes env (cl_safeRoot worker) (cl_DoneIssues worker) w (snd (Execute env worker w))"
    and "\<not> cl_Apply worker \<Longrightarrow> mw_fs (snd (Execute env worker w)) = mw_fs w"
proof -
  define w1 where "w1 = recordCleanupEventContext env (cl_has_store worker) ''cleanup_started'' zero_CleanupDecision
                 [(''workspace_root'', JStr (cl_safeRoot worker)), (''apply'', JBool (cl_Apply worker))] w"
  have same: "later w w1" "mw_fs w1 = mw_fs w" by (simp_all add: w1_def later_same)
  have "removes env (cl_safeRoot worker) (cl_DoneIssues worker) w (snd (Execute env worker w))
      \<and> (\<not> cl_Apply worker \<longrightarrow> mw_fs (snd (Execute env worker w)) = mw_fs w)"
  proof (cases "ce_read_dir env (mw_fs w1) (cl_safeRoot worker)")
    case (Inl e)
    then have "snd (Execute env worker w) = recordCleanupErrorContext env (cl_has_store worker) zero_CleanupDecision [e] w1"
      unfolding Execute_def w1_def [symmetric] Let_def by simp
    then show ?thesis using same by (simp add: removes_same later_trans [OF same(1)] later_same)
  next
    case (Inr entries)
    let ?run = "clean_entries env worker entries \<lparr>ct_removed = 0, ct_kept = 0, ct_eligible = 0, ct_categories = []\<rparr> w1"
    have "snd (Execute env worker w) = snd ?run"
      unfolding Execute_def w1_def [symmetric] Let_def Inr by (simp split: prod.split)
    then show ?thesis
      using clean_entries_removes [OF assms, of w1] removes_trans [OF removes_same [OF same]] same(2) by auto
  qed
  then show "removes env (cl_safeRoot worker) (cl_DoneIssues worker) w (snd (Execute env worker w))"
    and "\<not> cl_Apply worker \<Longrightarrow> mw_fs (snd (Execute env worker w)) = mw_fs w" by auto
qed


lemma cleanup_removes:
  assumes "rooted (clean_cwd env)"
    and w'_def: "w' = snd (cleanupWorkspacesContext env given workspaceRoot apply doneIssues w)"
    and "mw_fs w' p \<noteq> mw_fs w p"
  shows "apply \<and> later w w' \<and> (\<exists>r. SafeRoot (clean_cwd env) (mw_fs w) workspaceRoot = Inr r \<and> accounted env r doneIssues p w)"
proof -
  obtain r where r: "SafeRoot (clean_cwd env) (mw_fs w) workspaceRoot = Inr r"
    using assms(3) unfolding w'_def cleanupWorkspacesContext_def by (auto split: if_splits sum.splits)
  let ?store = "given \<or> ce_open_err env w = []"
  define worker where "worker = \<lparr>cl_workspaceRoot = workspaceRoot, cl_safeRoot = r, cl_Apply = apply,
                       cl_DoneIssues = doneIssues, cl_has_store = ?store\<rparr>"
  have "clean_ctx env w = [] \<and> (apply \<longrightarrow> ?store)"
    using assms(3) unfolding w'_def cleanupWorkspacesContext_def r by (auto split: if_splits)
  then have run: "w' = snd (Execute env worker w)" and store: "apply \<Longrightarrow> ?store"
    unfolding w'_def cleanupWorkspacesContext_def r worker_def by auto
  have sel: "cl_safeRoot worker = r" "cl_DoneIssues worker = doneIssues" "cl_Apply worker = apply" "cl_has_store worker = ?store"
    by (simp_all add: worker_def)
  note ex = Execute_removes [of env "mw_fs w" workspaceRoot worker w, unfolded sel, OF assms(1) r store, folded run]
  have "apply" by (rule ccontr) (use ex(2) assms(3) in simp)
  moreover have "later w w'" "accounted env r doneIssues p w" using ex(1) assms(3) by (simp_all add: removes_def)
  ultimately show ?thesis using r by blast
qed


text \<open>
  C33: a clean-up deletes finished work only.  A path that is missing after \<open>cleanupWorkspacesContext\<close>
  belongs to a workspace directly below the safe root, the clean-up was told to apply, and when it
  decided the workspace was no link, had no uncommitted change, its issue was Done, the store knew
  the issue's last attempt with no other workspace path, and the attempt had a terminal status or
  its pull request, from the issue's own branch, was merged.  Nothing else changes in the file system.
\<close>

theorem cleanup_deletes_only_finished_work:
  assumes "rooted (clean_cwd env)"
    and "w' = snd (cleanupWorkspacesContext env given workspaceRoot apply doneIssues w)" "mw_fs w' p \<noteq> mw_fs w p"
  shows "apply \<and> mw_fs w' p = None \<and>
    (\<exists>r name w1 facts. SafeRoot (clean_cwd env) (mw_fs w) workspaceRoot = Inr r \<and> safe_name name
       \<and> (p = r @ ''/'' @ name \<or> has_prefix p (r @ ''/'' @ name @ ''/''))
       \<and> attempt_tables (mw_db w1) = attempt_tables (mw_db w) \<and> (\<forall>q. mw_fs w1 q = mw_fs w q \<or> mw_fs w1 q = None)
       \<and> AssertSafeDeletePath (clean_cwd env) (mw_fs w1) r (r @ ''/'' @ name) = Inr ()
       \<and> has_changes env w1 (r @ ''/'' @ name) = Inr False
       \<and> ReadCleanupFacts name (mw_db w1) = Inr (Some facts) \<and> doneIssues name
       \<and> (cf_WorkspacePath facts = [] \<or> clean (cf_WorkspacePath facts) = clean (r @ ''/'' @ name))
       \<and> (TerminalRunStatus (facts_status facts) \<or> merged_evidence env facts w1))"
proof -
  have sl: "[slash] = ''/''" by (simp add: slash_def)
  have nt: "mw_fs w' p = None" "apply"
    using cleanup_removes [OF assms] assms(3) unfolding later_def by (metis, blast)
  obtain r name w1 facts where a: "SafeRoot (clean_cwd env) (mw_fs w) workspaceRoot = Inr r" "safe_name name"
      "p = r @ ''/'' @ name \<or> has_prefix p (r @ ''/'' @ name @ ''/'')" "base (r @ ''/'' @ name) = name" "later w w1"
      "deletable env r (r @ ''/'' @ name) doneIssues facts w1"
    using cleanup_removes [OF assms] unfolding accounted_def sl by blast
  show ?thesis
    by (intro conjI nt, rule exI [of _ r], rule exI [of _ name], rule exI [of _ w1], rule exI [of _ facts])
      (use a in \<open>simp add: deletable_def later_def\<close>)
qed

text \<open>A root with the workspace of one finished issue.\<close>

definition tidy_env :: "unit cleanup_env" where
  "tidy_env = \<lparr>ce_base = empty_merge_env, ce_read_dir = (\<lambda>fs r. Inr [(''CAG-1'', True)]), ce_repo = Inr (''o'', ''r''),
     ce_host_error = (\<lambda>u. None), ce_handoff = (\<lambda>u x. (Inr ([], []), x)), ce_done = (\<lambda>p s x. (Inr (\<lambda>k. k = ''CAG-1''), x)),
     ce_open_err = (\<lambda>w. [])\<rparr>"

definition finished_db :: db where
  "finished_db = empty_db
     \<lparr>db_attempts := [\<lparr>ar_id = 1, ar_issue_key = ''CAG-1'', ar_issue_id = ''i'', ar_attempt = 1, ar_workspace_path = ''/w/CAG-1'',
        ar_branch_name = [], ar_base_branch = [], ar_status = ''success'', ar_created_at = ''2026-01-02T03:04:05Z'',
        ar_updated_at = ''2026-01-02T03:04:05Z''\<rparr>]\<rparr>"

definition tidy_world :: "db \<Rightarrow> unit merge_world" where
  "tidy_world db = \<lparr>mw_db = db, mw_fs = [''/'' \<mapsto> Directory, ''/w'' \<mapsto> Directory, ''/w/CAG-1'' \<mapsto> Directory], mw_w = ()\<rparr>"

lemma event_cleanup_facts: "ReadCleanupFacts k (snd (appendEvent env i db)) = ReadCleanupFacts k db"
proof -
  have "db_cleanups (snd (appendEvent env i db)) = db_cleanups db"
    by (simp add: appendEvent_def insert_event_def Let_def split: sum.split)
  then show ?thesis
    using appendEvent_attempts [of env i db] unfolding ReadCleanupFacts_def latest_attempt_def attempt_tables_def by (simp only: prod.inject)
qed

lemma tidy_paths:
  "SafeRoot ''/'' (mw_fs (tidy_world db)) ''/w'' = Inr ''/w''" "SafePath ''/'' (mw_fs (tidy_world db)) ''/w'' ''CAG-1'' = Inr ''/w/CAG-1''"
  "AssertSafeDeletePath ''/'' (mw_fs (tidy_world db)) ''/w'' ''/w/CAG-1'' = Inr ()" "base ''/w/CAG-1'' = ''CAG-1''"
  "\<not> skipped_entry (''CAG-1'', True)" "clean ''/w/CAG-1'' = ''/w/CAG-1''" "TerminalRunStatus ''success''"
  unfolding tidy_world_def by code_simp+

lemma tidy_env [simp]:
  "clean_cwd tidy_env = ''/''" "has_changes tidy_env w ws = Inr False" "clean_ctx tidy_env w = []" "ctx_errs (ce_base tidy_env) w = []"
  "me_fault (ce_base tidy_env) p = False" "me_store (ce_base tidy_env) = test_env"
  by (simp_all add: tidy_env_def empty_merge_env_def clean_cwd_def has_changes_def workspaceHasChanges_def rec_at_def ready_env_def
      clean_ctx_def ctx_errs_def empty_client_def)

definition finished_facts :: CleanupFacts where
  "finished_facts = (case ReadCleanupFacts ''CAG-1'' finished_db of Inr (Some f) \<Rightarrow> f | _ \<Rightarrow> undefined)"

lemma finished_facts:
  "ReadCleanupFacts ''CAG-1'' finished_db = Inr (Some finished_facts)" "cf_IssueKey finished_facts = ''CAG-1''"
  "cf_WorkspacePath finished_facts = ''/w/CAG-1''" "facts_status finished_facts = ''success''"
  unfolding finished_facts_def by code_simp+

lemma tidy_world [simp]: "mw_db (tidy_world db) = db" "(tidy_world db)\<lparr>mw_db := db'\<rparr> = tidy_world db'"
  by (simp_all add: tidy_world_def)

lemma tidy_safe:
  "cleanupSafetyDecisionForRootWithChanges tidy_env ''/w'' ''/w/CAG-1'' (tidy_world db) = ([], decision_for ''CAG-1'' [] [])"
  by (simp add: cleanupSafetyDecisionForRootWithChanges_def tidy_paths)

lemma tidy_decision:
  assumes "ReadCleanupFacts ''CAG-1'' db = Inr (Some finished_facts)"
  shows "\<exists>d. cleanupDecisionForWorkspace tidy_env True ''/w'' ''/w/CAG-1'' (\<lambda>k. k = ''CAG-1'') (tidy_world db) = (([], d), tidy_world db)
     \<and> cd_Delete d"
proof -
  let ?safe = "decision_for ''CAG-1'' [] []"
  have safe: "cd_IssueIdentifier ?safe = ''CAG-1''" "\<not> blocked_workspace ?safe"
    by (simp_all add: decision_for_def zero_CleanupDecision_def blocked_workspace_def)
  have facts: "\<exists>d. decision_from_facts tidy_env ''/w/CAG-1'' (\<lambda>k. k = ''CAG-1'') ?safe finished_facts w = (([], d), w) \<and> cd_Delete d"
    for w
    unfolding decision_from_facts_def Let_def finished_facts tidy_paths by (simp add: safe tidy_paths(7) decision_cases)
  then obtain d where d: "decision_from_facts tidy_env ''/w/CAG-1'' (\<lambda>k. k = ''CAG-1'') ?safe finished_facts (tidy_world db)
      = (([], d), tidy_world db)" "cd_Delete d" by blast
  have "cleanupDecisionFromSQLite tidy_env ''/w/CAG-1'' (\<lambda>k. k = ''CAG-1'') ?safe (tidy_world db) = (([], d), tidy_world db)"
    by (simp add: cleanupDecisionFromSQLite_def statement_def tidy_paths(4) assms d(1))
  then have "cleanupDecisionForWorkspace tidy_env True ''/w'' ''/w/CAG-1'' (\<lambda>k. k = ''CAG-1'') (tidy_world db)
      = (([], d\<lparr>cd_WorkspacePath := ''/w/CAG-1''\<rparr>), tidy_world db)"
    by (simp add: cleanupDecisionForWorkspace_def tidy_safe safe(2) placed_def)
  then show ?thesis using d(2) by (simp add: decision_cases)
qed

lemma tidy_event: "\<exists>i. recordCleanupEventContext tidy_env True t d p (tidy_world db) = tidy_world (snd (appendEvent test_env i db))"
proof -
  have "snd (statement (ce_base tidy_env) (appendEvent test_env i) (tidy_world db)) = tidy_world (snd (appendEvent test_env i db))" for i
    by (simp add: statement_def split: prod.split)
  then show ?thesis by (auto simp: recordCleanupEventContext_def)
qed

lemma delete_workspace_succeeds:
  assumes "AssertSafeDeletePath (clean_cwd env) (mw_fs w) r ws = Inr ()" "\<not> me_fault (ce_base env) ws"
  shows "mw_fs (snd (delete_workspace env s r ws d w)) = remove_all ws (mw_fs w)" "snd (fst (delete_workspace env s r ws d w)) = []"
  using assms by (simp_all add: delete_workspace_def Let_def)

lemma tidy_removes:
  "mw_fs (snd (cleanupWorkspacesContext tidy_env True ''/w'' True (\<lambda>k. k = ''CAG-1'') (tidy_world finished_db))) ''/w/CAG-1''
     \<noteq> mw_fs (tidy_world finished_db) ''/w/CAG-1''"
proof -
  define worker where "worker = \<lparr>cl_workspaceRoot = ''/w'', cl_safeRoot = ''/w'', cl_Apply = True, cl_DoneIssues = (\<lambda>k. k = ''CAG-1''),
    cl_has_store = True\<rparr>"
  have sel: "cl_safeRoot worker = ''/w''" "cl_Apply worker" "cl_DoneIssues worker = (\<lambda>k. k = ''CAG-1'')" "cl_has_store worker"
    by (simp_all add: worker_def)
  define w1 where "w1 = recordCleanupEventContext tidy_env True ''cleanup_started'' zero_CleanupDecision
                 [(''workspace_root'', JStr ''/w''), (''apply'', JBool True)] (tidy_world finished_db)"
  obtain db1 where db1: "w1 = tidy_world db1" "ReadCleanupFacts ''CAG-1'' db1 = Inr (Some finished_facts)"
    using tidy_event [of "''cleanup_started''" zero_CleanupDecision _ finished_db] finished_facts(1) event_cleanup_facts
    unfolding w1_def by metis
  obtain d where d: "cleanupDecisionForWorkspace tidy_env True ''/w'' ''/w/CAG-1'' (\<lambda>k. k = ''CAG-1'') w1 = (([], d), w1)" "cd_Delete d"
    using tidy_decision [OF db1(2)] db1(1) by auto
  let ?w2 = "recordCleanupEventContext tidy_env True ''cleanup_candidate_found'' d
                     (reason_and_category d @ [(''delete'', JBool True)]) w1"
  have fs: "mw_fs ?w2 = mw_fs (tidy_world db1)" by (simp add: db1(1))
  have ok: "AssertSafeDeletePath (clean_cwd tidy_env) (mw_fs ?w2) ''/w'' ''/w/CAG-1'' = Inr ()" unfolding fs by (simp add: tidy_paths(3))
  note del = delete_workspace_succeeds [OF ok, of True d]
  obtain reason w3 where w3: "delete_workspace tidy_env True ''/w'' ''/w/CAG-1'' d ?w2 = ((reason, []), w3)"
    using del(2) by simp (metis prod.collapse)
  have gone: "mw_fs w3 ''/w/CAG-1'' = None" using del(1) by (simp add: w3 remove_all_def)
  have "SafePath (clean_cwd tidy_env) (mw_fs w1) ''/w'' ''CAG-1'' = Inr ''/w/CAG-1''" by (simp add: db1(1) tidy_paths(2))
  then have "snd (clean_entry tidy_env worker (''CAG-1'', True) counts w1) = w3" for counts
    using w3 d by (simp add: clean_entry_def tidy_paths(5) sel Let_def)
  then have "snd (clean_entries tidy_env worker [(''CAG-1'', True)] counts w1) = w3" for counts
    by (simp split: prod.split) (metis snd_conv)
  moreover have "ce_read_dir tidy_env fs r = Inr [(''CAG-1'', True)]" for fs r by (simp add: tidy_env_def)
  moreover have "snd (case x of ((err, counts), w2) \<Rightarrow> (f err counts, w2)) = snd x"
    for x :: "(err_list \<times> cleanup_counts) \<times> unit merge_world" and f :: "err_list \<Rightarrow> cleanup_counts \<Rightarrow> err_list + string"
    by (simp split: prod.split)
  ultimately have "snd (Execute tidy_env worker (tidy_world finished_db)) = w3"
    unfolding Execute_def Let_def by (simp add: sel w1_def)
  moreover have "cleanupWorkspacesContext tidy_env True ''/w'' True (\<lambda>k. k = ''CAG-1'') (tidy_world finished_db)
      = Execute tidy_env worker (tidy_world finished_db)"
    by (simp add: cleanupWorkspacesContext_def tidy_paths(1) worker_def)
  ultimately show ?thesis using gone by (simp add: tidy_world_def)
qed

theorem cleanup_deletes_only_finished_work_witness:
  "\<exists>name w1 facts. (''/w/CAG-1'' = ''/w'' @ ''/'' @ name \<or> has_prefix ''/w/CAG-1'' (''/w'' @ ''/'' @ name @ ''/''))
     \<and> attempt_tables (mw_db (w1 :: unit merge_world)) = attempt_tables finished_db
     \<and> ReadCleanupFacts name (mw_db w1) = Inr (Some facts) \<and> name = ''CAG-1''"
proof -
  have r: "rooted (clean_cwd tidy_env)" by (simp add: rooted_def slash_def)
  from cleanup_deletes_only_finished_work [OF r refl tidy_removes] tidy_paths(1) show ?thesis by auto
qed

end
