(* ===== verification/CleanupTasks.thy ===== *)
theory CleanupTasks
  imports CleanupSafety
begin

text \<open>
  internal/cleanupworker/task.go with the dependencies that src/cleanup.go gives it: the durable tasks
  of the clean-up lane, one for each workspace below the root.
\<close>

section \<open>Queueing\<close>

record CleanupConfig =
  cc_ProjectSlug :: string
  cc_DoneState :: string
  cc_WorkspaceRoot :: string

definition cleanupWorkerConfig :: "RunnerConfig \<Rightarrow> CleanupConfig" where
  "cleanupWorkerConfig config =
     \<lparr>cc_ProjectSlug = rc_ProjectSlug config, cc_DoneState = rc_DoneState config, cc_WorkspaceRoot = rc_WorkspaceRoot config\<rparr>"

record CleanupPayload =
  cy_Phase :: string
  cy_WorkspaceName :: string
  cy_WorkspacePath :: string

definition cleanup_payload_text :: "CleanupPayload \<Rightarrow> string" where
  "cleanup_payload_text p =
     render_struct [(''phase'', JStr (cy_Phase p)), (''workspace_name'', JStr (cy_WorkspaceName p)),
       (''workspace_path'', JStr (cy_WorkspacePath p))]"

definition decode_cleanup_payload :: "CleanupPayload \<Rightarrow> string \<Rightarrow> CleanupPayload" where
  "decode_cleanup_payload p data =
     (case object_members data of
        None \<Rightarrow> p
      | Some ms \<Rightarrow>
          \<lparr>cy_Phase = keep_field read_string (cy_Phase p) ''phase'' ms,
           cy_WorkspaceName = keep_field read_string (cy_WorkspaceName p) ''workspace_name'' ms,
           cy_WorkspacePath = keep_field read_string (cy_WorkspacePath p) ''workspace_path'' ms\<rparr>)"

definition cleanup_task_payload :: "WorkerTask \<Rightarrow> CleanupPayload" where
  "cleanup_task_payload task =
     (let p = \<lparr>cy_Phase = [], cy_WorkspaceName = wt_IssueKey task, cy_WorkspacePath = []\<rparr> in
      if wt_Payload task = [] then p else decode_cleanup_payload p (wt_Payload task))"

definition TaskKey :: "string \<Rightarrow> string" where "TaskKey workspaceName = RoleCleanup @ '':'' @ workspaceName"

definition cleanup_task_for :: "string \<Rightarrow> string \<Rightarrow> time \<Rightarrow> time \<Rightarrow> WorkerTask" where
  "cleanup_task_for workspaceName workspace availableAt now =
     \<lparr>wt_TaskKey = TaskKey workspaceName, wt_Role = RoleCleanup, wt_IssueKey = workspaceName, wt_IssueID = [], wt_Attempt = 1,
      wt_Status = ''queued'', wt_Priority = 0, wt_AvailableAt = availableAt, wt_LeaseName = ''worker:cleanup:'' @ workspaceName,
      wt_Payload = cleanup_payload_text \<lparr>cy_Phase = ''cleanup'', cy_WorkspaceName = workspaceName, cy_WorkspacePath = workspace\<rparr>,
      wt_CreatedAt = now, wt_UpdatedAt = now\<rparr>"

definition Enqueue ::
    "'w cleanup_env \<Rightarrow> string \<Rightarrow> string \<Rightarrow> time \<Rightarrow> 'w merge_world \<Rightarrow> (err_list \<times> bool) \<times> 'w merge_world" where
  "Enqueue env workspaceName workspace now0 w =
     (let menv = ce_base env;
          now = (if is_zero now0 then merge_now menv else now0);
          taskKey = TaskKey workspaceName in
      case fst (statement menv (\<lambda>db. (WorkerTasks RoleCleanup db, db)) w) of
        Inl e \<Rightarrow> (([store_error_text e], False), w)
      | Inr tasks \<Rightarrow>
          if (case find (\<lambda>t. wt_TaskKey t = taskKey) tasks of None \<Rightarrow> False | Some t \<Rightarrow> BlocksDispatch (wt_Status t))
          then (([], False), w)
          else (case fst (statement menv (\<lambda>db. (AvailableAtAfterLatestFailure (Some db) taskKey RoleCleanup now, db)) w) of
                  Inl e \<Rightarrow> (([store_error_text e], False), w)
                | Inr availableAt \<Rightarrow>
                    let task = cleanup_task_for workspaceName workspace availableAt now in
                    (case statement menv (UpsertWorkerTask (me_store menv) task) w of
                       (Inl e, w1) \<Rightarrow> (([store_error_text e], False), w1)
                     | (Inr u, w1) \<Rightarrow>
                         (([], True), recordContinuousWorkerTaskEvent menv ''worker_task_queued'' task
                            [(''lane'', JStr ''cleanup''), (''workspace'', JStr workspace)] w1))))"

fun schedule_entries ::
    "'w cleanup_env \<Rightarrow> string \<Rightarrow> (string \<times> bool) list \<Rightarrow> bool \<Rightarrow> 'w merge_world \<Rightarrow> (bool \<times> err_list) \<times> 'w merge_world" where
  "schedule_entries env safeRoot [] didWork w = ((didWork, []), w)"
| "schedule_entries env safeRoot (entry # entries) didWork w =
     (if skipped_entry entry then schedule_entries env safeRoot entries didWork w
      else (case SafePath (clean_cwd env) (mw_fs w) safeRoot (fst entry) of
              Inl e \<Rightarrow> ((didWork, [fst e]), w)
            | Inr workspace \<Rightarrow>
                (case Enqueue env (fst entry) workspace (merge_now (ce_base env)) w of
                   ((err, enqueued), w1) \<Rightarrow>
                     if err \<noteq> [] then ((didWork, err), w1)
                     else schedule_entries env safeRoot entries (didWork \<or> enqueued) w1)))"

definition Schedule :: "'w cleanup_env \<Rightarrow> CleanupConfig \<Rightarrow> 'w merge_world \<Rightarrow> (bool \<times> err_list) \<times> 'w merge_world" where
  "Schedule env config w =
     (case SafeRoot (clean_cwd env) (mw_fs w) (cc_WorkspaceRoot config) of
        Inl e \<Rightarrow> ((False, [fst e]), w)
      | Inr safeRoot \<Rightarrow>
          (case ce_read_dir env (mw_fs w) safeRoot of
             Inl e \<Rightarrow> ((False, [e]), w)
           | Inr entries \<Rightarrow> schedule_entries env safeRoot entries False w))"

section \<open>Claiming and completing\<close>

definition Claim :: "'w cleanup_env \<Rightarrow> time \<Rightarrow> 'w merge_world \<Rightarrow> (err_list \<times> WorkerTask option) \<times> 'w merge_world" where
  "Claim env now w =
     (case statement (ce_base env) (ClaimNextWorkerTask (me_store (ce_base env)) RoleCleanup now) w of
        (Inl e, w1) \<Rightarrow> (([store_error_text e], None), w1)
      | (Inr None, w1) \<Rightarrow> (([], None), w1)
      | (Inr (Some claimed), w1) \<Rightarrow>
          if wt_TaskKey claimed = ''continuous:cleanup'' \<or> wt_TaskKey claimed = ''process:cleanup''
          then (case statement (ce_base env) (CompleteWorkerTask (me_store (ce_base env)) (wt_TaskKey claimed) ''completed'' now) w1 of
                  (r, w2) \<Rightarrow> ((err_of r, None), w2))
          else (([], Some claimed), recordContinuousWorkerTaskEvent (ce_base env) ''worker_task_claimed'' claimed
                  [(''lane'', JStr ''cleanup''), (''issue_key'', JStr (wt_IssueKey claimed))] w1))"

definition cleanup_result_payload :: "WorkerTask \<Rightarrow> string \<Rightarrow> bool \<Rightarrow> string \<Rightarrow> string \<Rightarrow> (string \<times> json) list" where
  "cleanup_result_payload task status didWork reason errorText =
     [(''lane'', JStr ''cleanup''), (''task_key'', JStr (wt_TaskKey task)), (''role'', JStr RoleCleanup), (''status'', JStr status),
      (''reason'', JStr reason), (''did_work'', JBool didWork), (''issue_key'', JStr (wt_IssueKey task))]
     @ (if errorText \<noteq> [] then [(''error'', JStr errorText)] else [])"

definition Complete ::
    "'w cleanup_env \<Rightarrow> WorkerTask \<Rightarrow> string \<Rightarrow> bool \<Rightarrow> string \<Rightarrow> string \<Rightarrow> time \<Rightarrow> time \<Rightarrow> 'w merge_world \<Rightarrow> err_list \<times> 'w merge_world" where
  "Complete env task status0 didWork reason0 errorText startedAt0 finishedAt0 w =
     (if wt_TaskKey task = [] then ([], w)
      else let menv = ce_base env;
               status = (if status0 = [] then ''completed'' else status0);
               reason = (if reason0 = [] then ''cleanup_task_completed'' else reason0);
               startedAt = (if is_zero startedAt0 then merge_now menv else startedAt0);
               finishedAt = (if is_zero finishedAt0 then merge_now menv else finishedAt0);
               payload = cleanup_result_payload task status didWork reason errorText in
        (case statement menv (CompleteWorkerTask (me_store menv) (wt_TaskKey task) status finishedAt) w of
           (finished, w1) \<Rightarrow>
             (case statement menv (UpsertWorkerResult (me_store menv)
                     \<lparr>re_TaskKey = wt_TaskKey task, re_Role = RoleCleanup, re_LaneName = ''cleanup'', re_IssueKey = wt_IssueKey task,
                      re_IssueID = wt_IssueID task, re_Attempt = wt_Attempt task, re_Status = status, re_DidWork = didWork,
                      re_Reason = reason, re_Error = errorText, re_Payload = json_render (JObj payload),
                      re_StartedAt = startedAt, re_FinishedAt = finishedAt, re_UpdatedAt = finishedAt\<rparr>) w1 of
                (recorded, w2) \<Rightarrow>
                  (err_of finished @ err_of recorded,
                   recordContinuousWorkerTaskEvent menv
                     (if status = ''failed'' then ''worker_task_failed'' else ''worker_task_completed'')
                     (task\<lparr>wt_Status := status, wt_UpdatedAt := finishedAt\<rparr>) payload w2))))"

section \<open>Running a task\<close>

text \<open>What becomes of a workspace that is there: the status, the reason and the error of its task.\<close>

type_synonym task_end = "string \<times> string \<times> err_list"

definition cleanup_candidate ::
    "'w cleanup_env \<Rightarrow> string \<Rightarrow> string \<Rightarrow> string \<Rightarrow> (string \<Rightarrow> bool) \<Rightarrow> 'w merge_world \<Rightarrow> task_end \<times> 'w merge_world" where
  "cleanup_candidate env safeRoot workspaceName workspace doneIssues w =
     (case cleanupDecisionForWorkspace env True safeRoot workspace doneIssues w of
        ((err, decision), w1) \<Rightarrow>
          if err \<noteq> []
          then ((''failed'', ''cleanup_decision_failed'', err),
                recordCleanupErrorContext env True
                  (zero_CleanupDecision\<lparr>cd_IssueIdentifier := workspaceName, cd_WorkspacePath := workspace\<rparr>) err w1)
          else
            let w2 = recordCleanupEventContext env True ''cleanup_candidate_found'' decision
                       (reason_and_category decision @ [(''delete'', JBool (cd_Delete decision))]) w1 in
            if \<not> cd_Delete decision
            then ((''completed'', ''cleanup_kept'', []),
                  recordCleanupEventContext env True ''cleanup_skipped'' decision (reason_and_category decision)
                    (mirrorCleanupState env True decision False (DeletionResult decision ''kept'') True w2))
            else (case delete_workspace env True safeRoot workspace decision w2 of
                    ((reason, err), w3) \<Rightarrow> ((if err \<noteq> [] then ''failed'' else ''completed'', reason, err), w3)))"

definition cleanup_task_work ::
    "'w cleanup_env \<Rightarrow> CleanupConfig \<Rightarrow> WorkerTask \<Rightarrow> 'w merge_world \<Rightarrow> task_end \<times> 'w merge_world" where
  "cleanup_task_work env config task w =
     (let payload = cleanup_task_payload task;
          workspaceName = first_non_empty [cy_WorkspaceName payload, wt_IssueKey task] in
      case SafeRoot (clean_cwd env) (mw_fs w) (cc_WorkspaceRoot config) of
        Inl e \<Rightarrow> ((''failed'', ''unsafe_workspace_root'', [fst e]), w)
      | Inr safeRoot \<Rightarrow>
          (case SafePath (clean_cwd env) (mw_fs w) safeRoot workspaceName of
             Inl e \<Rightarrow> ((''failed'', ''unsafe_workspace_path'', [fst e]), w)
           | Inr workspace \<Rightarrow>
               if cy_WorkspacePath payload \<noteq> [] \<and> clean (cy_WorkspacePath payload) \<noteq> clean workspace
               then ((''failed'', ''workspace_path_conflict'',
                      [''cleanup task workspace '' @ cy_WorkspacePath payload @ '' conflicts with expected workspace '' @ workspace]), w)
               else (case call (ce_done env (cc_ProjectSlug config) (cc_DoneState config)) w of
                       (Inl e, w1) \<Rightarrow> ((''failed'', ''linear_done_refresh_failed'', [e]), w1)
                     | (Inr doneIssues, w1) \<Rightarrow>
                         if stat (mw_fs w1) workspace = None then ((''completed'', ''workspace_missing'', []), w1)
                         else cleanup_candidate env safeRoot workspaceName workspace doneIssues w1)))"

definition RunQueued :: "'w cleanup_env \<Rightarrow> CleanupConfig \<Rightarrow> 'w merge_world \<Rightarrow> (bool \<times> err_list) \<times> 'w merge_world" where
  "RunQueued env config w =
     (if clean_ctx env w \<noteq> [] then ((False, clean_ctx env w), w)
      else let now = merge_now (ce_base env) in
        (case Claim env now w of
           ((err, None), w1) \<Rightarrow> ((False, err), w1)
         | ((err, Some task), w1) \<Rightarrow>
             if err \<noteq> [] then ((False, err), w1)
             else (case cleanup_task_work env config task w1 of
                     ((status, reason, failure), w2) \<Rightarrow>
                       (case Complete env task status True reason (errs_text failure) now now w2 of
                          (err, w3) \<Rightarrow> ((True, failure @ err), w3)))))"

section \<open>A claimed clean-up task is settled\<close>

lemma UpsertCleanupState_tasks [simp]: "db_tasks (snd (UpsertCleanupState env c db)) = db_tasks db"
proof -
  have event: "db_tasks db1 = db_tasks db"
    if "appendEvent env i (db\<lparr>db_cleanups := rows\<rparr>) = (a, db1)" for i rows a db1
    using appendEvent_queue [of env i "db\<lparr>db_cleanups := rows\<rparr>"] that by simp
  show ?thesis by (auto simp: UpsertCleanupState_def Let_def dest: event split: option.split sum.split prod.split)
qed

lemma recorded_queue [simp]:
  "queue_of (recordCleanupEventContext env s t d p w) = queue_of w" "queue_of (recordCleanupErrorContext env s d e w) = queue_of w"
  "queue_of (mirrorCleanupState env s d m r x w) = queue_of w"
  by (simp_all add: recordCleanupEventContext_def recordCleanupErrorContext_def statement_queue)
    (simp add: mirrorCleanupState_def queue_of_def)

lemma decision_queue: "cleanupDecisionForWorkspace env s wr ws doneIssues w = (a, w') \<Longrightarrow> queue_of w' = queue_of w"
  using decision_fs [of env s wr ws doneIssues w a w'] by (simp add: queue_of_def)

lemma delete_workspace_queue [simp]: "queue_of (snd (delete_workspace env s r ws d w)) = queue_of w"
proof -
  have "queue_of (w1\<lparr>mw_fs := f\<rparr>) = queue_of w1" for w1 :: "'a merge_world" and f by (simp add: queue_of_def)
  then show ?thesis by (simp add: delete_workspace_def Let_def split: sum.split)
qed

lemma candidate_queue: "queue_of (snd (cleanup_candidate env r name ws doneIssues w)) = queue_of w"
  unfolding cleanup_candidate_def Let_def
  by (auto dest!: decision_queue dest: snd_queue [OF _ delete_workspace_queue] split: prod.split)

lemma cleanup_work_queue: "queue_of (snd (cleanup_task_work env config task w)) = queue_of w"
  unfolding cleanup_task_work_def Let_def
  by (auto dest!: call_split simp: candidate_queue split: prod.split sum.split)

lemma delete_workspace_ended: "fst (fst (delete_workspace env s r ws d w)) \<noteq> []"
  by (simp add: delete_workspace_def Let_def split: sum.split)

lemma cleanup_work_status: "fst (fst (cleanup_task_work env config task w)) \<in> {''completed'', ''failed''}"
  unfolding cleanup_task_work_def cleanup_candidate_def Let_def
  by (auto simp only: fst_conv snd_conv prod.case sum.case insert_iff simp_thms split: prod.split sum.split if_split)

lemma Complete_ctx: "ctx_errs (ce_base env) (snd (Complete env task status d reason e s f w)) = ctx_errs (ce_base env) w"
  unfolding Complete_def Let_def by (simp add: case_prod_beta)

lemma Complete_queue:
  assumes "wt_TaskKey task \<noteq> []" "status \<noteq> []"
  shows "queue_of (snd (Complete env task status d reason e (merge_now (ce_base env)) (merge_now (ce_base env)) w)) =
      (if ctx_errs (ce_base env) w \<noteq> [] then queue_of w
       else db_tasks (snd (CompleteWorkerTask (me_store (ce_base env)) (wt_TaskKey task) status (merge_now (ce_base env)) (mw_db w))))"
  using assms unfolding Complete_def Let_def
  by (simp_all add: case_prod_beta statement_queue) (simp_all add: statement_def queue_of_def case_prod_beta)

lemma Claim_step_of:
  assumes "Claim env now w = ((err, Some task), w1)"
  shows "err = [] \<and> ctx_errs (ce_base env) w = []
    \<and> (\<exists>db1. ClaimNextWorkerTask (me_store (ce_base env)) RoleCleanup now (mw_db w) = (Inr (Some task), db1)
          \<and> queue_of w1 = db_tasks db1)"
  using assms unfolding Claim_def statement_def [of "ce_base env" "ClaimNextWorkerTask _ _ _"]
  by (auto split: if_splits prod.splits sum.splits option.splits) (simp_all add: queue_of_def [of "_\<lparr>mw_db := _\<rparr>"])

interpretation cl: task_lane "ce_base env" RoleCleanup "Claim env (merge_now (ce_base env))" "cleanup_task_work env config"
    "\<lambda>task status reason failure.
       Complete env task status True reason (errs_text failure) (merge_now (ce_base env)) (merge_now (ce_base env))" for env config
  by unfold_locales (erule Claim_step_of, rule cleanup_work_queue, rule cleanup_work_status, rule Complete_ctx, erule (1) Complete_queue)

text \<open>A run that did work: the task it claimed, what became of it, and the completion.\<close>

lemma RunQueued_steps:
  assumes "RunQueued env config w = ((True, err), w')"
  obtains task w1 status reason failure w2 where "Claim env (merge_now (ce_base env)) w = (([], Some task), w1)"
    "cleanup_task_work env config task w1 = ((status, reason, failure), w2)"
    "w' = snd (Complete env task status True reason (errs_text failure) (merge_now (ce_base env)) (merge_now (ce_base env)) w2)"
proof -
  obtain e task w1 where c: "Claim env (merge_now (ce_base env)) w = ((e, Some task), w1)"
    using assms unfolding RunQueued_def Let_def
    by (cases "Claim env (merge_now (ce_base env)) w"; cases "fst (Claim env (merge_now (ce_base env)) w)")
      (auto split: if_splits option.splits)
  obtain status reason failure w2 where work: "cleanup_task_work env config task w1 = ((status, reason, failure), w2)"
    by (metis prod.exhaust)
  have "w' = snd (Complete env task status True reason (errs_text failure) (merge_now (ce_base env)) (merge_now (ce_base env)) w2)"
    using assms Claim_step_of [OF c] unfolding RunQueued_def Let_def c prod.case option.case work by (auto split: prod.splits if_splits)
  with that c work Claim_step_of [OF c] show ?thesis by blast
qed

lemma cleanup_settled:
  assumes "tasks_wf (mw_db w)" "RunQueued env config w = ((True, err), w')"
  shows "\<exists>task db1 r. ClaimNextWorkerTask (me_store (ce_base env)) RoleCleanup (merge_now (ce_base env)) (mw_db w) = (Inr (Some task), db1)
    \<and> lookup tr_task_key (wt_TaskKey task) (db_tasks (mw_db w')) = Some r
    \<and> (if clean_ctx env w' = [] then tr_status r \<in> {''completed'', ''failed''} else tr_status r = ''claimed'')"
proof (rule RunQueued_steps [OF assms(2)])
  fix task w1 status reason failure w2
  assume "Claim env (merge_now (ce_base env)) w = (([], Some task), w1)"
    "cleanup_task_work env config task w1 = ((status, reason, failure), w2)"
    "w' = snd (Complete env task status True reason (errs_text failure) (merge_now (ce_base env)) (merge_now (ce_base env)) w2)"
  from cl.settled [OF assms(1) this] show ?thesis unfolding clean_ctx_def by blast
qed

section \<open>A task deletes the workspace of a finished issue\<close>

definition facts_tables :: "db \<Rightarrow> (AttemptRow list \<times> OutcomeRow list \<times> PRMappingRow list) \<times> CleanupRow list" where
  "facts_tables db = (attempt_tables db, db_cleanups db)"

lemma facts_of_tables: "facts_tables db' = facts_tables db \<Longrightarrow> ReadCleanupFacts k db' = ReadCleanupFacts k db"
  unfolding ReadCleanupFacts_def latest_attempt_def attempt_tables_def facts_tables_def by (simp only: prod.inject)

lemma queue_ops_facts [simp]:
  "facts_tables (snd (ClaimNextWorkerTask env role now db)) = facts_tables db"
  "facts_tables (snd (CompleteWorkerTask env k s now db)) = facts_tables db"
  "facts_tables (snd (appendEvent env i db)) = facts_tables db"
  by (simp_all add: ClaimNextWorkerTask_def CompleteWorkerTask_def appendEvent_def insert_event_def facts_tables_def attempt_tables_def
      Let_def split: option.split sum.split)

lemma statement_facts:
  "(\<And>db. facts_tables (snd (f db)) = facts_tables db) \<Longrightarrow> facts_tables (mw_db (snd (statement env f w))) = facts_tables (mw_db w)"
  by (auto simp: statement_def split: prod.split) (metis snd_conv)

lemma statement_frame:
  assumes "\<And>db. facts_tables (snd (f db)) = facts_tables db" "statement env f w = (a, w')"
  shows "mw_fs w' = mw_fs w \<and> mw_w w' = mw_w w \<and> facts_tables (mw_db w') = facts_tables (mw_db w)"
  using statement_facts [OF assms(1), of env w] statement_fs [of env f w] statement_world [of env f w] unfolding assms(2) by simp

lemma task_event_frame [simp]:
  "mw_fs (recordContinuousWorkerTaskEvent env t task p w) = mw_fs w"
  "mw_w (recordContinuousWorkerTaskEvent env t task p w) = mw_w w"
  "facts_tables (mw_db (recordContinuousWorkerTaskEvent env t task p w)) = facts_tables (mw_db w)"
  by (simp_all add: recordContinuousWorkerTaskEvent_def statement_facts)

lemma Claim_frame:
  assumes "Claim env now w = (a, w1)"
  shows "mw_fs w1 = mw_fs w \<and> mw_w w1 = mw_w w \<and> facts_tables (mw_db w1) = facts_tables (mw_db w)"
  using assms unfolding Claim_def
  by (auto dest!: statement_frame [OF queue_ops_facts(1)] statement_frame [OF queue_ops_facts(2)]
      split: prod.splits sum.splits option.splits if_splits)

lemma Complete_fs: "mw_fs (snd (Complete env task status d reason e s f w)) = mw_fs w"
  unfolding Complete_def Let_def recordContinuousWorkerTaskEvent_def by (simp add: case_prod_beta)


lemma pr_facts_world:
  "mw_w w' = mw_w w \<Longrightarrow> fst (githubCleanupPRFactsForURL env u w') = fst (githubCleanupPRFactsForURL env u w)"
  unfolding githubCleanupPRFactsForURL_def call_def
  by (simp add: Let_def split: option.split prod.split sum.split)

lemma deletable_moved:
  assumes "deletable env r ws doneIssues facts w'" "mw_fs w' = mw_fs w" "mw_w w' = mw_w w" "facts_tables (mw_db w') = facts_tables (mw_db w)"
  shows "deletable env r ws doneIssues facts w"
proof -
  have "has_changes env w' ws = has_changes env w ws"
    using assms(2) by (simp add: has_changes_def workspaceHasChanges_def rec_at_def split: sum.split)
  moreover have "merged_evidence env facts w' = merged_evidence env facts w"
    using pr_facts_world [OF assms(3)] by (simp add: merged_evidence_def)
  ultimately show ?thesis using assms(1) facts_of_tables [OF assms(4)] unfolding deletable_def assms(2) by simp
qed

lemma candidate_removes:
  assumes "mw_fs (snd (cleanup_candidate env r name ws doneIssues w)) p \<noteq> mw_fs w p"
  shows "(\<exists>facts. deletable env r ws doneIssues facts w) \<and> (p = ws \<or> has_prefix p (ws @ ''/''))
     \<and> mw_fs (snd (cleanup_candidate env r name ws doneIssues w)) p = None"
proof -
  obtain err d w1 where dec: "cleanupDecisionForWorkspace env True r ws doneIssues w = ((err, d), w1)" by (metis prod.exhaust)
  have same: "mw_fs w1 = mw_fs w" using decision_fs [OF dec] by simp
  have del: "err = [] \<and> cd_Delete d"
    using assms same unfolding cleanup_candidate_def dec Let_def prod.case by (auto split: if_splits)
  let ?w2 = "recordCleanupEventContext env True ''cleanup_candidate_found'' d
               (reason_and_category d @ [(''delete'', JBool (cd_Delete d))]) w1"
  have w': "snd (cleanup_candidate env r name ws doneIssues w) = snd (delete_workspace env True r ws d ?w2)"
    using del unfolding cleanup_candidate_def dec Let_def by (simp split: prod.split)
  have "mw_fs (snd (delete_workspace env True r ws d ?w2)) = remove_all ws (mw_fs w)"
    using delete_workspace_later(2) [where w = ?w2 and env = env and s = True and wr = r and ws = ws and d = d] assms same
    unfolding w' by auto
  then have "p = ws \<or> has_prefix p (ws @ ''/'')" "mw_fs (snd (cleanup_candidate env r name ws doneIssues w)) p = None"
    using assms unfolding w' by (auto simp: remove_all_def split: if_splits)
  then show ?thesis using decision_delete [of env r ws doneIssues w d w1] dec del by auto
qed

text \<open>The workspace a task is about.\<close>

definition task_workspace :: "WorkerTask \<Rightarrow> string" where
  "task_workspace task = first_non_empty [cy_WorkspaceName (cleanup_task_payload task), wt_IssueKey task]"

lemma task_removes:
  assumes "mw_fs (snd (cleanup_task_work env config task w)) p \<noteq> mw_fs w p"
  shows "\<exists>r ws doneIssues x facts. SafeRoot (clean_cwd env) (mw_fs w) (cc_WorkspaceRoot config) = Inr r
     \<and> SafePath (clean_cwd env) (mw_fs w) r (task_workspace task) = Inr ws
     \<and> ce_done env (cc_ProjectSlug config) (cc_DoneState config) (mw_w w) = (Inr doneIssues, x)
     \<and> deletable env r ws doneIssues facts (w\<lparr>mw_w := x\<rparr>) \<and> (p = ws \<or> has_prefix p (ws @ ''/''))
     \<and> mw_fs (snd (cleanup_task_work env config task w)) p = None"
proof -
  obtain r where r: "SafeRoot (clean_cwd env) (mw_fs w) (cc_WorkspaceRoot config) = Inr r"
    using assms unfolding cleanup_task_work_def Let_def by (auto split: sum.splits)
  obtain ws where ws: "SafePath (clean_cwd env) (mw_fs w) r (task_workspace task) = Inr ws"
    using assms unfolding cleanup_task_work_def Let_def r task_workspace_def [symmetric] by (auto split: sum.splits)
  obtain l x where l: "ce_done env (cc_ProjectSlug config) (cc_DoneState config) (mw_w w) = (l, x)" by (metis prod.exhaust)
  have path: "\<not> (cy_WorkspacePath (cleanup_task_payload task) \<noteq> [] \<and> clean (cy_WorkspacePath (cleanup_task_payload task)) \<noteq> clean ws)"
    using assms unfolding cleanup_task_work_def Let_def r task_workspace_def [symmetric] sum.case ws by (auto split: if_splits)
  obtain doneIssues where d: "l = Inr doneIssues"
    using assms path unfolding cleanup_task_work_def Let_def r task_workspace_def [symmetric] sum.case ws call_def l prod.case
    by (cases l) simp_all
  have w': "snd (cleanup_task_work env config task w) = snd (cleanup_candidate env r (task_workspace task) ws doneIssues (w\<lparr>mw_w := x\<rparr>))"
    using assms path unfolding cleanup_task_work_def Let_def r task_workspace_def [symmetric] sum.case ws call_def l prod.case d
    by (auto split: if_splits)
  have "mw_fs (snd (cleanup_candidate env r (task_workspace task) ws doneIssues (w\<lparr>mw_w := x\<rparr>))) p \<noteq> mw_fs (w\<lparr>mw_w := x\<rparr>) p"
    using assms unfolding w' by simp
  from candidate_removes [OF this] show ?thesis unfolding w' using r ws l d by blast
qed


lemma task_removes_at_start:
  assumes "rooted (clean_cwd env)" and steps: "Claim env (merge_now (ce_base env)) w = (([], Some task), w1)"
    "cleanup_task_work env config task w1 = ((status, reason, failure), w2)"
    "w' = snd (Complete env task status True reason (errs_text failure) (merge_now (ce_base env)) (merge_now (ce_base env)) w2)"
    and p: "mw_fs w' p \<noteq> mw_fs w p"
  shows "mw_fs w' p = None \<and> (\<exists>r doneIssues x facts.
      SafeRoot (clean_cwd env) (mw_fs w) (cc_WorkspaceRoot config) = Inr r \<and> safe_name (task_workspace task)
      \<and> (p = r @ ''/'' @ task_workspace task \<or> has_prefix p (r @ ''/'' @ task_workspace task @ ''/''))
      \<and> ce_done env (cc_ProjectSlug config) (cc_DoneState config) (mw_w w) = (Inr doneIssues, x)
      \<and> base (r @ ''/'' @ task_workspace task) = task_workspace task
      \<and> deletable env r (r @ ''/'' @ task_workspace task) doneIssues facts (w\<lparr>mw_w := x\<rparr>))"
proof -
  note frame = Claim_frame [OF steps(1)]
  have fs': "mw_fs w' = mw_fs w2" unfolding steps(3) by (rule Complete_fs)
  have sl: "[slash] = ''/''" by (simp add: slash_def)
  have "mw_fs (snd (cleanup_task_work env config task w1)) p \<noteq> mw_fs w1 p" using p frame by (simp add: steps(2) fs')
  from task_removes [OF this] obtain r ws doneIssues x facts where
    r: "SafeRoot (clean_cwd env) (mw_fs w) (cc_WorkspaceRoot config) = Inr r"
    "SafePath (clean_cwd env) (mw_fs w) r (task_workspace task) = Inr ws"
    "ce_done env (cc_ProjectSlug config) (cc_DoneState config) (mw_w w) = (Inr doneIssues, x)"
    "deletable env r ws doneIssues facts (w1\<lparr>mw_w := x\<rparr>)" "p = ws \<or> has_prefix p (ws @ ''/'')" "mw_fs w2 p = None"
    using frame by (auto simp: steps(2))
  note ws = workspace_child [OF assms(1) r(1,2), unfolded sl]
  have "deletable env r ws doneIssues facts (w\<lparr>mw_w := x\<rparr>)" by (rule deletable_moved [OF r(4)]) (use frame in simp_all)
  then show ?thesis using r(1,3,5,6) ws fs' by auto
qed

text \<open>
  C34: a clean-up task ends and deletes finished work only.  A run of the clean-up lane that did work
  claimed a task, and completed or failed it unless the context ended.  A path that is missing
  afterwards belongs to the workspace the task names, a direct child of the safe root without
  uncommitted change; Linear, asked during the run, listed its issue as Done, the store knew the
  issue's last attempt, and the attempt had a terminal status or its pull request was merged.
\<close>

theorem cleanup_task_ends_and_deletes_finished_work:
  assumes "rooted (clean_cwd env)" "tasks_wf (mw_db w)" "RunQueued env config w = ((True, err), w')"
  shows "\<exists>task db1 row.
    ClaimNextWorkerTask (me_store (ce_base env)) RoleCleanup (merge_now (ce_base env)) (mw_db w) = (Inr (Some task), db1)
    \<and> lookup tr_task_key (wt_TaskKey task) (db_tasks (mw_db w')) = Some row
    \<and> (if clean_ctx env w' = [] then tr_status row \<in> {''completed'', ''failed''} else tr_status row = ''claimed'')
    \<and> (\<forall>p. mw_fs w' p \<noteq> mw_fs w p \<longrightarrow> mw_fs w' p = None
         \<and> (\<exists>r name doneIssues x facts.
              SafeRoot (clean_cwd env) (mw_fs w) (cc_WorkspaceRoot config) = Inr r \<and> name = task_workspace task \<and> safe_name name
              \<and> (p = r @ ''/'' @ name \<or> has_prefix p (r @ ''/'' @ name @ ''/''))
              \<and> AssertSafeDeletePath (clean_cwd env) (mw_fs w) r (r @ ''/'' @ name) = Inr ()
              \<and> has_changes env w (r @ ''/'' @ name) = Inr False
              \<and> ce_done env (cc_ProjectSlug config) (cc_DoneState config) (mw_w w) = (Inr doneIssues, x) \<and> doneIssues name
              \<and> ReadCleanupFacts name (mw_db w) = Inr (Some facts)
              \<and> (TerminalRunStatus (facts_status facts) \<or> merged_evidence env facts (w\<lparr>mw_w := x\<rparr>))))"
proof (rule RunQueued_steps [OF assms(3)])
  fix task w1 status reason failure w2
  assume steps: "Claim env (merge_now (ce_base env)) w = (([], Some task), w1)"
    "cleanup_task_work env config task w1 = ((status, reason, failure), w2)"
    "w' = snd (Complete env task status True reason (errs_text failure) (merge_now (ce_base env)) (merge_now (ce_base env)) w2)"
  note removed = task_removes_at_start [OF assms(1) steps]
  from cl.settled [OF assms(2) steps] obtain db1 row where
    row: "ClaimNextWorkerTask (me_store (ce_base env)) RoleCleanup (merge_now (ce_base env)) (mw_db w) = (Inr (Some task), db1)"
      "lookup tr_task_key (wt_TaskKey task) (db_tasks (mw_db w')) = Some row"
      "if clean_ctx env w' = [] then tr_status row \<in> {''completed'', ''failed''} else tr_status row = ''claimed''"
    unfolding clean_ctx_def by blast
  have at_start: "AssertSafeDeletePath (clean_cwd env) (mw_fs w) r ws = Inr () \<and> has_changes env w ws = Inr False
      \<and> ReadCleanupFacts (base ws) (mw_db w) = Inr (Some facts) \<and> doneIssues (base ws)
      \<and> (TerminalRunStatus (facts_status facts) \<or> merged_evidence env facts (w\<lparr>mw_w := x\<rparr>))"
    if "deletable env r ws doneIssues facts (w\<lparr>mw_w := x\<rparr>)" for r ws doneIssues facts x
    using that unfolding deletable_def has_changes_def workspaceHasChanges_def rec_at_def by (simp split: sum.splits)
  show ?thesis
    by (rule exI [of _ task], rule exI [of _ db1], rule exI [of _ row])
      (use row removed at_start in \<open>simp only: simp_thms; metis\<close>)
qed


definition cleanup_sample :: WorkerTask where
  "cleanup_sample = (sample_task ''cleanup:CAG-1'' ''queued'' 1000000000)\<lparr>wt_Role := RoleCleanup\<rparr>"

definition cleanup_queue_db :: db where
  "cleanup_queue_db = finished_db\<lparr>db_tasks := [task_row cleanup_sample]\<rparr>"

lemma cleanup_queue_wf: "tasks_wf cleanup_queue_db"
  by code_simp

lemma cleanup_queue_claim:
  "map_option wt_TaskKey (case fst (ClaimNextWorkerTask test_env RoleCleanup 2000000000 cleanup_queue_db) of
    Inr t \<Rightarrow> t | Inl e \<Rightarrow> None) = Some ''cleanup:CAG-1''"
  by code_simp

lemma RunQueued_did_work:
  assumes "ctx_errs (ce_base env) w = []"
    and "ClaimNextWorkerTask (me_store (ce_base env)) RoleCleanup (merge_now (ce_base env)) (mw_db w) = (Inr (Some task), db1)"
    and "wt_TaskKey task \<noteq> ''continuous:cleanup''" "wt_TaskKey task \<noteq> ''process:cleanup''"
  shows "fst (fst (RunQueued env config w))"
  using assms by (simp add: RunQueued_def Claim_def statement_def clean_ctx_def Let_def split: prod.split)

theorem cleanup_task_ends_and_deletes_finished_work_witness:
  "\<exists>err w' (task :: WorkerTask) row. RunQueued tidy_env (cleanupWorkerConfig ready_config) (tidy_world cleanup_queue_db) = ((True, err), w')
     \<and> lookup tr_task_key (wt_TaskKey task) (db_tasks (mw_db w')) = Some row \<and> tr_status row \<in> {''completed'', ''failed''}"
proof -
  obtain task db1 where c: "ClaimNextWorkerTask test_env RoleCleanup 2000000000 cleanup_queue_db = (Inr (Some task), db1)"
    "wt_TaskKey task = ''cleanup:CAG-1''"
    using cleanup_queue_claim by (cases "ClaimNextWorkerTask test_env RoleCleanup 2000000000 cleanup_queue_db")
      (auto split: sum.splits option.splits)
  have now: "merge_now (ce_base tidy_env) = 2000000000" by (simp add: tidy_env_def empty_merge_env_def merge_now_def)
  have "fst (fst (RunQueued tidy_env (cleanupWorkerConfig ready_config) (tidy_world cleanup_queue_db)))"
    by (rule RunQueued_did_work [of _ _ task db1]) (simp_all add: now c)
  then obtain err w' where run: "RunQueued tidy_env (cleanupWorkerConfig ready_config) (tidy_world cleanup_queue_db) = ((True, err), w')"
    by (metis prod.collapse)
  have "rooted (clean_cwd tidy_env)" "tasks_wf (mw_db (tidy_world cleanup_queue_db))"
    using cleanup_queue_wf by (simp_all add: rooted_def slash_def)
  from cleanup_task_ends_and_deletes_finished_work [OF this run] obtain t :: WorkerTask and row
    where "lookup tr_task_key (wt_TaskKey t) (db_tasks (mw_db w')) = Some row" "tr_status row \<in> {''completed'', ''failed''}"
    by auto
  with run show ?thesis by blast
qed

end
