(* ===== verification/Continuous.thy ===== *)
theory Continuous
  imports CleanupTasks
begin

text \<open>
  src/continuous.go: the lanes of the daemon.  A lane queues, claims and leases a task of its own, runs
  its work under supervision (a goroutine that renews the lease and the claim) and finishes the task.
  The work is a list of steps and a result, and \<open>ln_schedule\<close> interleaves them with what the
  supervision does; a step and the result learn whether their context was cancelled.  Everything
  else is as in the worlds of the merge and clean-up lanes.
\<close>

section \<open>The daemon\<close>

record 'w daemon_env =
  dm_base :: "'w merge_env"
  dm_hostname :: "string option"
  dm_pid :: int

definition daemonProcessID :: "'w daemon_env \<Rightarrow> string" where
  "daemonProcessID env =
     (case dm_hostname env of None \<Rightarrow> ''unknown-host'' | Some h \<Rightarrow> if h = [] then ''unknown-host'' else h)
     @ '':'' @ itoa (dm_pid env)"

definition staleWorkerTaskAfter :: duration where "staleWorkerTaskAfter = 15 * minute"
definition workerTaskLeaseTTL :: duration where "workerTaskLeaseTTL = 5 * minute"

text \<open>\<open>daemonHeartbeatRecorder\<close>: the recorder of a process with its configuration, or nil.\<close>

definition recordContinuousHeartbeat ::
    "'w daemon_env \<Rightarrow> RunnerConfig option \<Rightarrow> DaemonHeartbeatInput \<Rightarrow> 'w merge_world \<Rightarrow> 'w merge_world" where
  "recordContinuousHeartbeat env recorder heartbeat w =
     (case recorder of
        None \<Rightarrow> w
      | Some config \<Rightarrow>
          snd (statement (dm_base env)
            (UpsertDaemonHeartbeat (me_store (dm_base env)) (ProjectDaemonHeartbeat (daemonProcessID env) config heartbeat)) w))"

definition lane_heartbeat :: "string \<Rightarrow> time \<Rightarrow> DaemonHeartbeatInput" where
  "lane_heartbeat laneName at_time =
     \<lparr>di_LaneName = laneName, di_CycleNumber = 0, di_Success = False, di_Err = None, di_ActiveTaskKey = [], di_ActiveTaskRole = [],
      di_ActiveLeaseName = [], di_ActiveTaskStartedAt = 0, di_At = at_time\<rparr>"

definition recoverStaleWorkerTasks :: "'w daemon_env \<Rightarrow> time \<Rightarrow> 'w merge_world \<Rightarrow> (bool \<times> err_list) \<times> 'w merge_world" where
  "recoverStaleWorkerTasks env now w =
     (case statement (dm_base env)
             (\<lambda>db. case MarkStaleClaimedWorkerTasksReconciliationNeeded (me_store (dm_base env)) now staleWorkerTaskAfter db of
                     ((recovered, None), db') \<Rightarrow> (Inr recovered, db')
                   | ((recovered, Some e), db') \<Rightarrow> (Inl e, db')) w of
        (Inl e, w1) \<Rightarrow> ((False, [store_error_text e]), w1)
      | (Inr recovered, w1) \<Rightarrow> ((recovered \<noteq> [], []), w1))"

section \<open>Scheduling\<close>

text \<open>A scheduler answers whether it did work, and an error; what runs after an error is skipped.\<close>

type_synonym 'w lane_scheduler = "'w merge_world \<Rightarrow> (bool \<times> err_list) \<times> 'w merge_world"

definition then_schedule :: "'w lane_scheduler \<Rightarrow> 'w lane_scheduler \<Rightarrow> 'w lane_scheduler" where
  "then_schedule f g w =
     (case f w of
        ((didWork, err), w1) \<Rightarrow>
          if err \<noteq> [] then ((didWork, err), w1)
          else (case g w1 of ((again, err), w2) \<Rightarrow> ((didWork \<or> again, err), w2)))"

definition scheduleContinuousWorkerTasks ::
    "'w daemon_env \<Rightarrow> 'w cleanup_env \<Rightarrow> RunnerConfig \<Rightarrow> 'w lane_scheduler \<Rightarrow> 'w lane_scheduler \<Rightarrow> 'w lane_scheduler" where
  "scheduleContinuousWorkerTasks env cenv config schedule_review schedule_implementation w =
     (case recoverStaleWorkerTasks env (merge_now (dm_base env)) w of
        ((recovered, err), w1) \<Rightarrow>
          if err \<noteq> [] \<or> recovered then ((recovered, err), w1)
          else then_schedule (then_schedule (then_schedule
                 (Schedule cenv (cleanupWorkerConfig config))
                 (scheduleMergeWorkerTasks (dm_base env) config)) schedule_review) schedule_implementation w1)"

section \<open>The task of a lane\<close>

record continuousWorkerTask =
  cw_TaskKey :: string
  cw_Role :: string
  cw_LaneName :: string
  cw_LeaseName :: string
  cw_Payload :: "(string \<times> json) list"
  cw_RecordHeartbeat :: "RunnerConfig option"

definition leaseNameForWorkerTask :: "continuousWorkerTask \<Rightarrow> WorkerTask \<Rightarrow> string" where
  "leaseNameForWorkerTask task claimed =
     (if trim_space (cw_LeaseName task) = [] then trim_space (wt_LeaseName claimed) else trim_space (cw_LeaseName task))"

text \<open>The task that stands for a lane.\<close>

definition lane_task :: "RunnerConfig \<Rightarrow> string \<Rightarrow> string \<Rightarrow> (string \<times> json) list \<Rightarrow> continuousWorkerTask" where
  "lane_task config role laneName payload =
     \<lparr>cw_TaskKey = ''continuous:'' @ laneName, cw_Role = role, cw_LaneName = laneName, cw_LeaseName = ''lane:'' @ laneName,
      cw_Payload = (''project_slug'', JStr (rc_ProjectSlug config)) # payload, cw_RecordHeartbeat = Some config\<rparr>"

text \<open>The lease of a lane task: an error, or it is held for five minutes; no name, no lease.\<close>

definition acquireWorkerTaskLease ::
    "'w daemon_env \<Rightarrow> continuousWorkerTask \<Rightarrow> WorkerTask \<Rightarrow> time \<Rightarrow> 'w merge_world \<Rightarrow> err_list \<times> 'w merge_world" where
  "acquireWorkerTaskLease env task claimed now w =
     (let leaseName = leaseNameForWorkerTask task claimed in
      if leaseName = [] then ([], w)
      else (case statement (dm_base env) (AcquireLease (me_store (dm_base env))
              \<lparr>ls_Name = leaseName, ls_Scope = wt_TaskKey claimed, ls_Owner = daemonProcessID env, ls_AcquiredAt = now,
               ls_ExpiresAt = now + workerTaskLeaseTTL, ls_RenewedAt = now, ls_ReleasedAt = 0, ls_ReleaseReason = []\<rparr> now) w of
              (Inl e, w1) \<Rightarrow> ([store_error_text e], w1)
            | (Inr acquired, w1) \<Rightarrow>
                (if acquired then [] else [''worker task lease '' @ leaseName @ '': lease is already held''], w1)))"

text \<open>The release runs without the context.\<close>

definition release_lane_lease :: "'w daemon_env \<Rightarrow> string \<Rightarrow> time \<Rightarrow> 'w merge_world \<Rightarrow> 'w merge_world" where
  "release_lane_lease env leaseName finishedAt w =
     (if leaseName = [] then w
      else w\<lparr>mw_db := snd (ReleaseLease (me_store (dm_base env)) leaseName finishedAt ''worker task completed'' (mw_db w))\<rparr>)"

section \<open>Supervision\<close>

definition recordWorkerTaskHeartbeat ::
    "'w daemon_env \<Rightarrow> continuousWorkerTask \<Rightarrow> WorkerTask \<Rightarrow> string \<Rightarrow> time \<Rightarrow> time \<Rightarrow> 'w merge_world \<Rightarrow> 'w merge_world" where
  "recordWorkerTaskHeartbeat env task claimed leaseName startedAt at_time =
     recordContinuousHeartbeat env (cw_RecordHeartbeat task)
       ((lane_heartbeat (cw_LaneName task) at_time)\<lparr>di_ActiveTaskKey := wt_TaskKey claimed, di_ActiveTaskRole := wt_Role claimed,
          di_ActiveLeaseName := leaseName, di_ActiveTaskStartedAt := startedAt\<rparr>)"

definition renewWorkerTaskSupervision ::
    "'w daemon_env \<Rightarrow> continuousWorkerTask \<Rightarrow> WorkerTask \<Rightarrow> string \<Rightarrow> time \<Rightarrow> time \<Rightarrow> 'w merge_world \<Rightarrow> err_list \<times> 'w merge_world" where
  "renewWorkerTaskSupervision env task claimed leaseName startedAt now w =
     (let senv = me_store (dm_base env) in
      case (if leaseName = [] then (Inr (), w)
            else statement (dm_base env) (RenewLease senv leaseName now (now + workerTaskLeaseTTL)) w) of
        (Inl e, w1) \<Rightarrow> ([store_error_text e], w1)
      | (Inr u, w1) \<Rightarrow>
          (case statement (dm_base env) (TouchClaimedWorkerTask senv (wt_TaskKey claimed) now) w1 of
             (Inl e, w2) \<Rightarrow> ([store_error_text e], w2)
           | (Inr u, w2) \<Rightarrow> ([], recordWorkerTaskHeartbeat env task claimed leaseName startedAt now w2)))"

text \<open>
  What happens while the work runs: a step of the work, a tick of the supervision, or the supervision
  noticing that the context ended.  The work is cancelled by an error that comes before its end.
\<close>

datatype supervision_event = WorkStep | Tick time | ContextDone

record 'w lane_run =
  ln_steps :: "(bool \<Rightarrow> 'w merge_world \<Rightarrow> 'w merge_world) list"
  ln_result :: "bool \<Rightarrow> 'w merge_world \<Rightarrow> (bool \<times> err_list) \<times> bool"
  ln_schedule :: "supervision_event list"
  ln_finishedAt :: time

fun supervise ::
    "(time \<Rightarrow> 'w merge_world \<Rightarrow> err_list \<times> 'w merge_world) \<Rightarrow> ('w merge_world \<Rightarrow> err_list) \<Rightarrow> supervision_event list
       \<Rightarrow> (bool \<Rightarrow> 'w merge_world \<Rightarrow> 'w merge_world) list \<Rightarrow> err_list \<times> bool \<Rightarrow> 'w merge_world \<Rightarrow> (err_list \<times> bool) \<times> 'w merge_world" where
  "supervise renew ctx [] steps s w = (s, fold (\<lambda>f. f (snd s)) steps w)"
| "supervise renew ctx (WorkStep # evs) steps s w =
     (case steps of [] \<Rightarrow> supervise renew ctx evs [] s w | f # fs \<Rightarrow> supervise renew ctx evs fs s (f (snd s) w))"
| "supervise renew ctx (Tick now # evs) steps s w =
     (if fst s \<noteq> [] then supervise renew ctx evs steps s w
      else (case renew now w of
              (err, w1) \<Rightarrow> supervise renew ctx evs steps (err, snd s \<or> err \<noteq> [] \<and> steps \<noteq> []) w1))"
| "supervise renew ctx (ContextDone # evs) steps s w =
     (if fst s \<noteq> [] \<or> ctx w = [] then supervise renew ctx evs steps s w
      else supervise renew ctx evs steps (ctx w, snd s \<or> steps \<noteq> []) w)"

text \<open>The supervised work: whether it did something, its error, and the error of the supervision.\<close>

definition supervised_run ::
    "'w daemon_env \<Rightarrow> continuousWorkerTask \<Rightarrow> WorkerTask \<Rightarrow> string \<Rightarrow> time \<Rightarrow> 'w lane_run \<Rightarrow> 'w merge_world
       \<Rightarrow> (bool \<times> err_list \<times> err_list) \<times> 'w merge_world" where
  "supervised_run env task claimed leaseName startedAt run w =
     (case supervise (renewWorkerTaskSupervision env task claimed leaseName startedAt) (ctx_errs (dm_base env))
             (ln_schedule run) (ln_steps run) ([], False)
             (recordWorkerTaskHeartbeat env task claimed leaseName startedAt startedAt w) of
        ((supervisionErr, cancelled), w1) \<Rightarrow>
          (case ln_result run cancelled w1 of
             ((didWork, runErr), isCanceled) \<Rightarrow>
               ((didWork, if cancelled \<and> isCanceled then [] else runErr, supervisionErr),
                recordContinuousHeartbeat env (cw_RecordHeartbeat task) (lane_heartbeat (cw_LaneName task) (ln_finishedAt run)) w1)))"

section \<open>Finishing\<close>

definition with_result_fields ::
    "continuousWorkerTask \<Rightarrow> WorkerTask \<Rightarrow> string \<Rightarrow> bool \<Rightarrow> string \<Rightarrow> string \<Rightarrow> (string \<times> json) list \<Rightarrow> (string \<times> json) list" where
  "with_result_fields task claimed status didWork reason errorText payload =
     (let p = put ''did_work'' (JBool didWork) (put ''reason'' (JStr reason) (put ''status'' (JStr status)
                (put ''role'' (JStr (wt_Role claimed)) (put ''task_key'' (JStr (wt_TaskKey claimed)) payload))));
          p = put_if (map_of p ''lane'' = None) ''lane'' (JStr (cw_LaneName task)) p in
      put_if (errorText \<noteq> []) ''error'' (JStr errorText) p)"

definition lane_result ::
    "continuousWorkerTask \<Rightarrow> WorkerTask \<Rightarrow> string \<Rightarrow> bool \<Rightarrow> string \<Rightarrow> string \<Rightarrow> time \<Rightarrow> time \<Rightarrow> (string \<times> json) list
       \<Rightarrow> WorkerResult" where
  "lane_result task claimed status didWork reason errorText startedAt finishedAt payload =
     \<lparr>re_TaskKey = wt_TaskKey claimed, re_Role = wt_Role claimed, re_LaneName = cw_LaneName task,
      re_IssueKey = wt_IssueKey claimed, re_IssueID = wt_IssueID claimed, re_Attempt = wt_Attempt claimed,
      re_Status = status, re_DidWork = didWork, re_Reason = reason, re_Error = errorText,
      re_Payload = json_render (JObj (with_result_fields task claimed status didWork reason errorText payload)),
      re_StartedAt = startedAt, re_FinishedAt = finishedAt, re_UpdatedAt = finishedAt\<rparr>"

definition recordContinuousWorkerResult ::
    "'w daemon_env \<Rightarrow> continuousWorkerTask \<Rightarrow> WorkerTask \<Rightarrow> string \<Rightarrow> bool \<Rightarrow> string \<Rightarrow> string \<Rightarrow> time \<Rightarrow> time \<Rightarrow> (string \<times> json) list
       \<Rightarrow> 'w merge_world \<Rightarrow> err_list \<times> 'w merge_world" where
  "recordContinuousWorkerResult env task claimed status didWork reason errorText startedAt finishedAt payload w =
     (case statement (dm_base env) (UpsertWorkerResult (me_store (dm_base env))
             (lane_result task claimed status didWork reason errorText startedAt finishedAt payload)) w of
        (r, w1) \<Rightarrow> (err_of r, w1))"

text \<open>The status, the reason and the error text of a run, and those after the completion.\<close>

definition run_verdict :: "bool \<Rightarrow> err_list \<Rightarrow> err_list \<Rightarrow> string \<times> string \<times> string" where
  "run_verdict didWork runErr supervisionErr =
     (if runErr \<noteq> [] then (''failed'', ''worker_error'', errs_text runErr)
      else if supervisionErr \<noteq> [] then (''failed'', ''worker_supervision_error'', errs_text supervisionErr)
      else (''completed'', if didWork then ''work_completed'' else ''idle'', []))"

definition completed_verdict :: "err_list \<Rightarrow> err_list \<Rightarrow> string \<times> string \<times> string \<Rightarrow> string \<times> string \<times> string" where
  "completed_verdict runErr completeErr verdict =
     (if completeErr \<noteq> [] \<and> runErr = [] then (''failed'', ''worker_completion_error'', errs_text completeErr) else verdict)"

definition finish_lane ::
    "'w daemon_env \<Rightarrow> continuousWorkerTask \<Rightarrow> WorkerTask \<Rightarrow> time \<Rightarrow> time \<Rightarrow> bool \<times> err_list \<times> err_list \<Rightarrow> 'w merge_world
       \<Rightarrow> (bool \<times> err_list) \<times> 'w merge_world" where
  "finish_lane env task claimed startedAt finishedAt outcome w =
     (case outcome of
        (didWork, runErr, supervisionErr) \<Rightarrow>
          let verdict = run_verdict didWork runErr supervisionErr;
              eventType = (if fst verdict = ''failed'' then ''worker_task_failed'' else ''worker_task_completed'');
              payload = put_if (supervisionErr \<noteq> []) ''supervision_error'' (JStr (errs_text supervisionErr))
                          (put_if (runErr \<noteq> []) ''error'' (JStr (errs_text runErr))
                            [(''lane'', JStr (cw_LaneName task)), (''did_work'', JBool didWork)]) in
          (case statement (dm_base env)
                  (CompleteWorkerTask (me_store (dm_base env)) (cw_TaskKey task) (fst verdict) finishedAt) w of
             (completed, w1) \<Rightarrow>
               let completeErr = err_of completed;
                   payload = put_if (completeErr \<noteq> []) ''completion_error'' (JStr (errs_text completeErr)) payload in
               (case completed_verdict runErr completeErr verdict of
                  (status, reason, errorText) \<Rightarrow>
                    let claimed = claimed\<lparr>wt_Status := status, wt_UpdatedAt := finishedAt\<rparr> in
                    (case recordContinuousWorkerResult env task claimed status didWork reason errorText startedAt finishedAt payload w1 of
                       (resultErr, w2) \<Rightarrow>
                         ((didWork, runErr @ supervisionErr @ completeErr @ resultErr),
                          recordContinuousWorkerTaskEvent (dm_base env) eventType claimed
                            (with_result_fields task claimed status didWork reason errorText payload) w2)))))"

section \<open>Running a lane's task\<close>

text \<open>A claim whose lease is not to be had fails the task.\<close>

definition lease_unavailable ::
    "'w daemon_env \<Rightarrow> continuousWorkerTask \<Rightarrow> WorkerTask \<Rightarrow> time \<Rightarrow> err_list \<Rightarrow> 'w merge_world \<Rightarrow> (bool \<times> err_list) \<times> 'w merge_world" where
  "lease_unavailable env task claimed0 now leaseErr w =
     (let claimed = claimed0\<lparr>wt_Status := ''failed'', wt_UpdatedAt := now\<rparr>; lane = (''lane'', JStr (cw_LaneName task)) in
      case statement (dm_base env) (CompleteWorkerTask (me_store (dm_base env)) (cw_TaskKey task) ''failed'' now) w of
        (completed, w1) \<Rightarrow>
          (case recordContinuousWorkerResult env task claimed ''failed'' False ''lease_unavailable'' (errs_text leaseErr) now now [lane] w1 of
             (resultErr, w2) \<Rightarrow>
               ((False, leaseErr @ err_of completed @ resultErr),
                recordContinuousWorkerTaskEvent (dm_base env) ''worker_task_failed'' claimed
                  [lane, (''error'', JStr (errs_text leaseErr))] w2)))"

definition run_claimed ::
    "'w daemon_env \<Rightarrow> continuousWorkerTask \<Rightarrow> 'w lane_run \<Rightarrow> WorkerTask \<Rightarrow> 'w merge_world \<Rightarrow> (bool \<times> err_list) \<times> 'w merge_world" where
  "run_claimed env task run claimed w =
     (let now = merge_now (dm_base env);
          w0 = recordContinuousWorkerTaskEvent (dm_base env) ''worker_task_claimed'' claimed [(''lane'', JStr (cw_LaneName task))] w;
          leaseName = leaseNameForWorkerTask task claimed in
      case acquireWorkerTaskLease env task claimed now w0 of
        (leaseErr, w1) \<Rightarrow>
          if leaseErr \<noteq> [] then lease_unavailable env task claimed now leaseErr w1
          else (case supervised_run env task claimed leaseName now run w1 of
                  (outcome, w2) \<Rightarrow>
                    (case finish_lane env task claimed now (ln_finishedAt run) outcome w2 of
                       (answer, w3) \<Rightarrow> (answer, release_lane_lease env leaseName (ln_finishedAt run) w3))))"

definition lane_worker_task :: "continuousWorkerTask \<Rightarrow> time \<Rightarrow> time \<Rightarrow> WorkerTask" where
  "lane_worker_task task availableAt now =
     \<lparr>wt_TaskKey = cw_TaskKey task, wt_Role = cw_Role task, wt_IssueKey = [], wt_IssueID = [], wt_Attempt = 0, wt_Status = ''queued'',
      wt_Priority = 0, wt_AvailableAt = availableAt, wt_LeaseName = cw_LeaseName task,
      wt_Payload = json_render (JObj (foldl (\<lambda>p (k, v). put k v p) [(''lane'', JStr (cw_LaneName task))] (cw_Payload task))),
      wt_CreatedAt = 0, wt_UpdatedAt = now\<rparr>"

text \<open>Queueing and claiming: an answer that ends the cycle, or the claimed task.\<close>

definition lane_available ::
    "continuousWorkerTask \<Rightarrow> time \<Rightarrow> WorkerTask option \<Rightarrow> db \<Rightarrow> time result" where
  "lane_available task now current db =
     (case current of None \<Rightarrow> Inr now
      | Some t \<Rightarrow> AvailableAtAfterLatestFailure (Some db) (wt_TaskKey t) (cw_Role task) now)"

definition claim_lane_task ::
    "'w daemon_env \<Rightarrow> continuousWorkerTask \<Rightarrow> 'w merge_world \<Rightarrow> ((bool \<times> err_list) + WorkerTask) \<times> 'w merge_world" where
  "claim_lane_task env task w =
     (let now = merge_now (dm_base env) in
      case recoverStaleWorkerTasks env now w of
        ((recovered, err), w0) \<Rightarrow>
          if err \<noteq> [] \<or> recovered then (Inl (recovered, err), w0)
          else (case fst (statement (dm_base env) (\<lambda>db. (ReadWorkerTask (cw_TaskKey task) db, db)) w0) of
            Inl e \<Rightarrow> (Inl (False, [store_error_text e]), w0)
          | Inr current \<Rightarrow>
              if (case current of None \<Rightarrow> False
                  | Some t \<Rightarrow> wt_Status t = WorkerTaskStatusClaimed \<or> wt_Status t = WorkerTaskStatusReconciliationNeeded)
              then (Inl (False, []), w0)
              else (case fst (statement (dm_base env) (\<lambda>db. (lane_available task now current db, db)) w0) of
                Inl e \<Rightarrow> (Inl (False, [store_error_text e]), w0)
              | Inr availableAt \<Rightarrow>
                  let queued = lane_worker_task task availableAt now in
                  (case statement (dm_base env) (UpsertWorkerTask (me_store (dm_base env)) queued) w0 of
                     (Inl e, w1) \<Rightarrow> (Inl (False, [store_error_text e]), w1)
                   | (Inr u, w1) \<Rightarrow>
                       (case statement (dm_base env) (ClaimWorkerTask (me_store (dm_base env)) (cw_TaskKey task) now)
                               (recordContinuousWorkerTaskEvent (dm_base env) ''worker_task_queued'' queued
                                  [(''lane'', JStr (cw_LaneName task))] w1) of
                          (Inl e, w3) \<Rightarrow> (Inl (False, [store_error_text e]), w3)
                        | (Inr None, w3) \<Rightarrow> (Inl (False, []), w3)
                        | (Inr (Some claimed), w3) \<Rightarrow> (Inr claimed, w3))))))"

definition runContinuousWorkerTask ::
    "'w daemon_env \<Rightarrow> continuousWorkerTask \<Rightarrow> 'w lane_run \<Rightarrow> 'w merge_world \<Rightarrow> (bool \<times> err_list) \<times> 'w merge_world" where
  "runContinuousWorkerTask env task run w =
     (case claim_lane_task env task w of
        (Inl answer, w1) \<Rightarrow> (answer, w1)
      | (Inr claimed, w1) \<Rightarrow> run_claimed env task run claimed w1)"

section \<open>The loop of a lane\<close>

record 'w continuousLane =
  la_name :: string
  la_idleDelay :: duration
  la_continuous :: bool
  la_run :: "'w merge_world \<Rightarrow> (bool \<times> err_list) \<times> 'w merge_world"

text \<open>What a lane runs in a cycle is \<open>runs\<close> of its name: the cleanup and merge workers of this model, and parameters.\<close>

definition continuous_lane ::
    "'w daemon_env \<Rightarrow> (string \<Rightarrow> 'w merge_world \<Rightarrow> 'w lane_run) \<Rightarrow> continuousWorkerTask \<Rightarrow> duration \<Rightarrow> bool \<Rightarrow> 'w continuousLane" where
  "continuous_lane env runs task idleDelay always =
     \<lparr>la_name = cw_LaneName task, la_idleDelay = idleDelay, la_continuous = always,
      la_run = (\<lambda>w. runContinuousWorkerTask env task (runs (cw_LaneName task) w) w)\<rparr>"

definition continuousLanes ::
    "'w daemon_env \<Rightarrow> (string \<Rightarrow> 'w merge_world \<Rightarrow> 'w lane_run) \<Rightarrow> RunnerConfig \<Rightarrow> int \<Rightarrow> 'w continuousLane list" where
  "continuousLanes env runs config maxConcurrentAgents =
     (let agents = (''max_concurrent_agents'', JInt maxConcurrentAgents); handoff = (''handoff_state'', JStr (rc_HandoffState config)) in
      [continuous_lane env runs (lane_task config RoleScheduler ''scheduler'' [agents]) (30 * second) False,
       continuous_lane env runs (lane_task config RoleCleanup ''cleanup''
         [(''done_state'', JStr (rc_DoneState config)), (''apply'', JBool True)]) (30 * second) True,
       continuous_lane env runs (lane_task config RoleMerge ''merge'' [handoff]) (30 * second) True,
       continuous_lane env runs (lane_task config RoleHandoff ''handoff'' [handoff]) (60 * second) False,
       continuous_lane env runs (lane_task config RoleReview ''review''
         [(''review_configured'', JBool (trim_space (rc_ReviewCommand config) \<noteq> []))]) (60 * second) False,
       continuous_lane env runs (lane_task config RoleImplementation ''implementation''
         [agents, (''review_ready_resumes_skipped'', JBool True)]) (60 * second) False])"

definition cycle_heartbeat :: "string \<Rightarrow> int \<Rightarrow> err_list \<Rightarrow> time \<Rightarrow> DaemonHeartbeatInput" where
  "cycle_heartbeat laneName cycle err now =
     (lane_heartbeat laneName now)\<lparr>di_CycleNumber := cycle, di_Success := (err = []),
        di_Err := (if err = [] then None else Some (errs_text err))\<rparr>"

text \<open>
  The answer is the error and the number of cycles; what happens during a pause is \<open>pause\<close>.  The loop
  may run forever, so not returning is \<open>None\<close>.
\<close>

partial_function (option) runContinuousLane ::
    "'w daemon_env \<Rightarrow> (duration \<Rightarrow> 'w merge_world \<Rightarrow> 'w merge_world) \<Rightarrow> RunnerConfig option \<Rightarrow> 'w continuousLane \<Rightarrow> int \<Rightarrow> int
       \<Rightarrow> 'w merge_world \<Rightarrow> ((err_list \<times> int) \<times> 'w merge_world) option" where
  "runContinuousLane env pause recorder lane maxCycles cycles w =
     (if ctx_errs (dm_base env) w \<noteq> [] then Some (([], cycles), w)
      else (let r = la_run lane w; didWork = fst (fst r); err = snd (fst r);
                w1 = recordContinuousHeartbeat env recorder
                       (cycle_heartbeat (la_name lane) (cycles + 1) err (merge_now (dm_base env))) (snd r) in
            if err \<noteq> [] then Some ((err, cycles), w1)
            else if 0 < maxCycles \<and> maxCycles \<le> cycles + 1 then Some (([], cycles + 1), w1)
            else (let delay = (if la_continuous lane \<or> \<not> didWork then la_idleDelay lane else 0);
                      w2 = (if 0 < delay then pause delay w1 else w1) in
                  if 0 < delay \<and> ctx_errs (dm_base env) w2 \<noteq> [] then Some (([], cycles + 1), w2)
                  else runContinuousLane env pause recorder lane maxCycles (cycles + 1) w2)))"

section \<open>Claiming a batch\<close>

text \<open>A claimer gives a claim or none, whether it did work, and an error; \<open>release\<close> frees the lock of a claim.\<close>

type_synonym ('c, 'w) claimer = "'w merge_world \<Rightarrow> ('c option \<times> bool \<times> err_list) \<times> 'w merge_world"

fun claim_attempts ::
    "'w daemon_env \<Rightarrow> ('c, 'w) claimer \<Rightarrow> ('c \<Rightarrow> 'w merge_world \<Rightarrow> 'w merge_world) \<Rightarrow> nat \<Rightarrow> bool \<Rightarrow> 'c list \<Rightarrow> 'w merge_world
       \<Rightarrow> (err_list \<times> bool \<times> 'c list) \<times> 'w merge_world" where
  "claim_attempts env claim release 0 didAny claims w = (([], didAny, claims), w)"
| "claim_attempts env claim release (Suc n) didAny claims w =
     (if ctx_errs (dm_base env) w \<noteq> [] then ((ctx_errs (dm_base env) w, didAny, []), fold release claims w)
      else (case claim w of
              ((c, didWork, err), w1) \<Rightarrow>
                if err \<noteq> [] then ((err, didAny \<or> didWork, []), fold release claims w1)
                else (case c of
                        None \<Rightarrow> (([], didAny \<or> didWork, claims), w1)
                      | Some x \<Rightarrow> claim_attempts env claim release n (didAny \<or> didWork) (claims @ [x]) w1)))"

text \<open>\<open>execute\<close> runs the claims beside each other and gives the errors in the order they came.\<close>

definition runClaimedAttemptBatchWithClaimerContext ::
    "'w daemon_env \<Rightarrow> ('c, 'w) claimer \<Rightarrow> ('c \<Rightarrow> 'w merge_world \<Rightarrow> 'w merge_world)
       \<Rightarrow> ('c list \<Rightarrow> 'w merge_world \<Rightarrow> err_list list \<times> 'w merge_world) \<Rightarrow> int \<Rightarrow> 'w merge_world
       \<Rightarrow> (bool \<times> err_list) \<times> 'w merge_world" where
  "runClaimedAttemptBatchWithClaimerContext env claim release execute capacity w =
     (if ctx_errs (dm_base env) w \<noteq> [] then ((False, ctx_errs (dm_base env) w), w)
      else (case claim_attempts env claim release (nat (max 1 capacity)) False [] w of
              ((err, didAny, claims), w1) \<Rightarrow>
                if err \<noteq> [] then ((didAny, err), w1)
                else if claims = [] then ((didAny, []), w1)
                else (case execute claims w1 of
                        (errs, w2) \<Rightarrow> ((True, case errs of [] \<Rightarrow> [] | e # es \<Rightarrow> e), w2))))"

end
