(* ===== verification/LaneSafety.thy ===== *)
theory LaneSafety
  imports Continuous
begin

text \<open>
  What the lanes of the daemon guarantee: the loop ends, a lease that is held keeps every other
  worker of the lane from its work, a cycle leaves neither lease nor claim behind, a success is recorded,
  and a batch of claims keeps count of its locks.
\<close>

section \<open>The loop of a lane ends\<close>

lemma lane_loop_returns:
  assumes "0 < maxCycles" "0 \<le> cycles" "cycles < maxCycles"
  shows "\<exists>err n w'. runContinuousLane env pause recorder lane maxCycles cycles w = Some ((err, n), w') \<and> n \<le> maxCycles
    \<and> (err = [] \<longrightarrow> n = maxCycles \<or> ctx_errs (dm_base env) w' \<noteq> [])"
  using assms
proof (induction "nat (maxCycles - cycles)" arbitrary: cycles w)
  case 0
  then show ?case by simp
next
  case (Suc k)
  let ?r = "la_run lane w" and ?c = "\<lambda>w. ctx_errs (dm_base env) w \<noteq> []"
  define w1 where "w1 = recordContinuousHeartbeat env recorder
      (cycle_heartbeat (la_name lane) (cycles + 1) (snd (fst ?r)) (merge_now (dm_base env))) (snd ?r)"
  define delay where "delay = (if la_continuous lane \<or> \<not> fst (fst ?r) then la_idleDelay lane else 0)"
  define w2 where "w2 = (if 0 < delay then pause delay w1 else w1)"
  note step = runContinuousLane.simps [of env pause recorder lane maxCycles cycles w, unfolded Let_def,
      folded w1_def, folded delay_def, folded w2_def]
  consider "?c w" | "\<not> ?c w" "snd (fst ?r) \<noteq> []"
    | "\<not> ?c w" "snd (fst ?r) = []" "maxCycles \<le> cycles + 1"
    | "\<not> ?c w" "snd (fst ?r) = []" "cycles + 1 < maxCycles" "0 < delay \<and> ?c w2"
    | "\<not> ?c w" "snd (fst ?r) = []" "cycles + 1 < maxCycles" "\<not> (0 < delay \<and> ?c w2)" by linarith
  then show ?case
  proof cases
    case 5
    then have eq: "runContinuousLane env pause recorder lane maxCycles cycles w
        = runContinuousLane env pause recorder lane maxCycles (cycles + 1) w2"
      using step by (simp only: if_False simp_thms not_le) auto
    show ?thesis unfolding eq
      by (rule Suc.hyps(1)) (use Suc.hyps(2) Suc.prems 5 in auto)
  qed (use Suc.prems step in auto)
qed

section \<open>What the operations leave alone\<close>

definition leases_of :: "'w merge_world \<Rightarrow> LeaseRow list" where "leases_of w = db_leases (mw_db w)"

named_theorems lane_frames

lemma statement_db:
  "(\<And>db. g (snd (f db)) = g db) \<Longrightarrow> g (mw_db (snd (statement env f w))) = g (mw_db w)"
  by (auto simp: statement_def split: prod.split) (metis snd_conv)

lemma appendEvent_frames [lane_frames]:
  "db_leases (snd (appendEvent env i db)) = db_leases db" "db_results (snd (appendEvent env i db)) = db_results db"
  by (simp_all add: appendEvent_def insert_event_def Let_def split: sum.split)

lemma heartbeat_frames [lane_frames]:
  "db_leases (snd (UpsertDaemonHeartbeat env h db)) = db_leases db" "db_tasks (snd (UpsertDaemonHeartbeat env h db)) = db_tasks db"
  by (simp_all add: UpsertDaemonHeartbeat_def Let_def)

lemma mark_loop_leases: "db_leases (snd (mark_stale_loop env now cutoff d keys acc db)) = db_leases db"
proof (induction keys arbitrary: acc db)
  case (Cons k ks)
  then show ?case
    by (auto split: sum.splits option.splits prod.splits dest: markWorkerTask_frame(1))
qed simp

lemma task_frames [lane_frames]:
  "db_leases (snd (MarkStaleClaimedWorkerTasksReconciliationNeeded env now d db)) = db_leases db"
  "db_leases (snd (UpsertWorkerTask env t db)) = db_leases db"
  "db_leases (snd (ClaimWorkerTask env k now db)) = db_leases db"
  "db_leases (snd (CompleteWorkerTask env k s now db)) = db_leases db"
  "db_leases (snd (UpsertWorkerResult env r db)) = db_leases db"
  by (simp_all add: MarkStaleClaimedWorkerTasksReconciliationNeeded_def UpsertWorkerTask_def ClaimWorkerTask_def
      CompleteWorkerTask_def UpsertWorkerResult_def mark_loop_leases Let_def)

lemma task_event_leases [lane_frames]: "leases_of (recordContinuousWorkerTaskEvent env t task p w) = leases_of w"
  unfolding leases_of_def recordContinuousWorkerTaskEvent_def by (rule statement_db) (simp add: lane_frames)

lemma heartbeat_world [lane_frames]:
  "leases_of (recordContinuousHeartbeat env recorder h w) = leases_of w"
  "queue_of (recordContinuousHeartbeat env recorder h w) = queue_of w"
  "ctx_errs e (recordContinuousHeartbeat env recorder h w) = ctx_errs e w"
  by (simp_all add: recordContinuousHeartbeat_def leases_of_def statement_queue statement_db [where g = db_leases]
      lane_frames ctx_errs_def split: option.split)

lemma recover_leases [lane_frames]: "leases_of (snd (recoverStaleWorkerTasks env now w)) = leases_of w"
proof -
  let ?f = "\<lambda>db. case MarkStaleClaimedWorkerTasksReconciliationNeeded (me_store (dm_base env)) now staleWorkerTaskAfter db of
      ((recovered, None), db') \<Rightarrow> (Inr recovered, db') | ((recovered, Some e), db') \<Rightarrow> (Inl e, db')"
  have "db_leases (snd (?f db)) = db_leases db" for db
    using task_frames(1) [of "me_store (dm_base env)" now staleWorkerTaskAfter db] by (auto split: prod.splits option.splits)
  then have "db_leases (mw_db (snd (statement (dm_base env) ?f w))) = db_leases (mw_db w)" by (rule statement_db)
  then show ?thesis by (auto simp: recoverStaleWorkerTasks_def leases_of_def split: prod.splits sum.splits)
qed

lemma claim_lane_leases: "leases_of (snd (claim_lane_task env task w)) = leases_of w"
proof -
  have s: "leases_of w' = leases_of w0" if "statement e f w0 = (a, w')" "\<And>db. db_leases (snd (f db)) = db_leases db"
    for e and f :: "db \<Rightarrow> 'b result \<times> db" and w0 w' a
    using statement_db [of db_leases f e w0, OF that(2)] that(1) by (simp add: leases_of_def)
  have r: "leases_of w' = leases_of w" if "recoverStaleWorkerTasks env now w = (a, w')" for now a w'
    using recover_leases [of env now w] that by simp
  show ?thesis unfolding claim_lane_task_def Let_def
    by (auto simp: lane_frames split: prod.splits sum.splits option.splits dest!: r s)
qed

section \<open>A held lane\<close>

lemma AcquireLease_held:
  assumes "holder db (ls_Name l) now = Some x" "\<not> is_zero now"
  shows "fst (AcquireLease env l now db) \<noteq> Inr True \<and> snd (AcquireLease env l now db) = db"
proof -
  obtain r e where r: "lookup lr_name (ls_Name l) (db_leases db) = Some r" "lr_released_at r = []"
      "parse_time (lr_expires_at r) = Some e" "now < e"
    using assms(1) by (auto simp: holder_def split: option.splits if_splits)
  show ?thesis
  proof (cases "normalizeLease env l now")
    case (Inl e)
    then show ?thesis using assms(2) by (simp add: AcquireLease_def now_or_clock_def Let_def)
  next
    case (Inr l')
    then have "ls_Name l' = ls_Name l" by (auto simp: normalizeLease_def Let_def split: if_split_asm)
    then show ?thesis using Inr r assms(2) by (simp add: AcquireLease_def now_or_clock_def Let_def)
  qed
qed

lemma holder_leases: "leases_of w' = leases_of w \<Longrightarrow> holder (mw_db w') n t = holder (mw_db w) n t"
  by (rule holder_same_leases) (simp add: leases_of_def)

lemma lease_refused:
  assumes "leaseNameForWorkerTask task claimed = n" "n \<noteq> []" "holder (mw_db w) n now = Some x" "\<not> is_zero now"
  shows "fst (acquireWorkerTaskLease env task claimed now w) \<noteq> []
    \<and> leases_of (snd (acquireWorkerTaskLease env task claimed now w)) = leases_of w"
proof -
  let ?l = "\<lparr>ls_Name = n, ls_Scope = wt_TaskKey claimed, ls_Owner = daemonProcessID env, ls_AcquiredAt = now,
             ls_ExpiresAt = now + workerTaskLeaseTTL, ls_RenewedAt = now, ls_ReleasedAt = 0, ls_ReleaseReason = []\<rparr>"
  have "holder (mw_db w) (ls_Name ?l) now = Some x" using assms(3) by simp
  from AcquireLease_held [OF this assms(4), of "me_store (dm_base env)"]
  show ?thesis using assms(1,2)
    by (auto simp: acquireWorkerTaskLease_def Let_def statement_def leases_of_def split: prod.split sum.split)
qed

lemma result_leases [lane_frames]:
  "leases_of (snd (recordContinuousWorkerResult env task claimed s d r e t1 t2 p w)) = leases_of w"
  unfolding recordContinuousWorkerResult_def leases_of_def
  by (simp only: split_beta snd_conv statement_db [where g = db_leases] task_frames(5))

lemma unavailable_leases: "leases_of (snd (lease_unavailable env task claimed now leaseErr w)) = leases_of w"
proof -
  have s: "leases_of w' = leases_of w" if "statement e (CompleteWorkerTask se k st t) w = (a, w')" for e se k st t a w'
    using statement_db [of db_leases "CompleteWorkerTask se k st t" e w] that by (simp add: leases_of_def lane_frames)
  have r: "leases_of w' = leases_of v" if "recordContinuousWorkerResult env task c st d rs e t1 t2 p v = (a, w')" for c st d rs e t1 t2 p v a w'
    using result_leases [of env task c st d rs e t1 t2 p v] that by simp
  show ?thesis unfolding lease_unavailable_def Let_def
    by (auto simp: lane_frames split: prod.splits dest!: s r)
qed

lemma lane_lease_name:
  "trim_space (cw_LeaseName task) \<noteq> [] \<Longrightarrow> leaseNameForWorkerTask task claimed = trim_space (cw_LeaseName task)"
  by (simp add: leaseNameForWorkerTask_def)

lemma held_lane:
  assumes "n = trim_space (cw_LeaseName task)" "n \<noteq> []" "\<not> is_zero (merge_now (dm_base env))"
    and "holder (mw_db w) n (merge_now (dm_base env)) = Some x"
  shows "runContinuousWorkerTask env task run w = runContinuousWorkerTask env task run' w
    \<and> leases_of (snd (runContinuousWorkerTask env task run w)) = leases_of w"
proof (cases "claim_lane_task env task w")
  case (Pair c w1)
  have l1: "leases_of w1 = leases_of w" using claim_lane_leases [of env task w] Pair by simp
  show ?thesis
  proof (cases c)
    case (Inl a)
    then show ?thesis using Pair l1 by (simp add: runContinuousWorkerTask_def)
  next
    case (Inr claimed)
    define w2 where "w2 = recordContinuousWorkerTaskEvent (dm_base env) ''worker_task_claimed'' claimed
        [(''lane'', JStr (cw_LaneName task))] w1"
    have l2: "leases_of w2 = leases_of w" by (simp add: w2_def task_event_leases l1)
    obtain leaseErr w3 where acq: "acquireWorkerTaskLease env task claimed (merge_now (dm_base env)) w2 = (leaseErr, w3)"
      by fastforce
    have name: "leaseNameForWorkerTask task claimed = n" using assms(1,2) lane_lease_name by simp
    have "holder (mw_db w2) n (merge_now (dm_base env)) = Some x" using holder_leases [OF l2] assms(4) by simp
    from lease_refused [OF name assms(2) this assms(3), of env] acq l2
    have "leaseErr \<noteq> []" "leases_of w3 = leases_of w" by simp_all
    then have "run_claimed env task r claimed w1 = lease_unavailable env task claimed (merge_now (dm_base env)) leaseErr w3" for r
      using acq by (simp add: run_claimed_def Let_def flip: w2_def)
    then show ?thesis
      using Pair Inr unavailable_leases [of env task claimed "merge_now (dm_base env)" leaseErr w3]
        \<open>leases_of w3 = leases_of w\<close> by (simp add: runContinuousWorkerTask_def)
  qed
qed

section \<open>What a cycle leaves behind\<close>

definition no_claim :: "string \<Rightarrow> 'w merge_world \<Rightarrow> bool" where
  "no_claim k w \<longleftrightarrow> list_all (\<lambda>r. tr_task_key r = k \<longrightarrow> tr_status r \<noteq> WorkerTaskStatusClaimed) (queue_of w)"

lemma no_claim_queue: "queue_of w' = queue_of w \<Longrightarrow> no_claim k w' = no_claim k w"
  by (simp add: no_claim_def)

lemma updated_no_claim:
  "status \<noteq> WorkerTaskStatusClaimed \<Longrightarrow> list_all (\<lambda>r. tr_task_key r = k \<longrightarrow> tr_status r \<noteq> WorkerTaskStatusClaimed)
     (sql_update (\<lambda>r. tr_task_key r = k \<and> tr_status r = WorkerTaskStatusClaimed) (set_status status now) rows)"
  by (induction rows) (simp_all add: sql_update_def)

lemma completed_no_claim:
  assumes "k \<noteq> []" "status \<in> {''completed'', ''failed''}" "ctx_errs e w = []"
  shows "no_claim k (snd (statement e (CompleteWorkerTask se k status t) w))"
proof -
  let ?sel = "\<lambda>r. tr_task_key r = k \<and> tr_status r = WorkerTaskStatusClaimed"
  have st: "status \<noteq> []" "status \<noteq> WorkerTaskStatusClaimed" using assms(2) by (auto simp: WorkerTaskStatusClaimed_def)
  show ?thesis
  proof (cases "rows_affected ?sel (db_tasks (mw_db w)) = 0")
    case True
    have "list_all (\<lambda>r. tr_task_key r = k \<longrightarrow> tr_status r \<noteq> WorkerTaskStatusClaimed) (db_tasks (mw_db w))"
      using True by (simp add: rows_affected_def list_all_iff filter_empty_conv)
    then show ?thesis using True assms(1,3) st
      by (simp add: statement_def CompleteWorkerTask_def Let_def no_claim_def queue_of_def)
  next
    case False
    then have "queue_of (snd (statement e (CompleteWorkerTask se k status t) w))
        = sql_update ?sel (set_status status (now_or_clock se t)) (db_tasks (mw_db w))"
      using assms(1,3) st by (simp add: statement_def CompleteWorkerTask_def Let_def queue_of_def)
    then show ?thesis unfolding no_claim_def by (simp only: updated_no_claim [OF st(2)])
  qed
qed

lemma result_frames:
  "queue_of (snd (recordContinuousWorkerResult env task claimed s d r e t1 t2 p w)) = queue_of w"
  "ctx_errs c (snd (recordContinuousWorkerResult env task claimed s d r e t1 t2 p w)) = ctx_errs c w"
  unfolding recordContinuousWorkerResult_def
  by (simp_all add: split_beta statement_queue ctx_errs_def)

lemma run_verdict_status: "fst (run_verdict didWork runErr supervisionErr) \<in> {''completed'', ''failed''}"
  by (simp add: run_verdict_def)

lemma finish_lane_frames:
  "queue_of (snd (finish_lane env task claimed startedAt finishedAt (didWork, runErr, supervisionErr) w)) =
     queue_of (snd (statement (dm_base env) (CompleteWorkerTask (me_store (dm_base env)) (cw_TaskKey task)
       (fst (run_verdict didWork runErr supervisionErr)) finishedAt) w))"
  "ctx_errs (dm_base env) (snd (finish_lane env task claimed startedAt finishedAt (didWork, runErr, supervisionErr) w))
     = ctx_errs (dm_base env) w"
  unfolding finish_lane_def Let_def split_beta prod.case
  by (simp_all add: result_frames)

lemma released_rows:
  "lookup lr_name n (sql_update (\<lambda>r. lr_name r = n) (\<lambda>r. r\<lparr>lr_released_at := s, lr_release_reason := reason\<rparr>) rows) = Some r
     \<Longrightarrow> lr_released_at r = s"
proof (induction rows)
  case Nil
  then show ?case by (simp add: lookup_def sql_update_def)
next
  case (Cons a rows)
  show ?case
  proof (cases "lr_name a = n")
    case True
    then show ?thesis using Cons.prems by (simp add: lookup_def sql_update_def) (drule sym, simp)
  next
    case False
    then show ?thesis using Cons by (simp add: lookup_def sql_update_def)
  qed
qed

lemma no_row: "rows_affected (\<lambda>r. key r = n) rows = 0 \<Longrightarrow> lookup key n rows = None"
  by (simp add: rows_affected_def lookup_def find_None_iff filter_empty_conv)

lemma release_frees:
  assumes "n \<noteq> []" "\<not> is_zero finishedAt"
  shows "holder (mw_db (release_lane_lease env n finishedAt w)) n t = None"
proof (cases "rows_affected (\<lambda>r. lr_name r = n) (db_leases (mw_db w)) = 0")
  case True
  then show ?thesis using assms no_row [OF True]
    by (simp add: release_lane_lease_def ReleaseLease_def Let_def holder_def)
next
  case False
  let ?rows = "sql_update (\<lambda>r. lr_name r = n)
      (\<lambda>r. r\<lparr>lr_released_at := format_time finishedAt, lr_release_reason := ''worker task completed''\<rparr>) (db_leases (mw_db w))"
  have "db_leases (mw_db (release_lane_lease env n finishedAt w)) = ?rows"
    using False assms by (simp add: release_lane_lease_def ReleaseLease_def now_or_clock_def Let_def)
  then have rows: "db_leases (mw_db (release_lane_lease env n finishedAt w)) = ?rows" .
  show ?thesis
  proof (cases "lookup lr_name n ?rows")
    case None
    then show ?thesis by (simp only: holder_def rows option.case)
  next
    case (Some a)
    have "lr_released_at a \<noteq> []" using released_rows [OF Some] assms(2) by simp
    then show ?thesis using Some by (simp only: holder_def rows option.case if_True simp_thms)
  qed
qed

lemma release_queue [simp]: "queue_of (release_lane_lease env n finishedAt w) = queue_of w"
  "ctx_errs e (release_lane_lease env n finishedAt w) = ctx_errs e w"
  by (simp_all add: release_lane_lease_def queue_of_def ctx_errs_def ReleaseLease_def Let_def)

text \<open>What a cycle does beyond the claim: nothing of the work, or the work, the finish and the release.\<close>

lemma run_claimed_cases:
  obtains (unavailable) answer w' where "\<And>run. run_claimed env task run claimed w = (answer, w')" "snd answer \<noteq> []"
  | (ran) w1 where "\<And>run. run_claimed env task run claimed w =
      (case supervised_run env task claimed (leaseNameForWorkerTask task claimed) (merge_now (dm_base env)) run w1 of
         (outcome, w2) \<Rightarrow>
           (case finish_lane env task claimed (merge_now (dm_base env)) (ln_finishedAt run) outcome w2 of
              (answer, w3) \<Rightarrow> (answer, release_lane_lease env (leaseNameForWorkerTask task claimed) (ln_finishedAt run) w3)))"
proof -
  obtain leaseErr w1 where acq: "acquireWorkerTaskLease env task claimed (merge_now (dm_base env))
      (recordContinuousWorkerTaskEvent (dm_base env) ''worker_task_claimed'' claimed [(''lane'', JStr (cw_LaneName task))] w)
      = (leaseErr, w1)" by fastforce
  show ?thesis
  proof (cases "leaseErr = []")
    case True
    then show ?thesis by (intro ran [of w1]) (simp add: run_claimed_def Let_def acq)
  next
    case False
    obtain answer w' where u: "lease_unavailable env task claimed (merge_now (dm_base env)) leaseErr w1 = (answer, w')" by fastforce
    have "snd (fst (lease_unavailable env task claimed (merge_now (dm_base env)) leaseErr w1)) \<noteq> []"
      unfolding lease_unavailable_def Let_def split_beta fst_conv snd_conv using False by simp
    with False u show ?thesis by (intro unavailable [of answer w']) (simp_all add: run_claimed_def Let_def acq)
  qed
qed

lemma cycle_leaves_nothing:
  assumes "cw_TaskKey task \<noteq> []" "trim_space (cw_LeaseName task) = n" "n \<noteq> []" "\<not> is_zero (ln_finishedAt run)"
    and "w' = snd (runContinuousWorkerTask env task run w)"
  shows "(\<forall>run'. runContinuousWorkerTask env task run' w = runContinuousWorkerTask env task run w)
    \<or> holder (mw_db w') n t = None \<and> (ctx_errs (dm_base env) w' = [] \<longrightarrow> no_claim (cw_TaskKey task) w')"
proof (cases "claim_lane_task env task w")
  case (Pair c w1)
  show ?thesis
  proof (cases c)
    case (Inl a)
    then show ?thesis using Pair by (simp add: runContinuousWorkerTask_def)
  next
    case (Inr claimed)
    then have eq: "runContinuousWorkerTask env task r w = run_claimed env task r claimed w1" for r
      using Pair by (simp add: runContinuousWorkerTask_def)
    show ?thesis
    proof (cases rule: run_claimed_cases [of env task claimed w1])
      case (unavailable answer w')
      then show ?thesis by (simp add: eq)
    next
      case (ran w2)
      obtain outcome w3 where sup: "supervised_run env task claimed n (merge_now (dm_base env)) run w2 = (outcome, w3)" by fastforce
      obtain d r s where out: "outcome = (d, r, s)" by (cases outcome) auto
      let ?fin = "finish_lane env task claimed (merge_now (dm_base env)) (ln_finishedAt run) (d, r, s) w3"
      have name: "leaseNameForWorkerTask task claimed = n" using assms(2,3) lane_lease_name by simp
      have w': "w' = release_lane_lease env n (ln_finishedAt run) (snd ?fin)"
        using ran [of run] sup out by (simp add: assms(5) eq name split_beta)
      have "no_claim (cw_TaskKey task) w'" if "ctx_errs (dm_base env) w' = []"
      proof -
        have "ctx_errs (dm_base env) w3 = []" using that by (simp add: w' finish_lane_frames(2))
        from completed_no_claim [OF assms(1) run_verdict_status [of d r s] this]
        show ?thesis by (simp add: w' no_claim_def finish_lane_frames(1))
      qed
      moreover have "holder (mw_db w') n t = None" unfolding w' by (rule release_frees [OF assms(3,4)])
      ultimately show ?thesis by blast
    qed
  qed
qed

section \<open>A success is recorded\<close>

lemma upserted_result: "\<exists>r \<in> set (sql_upsert wr_task_key merge_result new rows). r = new"
proof (cases "sql_conflict wr_task_key new rows")
  case True
  then obtain old where "old \<in> set rows" "wr_task_key old = wr_task_key new"
    by (auto simp: sql_conflict_def list_ex_iff)
  moreover have "merge_result old new = new" if "wr_task_key old = wr_task_key new" for old
    using that by (simp add: merge_result_def)
  ultimately show ?thesis using True by (auto simp: sql_upsert_def sql_update_def intro!: rev_image_eqI [of old])
next
  case False
  then show ?thesis by (simp add: sql_upsert_def)
qed

lemma UpsertWorkerResult_row:
  assumes "UpsertWorkerResult env x db = (Inr (), db')"
  shows "result_row (normalize_result env x) \<in> set (db_results db')"
proof -
  have "db_results db' = sql_upsert wr_task_key merge_result (result_row (normalize_result env x)) (db_results db)"
    using assms by (auto simp: UpsertWorkerResult_def Let_def split: if_split_asm)
  then show ?thesis using upserted_result by simp
qed

lemma statement_Inr:
  "statement env f w = (Inr x, w') \<longleftrightarrow> ctx_errs env w = [] \<and> fst (f (mw_db w)) = Inr x \<and> w' = w\<lparr>mw_db := snd (f (mw_db w))\<rparr>"
  by (auto simp: statement_def split: prod.split)

lemma recorded_result:
  assumes "recordContinuousWorkerResult env task claimed status didWork reason errorText t1 t2 payload w = ([], w')"
  shows "\<exists>r \<in> set (db_results (mw_db w')). wr_task_key r = wt_TaskKey claimed \<and> wr_status r = status
    \<and> wr_did_work r = boolInt didWork \<and> wr_reason r = reason \<and> wr_error r = errorText"
proof -
  let ?x = "lane_result task claimed status didWork reason errorText t1 t2 payload" and ?se = "me_store (dm_base env)"
  have "statement (dm_base env) (UpsertWorkerResult ?se ?x) w = (Inr (), w')"
    using assms by (auto simp: recordContinuousWorkerResult_def err_of_def split: prod.splits sum.splits)
  then have "UpsertWorkerResult ?se ?x (mw_db w) = (Inr (), mw_db w')"
    by (cases "UpsertWorkerResult ?se ?x (mw_db w)") (auto simp: statement_Inr)
  from UpsertWorkerResult_row [OF this] show ?thesis
    by (rule rev_bexI) (simp add: result_row_def normalize_result_def lane_result_def Let_def)
qed

lemma completed_row:
  assumes "statement e (CompleteWorkerTask se k status t) w = (Inr x, w')"
  shows "\<exists>r \<in> set (queue_of w'). tr_task_key r = k \<and> tr_status r = status"
proof -
  let ?sel = "\<lambda>r. tr_task_key r = k \<and> tr_status r = WorkerTaskStatusClaimed"
  from assms have c: "fst (CompleteWorkerTask se k status t (mw_db w)) = Inr x"
    "w' = w\<lparr>mw_db := snd (CompleteWorkerTask se k status t (mw_db w))\<rparr>" by (simp_all add: statement_Inr)
  from c(1) have ne: "k \<noteq> []" "status \<noteq> []" "rows_affected ?sel (db_tasks (mw_db w)) \<noteq> 0"
    by (auto simp: CompleteWorkerTask_def Let_def split: if_split_asm)
  then obtain r where r: "r \<in> set (db_tasks (mw_db w))" "?sel r"
    by (auto simp: rows_affected_def filter_empty_conv)
  have q: "queue_of w' = sql_update ?sel (set_status status (now_or_clock se t)) (db_tasks (mw_db w))"
    using c(2) ne by (simp add: CompleteWorkerTask_def Let_def queue_of_def)
  have "set_status status (now_or_clock se t) r \<in> set (queue_of w')"
    unfolding q sql_update_def set_map using r by (intro rev_image_eqI [of r]) simp_all
  then show ?thesis using r(2) by (intro bexI [of _ "set_status status (now_or_clock se t) r"]) simp_all
qed

lemma finish_lane_success:
  assumes "finish_lane env task claimed t1 t2 (d, re, se) w = ((didWork, []), w')" "wt_TaskKey claimed = cw_TaskKey task"
  shows "didWork = d \<and> (\<exists>r \<in> set (queue_of w'). tr_task_key r = cw_TaskKey task \<and> tr_status r = ''completed'')
    \<and> (\<exists>r \<in> set (db_results (mw_db w')). wr_task_key r = cw_TaskKey task \<and> wr_status r = ''completed''
          \<and> wr_did_work r = boolInt d \<and> wr_reason r = (if d then ''work_completed'' else ''idle'') \<and> wr_error r = [])"
proof -
  obtain c w1 where c: "statement (dm_base env) (CompleteWorkerTask (me_store (dm_base env)) (cw_TaskKey task)
      (fst (run_verdict d re se)) t2) w = (c, w1)" by fastforce
  obtain st rs et where v: "completed_verdict re (err_of c) (run_verdict d re se) = (st, rs, et)" by (metis prod_cases3)
  define payload where "payload = put_if (err_of c \<noteq> []) ''completion_error'' (JStr (errs_text (err_of c)))
      (put_if (se \<noteq> []) ''supervision_error'' (JStr (errs_text se)) (put_if (re \<noteq> []) ''error'' (JStr (errs_text re))
        [(''lane'', JStr (cw_LaneName task)), (''did_work'', JBool d)]))"
  let ?claimed = "claimed\<lparr>wt_Status := st, wt_UpdatedAt := t2\<rparr>"
  obtain resultErr w2 where r: "recordContinuousWorkerResult env task ?claimed st d rs et t1 t2 payload w1 = (resultErr, w2)"
    by fastforce
  have fin: "d = didWork" "re = []" "se = []" "err_of c = []" "resultErr = []"
    "\<exists>eventType p. w' = recordContinuousWorkerTaskEvent (dm_base env) eventType ?claimed p w2"
    using assms(1) by (auto simp: finish_lane_def Let_def c v r simp flip: payload_def)
  have w1: "\<exists>x. c = Inr x" using fin(4) by (auto simp: err_of_def split: sum.splits)
  have "(''completed'', if d then ''work_completed'' else ''idle'', []) = (st, rs, et)"
    using v by (simp only: fin completed_verdict_def run_verdict_def simp_thms if_False)
  note inj = this [unfolded prod.inject]
  note verdict = inj [THEN conjunct1, symmetric] inj [THEN conjunct2, THEN conjunct1, symmetric]
    inj [THEN conjunct2, THEN conjunct2, symmetric]
  have st0: "fst (run_verdict d re se) = ''completed''" by (simp add: fin run_verdict_def)
  have q: "queue_of w' = queue_of w1"
    using fin(6) result_frames(1) [of env task ?claimed st d rs et t1 t2 payload w1] r by auto
  from fin(6) obtain eventType p where ev: "w' = recordContinuousWorkerTaskEvent (dm_base env) eventType ?claimed p w2" by blast
  have res: "db_results (mw_db w') = db_results (mw_db w2)"
    unfolding ev recordContinuousWorkerTaskEvent_def by (rule statement_db) (simp add: lane_frames)
  from w1 obtain x where cx: "c = Inr x" ..
  have "\<exists>r \<in> set (queue_of w1). tr_task_key r = cw_TaskKey task \<and> tr_status r = ''completed''"
    by (rule completed_row [OF c [unfolded cx st0]])
  moreover have "\<exists>r \<in> set (db_results (mw_db w2)). wr_task_key r = wt_TaskKey ?claimed \<and> wr_status r = st
    \<and> wr_did_work r = boolInt d \<and> wr_reason r = rs \<and> wr_error r = et"
    by (rule recorded_result [OF r [unfolded fin(5)]])
  ultimately show ?thesis using fin(1) by (simp add: q res verdict assms(2))
qed

lemma claim_lane_key:
  assumes "claim_lane_task env task w = (Inr claimed, w1)"
  shows "wt_TaskKey claimed = cw_TaskKey task"
proof -
  have "wt_TaskKey t = k" if "statement e (ClaimWorkerTask se k now) w = (Inr (Some t), w')" for e se k now w t w'
  proof -
    have "fst (ClaimWorkerTask se k now (mw_db w)) = Inr (Some t)" using that by (simp add: statement_Inr)
    then show ?thesis by (auto simp: ClaimWorkerTask_def Let_def split: if_split_asm dest: workerTask_key)
  qed
  then show ?thesis using assms
    by (auto simp: claim_lane_task_def Let_def split: prod.splits sum.splits option.splits if_split_asm)
qed

lemma cycle_success:
  assumes "claim_lane_task env task w = (Inr claimed, w1)" "runContinuousWorkerTask env task run w = ((didWork, []), w')"
  shows "(\<exists>r \<in> set (queue_of w'). tr_task_key r = cw_TaskKey task \<and> tr_status r = ''completed'')
    \<and> (\<exists>r \<in> set (db_results (mw_db w')). wr_task_key r = cw_TaskKey task \<and> wr_status r = ''completed''
          \<and> wr_did_work r = boolInt didWork \<and> wr_reason r = (if didWork then ''work_completed'' else ''idle'') \<and> wr_error r = [])"
proof -
  have run: "run_claimed env task run claimed w1 = ((didWork, []), w')"
    using assms by (simp add: runContinuousWorkerTask_def)
  show ?thesis
  proof (cases rule: run_claimed_cases [of env task claimed w1])
    case (unavailable answer w'')
    then show ?thesis using run by simp
  next
    case (ran w2)
    let ?n = "leaseNameForWorkerTask task claimed" and ?now = "merge_now (dm_base env)"
    obtain d re se w3 where sup: "supervised_run env task claimed ?n ?now run w2 = ((d, re, se), w3)" by (metis surj_pair)
    obtain answer w4 where fin: "finish_lane env task claimed ?now (ln_finishedAt run) (d, re, se) w3 = (answer, w4)" by fastforce
    from ran [of run] run sup fin have eq: "answer = (didWork, [])" "w' = release_lane_lease env ?n (ln_finishedAt run) w4" by simp_all
    have "db_results (mw_db w') = db_results (mw_db w4)"
      by (simp add: eq release_lane_lease_def ReleaseLease_def Let_def)
    then show ?thesis
      using finish_lane_success [OF fin [unfolded eq(1)] claim_lane_key [OF assms(1)]] by (simp add: eq(2))
  qed
qed

section \<open>The claims of a batch\<close>

inductive claimed_run :: "('c, 'w) claimer \<Rightarrow> 'w merge_world \<Rightarrow> 'c list \<Rightarrow> 'w merge_world \<Rightarrow> bool" for claim where
  no_claims: "claimed_run claim w [] w"
| one_claim: "claim w = ((Some x, didWork, []), w1) \<Longrightarrow> claimed_run claim w1 xs w2 \<Longrightarrow> claimed_run claim w (x # xs) w2"

text \<open>The claims so far are released with the others, or kept in front of them.\<close>

lemma claim_attempts_account:
  "claim_attempts env claim release n didAny cs w = ((err, any, cs'), w') \<Longrightarrow>
   \<exists>xs v v'. claimed_run claim w xs v \<and> length xs \<le> n \<and> v' \<in> {v, snd (claim v)}
     \<and> (if err = [] then cs' = cs @ xs \<and> w' = v' else w' = fold release (cs @ xs) v')"
proof (induction n arbitrary: didAny cs w)
  case 0
  then show ?case by (intro exI [of _ "[]"] exI [of _ w]) (auto intro: no_claims)
next
  case (Suc n)
  obtain c d e w1 where c: "claim w = ((c, d, e), w1)" by (metis surj_pair)
  let ?goal = "\<lambda>xs v v'. claimed_run claim w xs v \<and> length xs \<le> Suc n \<and> v' \<in> {v, snd (claim v)}
     \<and> (if err = [] then cs' = cs @ xs \<and> w' = v' else w' = fold release (cs @ xs) v')"
  consider "ctx_errs (dm_base env) w \<noteq> []" | "ctx_errs (dm_base env) w = []" "e \<noteq> []"
    | "ctx_errs (dm_base env) w = []" "e = []" "c = None" | x where "ctx_errs (dm_base env) w = []" "e = []" "c = Some x"
    by (cases c) auto
  then show ?case
  proof cases
    case 1
    then have "?goal [] w w" using Suc.prems by (auto intro: no_claims)
    then show ?thesis by blast
  next
    case 2
    then have "?goal [] w w1" using Suc.prems c by (auto intro: no_claims)
    then show ?thesis by blast
  next
    case 3
    then have "?goal [] w w1" using Suc.prems c by (auto intro: no_claims)
    then show ?thesis by blast
  next
    case 4
    then have "claim_attempts env claim release n (didAny \<or> d) (cs @ [x]) w1 = ((err, any, cs'), w')"
      using Suc.prems c by simp
    from Suc.IH [OF this] obtain xs v v' where xs: "claimed_run claim w1 xs v" "length xs \<le> n" "v' \<in> {v, snd (claim v)}"
      "if err = [] then cs' = (cs @ [x]) @ xs \<and> w' = v' else w' = fold release ((cs @ [x]) @ xs) v'" by blast
    have "claimed_run claim w (x # xs) v" by (rule one_claim [of _ _ _ d w1]) (use c 4 xs(1) in simp_all)
    then have "?goal (x # xs) v v'" using xs(2-4) by simp
    then show ?thesis by blast
  qed
qed

section \<open>An idle lane\<close>

text \<open>A lane on a fresh database, with a run that succeeds, for the witnesses.\<close>

definition idle_env :: "unit daemon_env" where
  "idle_env = \<lparr>dm_base = empty_merge_env\<lparr>me_store := test_env\<lparr>env_clock := 1000000000\<rparr>\<rparr>, dm_hostname = Some ''host'', dm_pid = 7\<rparr>"
definition idle_task :: continuousWorkerTask where
  "idle_task = \<lparr>cw_TaskKey = ''continuous:merge'', cw_Role = RoleMerge, cw_LaneName = ''merge'', cw_LeaseName = ''lane:merge'',
     cw_Payload = [], cw_RecordHeartbeat = None\<rparr>"
definition idle_run :: "bool \<Rightarrow> unit lane_run" where
  "idle_run d = \<lparr>ln_steps = [], ln_result = (\<lambda>c w. ((d, []), False)), ln_schedule = [], ln_finishedAt = 2000000002\<rparr>"
definition fresh_world :: "unit merge_world" where
  "fresh_world = \<lparr>mw_db = empty_db, mw_fs = re_fs ready_env, mw_w = ()\<rparr>"

lemma idle_env_simps [simp]: "me_store (dm_base idle_env) = test_env\<lparr>env_clock := 1000000000\<rparr>" "merge_now (dm_base idle_env) = 2000000000"
  "ctx_errs (dm_base idle_env) w = []"
  by (simp_all add: idle_env_def empty_merge_env_def merge_now_def ctx_errs_def empty_client_def)


definition idle_row :: TaskRow where "idle_row = task_row (normalize_task (me_store (dm_base idle_env)) (lane_worker_task idle_task 2000000000 2000000000))"

lemma claim_queue_only:
  "db_tasks db = db_tasks db0 \<Longrightarrow> fst (ClaimWorkerTask env k now db) = fst (ClaimWorkerTask env k now db0)
     \<and> db_tasks (snd (ClaimWorkerTask env k now db)) = db_tasks (snd (ClaimWorkerTask env k now db0))"
  by (simp add: ClaimWorkerTask_def workerTask_def Let_def)

lemma idle_row_claim: "(case ClaimWorkerTask (me_store (dm_base idle_env)) ''continuous:merge'' 2000000000 (empty_db\<lparr>db_tasks := [idle_row]\<rparr>) of
    (Inr (Some t), db) \<Rightarrow> wt_Role t = RoleMerge \<and> map (\<lambda>r. (tr_task_key r, tr_status r)) (db_tasks db) = [(''continuous:merge'', ''claimed'')]
  | _ \<Rightarrow> False)"
  by code_simp

lemma idle_upsert: "UpsertWorkerTask (me_store (dm_base idle_env)) (lane_worker_task idle_task 2000000000 2000000000) empty_db
    = (Inr (), empty_db\<lparr>db_tasks := [idle_row]\<rparr>)"
  by (simp add: UpsertWorkerTask_def Let_def idle_row_def lane_worker_task_def idle_task_def normalize_task_def RoleMerge_def
     empty_db_def sql_upsert_def sql_conflict_def task_row_def)

lemma idle_recover: "recoverStaleWorkerTasks idle_env 2000000000 fresh_world = ((False, []), fresh_world)"
  by (simp add: recoverStaleWorkerTasks_def statement_def fresh_world_def empty_db_def staleWorkerTaskAfter_def
      MarkStaleClaimedWorkerTasksReconciliationNeeded_def stale_keys_def Let_def minute_def second_def)

lemma idle_read: "ReadWorkerTask (cw_TaskKey idle_task) (mw_db fresh_world) = Inr None"
  by (simp add: ReadWorkerTask_def idle_task_def workerTask_def fresh_world_def empty_db_def lookup_def)

lemma idle_claim: "\<exists>claimed w1 r. claim_lane_task idle_env idle_task fresh_world = (Inr claimed, w1) \<and> wt_Role claimed = RoleMerge
   \<and> leases_of w1 = [] \<and> queue_of w1 = [r] \<and> tr_task_key r = ''continuous:merge'' \<and> tr_status r = ''claimed''"
proof -
  let ?se = "me_store (dm_base idle_env)" and ?q = "lane_worker_task idle_task 2000000000 2000000000"
  define w1 where "w1 = fresh_world\<lparr>mw_db := empty_db\<lparr>db_tasks := [idle_row]\<rparr>\<rparr>"
  define w2 where "w2 = recordContinuousWorkerTaskEvent (dm_base idle_env) ''worker_task_queued'' ?q
      [(''lane'', JStr (cw_LaneName idle_task))] w1"
  have q2: "db_tasks (mw_db w2) = db_tasks (empty_db\<lparr>db_tasks := [idle_row]\<rparr>)"
    using task_event_queue [of "dm_base idle_env" "''worker_task_queued''" ?q "[(''lane'', JStr (cw_LaneName idle_task))]" w1]
    by (simp add: w2_def w1_def queue_of_def)
  obtain res db where c: "ClaimWorkerTask ?se ''continuous:merge'' 2000000000 (mw_db w2) = (res, db)" by fastforce
  with claim_queue_only [OF q2, of ?se "''continuous:merge''" 2000000000] idle_row_claim
  obtain t r where t: "res = Inr (Some t)" "wt_Role t = RoleMerge" "db_tasks db = [r]" "tr_task_key r = ''continuous:merge''"
      "tr_status r = ''claimed''"
    by (auto split: prod.splits sum.splits option.splits)
  have key: "cw_TaskKey idle_task = ''continuous:merge''" by (simp add: idle_task_def)
  have up: "statement (dm_base idle_env) (UpsertWorkerTask ?se ?q) fresh_world = (Inr (), w1)"
    using idle_upsert by (simp add: statement_Inr w1_def fresh_world_def)
  have st: "statement (dm_base idle_env) (ClaimWorkerTask ?se ''continuous:merge'' 2000000000) w2 = (Inr (Some t), w2\<lparr>mw_db := db\<rparr>)"
    by (simp only: statement_Inr c t) simp
  have eq: "claim_lane_task idle_env idle_task fresh_world = (Inr t, w2\<lparr>mw_db := db\<rparr>)"
    unfolding claim_lane_task_def Let_def idle_env_simps(2) idle_recover
    using idle_read up st by (simp add: statement_def [of _ "\<lambda>db. (_ db, db)"] lane_available_def key flip: w2_def)
  have "leases_of (w2\<lparr>mw_db := db\<rparr>) = leases_of fresh_world"
    using claim_lane_leases [of idle_env idle_task fresh_world] eq by simp
  then show ?thesis using eq t by (simp add: leases_of_def queue_of_def fresh_world_def empty_db_def)
qed

lemma acquire_free:
  assumes "leases_of w = []" "ctx_errs (dm_base env) w = []" "wt_TaskKey claimed \<noteq> []"
  shows "fst (acquireWorkerTaskLease env task claimed now w) = []
    \<and> queue_of (snd (acquireWorkerTaskLease env task claimed now w)) = queue_of w"
proof -
  have "daemonProcessID env \<noteq> []" by (simp add: daemonProcessID_def)
  moreover have "AcquireLease se l now (mw_db w) = (Inr True, (mw_db w)\<lparr>db_leases := [lease_row l']\<rparr>)"
    if "normalizeLease se l (now_or_clock se now) = Inr l'" for se l l'
    using that assms(1) by (simp add: AcquireLease_def Let_def leases_of_def lookup_def insert_or_ignore_def sql_conflict_def)
  ultimately show ?thesis using assms
    by (simp add: acquireWorkerTaskLease_def statement_def normalizeLease_def Let_def queue_of_def)
qed

lemma complete_single:
  assumes "queue_of w = [r]" "tr_task_key r = k" "tr_status r = ''claimed''" "k \<noteq> []" "status \<noteq> []" "ctx_errs e w = []"
  shows "fst (statement e (CompleteWorkerTask se k status t) w) = Inr ()"
  using assms by (simp add: statement_def CompleteWorkerTask_def rows_affected_def queue_of_def Let_def WorkerTaskStatusClaimed_def)

lemma idle_result: "wt_TaskKey claimed \<noteq> [] \<Longrightarrow> wt_Role claimed \<noteq> [] \<Longrightarrow> status \<noteq> [] \<Longrightarrow>
    fst (recordContinuousWorkerResult idle_env task claimed status d rs et t1 t2 p w) = []"
  by (simp add: recordContinuousWorkerResult_def statement_def UpsertWorkerResult_def lane_result_def normalize_result_def
      err_of_def Let_def split: prod.split)

lemma idle_finish:
  assumes "queue_of w = [r]" "tr_task_key r = ''continuous:merge''" "tr_status r = ''claimed''"
    and "wt_TaskKey claimed \<noteq> []" "wt_Role claimed \<noteq> []"
  shows "fst (finish_lane idle_env idle_task claimed t1 t2 (d, [], []) w) = (d, [])"
proof -
  have key: "cw_TaskKey idle_task = ''continuous:merge''" by (simp add: idle_task_def)
  obtain c w1 where c: "statement (dm_base idle_env) (CompleteWorkerTask (me_store (dm_base idle_env)) ''continuous:merge'' ''completed'' t2) w = (c, w1)"
    by fastforce
  from complete_single [OF assms(1-3), of "''completed''" "dm_base idle_env" "me_store (dm_base idle_env)" t2] c
  have ci: "err_of c = []" by (simp add: err_of_def)
  have v: "run_verdict d [] [] = (''completed'', if d then ''work_completed'' else ''idle'', [])" by (simp add: run_verdict_def)
  have cv: "completed_verdict [] [] v = v" for v by (simp add: completed_verdict_def)
  have res: "fst (recordContinuousWorkerResult idle_env idle_task (claimed\<lparr>wt_Status := ''completed'', wt_UpdatedAt := t2\<rparr>)
      ''completed'' d (if d then ''work_completed'' else ''idle'') [] t1 t2 p w1) = []" for p
    by (rule idle_result) (use assms(4,5) in simp_all)
  show ?thesis
    unfolding finish_lane_def Let_def prod.case v fst_conv key c ci cv
    by (simp only: split_beta fst_conv snd_conv res append_Nil)
qed

lemma idle_cycle: "\<exists>claimed w1. claim_lane_task idle_env idle_task fresh_world = (Inr claimed, w1)
    \<and> fst (runContinuousWorkerTask idle_env idle_task (idle_run d) fresh_world) = (d, [])"
proof -
  from idle_claim obtain claimed w1 r where c: "claim_lane_task idle_env idle_task fresh_world = (Inr claimed, w1)"
    "wt_Role claimed = RoleMerge" "leases_of w1 = []" "queue_of w1 = [r]" "tr_task_key r = ''continuous:merge''" "tr_status r = ''claimed''"
    by blast
  have key: "wt_TaskKey claimed \<noteq> []" using claim_lane_key [OF c(1)] by (simp add: idle_task_def)
  have role: "wt_Role claimed \<noteq> []" by (simp add: c(2) RoleMerge_def)
  define w2 where "w2 = recordContinuousWorkerTaskEvent (dm_base idle_env) ''worker_task_claimed'' claimed
      [(''lane'', JStr (cw_LaneName idle_task))] w1"
  have w2: "leases_of w2 = []" "queue_of w2 = [r]" by (simp_all add: w2_def task_event_leases c)
  obtain leaseErr w3 where acq: "acquireWorkerTaskLease idle_env idle_task claimed 2000000000 w2 = (leaseErr, w3)" by fastforce
  from acquire_free [OF w2(1) _ key, of idle_env idle_task 2000000000] acq w2(2)
  have w3: "leaseErr = []" "queue_of w3 = [r]" by simp_all
  have sup: "supervised_run idle_env idle_task claimed n 2000000000 (idle_run d) w3 = ((d, [], []), w3)" for n
    by (simp add: supervised_run_def idle_run_def recordWorkerTaskHeartbeat_def recordContinuousHeartbeat_def idle_task_def)
  have "fst (run_claimed idle_env idle_task (idle_run d) claimed w1) = (d, [])"
    using idle_finish [OF w3(2) c(5,6) key role]
    by (simp add: run_claimed_def Let_def acq w3(1) sup split_beta flip: w2_def)
  then show ?thesis using c(1) by (simp add: runContinuousWorkerTask_def)
qed

definition held_world :: "unit merge_world" where
  "held_world = fresh_world\<lparr>mw_db := ann_db\<rparr>"

section \<open>The properties\<close>

text \<open>
  C36: a lane with a bound on its cycles returns: after at most that many cycles, and if it returns no
  error then after exactly that many, or because the daemon is being stopped.  The runs, their
  results and what happens during the pauses are arbitrary.
\<close>

theorem lane_cycles_bounded:
  assumes "0 < maxCycles"
  shows "\<exists>err n w'. runContinuousLane env pause recorder lane maxCycles 0 w = Some ((err, n), w') \<and> n \<le> maxCycles
    \<and> (err = [] \<longrightarrow> n = maxCycles \<or> ctx_errs (dm_base env) w' \<noteq> [])"
  by (rule lane_loop_returns) (use assms in simp_all)

theorem lane_cycles_bounded_witness:
  "\<exists>n w'. runContinuousLane idle_env (\<lambda>d w. w) None
      \<lparr>la_name = ''merge'', la_idleDelay = 5, la_continuous = True, la_run = (\<lambda>w. ((True, []), w))\<rparr> 2 0 fresh_world
      = Some (([], n), w') \<and> n = 2"
  using lane_cycles_bounded [of 2 idle_env "\<lambda>d w. w" None
      "\<lparr>la_name = ''merge'', la_idleDelay = 5, la_continuous = True, la_run = (\<lambda>w. ((True, []), w))\<rparr>" fresh_world]
  by (auto simp: runContinuousLane.simps Let_def recordContinuousHeartbeat_def)

text \<open>
  C37: while the lease of a lane is held, a cycle of any other worker does none of its work: whatever the
  work is, the answer and the world after the cycle are the same, and the lease stays with its holder.
\<close>

theorem held_lane_does_no_work:
  assumes "n = trim_space (cw_LeaseName task)" "n \<noteq> []" "\<not> is_zero (merge_now (dm_base env))"
    and "holder (mw_db w) n (merge_now (dm_base env)) = Some x"
  shows "runContinuousWorkerTask env task run w = runContinuousWorkerTask env task run' w
    \<and> holder (mw_db (snd (runContinuousWorkerTask env task run w))) n t = holder (mw_db w) n t"
  using held_lane [OF assms, of run run'] holder_leases by blast

theorem held_lane_does_no_work_witness:
  "runContinuousWorkerTask idle_env (idle_task\<lparr>cw_LeaseName := ''run:A-1''\<rparr>) (idle_run True) held_world
     = runContinuousWorkerTask idle_env (idle_task\<lparr>cw_LeaseName := ''run:A-1''\<rparr>)
         (idle_run True\<lparr>ln_steps := [\<lambda>c w. w\<lparr>mw_db := empty_db\<rparr>]\<rparr>) held_world
   \<and> holder (mw_db (snd (runContinuousWorkerTask idle_env (idle_task\<lparr>cw_LeaseName := ''run:A-1''\<rparr>) (idle_run True) held_world)))
       ''run:A-1'' 2000000000 = Some ''ann#1''"
proof -
  have z: "\<not> is_zero 2000000000" by (simp add: is_zero_def)
  have n: "''run:A-1'' = trim_space (cw_LeaseName (idle_task\<lparr>cw_LeaseName := ''run:A-1''\<rparr>))" by simp code_simp
  have h: "holder (mw_db held_world) ''run:A-1'' 2000000000 = Some ''ann#1''" by (simp add: held_world_def ann_db_holder)
  show ?thesis
    using held_lane_does_no_work [OF n, of idle_env held_world "''ann#1''" "idle_run True" _ 2000000000] z h by simp
qed

text \<open>
  C38: a cycle leaves nothing behind, whatever its work does to the store, to the files or to the
  context and however the supervision interleaves: either its work was never started, or afterwards nobody holds the lease
  of the lane, and unless the daemon is being stopped its task is not claimed.
\<close>

theorem lane_leaves_nothing_behind:
  assumes "cw_TaskKey task \<noteq> []" "trim_space (cw_LeaseName task) = n" "n \<noteq> []" "\<not> is_zero (ln_finishedAt run)"
    and "w' = snd (runContinuousWorkerTask env task run w)"
  shows "(\<forall>run'. runContinuousWorkerTask env task run' w = runContinuousWorkerTask env task run w)
    \<or> holder (mw_db w') n t = None \<and> (ctx_errs (dm_base env) w' = [] \<longrightarrow> no_claim (cw_TaskKey task) w')"
  by (rule cycle_leaves_nothing [OF assms])

theorem lane_leaves_nothing_behind_witness:
  "\<exists>w'. w' = snd (runContinuousWorkerTask idle_env idle_task (idle_run True) fresh_world)
     \<and> holder (mw_db w') ''lane:merge'' 2000000003 = None \<and> no_claim ''continuous:merge'' w'"
proof -
  have n: "trim_space (cw_LeaseName idle_task) = ''lane:merge''" by code_simp
  have z: "\<not> is_zero (ln_finishedAt (idle_run True))" by (simp add: idle_run_def is_zero_def)
  have k: "cw_TaskKey idle_task = ''continuous:merge''" by (simp add: idle_task_def)
  have "runContinuousWorkerTask idle_env idle_task (idle_run False) fresh_world \<noteq> runContinuousWorkerTask idle_env idle_task (idle_run True) fresh_world"
    using idle_cycle [of True] idle_cycle [of False] by (metis fst_conv)
  then show ?thesis
    using lane_leaves_nothing_behind [OF _ n _ z refl, of idle_env fresh_world 2000000003] by (auto simp: k)
qed

text \<open>
  C39: a cycle that ran and reports no error has recorded it: the lane's task is completed, and its result says
  completed, without an error, with the work the run reported.
\<close>

theorem lane_success_is_recorded:
  assumes "claim_lane_task env task w = (Inr claimed, w1)" "runContinuousWorkerTask env task run w = ((didWork, []), w')"
  shows "(\<exists>r \<in> set (queue_of w'). tr_task_key r = cw_TaskKey task \<and> tr_status r = ''completed'')
    \<and> (\<exists>r \<in> set (db_results (mw_db w')). wr_task_key r = cw_TaskKey task \<and> wr_status r = ''completed''
          \<and> wr_did_work r = boolInt didWork \<and> wr_reason r = (if didWork then ''work_completed'' else ''idle'') \<and> wr_error r = [])"
  by (rule cycle_success [OF assms])

theorem lane_success_is_recorded_witness:
  "\<exists>w'. runContinuousWorkerTask idle_env idle_task (idle_run True) fresh_world = ((True, []), w')
     \<and> (\<exists>r \<in> set (queue_of w'). tr_task_key r = ''continuous:merge'' \<and> tr_status r = ''completed'')"
proof -
  from idle_cycle [of True] obtain claimed w1 w' where c: "claim_lane_task idle_env idle_task fresh_world = (Inr claimed, w1)"
    "runContinuousWorkerTask idle_env idle_task (idle_run True) fresh_world = ((True, []), w')"
    by (metis prod.collapse)
  from lane_success_is_recorded [OF c] c(2) show ?thesis by (auto simp: idle_task_def)
qed


end
