(* ===== verification/Spec2Isabelle.thy ===== *)
theory Spec2Isabelle
  imports RunClassification MergeGate CodeOwnership AttemptLifecycle TaskQueue HandoffStore AttemptFacts
    Migrations LinearStatus MergeProtocol LaneSafety
begin

text \<open>
  A verification development for Agent Machine, a Go program that takes issues from Linear, lets a
  coding agent work on each in a workspace of its own, hands the result over as a pull request and
  merges what was approved.

  \<^bold>\<open>The program.\<close> A daemon runs lanes beside each other: the scheduler, clean-up, merge, hand-off, review
  and implementation.  They share one SQLite state store (internal/state/store.go): leases, an event
  log, durable worker tasks and the attempts with what became of them.  A lane claims a task of its
  role, works on it and completes it.  Candidate selection and the merge lane ask the reconciler
  (src/reconciler.go) what may be done with an issue; it reads the store, the run artifacts in the
  workspace, lock files and the open pull request.  Run locks (internal/workspace/locks.go) are leases
  with an exported file.  The clean-up deletes workspaces of finished issues.

  \<^bold>\<open>Data, state, errors.\<close> Structs are records with a two-letter prefix for each field, enumerations and
  errors are datatypes, a Go map is an association list or a function, a string a list of 8-bit
  characters.  Times are nanoseconds since year 1 and durations nanoseconds (GoTime), words of 64 bits
  where the code can overflow.  The store is a record of tables, lists of rows in rowid order
  (SqlTable, StoreBase); an operation takes the database to a result and the next database, and one
  that returns an error leaves it as it was, as its transaction does.  A Go error is a value of a sum
  type or the list of messages \<open>errors.Join\<close> collects, \<open>[]\<close> for nil.

  \<^bold>\<open>Theories and their sources.\<close>
  \<^item> Prelude, GoPath, GoUrl, GoTime, Json, JsonParse: what the program uses of the standard library
    (strings, path/filepath, net/url, time, encoding/json), with the lemmas the components share.
  \<^item> Gate, MergeGate, CleanupPolicy, RunClassification, ScopeGuard, ReviewPolicy, CodeOwnership,
    AttemptLifecycle, WorkerPolicy: the policy packages of the same names under internal/ (gate, mergegate,
    cleanup, runclassification, scopeguard, reviewpolicy, codeownership and terminalpr, attemptlifecycle
    and attemptoutcome, workertask).  Domain holds the records of internal/domain.
  \<^item> LeaseStore, EventLog, TaskStore, HandoffStore, AttemptStore, Migrations: the operations of
    internal/state/store.go.  TaskQueue and AttemptFacts hold what they promise together.
  \<^item> LinearStatus: internal/linearstatus.  CodeHost: internal/codehost and the identity of internal/ghapi.
  \<^item> Artifacts, StateProjection: internal/artifacts, internal/evaluation, internal/stateprojection.
  \<^item> Workspace, RunLock: internal/workspace (paths.go, locks.go).
  \<^item> Reconciler, ReconcileScan, CandidateSelection: src/reconciler.go, src/candidate_selection.go and the
    helpers they use from src/feedback.go, src/merge.go and src/status.go.
  \<^item> MergeWorker, MergeProtocol, TaskLane, MergeTasks: src/merge_worker.go and src/merge.go.
  \<^item> Cleanup, CleanupSafety, CleanupTasks: src/cleanup.go and internal/cleanupworker/task.go.
  \<^item> Continuous, LaneSafety: src/continuous.go, the lanes of the daemon, and what they guarantee.

  \<^bold>\<open>Interfaces.\<close> \<open>keyed_table\<close> (SqlTable) is a table with a unique key, interpreted for the tasks, attempts
  and the tables that hang off them; \<open>lease_manager\<close> (LeaseStore) says who holds a name until when;
  \<open>claim_queue\<close> (TaskStore) is a queue that hands a key out once; \<open>task_lane\<close> (TaskLane) is a lane that
  settles the task it claimed, interpreted for the merge and the clean-up lane.

  \<^bold>\<open>What the lemmas show.\<close>
  \<^item> Store: mutual exclusion of leases and recorded take-overs; a task is claimed once, claims run dry, the
    queue refines a status machine and finished tasks stay; events are appended once; intents are decided
    once; the attempt tables stay consistent and what is written is read back; every old schema is
    upgraded to the current one.
  \<^item> Policies: the gates are exact, a success of an attempt is sound, classifications agree with each
    other, the scope guard blocks exactly the changes outside the contract.
  \<^item> Decisions: the reconciler allows a merge exactly when every gate is open and a run only when nothing
    is against it; an unreadable store fails closed; a scan only appends events; selection is the first
    eligible candidate, its retry delay a capped power of two.
  \<^item> Lanes: the calls of the merge lane follow a protocol (a refinement to a step relation over stages),
    a merge happens only when ready, a claimed task is settled unless the context ended; the clean-up
    deletes nothing but the workspaces of finished issues below the safe root.
  \<^item> Daemon: a lane with a bound on its cycles ends; while the lease of a lane is held nobody else does
    its work; a cycle leaves neither lease nor claim behind, whatever its work does; a success is
    recorded; a batch executes its claims or releases all of them.

  \<^bold>\<open>Bounds and fuel.\<close> The JSON parser is bounded by the length of its input, which is enough because every
  call consumes a character (what the printer prints is read back).  The
  doubling of the backoff stops after the number of retries the store recorded, or at the maximum.
  \<open>MkdirAll\<close>, \<open>Clean\<close> and the glob matcher are proved to terminate; the loops over rows, entries and pull
  requests are structural recursions.  The loop of a lane may run forever: it is a partial function, and it
  is proved to return when the number of cycles is bounded.

  \<^bold>\<open>Parameters.\<close> The clock has one value for an operation.  SHA-256, JSON validity, \<open>julianday\<close>, the output
  of git, process liveness, host names, directory listings, unwritable paths, Linear and the code host
  are arguments or fields of an environment.  The outside world is a type variable: every call takes it
  to an answer and the next world, and the error of the context is read off it, so a cancellation or
  timeout can come with any call.  A statement of the store under an ended context fails and changes
  nothing.

  \<^bold>\<open>Not modelled.\<close> HTTP clients, agent processes and shells, configuration parsing, the command line, prompts,
  comments and report texts: pure input and output or third-party decoding.  The attempt itself
  (src/run_one.go, src/runner.go, the review and hand-off workers) is a chain of processes; its decisions
  are modelled where the packages above take them.  Failures of the disk or the SQLite driver, the
  Unicode classes of strings above ASCII, and log lines are left out.  The goroutine that renews
  the lease of a running task is a list of events interleaved with the steps of the work; the goroutines
  of the lanes themselves (\<open>continuousScheduler.run\<close>) are seen through the atomic operations of the
  store, in any order.
\<close>

end
